(* ===== verification/Js_Prelude.thy ===== *)
theory Js_Prelude
  imports Main "HOL-Library.Multiset"
begin

text \<open>
  The JavaScript standard library as the user interface under ui/src uses it: strings, plain
  objects, property access, iteration and exceptions.  A JavaScript string is a \<open>string\<close> whose
  characters are code units below 256; the three strings of the sources with larger code points
  (a dash, a bullet and the status icons) are kept as the byte sequences of their UTF-8 form and no
  operation inspects them.  Case conversion is the ASCII one.  A plain object is an association
  list in enumeration order.  A value of type \<open>jval\<close> is what js-yaml or JSON decoding returns;
  numbers in it are carried by the text JavaScript prints for them, because the modelled code only
  tests them for truth and concatenates them to strings.  An expression that can raise has type
  \<open>js_error + 'a\<close>.
\<close>

named_theorems js_simps \<open>evaluation rules for JavaScript values and strings\<close>

section \<open>Strings\<close>

definition js_ws :: "char \<Rightarrow> bool" where
  "js_ws c \<longleftrightarrow> c \<in> {CHR 0x09, CHR 0x0A, CHR 0x0B, CHR 0x0C, CHR 0x0D, CHR 0x20, CHR 0xA0}"

definition trim_start :: "string \<Rightarrow> string" where
  "trim_start s = dropWhile js_ws s"

definition js_trim :: "string \<Rightarrow> string" where
  "js_trim s = rev (dropWhile js_ws (rev (trim_start s)))"

fun split_on :: "'a \<Rightarrow> 'a list \<Rightarrow> 'a list list" where
  "split_on c [] = [[]]"
| "split_on c (x # xs) =
     (if x = c then [] # split_on c xs
      else (case split_on c xs of [] \<Rightarrow> [[x]] | y # ys \<Rightarrow> (x # y) # ys))"

abbreviation newline :: char where "newline \<equiv> CHR 0x0A"

fun join_with :: "'a list \<Rightarrow> 'a list list \<Rightarrow> 'a list" where
  "join_with sep [] = []"
| "join_with sep [x] = x"
| "join_with sep (x # y # ys) = x @ sep @ join_with sep (y # ys)"

definition starts_with :: "'a list \<Rightarrow> 'a list \<Rightarrow> bool" where
  "starts_with p s \<longleftrightarrow> take (length p) s = p"

definition ends_with :: "'a list \<Rightarrow> 'a list \<Rightarrow> bool" where
  "ends_with p s \<longleftrightarrow> starts_with (rev p) (rev s)"

fun index_of :: "'a list \<Rightarrow> 'a list \<Rightarrow> nat option" where
  "index_of p [] = (if p = [] then Some 0 else None)"
| "index_of p (c # s) =
     (if starts_with p (c # s) then Some 0 else map_option Suc (index_of p s))"

definition js_includes :: "'a list \<Rightarrow> 'a list \<Rightarrow> bool" where
  "js_includes p s \<longleftrightarrow> index_of p s \<noteq> None"

text \<open>\<open>s.indexOf(p) + 1\<close>, which is \<open>0\<close> when \<open>p\<close> does not occur.\<close>

definition index_of_plus1 :: "'a list \<Rightarrow> 'a list \<Rightarrow> nat" where
  "index_of_plus1 p s = (case index_of p s of None \<Rightarrow> 0 | Some i \<Rightarrow> Suc i)"

text \<open>\<open>s.replace(p, r)\<close> with a string pattern replaces the first occurrence.\<close>

definition replace_first :: "'a list \<Rightarrow> 'a list \<Rightarrow> 'a list \<Rightarrow> 'a list" where
  "replace_first p r s =
     (case index_of p s of None \<Rightarrow> s | Some i \<Rightarrow> take i s @ r @ drop (i + length p) s)"

definition lower_char :: "char \<Rightarrow> char" where
  "lower_char c =
     (let n = (of_char c :: nat) in if 65 \<le> n \<and> n \<le> 90 then char_of (n + 32) else c)"

definition upper_char :: "char \<Rightarrow> char" where
  "upper_char c = (let n = (of_char c :: nat) in if 97 \<le> n \<and> n \<le> 122 then char_of (n - 32) else c)"

definition to_lower :: "string \<Rightarrow> string" where "to_lower = map lower_char"
definition to_upper :: "string \<Rightarrow> string" where "to_upper = map upper_char"

fun show_nat :: "nat \<Rightarrow> string" where
  "show_nat n =
     (if n < 10 then [''0123456789'' ! n] else show_nat (n div 10) @ [''0123456789'' ! (n mod 10)])"

declare show_nat.simps [simp del]

definition show_int :: "int \<Rightarrow> string" where
  "show_int k = (if k < 0 then CHR ''-'' # show_nat (nat (- k)) else show_nat (nat k))"

fun read_nat :: "nat \<Rightarrow> string \<Rightarrow> nat option" where
  "read_nat acc [] = Some acc"
| "read_nat acc (c # s) =
     (let d = (of_char c :: nat) in
      if 48 \<le> d \<and> d \<le> 57 then read_nat (10 * acc + (d - 48)) s else None)"

text \<open>
  \<open>Number(s)\<close> on the strings this program writes and reads: white space around an optionally
  signed decimal integer, the empty string giving 0.  Everything else is NaN (\<open>None\<close>); decimals,
  exponents and hexadecimal literals, which no writer here produces, are not interpreted.
\<close>

definition js_Number :: "string \<Rightarrow> int option" where
  "js_Number s =
     (case js_trim s of
        [] \<Rightarrow> Some 0
      | c # r \<Rightarrow>
          if c = CHR ''-'' then (if r = [] then None else map_option (\<lambda>n. - int n) (read_nat 0 r))
          else if c = CHR ''+'' then (if r = [] then None else map_option int (read_nat 0 r))
          else map_option int (read_nat 0 (c # r)))"

section \<open>Lemmas on strings\<close>

lemma starts_with_iff: "starts_with p s \<longleftrightarrow> (\<exists>t. s = p @ t)"
  unfolding starts_with_def by (metis append_eq_conv_conj append_take_drop_id)

lemma starts_with_append [simp]: "starts_with p (p @ t)"
  by (simp add: starts_with_def)

lemma starts_with_Nil [simp]: "starts_with [] s"
  by (simp add: starts_with_def)

lemma ends_with_iff: "ends_with p s \<longleftrightarrow> (\<exists>t. s = t @ p)"
proof -
  have "(\<exists>t. rev s = rev p @ t) \<longleftrightarrow> (\<exists>t. s = t @ p)"
    by (metis rev_append rev_rev_ident)
  then show ?thesis by (simp add: ends_with_def starts_with_iff)
qed

lemma index_of_Some:
  "index_of p s = Some i \<Longrightarrow> take (length p) (drop i s) = p \<and> i + length p \<le> length s"
proof (induction p s arbitrary: i rule: index_of.induct)
  case (1 p)
  then show ?case by (auto split: if_splits)
next
  case (2 p c s)
  show ?case
  proof (cases "starts_with p (c # s)")
    case True
    then obtain t where t: "c # s = p @ t" by (auto simp: starts_with_iff)
    then have "length p \<le> length (c # s)" by (metis le_add1 length_append)
    moreover have "i = 0" using True "2.prems" by simp
    ultimately show ?thesis using t by simp
  next
    case False
    with "2.prems" obtain j where "index_of p s = Some j" "i = Suc j" by auto
    with "2.IH" [OF False] show ?thesis by auto
  qed
qed

lemma index_of_None_iff: "index_of p s = None \<longleftrightarrow> (\<forall>u v. s \<noteq> u @ p @ v)"
proof (induction p s rule: index_of.induct)
  case (1 p)
  then show ?case by auto
next
  case (2 p c s)
  show ?case
  proof (cases "starts_with p (c # s)")
    case True
    then show ?thesis by (auto simp: starts_with_iff intro: exI [of _ "[]"])
  next
    case False
    have "(\<exists>u v. c # s = u @ p @ v) \<longleftrightarrow> (\<exists>u v. s = u @ p @ v)"
    proof
      assume "\<exists>u v. c # s = u @ p @ v"
      then obtain u v where uv: "c # s = u @ p @ v" by blast
      with False obtain u' where "u = c # u'"
        by (cases u) (auto simp: starts_with_iff)
      with uv show "\<exists>u v. s = u @ p @ v" by auto
    next
      assume "\<exists>u v. s = u @ p @ v"
      then show "\<exists>u v. c # s = u @ p @ v" by (metis append_Cons)
    qed
    with False "2.IH" show ?thesis by auto
  qed
qed

lemma index_of_in_middle: "\<exists>i. index_of p (u @ p @ v) = Some i"
  using index_of_None_iff [of p "u @ p @ v"] by auto

lemma js_includes_iff: "js_includes p s \<longleftrightarrow> (\<exists>u v. s = u @ p @ v)"
  by (simp add: js_includes_def index_of_None_iff)

lemma index_of_plus1_pos: "js_includes p s \<Longrightarrow> 1 \<le> index_of_plus1 p s"
  by (auto simp: js_includes_def index_of_plus1_def)

lemma index_of_plus1_text:
  "js_includes p s \<Longrightarrow> take (length p) (drop (index_of_plus1 p s - 1) s) = p"
  by (auto simp: js_includes_def index_of_plus1_def dest: index_of_Some)

lemma index_of_self [simp]: "index_of p (p @ t) = Some 0"
proof (cases "p @ t")
  case Nil
  then show ?thesis by simp
next
  case (Cons a l)
  then have "starts_with p (a # l)" by (metis starts_with_append)
  with Cons show ?thesis by simp
qed

lemma replace_first_prefix [simp]: "replace_first p r (p @ t) = r @ t"
  by (simp add: replace_first_def)

lemma trim_start_decomp: "\<exists>u. s = u @ trim_start s \<and> (\<forall>c \<in> set u. js_ws c)"
  unfolding trim_start_def by (metis set_takeWhileD takeWhile_dropWhile_id)

lemma js_trim_decomp:
  "\<exists>u v. s = u @ js_trim s @ v \<and> (\<forall>c \<in> set u. js_ws c) \<and> (\<forall>c \<in> set v. js_ws c)"
proof -
  let ?t = "trim_start s"
  obtain u where u: "s = u @ ?t" "\<forall>c \<in> set u. js_ws c" using trim_start_decomp by blast
  have "rev ?t = takeWhile js_ws (rev ?t) @ rev (js_trim s)"
    by (simp add: js_trim_def)
  then have "?t = js_trim s @ rev (takeWhile js_ws (rev ?t))"
    by (metis rev_append rev_rev_ident)
  moreover have "\<forall>c \<in> set (rev (takeWhile js_ws (rev ?t))). js_ws c"
    by (metis set_rev set_takeWhileD)
  ultimately show ?thesis using u by (metis append.assoc)
qed

lemma js_trim_subset: "set (js_trim s) \<subseteq> set s"
  using js_trim_decomp [of s] by (metis Un_upper1 Un_upper2 le_supI2 set_append subset_trans)

lemma length_trim_start [simp]: "length (trim_start s) \<le> length s"
  by (simp add: trim_start_def length_dropWhile_le)

lemma js_trim_Nil_iff: "js_trim s = [] \<longleftrightarrow> (\<forall>c \<in> set s. js_ws c)"
proof
  assume "js_trim s = []"
  then show "\<forall>c \<in> set s. js_ws c" using js_trim_decomp [of s] by auto
next
  assume "\<forall>c \<in> set s. js_ws c"
  then have "trim_start s = []" by (simp add: trim_start_def)
  then show "js_trim s = []" by (simp add: js_trim_def)
qed

text \<open>A text whose first and last characters are not white space is its own trim.\<close>

definition trimmed :: "string \<Rightarrow> bool" where
  "trimmed s \<longleftrightarrow> s \<noteq> [] \<and> \<not> js_ws (hd s) \<and> \<not> js_ws (last s)"

lemma trim_start_blank:
  assumes "\<forall>c \<in> set u. js_ws c" and "trimmed s"
  shows "trim_start (u @ s) = s"
proof -
  have "dropWhile js_ws (u @ s) = dropWhile js_ws s" using assms(1) by (simp add: dropWhile_append2)
  also have "\<dots> = s" using assms(2) by (cases s) (auto simp: trimmed_def)
  finally show ?thesis by (simp add: trim_start_def)
qed

lemma js_trim_blank:
  assumes "\<forall>c \<in> set u. js_ws c" and "trimmed s"
  shows "js_trim (u @ s) = s"
proof -
  have "dropWhile js_ws (rev s) = rev s"
    using assms(2) by (cases "rev s") (auto simp: trimmed_def last_rev hd_rev [symmetric])
  then show ?thesis by (simp add: js_trim_def trim_start_blank [OF assms])
qed

lemma js_trim_trimmed [simp]: "trimmed s \<Longrightarrow> js_trim s = s"
  using js_trim_blank [of "[]" s] by simp

lemma trimmed_js_trim: "js_trim s \<noteq> [] \<Longrightarrow> trimmed (js_trim s)"
proof -
  assume ne: "js_trim s \<noteq> []"
  let ?d = "dropWhile js_ws (rev (trim_start s))"
  have dn: "?d \<noteq> []" using ne by (simp add: js_trim_def)
  have "\<not> js_ws (hd ?d)" using dn by (rule hd_dropWhile)
  then have l: "\<not> js_ws (last (js_trim s))" by (simp add: js_trim_def last_rev)
  obtain v where v: "trim_start s = js_trim s @ v"
    by (metis js_trim_def rev_append rev_rev_ident takeWhile_dropWhile_id)
  have "trim_start s \<noteq> []" using v ne by simp
  then have "\<not> js_ws (hd (trim_start s))"
    unfolding trim_start_def by (rule hd_dropWhile)
  then have "\<not> js_ws (hd (js_trim s))" using v ne by simp
  with l ne show ?thesis by (simp add: trimmed_def)
qed

lemma split_on_nonempty [simp]: "split_on c s \<noteq> []"
  by (induction s) (auto split: list.splits)

lemma join_split_on: "join_with [c] (split_on c s) = s"
proof (induction s)
  case (Cons x s)
  obtain y ys where y: "split_on c s = y # ys"
    using split_on_nonempty by (metis list.exhaust)
  show ?case
  proof (cases "x = c")
    case True
    then show ?thesis using Cons y by simp
  next
    case False
    then show ?thesis using Cons y by (cases ys) simp_all
  qed
qed simp

lemma split_on_no_sep: "c \<notin> set s \<Longrightarrow> split_on c s = [s]"
  by (induction s) auto

lemma split_on_append_sep: "c \<notin> set u \<Longrightarrow> split_on c (u @ c # v) = u # split_on c v"
  by (induction u) auto

lemma split_on_join:
  "xs \<noteq> [] \<Longrightarrow> \<forall>x \<in> set xs. c \<notin> set x \<Longrightarrow> split_on c (join_with [c] xs) = xs"
  by (induction "[c]" xs rule: join_with.induct) (auto simp: split_on_no_sep split_on_append_sep)

lemma split_on_elem_no_sep: "x \<in> set (split_on c s) \<Longrightarrow> c \<notin> set x"
proof (induction s arbitrary: x)
  case (Cons a s)
  then show ?case by (auto split: if_splits list.splits)
qed simp

lemma append_sep_inj: "c \<notin> set a \<Longrightarrow> c \<notin> set b \<Longrightarrow> a @ c # u = b @ c # v \<longleftrightarrow> a = b \<and> u = v"
  by (induction a arbitrary: b) (case_tac b; auto)+

lemma show_nat_ne [simp]: "show_nat n \<noteq> []"
  by (subst show_nat.simps) simp

text \<open>A loop over the lines of a text keeps the rest of the lines and the index of the first of them.\<close>

lemma drop_ConsD:
  assumes "drop j doc = l # ls"
  shows "j < length doc" "doc ! j = l" "drop (Suc j) doc = ls"
proof -
  show j: "j < length doc" using assms by (metis drop_all list.distinct(1) not_le_imp_less)
  show "doc ! j = l" "drop (Suc j) doc = ls"
    using assms Cons_nth_drop_Suc [OF j] by auto
qed

section \<open>Decimal numerals are read back\<close>

lemma read_nat_append: "read_nat acc (s @ t) = (case read_nat acc s of None \<Rightarrow> None | Some n \<Rightarrow> read_nat n t)"
  by (induction acc s rule: read_nat.induct) (auto simp: Let_def)

lemma digit_less10: "n < 10 \<Longrightarrow> n \<in> {0, 1, 2, 3, 4, 5, 6, 7, 8, 9 :: nat}"
  unfolding insert_iff empty_iff by presburger

lemma read_nat_digit: "n < 10 \<Longrightarrow> read_nat acc [''0123456789'' ! n] = Some (10 * acc + n)"
  by (drule digit_less10) auto

lemma read_show_nat: "read_nat 0 (show_nat n) = Some n"
proof (induction n rule: show_nat.induct)
  case (1 n)
  show ?case
  proof (cases "n < 10")
    case True
    then show ?thesis by (subst show_nat.simps) (simp add: read_nat_digit del: read_nat.simps)
  next
    case False
    then have "read_nat 0 (show_nat n) = read_nat (n div 10) [''0123456789'' ! (n mod 10)]"
      using 1 by (subst show_nat.simps) (simp add: read_nat_append del: read_nat.simps)
    also have "\<dots> = Some (10 * (n div 10) + n mod 10)" by (rule read_nat_digit) simp
    finally show ?thesis by simp
  qed
qed

lemma show_nat_digits: "c \<in> set (show_nat n) \<Longrightarrow> c \<in> set ''0123456789''"
proof (induction n rule: show_nat.induct)
  case (1 n)
  have d: "\<And>k. k < 10 \<Longrightarrow> ''0123456789'' ! k \<in> set ''0123456789''" by (rule nth_mem) simp
  show ?case
  proof (cases "n < 10")
    case True
    then show ?thesis using 1(2) d [OF True] by (subst (asm) show_nat.simps) simp
  next
    case False
    have "c \<in> set (show_nat (n div 10)) \<or> c = ''0123456789'' ! (n mod 10)"
      using 1(2) False by (subst (asm) show_nat.simps) auto
    then show ?thesis using 1(1) [OF False] d [of "n mod 10"] by auto
  qed
qed

lemma show_nat_trimmed: "trimmed (show_nat n)"
proof -
  have "\<forall>c \<in> set (show_nat n). \<not> js_ws c" using show_nat_digits by (auto simp: js_ws_def)
  then show ?thesis by (simp add: trimmed_def)
qed

lemma js_Number_show_int: "js_Number (show_int k) = Some k"
proof (cases "k < 0")
  case True
  have "trimmed (CHR ''-'' # show_nat (nat (- k)))"
    using show_nat_trimmed [of "nat (- k)"] by (simp add: trimmed_def js_ws_def)
  then show ?thesis using True by (simp add: show_int_def js_Number_def read_show_nat)
next
  case False
  obtain c r where cr: "show_nat (nat k) = c # r" by (meson show_nat_ne neq_Nil_conv)
  then have "c \<in> set ''0123456789''" using show_nat_digits [of c "nat k"] by simp
  then have "c \<noteq> CHR ''-''" "c \<noteq> CHR ''+''" by auto
  moreover have "js_trim (show_nat (nat k)) = show_nat (nat k)" by (simp add: show_nat_trimmed)
  ultimately show ?thesis using False cr read_show_nat [of "nat k"]
    by (simp add: show_int_def js_Number_def del: read_nat.simps)
qed

end
