(* ===== verification/Js_Number.thy ===== *)
theory Js_Number
  imports Complex_Main Js_Prelude "HOL-Library.Code_Target_Nat"
begin

text \<open>
  IEEE double arithmetic as the formatting code uses it.  A finite double is a pair of an integer
  mantissa and a binary exponent; division and addition round the exact result to 53 significant
  bits, ties to even.  Overflow, subnormal results, infinities and NaN do not occur on the values
  the code formats and are outside the model.  \<open>to_fixed\<close> is \<open>Number.prototype.toFixed\<close> below
  \<open>10 ^ 21\<close>: the decimal nearest to the exact value of the double, the larger one on a tie.
\<close>

type_synonym dbl = "int \<times> int"

fun blen :: "nat \<Rightarrow> nat" where
  "blen n = (if n = 0 then 0 else Suc (blen (n div 2)))"

declare blen.simps [simp del]

definition round_half_even :: "nat \<Rightarrow> nat \<Rightarrow> nat" where
  "round_half_even m k =
     (let q = m div 2 ^ k; r = m mod 2 ^ k in
      if 2 * r < 2 ^ k \<or> (2 * r = 2 ^ k \<and> even q) then q else q + 1)"

definition round53 :: "int \<Rightarrow> int \<Rightarrow> dbl" where
  "round53 m e =
     (let k = blen (nat \<bar>m\<bar>) - 53 in (sgn m * int (round_half_even (nat \<bar>m\<bar>) k), e + int k))"

definition dbl_of_int :: "int \<Rightarrow> dbl" where
  "dbl_of_int n = round53 n 0"

definition sticky_quotient :: "nat \<Rightarrow> nat \<Rightarrow> nat \<Rightarrow> nat" where
  "sticky_quotient a b s =
     2 * ((a * 2 ^ s) div b) + (if (a * 2 ^ s) mod b = 0 then 0 else 1)"

definition ddiv :: "dbl \<Rightarrow> dbl \<Rightarrow> dbl" where
  "ddiv x y =
     (case (x, y) of ((m1, e1), (m2, e2)) \<Rightarrow>
        let b = nat \<bar>m2\<bar>; s = 55 + blen b in
        round53 (sgn m1 * sgn m2 * int (sticky_quotient (nat \<bar>m1\<bar>) b s))
          (e1 - e2 - int s - 1))"

definition align :: "dbl \<Rightarrow> int \<Rightarrow> int" where
  "align x e = fst x * 2 ^ nat (snd x - e)"

definition dadd :: "dbl \<Rightarrow> dbl \<Rightarrow> dbl" where
  "dadd x y = (let e = min (snd x) (snd y) in round53 (align x e + align y e) e)"

definition dmul :: "dbl \<Rightarrow> dbl \<Rightarrow> dbl" where
  "dmul x y = round53 (fst x * fst y) (snd x + snd y)"

definition dle :: "dbl \<Rightarrow> dbl \<Rightarrow> bool" where
  "dle x y = (let e = min (snd x) (snd y) in align x e \<le> align y e)"

definition dless :: "dbl \<Rightarrow> dbl \<Rightarrow> bool" where
  "dless x y = (\<not> dle y x)"

text \<open>The integer \<open>n\<close> of \<open>toFixed(f)\<close>: the result is \<open>n / 10 ^ f\<close>.\<close>

definition fixed_digits :: "nat \<Rightarrow> dbl \<Rightarrow> nat" where
  "fixed_digits f x =
     (let m = nat \<bar>fst x\<bar>; e = snd x in
      if 0 \<le> e then m * 2 ^ nat e * 10 ^ f
      else (2 * (m * 10 ^ f) + 2 ^ nat (- e)) div 2 ^ Suc (nat (- e)))"

definition pad_left :: "nat \<Rightarrow> string \<Rightarrow> string" where
  "pad_left w s = replicate (w - length s) CHR ''0'' @ s"

definition show_fixed :: "nat \<Rightarrow> nat \<Rightarrow> string" where
  "show_fixed f n =
     (if f = 0 then show_nat n
      else show_nat (n div 10 ^ f) @ ''.'' @ pad_left f (show_nat (n mod 10 ^ f)))"

definition to_fixed :: "nat \<Rightarrow> dbl \<Rightarrow> string" where
  "to_fixed f x = (if fst x < 0 then ''-'' else []) @ show_fixed f (fixed_digits f x)"

lemma blen_numeral:
  "blen 0 = 0" "blen 1 = 1" "blen (Suc 0) = 1" "blen (numeral Num.One) = 1"
  "blen (numeral (Num.Bit0 n)) = blen (numeral n) + 1"
  "blen (numeral (Num.Bit1 n)) = blen (numeral n) + 1"
proof -
  show "blen 0 = 0" "blen 1 = 1" "blen (Suc 0) = 1" "blen (numeral Num.One) = 1"
    by (simp_all add: blen.simps)
  have "numeral (Num.Bit0 n) div 2 = (numeral n :: nat)" "numeral (Num.Bit1 n) div 2 = (numeral n :: nat)"
    by simp_all
  then show "blen (numeral (Num.Bit0 n)) = blen (numeral n) + 1"
    "blen (numeral (Num.Bit1 n)) = blen (numeral n) + 1"
    by (subst blen.simps, simp)+
qed

lemmas dbl_eval = ddiv_def sticky_quotient_def round53_def round_half_even_def Let_def
lemmas fixed_eval = to_fixed_def fixed_digits_def show_fixed_def pad_left_def Let_def

section \<open>Values and error bounds\<close>

definition dval :: "dbl \<Rightarrow> real" where
  "dval x = of_int (fst x) * 2 powi snd x"

lemma blen_bounds: "0 < n \<Longrightarrow> 2 ^ (blen n - 1) \<le> n \<and> n < 2 ^ blen n \<and> 0 < blen n"
proof (induction n rule: blen.induct)
  case (1 n)
  show ?case
  proof (cases "n div 2 = 0")
    case True
    with "1.prems" have "n = 1" by simp
    then show ?thesis by (simp add: blen.simps)
  next
    case False
    then have IH: "2 ^ (blen (n div 2) - 1) \<le> n div 2" "n div 2 < 2 ^ blen (n div 2)"
        "0 < blen (n div 2)"
      using "1.IH" "1.prems" by auto
    have b: "blen n = Suc (blen (n div 2))" using "1.prems" by (subst blen.simps) simp
    obtain l where l: "blen (n div 2) = Suc l" using IH(3) by (cases "blen (n div 2)") auto
    have "2 ^ (blen n - 1) \<le> n" using IH(1) b l by simp
    moreover have "n < 2 ^ blen n" using IH(2) b by simp
    ultimately show ?thesis using b by simp
  qed
qed

lemma real_div_mod: "real m = real (m div d) * real d + real (m mod d)"
proof -
  have "real m = real (m div d * d + m mod d)" by simp
  then show ?thesis by (simp only: of_nat_add of_nat_mult)
qed

lemma real_mod_less: "0 < d \<Longrightarrow> real (m mod d) < real d"
  by (simp only: of_nat_less_iff) simp

lemma round_half_even_error: "\<bar>real (round_half_even m k) * 2 ^ k - real m\<bar> \<le> 2 ^ k / 2"
proof -
  define q r d where "q = m div 2 ^ k" and "r = m mod 2 ^ k" and "d = (2 ^ k :: nat)"
  have m: "real m = real q * real d + real r" unfolding q_def r_def d_def by (rule real_div_mod)
  have r: "r < d" by (simp add: r_def d_def)
  have dd: "(2::real) ^ k = real d" by (simp add: d_def)
  have rh: "round_half_even m k = (if 2 * r < d \<or> (2 * r = d \<and> even q) then q else q + 1)"
    unfolding round_half_even_def Let_def q_def r_def d_def ..
  show ?thesis
  proof (cases "2 * r < d \<or> (2 * r = d \<and> even q)")
    case True
    then have "2 * real r \<le> real d" by (auto simp flip: of_nat_le_iff [where 'a = real])
    with True show ?thesis unfolding rh m dd by simp
  next
    case False
    then have "d \<le> 2 * r" by auto
    then have "real d \<le> 2 * real r" by linarith
    moreover have "real r < real d" using r by simp
    ultimately show ?thesis unfolding rh m dd using False by (simp add: algebra_simps)
  qed
qed

lemma fixed_digits_error:
  assumes "0 \<le> fst x"
  shows "\<bar>real (fixed_digits f x) - 10 ^ f * dval x\<bar> \<le> 1 / 2"
proof -
  obtain m e where x: "x = (int m, e)" using assms by (metis prod.collapse zero_le_imp_eq_int)
  show ?thesis
  proof (cases "0 \<le> e")
    case True
    then show ?thesis by (simp add: x fixed_digits_def dval_def power_int_def)
  next
    case False
    define j where "j = nat (- e)"
    let ?N = "2 * (m * 10 ^ f) + 2 ^ j" and ?D = "2 ^ Suc j :: nat"
    have fd: "fixed_digits f x = ?N div ?D" using False by (simp add: x fixed_digits_def j_def)
    have dv: "10 ^ f * dval x = real (m * 10 ^ f) / 2 ^ j"
      using False by (simp add: x dval_def power_int_def j_def field_simps)
    define N D where "N = 2 * (m * 10 ^ f) + 2 ^ j" and "D = (2 ^ Suc j :: nat)"
    have ND: "real N = real (N div D) * real D + real (N mod D)" by (rule real_div_mod)
    have lt: "real (N mod D) < real D" by (rule real_mod_less) (simp add: D_def)
    have N: "real N = 2 * real (m * 10 ^ f) + real D / 2" by (simp add: N_def D_def)
    have Dp: "0 < real D" by (simp add: D_def)
    have dv': "10 ^ f * dval x = 2 * real (m * 10 ^ f) / real D" unfolding dv D_def by simp
    have "\<bar>real (N div D) * real D - 2 * real (m * 10 ^ f)\<bar> \<le> real D / 2"
      using ND N lt of_nat_0_le_iff [of "N mod D", where 'a = real] unfolding abs_le_iff by linarith
    moreover have "real (N div D) - 2 * real (m * 10 ^ f) / real D
        = (real (N div D) * real D - 2 * real (m * 10 ^ f)) / real D"
      using Dp by (simp add: diff_divide_distrib)
    ultimately have "\<bar>real (N div D) - 2 * real (m * 10 ^ f) / real D\<bar> \<le> 1 / 2"
      using Dp by (simp add: divide_le_eq)
    then show ?thesis unfolding fd dv' N_def D_def .
  qed
qed

lemma sticky_quotient_error:
  assumes "0 < b"
  shows "\<bar>real (sticky_quotient a b s) - 2 * (real a * 2 ^ s) / real b\<bar> \<le> 1 + 1"
proof -
  define t where "t = a * 2 ^ s"
  have t: "real t = real (t div b) * real b + real (t mod b)" by (rule real_div_mod)
  have lt: "real (t mod b) < real b" using assms by (rule real_mod_less)
  have q: "real t / real b = real (t div b) + real (t mod b) / real b"
    using t assms by (simp add: field_simps)
  define u where "u = real (t mod b) / real b"
  have r: "0 \<le> u" "u < 1" using lt assms by (simp_all add: u_def)
  have "real (sticky_quotient a b s) = 2 * real (t div b) + (if t mod b = 0 then 0 else 1)"
    by (simp add: sticky_quotient_def t_def)
  moreover have "2 * (real a * 2 ^ s) / real b = 2 * real (t div b) + 2 * u"
    using q by (simp add: t_def u_def)
  ultimately show ?thesis using r by (auto simp: abs_le_iff)
qed

text \<open>Relative error of rounding to 53 bits, and of a quotient of two natural numbers.\<close>

lemma round53_error:
  assumes "0 < m" and "53 \<le> blen m"
  shows "\<bar>dval (round53 (int m) e) - real m * 2 powi e\<bar> \<le> real m * 2 powi e / 2 ^ 53"
proof -
  define k where "k = blen m - 53"
  have k: "blen m = 53 + k" using assms(2) by (simp add: k_def)
  have "2 ^ (52 + k) \<le> m" using blen_bounds [OF assms(1)] k by simp
  then have m: "2 ^ 52 * 2 ^ k \<le> real m"
    by (metis (mono_tags, lifting) of_nat_le_iff of_nat_numeral of_nat_power power_add)
  have "\<bar>real (round_half_even m k) * 2 ^ k - real m\<bar> \<le> 2 ^ k / 2" by (rule round_half_even_error)
  also have "\<dots> \<le> real m / 2 ^ 53" using m by simp
  finally have err: "\<bar>real (round_half_even m k) * 2 ^ k - real m\<bar> \<le> real m / 2 ^ 53" .
  have p: "(2::real) powi (e + int k) = 2 powi e * 2 ^ k" by (simp add: power_int_add)
  have "dval (round53 (int m) e) = real (round_half_even m k) * 2 ^ k * 2 powi e"
    using assms(1) by (simp add: dval_def round53_def Let_def k_def [symmetric] p)
  then have "dval (round53 (int m) e) - real m * 2 powi e
      = (real (round_half_even m k) * 2 ^ k - real m) * 2 powi e"
    by (simp add: algebra_simps)
  moreover have "0 < (2::real) powi e" by simp
  ultimately have "\<bar>dval (round53 (int m) e) - real m * 2 powi e\<bar>
      = \<bar>real (round_half_even m k) * 2 ^ k - real m\<bar> * 2 powi e"
    by (simp add: abs_mult)
  also have "\<dots> \<le> real m / 2 ^ 53 * 2 powi e" using err by (intro mult_right_mono) simp_all
  finally show ?thesis by simp
qed

lemma two_step_error:
  fixes x y c :: real
  assumes "\<bar>y - x\<bar> \<le> x / 2 ^ 53" and "\<bar>x - c\<bar> \<le> c / 2 ^ 55" and "0 \<le> c"
  shows "\<bar>y - c\<bar> \<le> c / 2 ^ 52"
proof -
  have "y - x \<le> x / 2 ^ 53" "x - y \<le> x / 2 ^ 53" "x - c \<le> c / 2 ^ 55" "c - x \<le> c / 2 ^ 55"
    using assms(1,2) by linarith+
  then have "y - c \<le> c / 2 ^ 52" "c - y \<le> c / 2 ^ 52" using assms(3) by (simp_all add: field_simps)
  then show ?thesis by linarith
qed

lemma ddiv_nat_error:
  assumes a: "0 < a" and b: "0 < b"
  shows "\<bar>dval (ddiv (int a, 0) (int b, 0)) - real a / real b\<bar> \<le> real a / real b / 2 ^ 52"
proof -
  define s where "s = 55 + blen b"
  define Q where "Q = sticky_quotient a b s"
  define E where "E = - int s - 1"
  have bl: "b < 2 ^ blen b" using blen_bounds [OF b] by simp
  have "2 ^ 55 * b \<le> 2 ^ 55 * 2 ^ blen b" using bl by simp
  also have "\<dots> = 2 ^ s" by (simp add: s_def power_add)
  also have "\<dots> \<le> a * 2 ^ s" using a by simp
  finally have "2 ^ 55 * b div b \<le> a * 2 ^ s div b" by (rule div_le_mono)
  then have "2 ^ 55 \<le> a * 2 ^ s div b" using b by simp
  then have Q56: "2 ^ 56 \<le> Q" by (simp add: Q_def sticky_quotient_def)
  then have Q0: "0 < Q" by (rule less_le_trans [rotated]) simp
  have bQ: "53 \<le> blen Q"
  proof (rule ccontr)
    assume "\<not> 53 \<le> blen Q"
    then have "(2::nat) ^ blen Q \<le> 2 ^ 56" by (intro power_increasing) simp_all
    with Q56 blen_bounds [OF Q0] show False by linarith
  qed
  have dd: "ddiv (int a, 0) (int b, 0) = round53 (int Q) E"
    using a b by (simp add: ddiv_def Let_def Q_def s_def E_def algebra_simps)
  have E: "(2::real) powi E = 1 / (2 * 2 ^ s)"
    by (simp add: E_def power_int_diff power_int_minus field_simps)
  define c where "c = real a / real b"
  have "\<bar>real Q - 2 * (real a * 2 ^ s) / real b\<bar> \<le> 1 + 1"
    unfolding Q_def by (rule sticky_quotient_error [OF b])
  then have QS: "\<bar>real Q - c * (2 * 2 ^ s)\<bar> \<le> 2" by (simp add: c_def algebra_simps)
  define S where "S = 2 * (2::real) ^ s"
  have S0: "0 < S" by (simp add: S_def)
  have "real Q * 2 powi E - c = (real Q - c * S) / S"
    unfolding E S_def [symmetric] using S0 by (simp add: diff_divide_distrib)
  moreover have "\<bar>(real Q - c * S) / S\<bar> \<le> 2 / S"
    using QS S0 unfolding S_def [symmetric] abs_divide by (simp add: divide_right_mono)
  ultimately have "\<bar>real Q * 2 powi E - c\<bar> \<le> 2 / S" by simp
  then have q1: "\<bar>real Q * 2 powi E - c\<bar> \<le> 1 / 2 ^ s" by (simp add: S_def)
  have "1 / 2 ^ blen b \<le> 1 / real b"
    using bl b by (intro divide_left_mono) (simp_all flip: of_nat_power add: less_imp_le)
  also have "\<dots> \<le> c" using a b by (simp add: c_def divide_right_mono)
  finally have "1 / 2 ^ s \<le> c / 2 ^ 55" by (simp add: s_def power_add field_simps)
  with q1 have q2: "\<bar>real Q * 2 powi E - c\<bar> \<le> c / 2 ^ 55" by linarith
  have r: "\<bar>dval (round53 (int Q) E) - real Q * 2 powi E\<bar> \<le> real Q * 2 powi E / 2 ^ 53"
    by (rule round53_error [OF Q0 bQ])
  have c0: "0 \<le> c" by (simp add: c_def)
  have "\<bar>dval (round53 (int Q) E) - c\<bar> \<le> c / 2 ^ 52" using r q2 c0 by (rule two_step_error)
  then show ?thesis by (simp add: dd c_def)
qed

end
