(* ===== verification/Js_Values.thy ===== *)
theory Js_Values
  imports Js_Prelude
begin

text \<open>
  JavaScript values, exceptions, plain objects and keyed accumulation.  The store interface
  \<open>keyed_store\<close> states what the grouping loops of the user interface rely on (a read after a
  write); it is interpreted below on the association lists that model objects and \<open>Map\<close>s.
\<close>

section \<open>Exceptions\<close>

datatype js_error = TypeError | SyntaxError

fun bindE :: "'e + 'a \<Rightarrow> ('a \<Rightarrow> 'e + 'b) \<Rightarrow> 'e + 'b" where
  "bindE (Inl e) f = Inl e"
| "bindE (Inr x) f = f x"

text \<open>A \<open>for\<close> loop that pushes the results of its body and is left by the first exception.\<close>

fun collectE :: "('a \<Rightarrow> 'e + 'b list) \<Rightarrow> 'a list \<Rightarrow> 'e + 'b list" where
  "collectE f [] = Inr []"
| "collectE f (x # xs) = bindE (f x) (\<lambda>ys. bindE (collectE f xs) (\<lambda>zs. Inr (ys @ zs)))"

lemma bindE_Inr_iff [js_simps]:
  "bindE m f = Inr y \<longleftrightarrow> (\<exists>x. m = Inr x \<and> f x = Inr y)"
  by (cases m) auto

lemma bindE_Inl_iff [js_simps]:
  "bindE m f = Inl e \<longleftrightarrow> m = Inl e \<or> (\<exists>x. m = Inr x \<and> f x = Inl e)"
  by (cases m) auto

lemma collectE_pure: "(\<And>x. x \<in> set xs \<Longrightarrow> f x = Inr (g x)) \<Longrightarrow> collectE f xs = Inr (concat (map g xs))"
  by (induction xs) auto

lemma collectE_append:
  "collectE f (xs @ ys) = bindE (collectE f xs) (\<lambda>as. bindE (collectE f ys) (\<lambda>bs. Inr (as @ bs)))"
proof (induction xs)
  case Nil
  then show ?case by (cases "collectE f ys") auto
next
  case (Cons x xs)
  then show ?case
    by (cases "f x"; cases "collectE f xs"; cases "collectE f ys") auto
qed

lemma collectE_map: "collectE f (map g xs) = collectE (f \<circ> g) xs"
  by (induction xs) simp_all

lemma collectE_mem:
  "collectE f xs = Inr ys \<Longrightarrow> y \<in> set ys \<longleftrightarrow> (\<exists>x zs. x \<in> set xs \<and> f x = Inr zs \<and> y \<in> set zs)"
proof (induction xs arbitrary: ys)
  case (Cons a xs)
  then obtain as bs where ab: "f a = Inr as" "collectE f xs = Inr bs" "ys = as @ bs"
    by (auto simp: bindE_Inr_iff)
  show ?case using Cons.IH [OF ab(2)] ab by (auto simp: ab(1))
qed simp

lemma collectE_Inl: "collectE f xs = Inl e \<Longrightarrow> \<exists>x \<in> set xs. f x = Inl e"
  by (induction xs) (auto simp: bindE_Inl_iff)

lemma collectE_Inr_each: "collectE f xs = Inr ys \<Longrightarrow> x \<in> set xs \<Longrightarrow> \<exists>zs. f x = Inr zs"
  by (induction xs arbitrary: ys) (auto simp: bindE_Inr_iff)

section \<open>Values\<close>

datatype jval =
    JUndef
  | JNull
  | JBool bool
  | JNum string
  | JStr string
  | JArr "jval list"
  | JObj "(string \<times> jval) list"

abbreviation JInt :: "int \<Rightarrow> jval" where "JInt k \<equiv> JNum (show_int k)"

fun truthy :: "jval \<Rightarrow> bool" where
  "truthy JUndef = False"
| "truthy JNull = False"
| "truthy (JBool b) = b"
| "truthy (JNum t) = (t \<noteq> ''0'' \<and> t \<noteq> ''NaN'')"
| "truthy (JStr s) = (s \<noteq> [])"
| "truthy (JArr xs) = True"
| "truthy (JObj kvs) = True"

fun nullish :: "jval \<Rightarrow> bool" where
  "nullish JUndef = True"
| "nullish JNull = True"
| "nullish v = False"

text \<open>\<open>typeof v === "object"\<close>\<close>

fun typeof_object :: "jval \<Rightarrow> bool" where
  "typeof_object JNull = True"
| "typeof_object (JArr xs) = True"
| "typeof_object (JObj kvs) = True"
| "typeof_object v = False"

definition js_or :: "jval \<Rightarrow> jval \<Rightarrow> jval" where
  "js_or a b = (if truthy a then a else b)"

text \<open>
  \<open>v.k\<close> for the names the sources read, none of which an array, string, number or the object
  prototype defines except \<open>length\<close>.
\<close>

definition own_prop :: "(string \<times> jval) list \<Rightarrow> string \<Rightarrow> jval" where
  "own_prop kvs k = (case map_of kvs k of None \<Rightarrow> JUndef | Some v \<Rightarrow> v)"

fun get_prop :: "jval \<Rightarrow> string \<Rightarrow> js_error + jval" where
  "get_prop JUndef k = Inl TypeError"
| "get_prop JNull k = Inl TypeError"
| "get_prop (JObj kvs) k = Inr (own_prop kvs k)"
| "get_prop (JArr xs) k = Inr (if k = ''length'' then JInt (int (length xs)) else JUndef)"
| "get_prop (JStr s) k = Inr (if k = ''length'' then JInt (int (length s)) else JUndef)"
| "get_prop v k = Inr JUndef"

text \<open>\<open>v?.k\<close>\<close>

definition opt_prop :: "jval \<Rightarrow> string \<Rightarrow> js_error + jval" where
  "opt_prop v k = (if nullish v then Inr JUndef else get_prop v k)"

text \<open>String conversion in a template literal.\<close>

fun to_str :: "jval \<Rightarrow> string" where
  "to_str JUndef = ''undefined''"
| "to_str JNull = ''null''"
| "to_str (JBool b) = (if b then ''true'' else ''false'')"
| "to_str (JNum t) = t"
| "to_str (JStr s) = s"
| "to_str (JArr xs) = join_with '','' (map (\<lambda>x. if nullish x then [] else to_str x) xs)"
| "to_str (JObj kvs) = ''[object Object]''"

text \<open>\<open>Object.entries(v)\<close> of a value that is not null or undefined, and \<open>Object.keys(v)\<close>.\<close>

fun js_entries :: "jval \<Rightarrow> (string \<times> jval) list" where
  "js_entries (JObj kvs) = kvs"
| "js_entries (JArr xs) = zip (map show_nat [0..<length xs]) xs"
| "js_entries (JStr s) = zip (map show_nat [0..<length s]) (map (\<lambda>c. JStr [c]) s)"
| "js_entries v = []"

definition js_keys :: "jval \<Rightarrow> string list" where
  "js_keys v = map fst (js_entries v)"

text \<open>\<open>for (const x of v)\<close>\<close>

fun js_iter :: "jval \<Rightarrow> js_error + jval list" where
  "js_iter (JArr xs) = Inr xs"
| "js_iter (JStr s) = Inr (map (\<lambda>c. JStr [c]) s)"
| "js_iter v = Inl TypeError"

text \<open>\<open>new Set(keys).has(v)\<close> for a set of strings.\<close>

fun set_has :: "string list \<Rightarrow> jval \<Rightarrow> bool" where
  "set_has ks (JStr s) = (s \<in> set ks)"
| "set_has ks v = False"

text \<open>The \<open>length\<close> of a string or an array; \<open>None\<close> where adding it to a number gives NaN.\<close>

fun len_of :: "jval \<Rightarrow> nat option" where
  "len_of (JStr s) = Some (length s)"
| "len_of (JArr xs) = Some (length xs)"
| "len_of v = None"

lemma own_prop_simps [simp]:
  "own_prop [] k = JUndef"
  "own_prop ((k, v) # kvs) k = v"
  "k \<noteq> k' \<Longrightarrow> own_prop ((k', v) # kvs) k = own_prop kvs k"
  by (simp_all add: own_prop_def)

lemma opt_prop_obj [simp]: "opt_prop (JObj kvs) k = Inr (own_prop kvs k)"
  by (simp add: opt_prop_def)

lemma opt_prop_nullish [simp]: "opt_prop JUndef k = Inr JUndef" "opt_prop JNull k = Inr JUndef"
  by (simp_all add: opt_prop_def)

lemma opt_prop_total: "\<exists>x. opt_prop v k = Inr x"
  by (cases v) (auto simp: opt_prop_def)

lemma truthy_not_nullish: "truthy v \<Longrightarrow> \<not> nullish v"
  by (cases v) auto

section \<open>Plain objects and maps as ordered association lists\<close>

type_synonym 'v obj = "(string \<times> 'v) list"

definition obj_get :: "('k \<times> 'v) list \<Rightarrow> 'k \<Rightarrow> 'v option" where
  "obj_get o1 k = map_of o1 k"

fun obj_set :: "'k \<Rightarrow> 'v \<Rightarrow> ('k \<times> 'v) list \<Rightarrow> ('k \<times> 'v) list" where
  "obj_set k v [] = [(k, v)]"
| "obj_set k v ((k', v') # r) = (if k' = k then (k, v) # r else (k', v') # obj_set k v r)"

definition obj_remove :: "'k \<Rightarrow> ('k \<times> 'v) list \<Rightarrow> ('k \<times> 'v) list" where
  "obj_remove k o1 = filter (\<lambda>kv. fst kv \<noteq> k) o1"

lemma obj_get_set: "obj_get (obj_set k v o1) k' = (if k' = k then Some v else obj_get o1 k')"
  by (induction o1) (auto simp: obj_get_def)

lemma obj_get_remove: "obj_get (obj_remove k o1) k' = (if k' = k then None else obj_get o1 k')"
  by (induction o1) (auto simp: obj_get_def obj_remove_def)

lemma keys_obj_set:
  "map fst (obj_set k v o1) = (if k \<in> set (map fst o1) then map fst o1 else map fst o1 @ [k])"
  by (induction o1) (auto simp del: set_map)

lemma distinct_obj_set: "distinct (map fst o1) \<Longrightarrow> distinct (map fst (obj_set k v o1))"
  by (simp only: keys_obj_set distinct_append split: if_split) auto

text \<open>A read after a write, the interface the accumulating loops need.\<close>

locale keyed_store =
  fixes get :: "'m \<Rightarrow> 'k \<Rightarrow> 'v option"
    and put :: "'k \<Rightarrow> 'v \<Rightarrow> 'm \<Rightarrow> 'm"
    and emp :: "'m"
  assumes get_emp: "get emp k = None"
    and get_put: "get (put k v m) k' = (if k' = k then Some v else get m k')"

text \<open>
  \<open>xs.forEach(x => { if (!m.has(key(x))) m.set(key(x), init(x)); m.set(key(x), upd(x, m.get(key(x)))) })\<close>
\<close>

definition accumulate ::
  "('m \<Rightarrow> 'k \<Rightarrow> 'v option) \<Rightarrow> ('k \<Rightarrow> 'v \<Rightarrow> 'm \<Rightarrow> 'm) \<Rightarrow> ('x \<Rightarrow> 'k) \<Rightarrow> ('x \<Rightarrow> 'v) \<Rightarrow>
   ('x \<Rightarrow> 'v \<Rightarrow> 'v) \<Rightarrow> 'm \<Rightarrow> 'x list \<Rightarrow> 'm" where
  "accumulate get put key init upd =
     foldl (\<lambda>m x. put (key x) (upd x (case get m (key x) of None \<Rightarrow> init x | Some v \<Rightarrow> v)) m)"

lemma accumulate_simps [simp]:
  "accumulate get put key init upd m [] = m"
  "accumulate get put key init upd m (x # xs) =
     accumulate get put key init upd
       (put (key x) (upd x (case get m (key x) of None \<Rightarrow> init x | Some v \<Rightarrow> v)) m) xs"
  by (simp_all add: accumulate_def)

context keyed_store
begin

lemma get_accumulate_from:
  "get (accumulate get put key init upd m xs) k =
     (case filter (\<lambda>x. key x = k) xs of
        [] \<Rightarrow> get m k
      | y # ys \<Rightarrow>
          Some (foldl (\<lambda>v x. upd x v)
            (upd y (case get m k of None \<Rightarrow> init y | Some v \<Rightarrow> v)) ys))"
proof (induction xs arbitrary: m)
  case (Cons x xs)
  show ?case
  proof (cases "key x = k")
    case True
    then show ?thesis by (cases "filter (\<lambda>x. key x = k) xs") (simp_all add: Cons get_put)
  next
    case False
    then show ?thesis by (cases "filter (\<lambda>x. key x = k) xs") (auto simp: Cons get_put)
  qed
qed simp

lemma get_accumulate:
  "get (accumulate get put key init upd emp xs) k =
     (case filter (\<lambda>x. key x = k) xs of
        [] \<Rightarrow> None
      | y # ys \<Rightarrow> Some (foldl (\<lambda>v x. upd x v) (init y) (y # ys)))"
  by (simp add: get_accumulate_from get_emp split: list.splits)

end

interpretation assoc: keyed_store obj_get obj_set "[]"
  by unfold_locales (simp_all add: obj_get_set, simp add: obj_get_def)

section \<open>Grouping\<close>

definition group_into :: "('x \<Rightarrow> 'k) \<Rightarrow> 'x list \<Rightarrow> ('k \<times> 'x list) list" where
  "group_into key xs = accumulate obj_get obj_set key (\<lambda>_. []) (\<lambda>x b. b @ [x]) [] xs"

lemma foldl_snoc: "foldl (\<lambda>v x. v @ [x]) a xs = a @ xs"
  by (induction xs arbitrary: a) auto

lemma group_into_get:
  "obj_get (group_into key xs) k =
     (if k \<in> key ` set xs then Some (filter (\<lambda>x. key x = k) xs) else None)"
proof (cases "filter (\<lambda>x. key x = k) xs")
  case Nil
  then have "k \<notin> key ` set xs" by (auto simp: filter_empty_conv)
  with Nil show ?thesis by (simp add: group_into_def assoc.get_accumulate)
next
  case (Cons y ys)
  then have "y \<in> set (filter (\<lambda>x. key x = k) xs)" by simp
  then have "k \<in> key ` set xs" by auto
  with Cons show ?thesis
    by (simp add: group_into_def assoc.get_accumulate foldl_snoc del: filter.simps)
qed

lemma distinct_accumulate:
  "distinct (map fst m) \<Longrightarrow> distinct (map fst (accumulate obj_get obj_set key init upd m xs))"
  by (induction xs arbitrary: m) (auto simp: distinct_obj_set)

lemma distinct_group_into: "distinct (map fst (group_into key xs))"
  by (simp add: group_into_def distinct_accumulate)

lemma keys_accumulate:
  "set (map fst (accumulate obj_get obj_set key init upd m xs)) = set (map fst m) \<union> key ` set xs"
  by (induction xs arbitrary: m) (auto simp: keys_obj_set simp del: set_map)

lemma keys_group_into: "set (map fst (group_into key xs)) = key ` set xs"
  using keys_accumulate [of key "\<lambda>_. []" "\<lambda>x b. b @ [x]" "[]" xs] by (simp add: group_into_def)

lemma group_into_mem:
  "(k, g) \<in> set (group_into key xs) \<longleftrightarrow> k \<in> key ` set xs \<and> g = filter (\<lambda>x. key x = k) xs"
proof -
  have "(k, g) \<in> set (group_into key xs) \<longleftrightarrow> obj_get (group_into key xs) k = Some g"
    unfolding obj_get_def using map_of_eq_Some_iff [OF distinct_group_into] by fastforce
  then show ?thesis by (auto simp: group_into_get)
qed

end
