(* ===== verification/Formatting.thy ===== *)
theory Formatting
  imports Js_Number Js_Values
begin

text \<open>
  The formatting helpers: ui/src/utils/index.ts, the formatters of ui/src/utils/yaml-parser.ts,
  \<open>relativeTime\<close> of pages/GitSources.tsx, \<open>formatNumber\<close> of agent-details/AgentMetrics.tsx, the
  time ranges of types/timeRange.ts and the id shortening of shared/TruncatedId.tsx.  Counts are
  integers; rates and throughputs are doubles.  A time is the result of \<open>getTime()\<close>, \<open>None\<close> for
  the NaN of an unparsable date.  Millisecond differences are taken below \<open>2 ^ 50\<close>, where
  dividing by 1000 and flooring is exact.
\<close>

type_synonym js_time = "int option"

section \<open>Counts, throughputs and rates\<close>

definition strip_zero_decimal :: "string \<Rightarrow> string" where
  "strip_zero_decimal s = (if ends_with ''.0'' s then take (length s - 2) s else s)"

definition formatCount :: "int \<Rightarrow> string" where
  "formatCount cnt =
     (if cnt < 1000 then show_int cnt
      else if cnt < 1000000 then
        strip_zero_decimal (to_fixed 1 (ddiv (dbl_of_int cnt) (1000, 0))) @ ''K''
      else if cnt < 1000000000 then
        strip_zero_decimal (to_fixed 1 (ddiv (dbl_of_int cnt) (1000000, 0))) @ ''M''
      else strip_zero_decimal (to_fixed 1 (ddiv (dbl_of_int cnt) (1000000000, 0))) @ ''B'')"

definition formatNumber :: "dbl \<Rightarrow> string" where
  "formatNumber num =
     (if dle (1000000, 0) num then to_fixed 1 (ddiv num (1000000, 0)) @ ''M''
      else if dle (1000, 0) num then to_fixed 1 (ddiv num (1000, 0)) @ ''K''
      else to_fixed 0 num)"

definition formatThroughput :: "dbl \<Rightarrow> string" where
  "formatThroughput throughput =
     (if dle (1000000, 0) throughput then to_fixed 1 (ddiv throughput (1000000, 0)) @ ''M/s''
      else if dle (1000, 0) throughput then to_fixed 1 (ddiv throughput (1000, 0)) @ ''K/s''
      else if dle (1, 0) throughput then to_fixed 0 throughput @ ''/s''
      else to_fixed 2 throughput @ ''/s'')"

text \<open>The double nearest to \<open>0.1\<close>.\<close>

definition dbl_tenth :: dbl where
  "dbl_tenth = (3602879701896397, - 55)"

definition formatErrorRate :: "dbl \<Rightarrow> string" where
  "formatErrorRate errorRate =
     (if dle (10, 0) errorRate then to_fixed 1 errorRate @ ''%''
      else if dle dbl_tenth errorRate then to_fixed 2 errorRate @ ''%''
      else if dless (0, 0) errorRate then to_fixed 3 errorRate @ ''%''
      else ''0%'')"

text \<open>The icons are kept as names: a check mark, a warning sign and a cross.\<close>

datatype status_emoji = CheckMark | WarningSign | CrossMark

definition getStatusIcon :: "dbl \<Rightarrow> status_emoji" where
  "getStatusIcon errorRate =
     (if fst errorRate = 0 then CheckMark
      else if dless errorRate (1, 0) then WarningSign
      else if dless errorRate (5, 0) then WarningSign
      else CrossMark)"

definition getStatusColor :: "dbl \<Rightarrow> string" where
  "getStatusColor errorRate =
     (if fst errorRate = 0 then ''#22c55e''
      else if dless errorRate (1, 0) then ''#eab308''
      else if dless errorRate (5, 0) then ''#f97316''
      else ''#ef4444'')"

section \<open>Times\<close>

definition formatRelativeTime :: "int \<Rightarrow> js_time \<Rightarrow> string" where
  "formatRelativeTime now target =
     (case target of
        None \<Rightarrow> ''NaNd ago''
      | Some t \<Rightarrow>
          let diffInSeconds = (now - t) div 1000 in
          if diffInSeconds < 60 then ''Just now''
          else if diffInSeconds < 3600 then show_int (diffInSeconds div 60) @ ''m ago''
          else if diffInSeconds < 86400 then show_int (diffInSeconds div 3600) @ ''h ago''
          else show_int (diffInSeconds div 86400) @ ''d ago'')"

text \<open>
  \<open>relativeTime(ts)\<close>: \<open>ts\<close> is absent, null or empty, or a text whose time \<open>getTime\<close> gives.
\<close>

definition dash :: string where
  "dash = [CHR 0xE2, CHR 0x80, CHR 0x94]"

definition relativeTime :: "(string \<Rightarrow> js_time) \<Rightarrow> int \<Rightarrow> string option \<Rightarrow> string" where
  "relativeTime getTime now ts =
     (case ts of
        None \<Rightarrow> dash
      | Some [] \<Rightarrow> dash
      | Some (c # cs) \<Rightarrow>
          (case getTime (c # cs) of
             None \<Rightarrow> ''NaNd ago''
           | Some t \<Rightarrow>
               let diff = (now - t) div 1000 in
               if diff < 60 then show_int diff @ ''s ago''
               else if diff < 3600 then show_int (diff div 60) @ ''m ago''
               else if diff < 86400 then show_int (diff div 3600) @ ''h ago''
               else show_int (diff div 86400) @ ''d ago''))"

datatype TimeRange = R1m | R5m | R15m | R1h | R6h | R24h

definition DEFAULT_TIME_RANGE :: TimeRange where
  "DEFAULT_TIME_RANGE = R5m"

record time_range_option =
  tr_value :: TimeRange
  tr_label :: string
  tr_shortLabel :: string

definition TIME_RANGE_OPTIONS :: "time_range_option list" where
  "TIME_RANGE_OPTIONS =
     [\<lparr>tr_value = R1m, tr_label = ''1 minute'', tr_shortLabel = ''Last 1m''\<rparr>,
      \<lparr>tr_value = R5m, tr_label = ''5 minutes'', tr_shortLabel = ''Last 5m''\<rparr>,
      \<lparr>tr_value = R15m, tr_label = ''15 minutes'', tr_shortLabel = ''Last 15m''\<rparr>,
      \<lparr>tr_value = R1h, tr_label = ''1 hour'', tr_shortLabel = ''Last 1h''\<rparr>,
      \<lparr>tr_value = R6h, tr_label = ''6 hours'', tr_shortLabel = ''Last 6h''\<rparr>,
      \<lparr>tr_value = R24h, tr_label = ''24 hours'', tr_shortLabel = ''Last 24h''\<rparr>]"

fun timeRangeToMinutes :: "TimeRange \<Rightarrow> int" where
  "timeRangeToMinutes R1m = 1"
| "timeRangeToMinutes R5m = 5"
| "timeRangeToMinutes R15m = 15"
| "timeRangeToMinutes R1h = 60"
| "timeRangeToMinutes R6h = 360"
| "timeRangeToMinutes R24h = 1440"

fun find_index :: "('a \<Rightarrow> bool) \<Rightarrow> 'a list \<Rightarrow> int" where
  "find_index p [] = - 1"
| "find_index p (x # xs) = (if p x then 0 else let i = find_index p xs in if i < 0 then - 1 else i + 1)"

definition time_range_options :: "TimeRange option \<Rightarrow> time_range_option list" where
  "time_range_options maxRange =
     (case maxRange of
        None \<Rightarrow> TIME_RANGE_OPTIONS
      | Some mr \<Rightarrow>
          filter (\<lambda>opt. find_index (\<lambda>o1. tr_value o1 = tr_value opt) TIME_RANGE_OPTIONS
                        \<le> find_index (\<lambda>o1. tr_value o1 = mr) TIME_RANGE_OPTIONS)
            TIME_RANGE_OPTIONS)"

section \<open>Shortening\<close>

definition truncateText :: "string \<Rightarrow> nat \<Rightarrow> string" where
  "truncateText text maxLength =
     (if length text \<le> maxLength then text else take maxLength text @ ''...'')"

record truncated_id =
  ti_truncated :: string
  ti_shouldTruncate :: bool

definition truncated_id_of :: "string \<Rightarrow> nat \<Rightarrow> truncated_id" where
  "truncated_id_of ident maxLength =
     \<lparr>ti_truncated = (if maxLength < length ident then take maxLength ident @ ''...'' else ident),
      ti_shouldTruncate = (maxLength < length ident)\<rparr>"

section \<open>Accuracy of the rendered counts\<close>

lemma dbl_of_int_small: "0 < n \<Longrightarrow> n < 2 ^ 53 \<Longrightarrow> dbl_of_int n = (n, 0)"
proof -
  assume n: "0 < n" "n < 2 ^ 53"
  have "blen (nat n) \<le> 53"
  proof (rule ccontr)
    assume "\<not> blen (nat n) \<le> 53"
    then have "(2::nat) ^ 53 \<le> 2 ^ (blen (nat n) - 1)" by (intro power_increasing) simp_all
    also have "\<dots> \<le> nat n" using blen_bounds [of "nat n"] n by simp
    finally show False using n by simp
  qed
  then have k: "blen (nat \<bar>n\<bar>) - 53 = 0" using n by simp
  have "round_half_even (nat \<bar>n\<bar>) 0 = nat n" using n by (simp add: round_half_even_def)
  then show ?thesis using n by (simp only: dbl_of_int_def round53_def k Let_def) simp
qed

lemma ddiv_nonneg: "0 \<le> fst x \<Longrightarrow> 0 \<le> fst y \<Longrightarrow> 0 \<le> fst (ddiv x y)"
proof -
  assume "0 \<le> fst x" "0 \<le> fst y"
  then have "0 \<le> sgn (fst x) * sgn (fst y)" by (simp add: sgn_if)
  then have m: "0 \<le> sgn (fst x) * sgn (fst y) * int k" for k by simp
  have "0 \<le> m \<Longrightarrow> 0 \<le> fst (round53 m e)" for m e
    unfolding round53_def Let_def fst_conv by (intro mult_nonneg_nonneg) (simp_all add: sgn_if)
  with m show ?thesis by (simp only: ddiv_def Let_def case_prod_beta fst_conv snd_conv)
qed

text \<open>
  \<open>toFixed(1)\<close> of a quotient by a power of ten is off by at most half a tenth of the unit; the
  binary rounding error is too small to move an integer bound.
\<close>

lemma scaled_tenths:
  assumes c: "0 < c" "c \<le> 10 ^ 15" and u: "0 < u" "10 dvd u"
  defines "n \<equiv> fixed_digits 1 (ddiv (int c, 0) (int u, 0))"
  shows "2 * \<bar>int n * int (u div 10) - int c\<bar> \<le> int (u div 10)"
proof -
  obtain w where w: "u = 10 * w" using u(2) by (auto elim: dvdE)
  have w0: "0 < w" using u(1) w by simp
  define x where "x = dval (ddiv (int c, 0) (int u, 0))"
  have x: "\<bar>x - real c / real u\<bar> \<le> real c / real u / 2 ^ 52"
    unfolding x_def using c(1) u(1) by (rule ddiv_nat_error)
  have "0 \<le> fst (ddiv (int c, 0) (int u, 0))" by (rule ddiv_nonneg) simp_all
  then have n: "\<bar>real n - 10 * x\<bar> \<le> 1 / 2"
    unfolding n_def x_def using fixed_digits_error [of _ 1] by simp
  define y where "y = real c / real u"
  define q where "q = real c / real w"
  have q10: "q = 10 * y" using w0 by (simp add: q_def y_def w)
  have x': "\<bar>x - y\<bar> \<le> y / 2 ^ 52" using x by (simp add: y_def)
  have "10 * x - q = 10 * (x - y)" by (simp add: q10)
  then have "\<bar>10 * x - q\<bar> = 10 * \<bar>x - y\<bar>" by (simp only: abs_mult abs_numeral)
  also have "\<dots> \<le> q / 2 ^ 52" using x' by (simp add: q10)
  finally have "\<bar>real n - q\<bar> \<le> 1 / 2 + q / 2 ^ 52" using n by linarith
  then have le: "\<bar>real n - q\<bar> * real w \<le> (1 / 2 + q / 2 ^ 52) * real w" by (rule mult_right_mono) simp
  have l: "\<bar>real n - q\<bar> * real w = \<bar>real n * real w - real c\<bar>"
  proof -
    have "\<bar>real n - q\<bar> * real w = \<bar>(real n - q) * real w\<bar>" by (simp only: abs_mult abs_of_nat)
    then show ?thesis using w0 by (simp add: q_def left_diff_distrib)
  qed
  have r: "(1 / 2 + q / 2 ^ 52) * real w = real w / 2 + real c / 2 ^ 52"
    using w0 by (simp add: q_def distrib_right)
  have lin: "a \<le> v / 2 + d \<Longrightarrow> d < 1 / 2 \<Longrightarrow> 2 * a < v + 1" for a v d :: real by linarith
  have "real c / 2 ^ 52 < 1 / 2"
  proof -
    have "real c \<le> real (10 ^ 15)" using c(2) by (simp only: of_nat_le_iff)
    then show ?thesis by simp
  qed
  then have "2 * \<bar>real n * real w - real c\<bar> < real w + 1" using le unfolding l r by (rule lin [rotated])
  then have "real_of_int (2 * \<bar>int n * int w - int c\<bar>) < real_of_int (int w + 1)" by simp
  then have "2 * \<bar>int n * int w - int c\<bar> < int w + 1" by (simp only: of_int_less_iff)
  then show ?thesis by (simp add: w)
qed

lemma to_fixed_quotient:
  assumes "0 < c" "c < 2 ^ 53" "0 < u"
  shows "to_fixed 1 (ddiv (dbl_of_int c) (u, 0))
    = show_fixed 1 (fixed_digits 1 (ddiv (int (nat c), 0) (int (nat u), 0)))"
proof -
  have "\<not> fst (ddiv (c, 0) (u, 0)) < 0" using ddiv_nonneg [of "(c, 0)" "(u, 0)"] assms by simp
  then show ?thesis using assms by (simp add: to_fixed_def dbl_of_int_small)
qed

lemma scaled_count:
  assumes "0 < c" "c \<le> 10 ^ 15" "0 < u" "10 dvd u"
  shows "\<exists>n. to_fixed 1 (ddiv (dbl_of_int c) (u, 0)) = show_fixed 1 n
    \<and> 2 * \<bar>int n * (u div 10) - c\<bar> \<le> u div 10"
proof -
  have c: "c < 2 ^ 53" using assms(2) by (rule le_less_trans) simp
  obtain w where w: "u = 10 * w" using assms(4) by (auto elim: dvdE)
  then have "nat u = 10 * nat w" by (simp add: nat_mult_distrib)
  then have "10 dvd nat u" by simp
  moreover have "0 < nat c" "nat c \<le> 10 ^ 15" "0 < nat u" using assms by (simp_all add: nat_le_iff)
  ultimately have "2 * \<bar>int (fixed_digits 1 (ddiv (int (nat c), 0) (int (nat u), 0))) * int (nat u div 10)
      - int (nat c)\<bar> \<le> int (nat u div 10)"
    by (intro scaled_tenths)
  moreover have "int (nat u div 10) = u div 10" "int (nat c) = c" using assms by (simp_all add: zdiv_int)
  ultimately show ?thesis using to_fixed_quotient [OF assms(1) c assms(3)] by (metis)
qed

text \<open>a count is rendered within half a tenth of the unit that its suffix names.\<close>

theorem formatCount_accuracy:
  assumes "1000 \<le> c" and "c \<le> 10 ^ 15"
  shows "\<exists>n. let (u, suffix) = (if c < 1000000 then (1000, ''K'')
                              else if c < 1000000000 then (1000000, ''M'')
                              else (1000000000, ''B'')) in
    formatCount c = strip_zero_decimal (show_fixed 1 n) @ suffix
    \<and> 2 * \<bar>int n * (u div 10) - c\<bar> \<le> u div 10"
proof -
  define u :: int where "u = (if c < 1000000 then 1000 else if c < 1000000000 then 1000000 else 1000000000)"
  have "0 < u" "10 dvd u" "0 < c" using assms by (simp_all add: u_def)
  then obtain n where n: "to_fixed 1 (ddiv (dbl_of_int c) (u, 0)) = show_fixed 1 n"
      "2 * \<bar>int n * (u div 10) - c\<bar> \<le> u div 10"
    using scaled_count assms(2) by blast
  show ?thesis
    by (rule exI [of _ n]) (use n assms(1) in \<open>simp add: formatCount_def u_def split: if_splits\<close>)
qed

lemma formatCount_accuracy_witness:
  "\<exists>n. formatCount 69335 = strip_zero_decimal (show_fixed 1 n) @ ''K'' \<and> 2 * \<bar>int n * 100 - 69335\<bar> \<le> 100"
  using formatCount_accuracy [of 69335] by simp

text \<open>The relative time of a parsable date names the largest unit that fits and the number of whole
  units that have passed.
\<close>

theorem formatRelativeTime_unit:
  assumes "60 \<le> (now - t) div 1000"
  shows "\<exists>k u suffix. (u, suffix) \<in> {(60, ''m ago''), (3600, ''h ago''), (86400, ''d ago'')}
    \<and> formatRelativeTime now (Some t) = show_int k @ suffix
    \<and> 1 \<le> k \<and> k * u * 1000 \<le> now - t \<and> now - t < (k + 1) * u * 1000
    \<and> (u = 60 \<longrightarrow> k < 60) \<and> (u = 3600 \<longrightarrow> k < 24)"
proof -
  let ?d = "(now - t) div 1000"
  define u :: int where "u = (if ?d < 3600 then 60 else if ?d < 86400 then 3600 else 86400)"
  define suffix where "suffix = (if ?d < 3600 then ''m ago'' else if ?d < 86400 then ''h ago'' else ''d ago'')"
  have "(u, suffix) \<in> {(60, ''m ago''), (3600, ''h ago''), (86400, ''d ago'')}"
    by (simp add: u_def suffix_def)
  moreover have "formatRelativeTime now (Some t) = show_int (?d div u) @ suffix"
    using assms by (simp add: formatRelativeTime_def u_def suffix_def Let_def)
  moreover have "1 \<le> ?d div u" "(u = 60 \<longrightarrow> ?d div u < 60) \<and> (u = 3600 \<longrightarrow> ?d div u < 24)"
    using assms by (auto simp: u_def)
  moreover have "?d div u * u * 1000 \<le> now - t \<and> now - t < (?d div u + 1) * u * 1000"
    unfolding u_def by (auto simp: algebra_simps)
  ultimately show ?thesis by blast
qed

lemma formatRelativeTime_unit_witness:
  "\<exists>k u suffix. (u, suffix) \<in> {(60, ''m ago''), (3600, ''h ago''), (86400, ''d ago'')}
    \<and> formatRelativeTime 7500000 (Some 0) = show_int k @ suffix
    \<and> 1 \<le> k \<and> k * u * 1000 \<le> 7500000 - 0 \<and> 7500000 - 0 < (k + 1) * u * 1000
    \<and> (u = 60 \<longrightarrow> k < 60) \<and> (u = 3600 \<longrightarrow> k < 24)"
  by (rule formatRelativeTime_unit) simp

text \<open>The choices offered below a maximal range are the ranges of at most as many minutes.\<close>

lemma time_range_options_minutes:
  "time_range_options (Some mr)
     = filter (\<lambda>opt. timeRangeToMinutes (tr_value opt) \<le> timeRangeToMinutes mr) TIME_RANGE_OPTIONS"
  by (cases mr) (simp_all add: time_range_options_def TIME_RANGE_OPTIONS_def)

lemma truncateText_length: "length (truncateText s n) \<le> n + 3"
  by (simp add: truncateText_def)

lemma truncated_id_prefix:
  "ti_shouldTruncate (truncated_id_of s n) \<Longrightarrow>
     ti_truncated (truncated_id_of s n) = take n s @ ''...'' \<and> n < length s"
  by (simp add: truncated_id_of_def)

end
