(* ===== verification/Yaml_Text.thy ===== *)
theory Yaml_Text
  imports Js_Values
begin

text \<open>
  The two line scanners over YAML text: \<open>parseYamlComponents\<close> (ui/src/utils/yaml-parser.ts) and
  \<open>findYamlPosition\<close> with \<open>createValidationError\<close> (ui/src/lib/validation/yaml-position.ts, types.ts).
  The component name of \<open>findYamlPosition\<close> is any value the YAML decoder can put in a list.  The
  pattern built from it is interpreted here when it has no regular expression operator other than
  the dot; for the other patterns the engine \<open>rx\<close> is an argument.
\<close>

section \<open>Components of a configuration text\<close>

datatype component_type = Receiver | Processor | Exporter

record YamlComponent =
  yc_name :: string
  yc_type :: component_type
  yc_lineNumber :: nat

text \<open>\<open>line.search(/\S/)\<close>\<close>

definition search_nonspace :: "string \<Rightarrow> int" where
  "search_nonspace line =
     (if trim_start line = [] then - 1 else int (length line) - int (length (trim_start line)))"

definition section_header :: "string \<Rightarrow> component_type option" where
  "section_header trimmedLine =
     (if trimmedLine = ''receivers:'' then Some Receiver
      else if trimmedLine = ''processors:'' then Some Processor
      else if trimmedLine = ''exporters:'' then Some Exporter
      else None)"

record parse_state =
  ps_section :: "component_type option"
  ps_indent :: int
  ps_components :: "YamlComponent list"

definition parse_line :: "nat \<Rightarrow> string \<Rightarrow> parse_state \<Rightarrow> parse_state" where
  "parse_line index line st =
     (let trimmedLine = js_trim line; indent = search_nonspace line in
      case section_header trimmedLine of
        Some sec \<Rightarrow> st\<lparr>ps_section := Some sec, ps_indent := indent\<rparr>
      | None \<Rightarrow>
          if trimmedLine = ''service:'' \<or> trimmedLine = ''extensions:'' \<or> trimmedLine = ''connectors:''
          then st\<lparr>ps_section := None\<rparr>
          else (case ps_section st of
                  None \<Rightarrow> st
                | Some sec \<Rightarrow>
                    if ps_indent st < indent \<and> indent \<noteq> - 1
                       \<and> ends_with '':'' trimmedLine \<and> \<not> starts_with ''-'' trimmedLine
                    then (let componentName = js_trim (butlast trimmedLine);
                              expectedIndent = ps_indent st + 2 in
                          if \<bar>indent - expectedIndent\<bar> \<le> 2 \<and> componentName \<noteq> []
                             \<and> \<not> js_includes '' '' componentName
                          then st\<lparr>ps_components := ps_components st
                                 @ [\<lparr>yc_name = componentName, yc_type = sec, yc_lineNumber = index + 1\<rparr>]\<rparr>
                          else st)
                    else st))"

fun parse_lines :: "nat \<Rightarrow> string list \<Rightarrow> parse_state \<Rightarrow> parse_state" where
  "parse_lines index [] st = st"
| "parse_lines index (line # ls) st = parse_lines (index + 1) ls (parse_line index line st)"

definition parseYamlComponents :: "string \<Rightarrow> YamlComponent list" where
  "parseYamlComponents yamlContent =
     ps_components (parse_lines 0 (split_on newline yamlContent)
       \<lparr>ps_section = None, ps_indent = - 1, ps_components = []\<rparr>)"

section \<open>The pattern built from a component name\<close>

definition word_char :: "char \<Rightarrow> bool" where
  "word_char c =
     (let n = (of_char c :: nat) in
      (48 \<le> n \<and> n \<le> 57) \<or> (65 \<le> n \<and> n \<le> 90) \<or> n = 95 \<or> (97 \<le> n \<and> n \<le> 122))"

definition regex_meta :: "char \<Rightarrow> bool" where
  "regex_meta c = (c \<in> set (CHR 0x5C # ''^$*+?()[]{}|''))"

text \<open>The assertion \<open>\b\<close> between the text before, given by its last character, and the text after.\<close>

definition at_boundary :: "char option \<Rightarrow> string \<Rightarrow> bool" where
  "at_boundary prev s =
     ((case prev of None \<Rightarrow> False | Some c \<Rightarrow> word_char c)
        \<noteq> (case s of [] \<Rightarrow> False | c # _ \<Rightarrow> word_char c))"

fun match_chars :: "char option \<Rightarrow> string \<Rightarrow> string \<Rightarrow> bool" where
  "match_chars prev [] s = at_boundary prev s"
| "match_chars prev (p # ps) [] = False"
| "match_chars prev (p # ps) (c # cs) =
     ((if p = CHR ''.'' then c \<noteq> newline \<and> c \<noteq> CHR 0x0D else p = c) \<and> match_chars (Some c) ps cs)"

fun match_from :: "char option \<Rightarrow> string \<Rightarrow> string \<Rightarrow> bool" where
  "match_from prev p [] = (at_boundary prev [] \<and> match_chars prev p [])"
| "match_from prev p (c # cs) =
     ((at_boundary prev (c # cs) \<and> match_chars prev p (c # cs)) \<or> match_from (Some c) p cs)"

text \<open>\<open>new RegExp(`\b${name}\b`).test(s)\<close>\<close>

definition component_regex_test ::
  "(string \<Rightarrow> string \<Rightarrow> js_error + bool) \<Rightarrow> string \<Rightarrow> string \<Rightarrow> js_error + bool" where
  "component_regex_test rx name s =
     (if list_ex regex_meta name then rx name s else Inr (match_from None name s))"

section \<open>Positions\<close>

datatype js_num = Num nat | NotANumber

record yaml_pos =
  yp_line :: nat
  yp_column :: nat
  yp_endLine :: nat
  yp_endColumn :: js_num

definition indent_of :: "string \<Rightarrow> nat" where
  "indent_of line = length line - length (trim_start line)"

text \<open>\<open>trimmedLine.match(/^([^:#[\]]+):/)\<close>, the group.\<close>

definition key_char :: "char \<Rightarrow> bool" where
  "key_char c = (c \<notin> set '':#[]'')"

definition key_match :: "string \<Rightarrow> string option" where
  "key_match t =
     (let k = takeWhile key_char t in
      if k \<noteq> [] \<and> starts_with '':'' (dropWhile key_char t) then Some k else None)"

text \<open>\<open>line.match(/:\s*\[([^\]]+)\]/)\<close>, the group of the leftmost match.\<close>

definition bracket_match :: "string \<Rightarrow> string option" where
  "bracket_match s =
     (case trim_start s of
        [] \<Rightarrow> None
      | c # r \<Rightarrow>
          let body = takeWhile (\<lambda>x. x \<noteq> CHR '']'') r in
          if c = CHR ''['' \<and> body \<noteq> [] \<and> body \<noteq> r then Some body else None)"

fun inline_match :: "string \<Rightarrow> string option" where
  "inline_match [] = None"
| "inline_match (c # s) =
     (if c = CHR '':'' then (case bracket_match s of Some b \<Rightarrow> Some b | None \<Rightarrow> inline_match s)
      else inline_match s)"

definition skipped :: "string \<Rightarrow> bool" where
  "skipped line = (js_trim line = [] \<or> starts_with ''#'' (js_trim line))"

text \<open>The position of the text \<open>name\<close> in line \<open>i\<close> (from 0); \<open>len\<close> is its \<open>length\<close> property.\<close>

definition text_pos :: "nat \<Rightarrow> string \<Rightarrow> string \<Rightarrow> nat option \<Rightarrow> yaml_pos" where
  "text_pos i line name len =
     (let column = index_of_plus1 name line in
      \<lparr>yp_line = i + 1, yp_column = column, yp_endLine = i + 1,
       yp_endColumn = (case len of None \<Rightarrow> NotANumber | Some l \<Rightarrow> Num (column + l))\<rparr>)"

text \<open>The loop over \<open>j\<close>: a list item below the key.\<close>

fun find_item ::
  "(string \<Rightarrow> string \<Rightarrow> js_error + bool) \<Rightarrow> jval \<Rightarrow> nat \<Rightarrow> nat \<Rightarrow> string list \<Rightarrow>
   js_error + yaml_pos option" where
  "find_item rx componentName currentIndent j [] = Inr None"
| "find_item rx componentName currentIndent j (nextLine # ls) =
     (if skipped nextLine then find_item rx componentName currentIndent (j + 1) ls
      else if indent_of nextLine \<le> currentIndent then Inr None
      else if starts_with ''-'' (js_trim nextLine) then
        bindE (component_regex_test rx (to_str componentName) (js_trim nextLine)) (\<lambda>found.
          if found then Inr (Some (text_pos j nextLine (to_str componentName) (len_of componentName)))
          else find_item rx componentName currentIndent (j + 1) ls)
      else find_item rx componentName currentIndent (j + 1) ls)"

text \<open>The component in the inline array of the key's line.\<close>

definition find_inline ::
  "(string \<Rightarrow> string \<Rightarrow> js_error + bool) \<Rightarrow> jval \<Rightarrow> nat \<Rightarrow> string \<Rightarrow> js_error + yaml_pos option" where
  "find_inline rx componentName i line =
     (case inline_match line of
        None \<Rightarrow> Inr None
      | Some arrayContent \<Rightarrow>
          bindE (component_regex_test rx (to_str componentName) arrayContent) (\<lambda>found.
            Inr (if found
                 then Some (text_pos i line (to_str componentName) (len_of componentName)) else None)))"

text \<open>What is returned at the last key of the path.\<close>

definition at_target ::
  "(string \<Rightarrow> string \<Rightarrow> js_error + bool) \<Rightarrow> jval \<Rightarrow> string \<Rightarrow> nat \<Rightarrow> string \<Rightarrow> string list \<Rightarrow>
   js_error + yaml_pos option" where
  "at_target rx componentName searchKey i line rest =
     (let keyPos = Some (text_pos i line searchKey (Some (length searchKey))) in
      if truthy componentName then
        bindE (find_inline rx componentName i line) (\<lambda>inl.
          case inl of
            Some p \<Rightarrow> Inr (Some p)
          | None \<Rightarrow>
              bindE (find_item rx componentName (indent_of line) (i + 1) rest) (\<lambda>item.
                Inr (case item of Some p \<Rightarrow> Some p | None \<Rightarrow> keyPos)))
      else Inr keyPos)"

fun find_lines ::
  "(string \<Rightarrow> string \<Rightarrow> js_error + bool) \<Rightarrow> string list \<Rightarrow> jval \<Rightarrow> nat \<Rightarrow> nat \<Rightarrow> nat \<Rightarrow> string list \<Rightarrow>
   js_error + yaml_pos option" where
  "find_lines rx path componentName currentIndent pathIndex i [] = Inr None"
| "find_lines rx path componentName currentIndent pathIndex i (line # ls) =
     (if skipped line then find_lines rx path componentName currentIndent pathIndex (i + 1) ls
      else if pathIndex < length path
              \<and> map_option js_trim (key_match (js_trim line)) = Some (path ! pathIndex) then
        (if pathIndex + 1 = length path
         then at_target rx componentName (path ! pathIndex) i line ls
         else find_lines rx path componentName (indent_of line) (pathIndex + 1) (i + 1) ls)
      else if indent_of line < currentIndent
      then find_lines rx path componentName 0 0 (i + 1) ls
      else find_lines rx path componentName currentIndent pathIndex (i + 1) ls)"

definition findYamlPosition ::
  "(string \<Rightarrow> string \<Rightarrow> js_error + bool) \<Rightarrow> string \<Rightarrow> string list \<Rightarrow> jval \<Rightarrow>
   js_error + yaml_pos option" where
  "findYamlPosition rx yamlContent path componentName =
     find_lines rx path componentName 0 0 0 (split_on newline yamlContent)"

section \<open>Validation errors\<close>

datatype severity = SevError | SevWarning

record ValidationError =
  ve_message :: string
  ve_severity :: severity
  ve_line :: nat
  ve_column :: nat
  ve_endLine :: "nat option"
  ve_endColumn :: "js_num option"
  ve_path :: "string list option"

definition createValidationError ::
  "(string \<Rightarrow> string \<Rightarrow> js_error + bool) \<Rightarrow> string \<Rightarrow> string \<Rightarrow> string list \<Rightarrow> jval \<Rightarrow> severity \<Rightarrow>
   js_error + ValidationError" where
  "createValidationError rx message yamlContent path componentName sev =
     bindE (findYamlPosition rx yamlContent path componentName) (\<lambda>position.
       Inr (case position of
              Some p \<Rightarrow>
                \<lparr>ve_message = message, ve_severity = sev, ve_line = yp_line p, ve_column = yp_column p,
                 ve_endLine = Some (yp_endLine p), ve_endColumn = Some (yp_endColumn p),
                 ve_path = Some path\<rparr>
            | None \<Rightarrow>
                \<lparr>ve_message = message, ve_severity = sev, ve_line = 1, ve_column = 1,
                 ve_endLine = None, ve_endColumn = None, ve_path = Some path\<rparr>))"

section \<open>Soundness of positions\<close>

lemma js_includes_trans: "js_includes a b \<Longrightarrow> js_includes b c \<Longrightarrow> js_includes a c"
  unfolding js_includes_iff by (metis append.assoc)

lemma js_includes_trim: "js_includes (js_trim s) s"
  using js_trim_decomp [of s] by (auto simp: js_includes_iff)

lemma js_includes_take_while: "js_includes (takeWhile P s) s"
  unfolding js_includes_iff by (metis append_Nil takeWhile_dropWhile_id)

lemma js_includes_refl [simp]: "js_includes s s"
  unfolding js_includes_iff by (metis append_Nil append_Nil2)

lemma js_includes_Cons: "js_includes a s \<Longrightarrow> js_includes a (c # s)"
  unfolding js_includes_iff by (metis append_Cons)

definition plain_name :: "string \<Rightarrow> bool" where
  "plain_name n = (n \<noteq> [] \<and> \<not> list_ex regex_meta n \<and> CHR ''.'' \<notin> set n)"

lemma match_chars_literal: "CHR ''.'' \<notin> set p \<Longrightarrow> match_chars prev p s \<Longrightarrow> starts_with p s"
proof (induction prev p s rule: match_chars.induct)
  case (3 prev p ps c cs)
  then have "p = c" "starts_with ps cs" by auto
  then show ?case by (auto simp: starts_with_iff)
qed auto

lemma match_from_literal: "CHR ''.'' \<notin> set p \<Longrightarrow> match_from prev p s \<Longrightarrow> js_includes p s"
proof (induction prev p s rule: match_from.induct)
  case (1 prev p)
  then have "starts_with p []" by (auto dest: match_chars_literal)
  then show ?case by (auto simp: starts_with_iff)
next
  case (2 prev p c cs)
  then show ?case
    by (auto simp: starts_with_iff js_includes_Cons dest!: match_chars_literal)
       (metis append_Nil js_includes_iff)
qed

lemma regex_test_plain:
  "plain_name n \<Longrightarrow> component_regex_test rx n s = Inr b \<Longrightarrow> b \<Longrightarrow> js_includes n s"
  by (auto simp: component_regex_test_def plain_name_def match_from_literal)

lemma bracket_match_includes: "bracket_match s = Some b \<Longrightarrow> js_includes b s"
proof -
  assume b: "bracket_match s = Some b"
  then obtain c r where r: "trim_start s = c # r" "b = takeWhile (\<lambda>x. x \<noteq> CHR '']'') r"
    by (auto simp: bracket_match_def Let_def split: list.splits if_splits)
  obtain u where "s = u @ c # r" using trim_start_decomp [of s] r(1) by auto
  then have "js_includes (c # r) s" by (auto simp: js_includes_iff intro: exI [of _ "[]"])
  then show ?thesis using r(2) js_includes_take_while js_includes_Cons js_includes_trans by metis
qed

lemma inline_match_includes: "inline_match s = Some b \<Longrightarrow> js_includes b s"
  by (induction s) (auto split: if_splits option.splits dest: bracket_match_includes intro: js_includes_Cons)

lemma key_match_includes: "key_match t = Some k \<Longrightarrow> js_includes k t"
  by (auto simp: key_match_def Let_def js_includes_take_while split: if_splits)

text \<open>The position \<open>p\<close> frames an occurrence of \<open>s\<close> in the text.\<close>

definition frames :: "string list \<Rightarrow> yaml_pos \<Rightarrow> string \<Rightarrow> bool" where
  "frames ls p s =
     (1 \<le> yp_line p \<and> yp_line p \<le> length ls \<and> yp_endLine p = yp_line p \<and> 1 \<le> yp_column p
      \<and> take (length s) (drop (yp_column p - 1) (ls ! (yp_line p - 1))) = s
      \<and> yp_endColumn p = Num (yp_column p + length s))"

lemma frames_text_pos:
  "i < length ls \<Longrightarrow> js_includes s (ls ! i) \<Longrightarrow> frames ls (text_pos i (ls ! i) s (Some (length s))) s"
  using index_of_plus1_pos [of s "ls ! i"] index_of_plus1_text [of s "ls ! i"]
  by (simp add: frames_def text_pos_def Let_def)

lemma find_item_frames:
  assumes "plain_name n"
  shows "find_item rx (JStr n) ind j ls = Inr (Some p) \<Longrightarrow> drop j doc = ls \<Longrightarrow> frames doc p n"
proof (induction ls arbitrary: j)
  case (Cons l ls)
  note j = drop_ConsD [OF Cons.prems(2)]
  have hit: "frames doc (text_pos j l n (Some (length n))) n"
    if "component_regex_test rx n (js_trim l) = Inr True"
    using frames_text_pos [OF j(1), of n] regex_test_plain [OF assms that] js_includes_trim j(2)
      js_includes_trans by metis
  show ?case using Cons.prems(1) hit Cons.IH [OF _ j(3)]
    by (auto simp: bindE_Inr_iff split: if_splits)
qed simp

lemma find_inline_frames:
  assumes "plain_name n" "find_inline rx (JStr n) i (doc ! i) = Inr (Some p)" "i < length doc"
  shows "frames doc p n"
proof -
  obtain b where b: "inline_match (doc ! i) = Some b" "component_regex_test rx n b = Inr True"
      "p = text_pos i (doc ! i) n (Some (length n))"
    using assms(2) by (auto simp: find_inline_def bindE_Inr_iff split: option.splits if_splits)
  then have "js_includes n (doc ! i)"
    using regex_test_plain [OF assms(1) b(2)] inline_match_includes js_includes_trans by blast
  then show ?thesis using frames_text_pos assms(3) b(3) by simp
qed

lemma at_target_cases:
  assumes "at_target rx cn key i l rest = Inr (Some p)"
  obtains "p = text_pos i l key (Some (length key))"
  | "truthy cn" "find_inline rx cn i l = Inr (Some p)"
  | "truthy cn" "find_item rx cn (indent_of l) (i + 1) rest = Inr (Some p)"
proof (cases "truthy cn")
  case False
  then show ?thesis using assms that(1) by (simp add: at_target_def)
next
  case True
  obtain inl where inl: "find_inline rx cn i l = Inr inl"
    using assms True by (auto simp: at_target_def bindE_Inr_iff)
  show ?thesis
  proof (cases inl)
    case (Some q)
    then have "q = p" using assms True inl by (simp add: at_target_def)
    then show ?thesis using that(2) True inl Some by simp
  next
    case None
    obtain item where item: "find_item rx cn (indent_of l) (i + 1) rest = Inr item"
      using assms True inl None by (auto simp: at_target_def bindE_Inr_iff)
    then show ?thesis using that(1,3) assms True inl None
      by (cases item) (simp_all add: at_target_def)
  qed
qed

lemma at_target_frames:
  assumes names: "cn = JUndef \<or> (\<exists>n. cn = JStr n \<and> plain_name n)"
    and t: "at_target rx cn key i (doc ! i) (drop (i + 1) doc) = Inr (Some p)"
    and i: "i < length doc" and key: "js_includes key (doc ! i)"
  shows "\<exists>s. (s = key \<or> cn = JStr s) \<and> frames doc p s"
  using t
proof (cases rule: at_target_cases)
  case 1
  then show ?thesis using frames_text_pos [OF i key] by auto
next
  case 2
  then obtain n where n: "cn = JStr n" "plain_name n" using names by auto
  then show ?thesis using find_inline_frames [OF n(2) _ i] 2 by blast
next
  case 3
  then obtain n where n: "cn = JStr n" "plain_name n" using names by auto
  have "frames doc p n"
    using find_item_frames [OF n(2), of rx "indent_of (doc ! i)" "i + 1" "drop (i + 1) doc" p doc] 3 n
    by simp
  then show ?thesis using n(1) by blast
qed

lemma find_lines_frames:
  assumes comp: "cn = JUndef \<or> (\<exists>n. cn = JStr n \<and> plain_name n)"
  shows "find_lines rx path cn ind k i ls = Inr (Some p) \<Longrightarrow> drop i doc = ls \<Longrightarrow>
    path \<noteq> [] \<and> (\<exists>s. (s = last path \<or> cn = JStr s) \<and> frames doc p s)"
proof (induction ls arbitrary: ind k i)
  case (Cons l ls)
  note j = drop_ConsD [OF Cons.prems(2)]
  have IH: "find_lines rx path cn ind' k' (Suc i) ls = Inr (Some p) \<Longrightarrow> ?case" for ind' k'
    using Cons.IH j(3) by blast
  show ?case
  proof (cases "\<not> skipped l \<and> map_option js_trim (key_match (js_trim l)) = Some (path ! k)
      \<and> k + 1 = length path")
    case False
    then show ?thesis using IH Cons.prems(1) by (auto split: if_splits)
  next
    case True
    then have "path \<noteq> []" "k = length path - 1" by auto
    then have last: "path ! k = last path" "path \<noteq> []" by (simp_all add: last_conv_nth)
    obtain km where km: "key_match (js_trim l) = Some km" "path ! k = js_trim km" using True by auto
    then have "js_includes (path ! k) (doc ! i)" unfolding j(2) km(2)
      by (metis key_match_includes js_includes_trim js_includes_trans)
    moreover have "at_target rx cn (path ! k) i (doc ! i) (drop (i + 1) doc) = Inr (Some p)"
      using True Cons.prems(1) j by simp
    ultimately show ?thesis using at_target_frames [OF comp _ j(1)] last by auto
  qed
qed simp


text \<open>
  Round trip: the text of a path of nested keys over a list of items, one per line, is searched
  for one of its items.
\<close>

definition key_line :: "nat \<Rightarrow> string \<Rightarrow> string" where
  "key_line d k = replicate (2 * d) CHR '' '' @ k @ '':''"

definition item_line :: "nat \<Rightarrow> string \<Rightarrow> string" where
  "item_line d c = replicate (2 * d) CHR '' '' @ ''- '' @ c"

definition render_lines :: "string list \<Rightarrow> string list \<Rightarrow> string list" where
  "render_lines path cs =
     map (\<lambda>i. key_line i (path ! i)) [0..<length path] @ map (item_line (length path)) cs"

definition plain_key :: "string \<Rightarrow> bool" where
  "plain_key k = (trimmed k \<and> (\<forall>c \<in> set k. key_char c \<and> c \<noteq> newline))"

definition plain_item :: "string \<Rightarrow> bool" where
  "plain_item c = (trimmed c \<and> newline \<notin> set c)"

lemma js_trim_key_line [simp]: "plain_key k \<Longrightarrow> js_trim (key_line d k) = k @ '':''"
  unfolding key_line_def
  by (rule js_trim_blank) (auto simp: js_ws_def plain_key_def trimmed_def hd_append)

lemma trim_start_key_line: "plain_key k \<Longrightarrow> trim_start (key_line d k) = k @ '':''"
  unfolding key_line_def
  by (rule trim_start_blank) (auto simp: js_ws_def plain_key_def trimmed_def hd_append)

lemma indent_key_line [simp]: "plain_key k \<Longrightarrow> indent_of (key_line d k) = 2 * d"
  by (simp add: indent_of_def trim_start_key_line) (simp add: key_line_def)

lemma key_match_plain [simp]: "plain_key k \<Longrightarrow> key_match (k @ '':'') = Some k"
proof -
  assume k: "plain_key k"
  then have "takeWhile key_char (k @ '':'') = k" "dropWhile key_char (k @ '':'') = '':''"
    by (auto simp: plain_key_def takeWhile_append2 dropWhile_append2 key_char_def)
  then show ?thesis using k by (simp add: key_match_def plain_key_def trimmed_def starts_with_def)
qed

lemma not_skipped_key_line [simp]: "plain_key k \<Longrightarrow> \<not> skipped (key_line d k)"
  by (cases k) (auto simp: skipped_def starts_with_def plain_key_def trimmed_def key_char_def)

lemma trimmed_item: "plain_item c \<Longrightarrow> trimmed (''- '' @ c)"
  by (simp add: plain_item_def trimmed_def js_ws_def)

lemma item_line_trims:
  assumes "plain_item c"
  shows "js_trim (item_line d c) = ''- '' @ c" "trim_start (item_line d c) = ''- '' @ c"
    "indent_of (item_line d c) = 2 * d" "\<not> skipped (item_line d c)"
proof -
  have b: "\<forall>x \<in> set (replicate (2 * d) CHR '' ''). js_ws x" by (simp add: js_ws_def)
  show 1: "js_trim (item_line d c) = ''- '' @ c"
    unfolding item_line_def by (rule js_trim_blank [OF b trimmed_item [OF assms]])
  show 2: "trim_start (item_line d c) = ''- '' @ c"
    unfolding item_line_def by (rule trim_start_blank [OF b trimmed_item [OF assms]])
  show "indent_of (item_line d c) = 2 * d" unfolding indent_of_def 2 by (simp add: item_line_def)
  show "\<not> skipped (item_line d c)" unfolding skipped_def 1 by (simp add: starts_with_def)
qed

lemma inline_match_no_bracket: "CHR ''['' \<notin> set s \<Longrightarrow> inline_match s = None"
proof (induction s)
  case (Cons c s)
  have "CHR ''['' \<notin> set (trim_start s)"
    using Cons.prems trim_start_decomp [of s] by (metis UnI2 list.set_intros(2) set_append)
  then have "bracket_match s = None" by (auto simp: bracket_match_def split: list.splits)
  with Cons show ?case by simp
qed simp

lemma index_of_fresh: "n \<noteq> [] \<Longrightarrow> hd n \<notin> set u \<Longrightarrow> index_of n (u @ n @ v) = Some (length u)"
proof (induction u)
  case (Cons a u)
  then have "\<not> starts_with n (a # u @ n @ v)" by (cases n) (auto simp: starts_with_iff)
  then show ?case using Cons by simp
qed simp

lemma match_chars_self:
  "CHR ''.'' \<notin> set n \<Longrightarrow> n \<noteq> [] \<Longrightarrow> match_chars prev n n \<longleftrightarrow> word_char (last n)"
proof (induction n arbitrary: prev)
  case (Cons a n)
  then show ?case by (cases n) (auto simp: at_boundary_def)
qed simp

definition word_name :: "string \<Rightarrow> bool" where
  "word_name n = (plain_name n \<and> plain_item n \<and> word_char (hd n) \<and> word_char (last n))"

lemma match_item_self: "word_name n \<Longrightarrow> match_from None n (''- '' @ n)"
proof -
  assume n: "word_name n"
  then obtain a m where a: "n = a # m" by (cases n) (auto simp: word_name_def plain_name_def)
  have "at_boundary (Some CHR '' '') n" using n a by (simp add: word_name_def at_boundary_def word_char_def Let_def)
  moreover have "match_chars (Some CHR '' '') n n"
    using n by (simp add: match_chars_self word_name_def plain_name_def)
  ultimately show ?thesis by (simp add: a)
qed

lemma find_item_render:
  assumes n: "word_name n"
  shows "j < length cs \<Longrightarrow> cs ! j = n \<Longrightarrow> \<forall>c \<in> set cs. plain_item c \<Longrightarrow>
    \<forall>i < j. \<not> match_from None n (''- '' @ cs ! i) \<Longrightarrow> ind < 2 * d \<Longrightarrow>
    find_item rx (JStr n) ind b (map (item_line d) cs)
      = Inr (Some (text_pos (b + j) (item_line d n) n (Some (length n))))"
proof (induction cs arbitrary: j b)
  case (Cons c cs)
  have t: "component_regex_test rx n s = Inr (match_from None n s)" for s
    using n by (simp add: word_name_def plain_name_def component_regex_test_def)
  have c: "plain_item c" using Cons.prems(3) by simp
  note it = item_line_trims [OF c, of d]
  have dash: "starts_with ''-'' (''- '' @ c)" by (simp add: starts_with_def)
  show ?case
  proof (cases j)
    case 0
    then show ?thesis
      using Cons.prems it dash match_item_self [OF n] t by (simp del: match_from.simps)
  next
    case (Suc i)
    have "\<forall>l < i. \<not> match_from None n (''- '' @ cs ! l)"
      using Cons.prems(4) Suc by (metis Suc_less_eq nth_Cons_Suc)
    then have "find_item rx (JStr n) ind (b + 1) (map (item_line d) cs)
        = Inr (Some (text_pos (b + j) (item_line d n) n (Some (length n))))"
      using Cons.IH [of i "b + 1"] Cons.prems Suc by simp
    moreover have "\<not> match_from None n (''- '' @ c)" using Cons.prems(4) Suc by fastforce
    ultimately show ?thesis using Cons.prems(5) it dash t by (simp del: match_from.simps)
  qed
qed simp

lemma find_lines_render:
  assumes path: "\<forall>k \<in> set path. plain_key k"
    and cs: "j < length cs" "\<forall>c \<in> set cs. plain_item c" "word_name (cs ! j)"
      "\<forall>i < j. \<not> match_from None (cs ! j) (''- '' @ cs ! i)"
  shows "k < length path \<Longrightarrow>
    find_lines rx path (JStr (cs ! j)) ind k k (drop k (render_lines path cs))
      = Inr (Some (text_pos (length path + j) (item_line (length path) (cs ! j)) (cs ! j)
          (Some (length (cs ! j)))))"
proof (induction "length path - k" arbitrary: k ind)
  case (Suc m)
  let ?l = "key_line k (path ! k)"
  have pk: "plain_key (path ! k)" using path Suc.prems by simp
  have d: "drop k (render_lines path cs) = ?l # drop (Suc k) (render_lines path cs)"
    using Suc.prems Cons_nth_drop_Suc [of k "render_lines path cs"]
    by (simp add: render_lines_def nth_append)
  have kt: "js_trim (path ! k) = path ! k" using pk by (simp add: plain_key_def)
  show ?case
  proof (cases "k + 1 = length path")
    case False
    then have "Suc k < length path" "m = length path - Suc k" using Suc by auto
    then show ?thesis using Suc.hyps(1) [of "Suc k" "2 * k"] d pk kt False Suc.prems by simp
  next
    case True
    then have r: "drop (Suc k) (render_lines path cs) = map (item_line (length path)) cs"
      by (simp add: render_lines_def)
    have nb: "inline_match ?l = None"
      using pk by (intro inline_match_no_bracket) (auto simp: key_line_def plain_key_def key_char_def)
    have tr: "truthy (JStr (cs ! j))" using cs(3) by (simp add: word_name_def plain_name_def)
    have "find_item rx (JStr (cs ! j)) (2 * k) (length path) (map (item_line (length path)) cs)
        = Inr (Some (text_pos (length path + j) (item_line (length path) (cs ! j)) (cs ! j)
            (Some (length (cs ! j)))))"
      using True by (intro find_item_render [OF cs(3) cs(1) _ cs(2,4)]) auto
    then show ?thesis
      using d pk kt True Suc.prems r nb tr by (simp add: at_target_def find_inline_def)
  qed
qed simp

lemma render_split:
  assumes "path \<noteq> []" "\<forall>k \<in> set path. plain_key k" "\<forall>c \<in> set cs. plain_item c"
  shows "split_on newline (join_with [newline] (render_lines path cs)) = render_lines path cs"
proof (rule split_on_join)
  show "render_lines path cs \<noteq> []" using assms(1) by (simp add: render_lines_def)
  show "\<forall>x \<in> set (render_lines path cs). newline \<notin> set x"
    using assms(2,3)
    by (fastforce simp: render_lines_def key_line_def item_line_def plain_key_def plain_item_def)
qed

text \<open>C18: in a text of nested keys over a list of items, \<open>findYamlPosition\<close> finds the line and the
  column of the first item that contains the component's name as a word.\<close>

theorem findYamlPosition_render:
  assumes "path \<noteq> []" and "\<forall>k \<in> set path. plain_key k" and "\<forall>c \<in> set cs. plain_item c"
    and "j < length cs" and "word_name (cs ! j)"
    and "\<forall>i < j. \<not> match_from None (cs ! j) (''- '' @ cs ! i)"
  shows "findYamlPosition rx (join_with [newline] (render_lines path cs)) path (JStr (cs ! j))
    = Inr (Some \<lparr>yp_line = length path + j + 1, yp_column = 2 * length path + 3,
                 yp_endLine = length path + j + 1,
                 yp_endColumn = Num (2 * length path + 3 + length (cs ! j))\<rparr>)"
proof -
  let ?n = "cs ! j" and ?d = "2 * length path"
  have n: "?n \<noteq> []" "hd ?n \<notin> {CHR '' '', CHR ''-''}"
    using assms(5) by (auto simp: word_name_def plain_name_def word_char_def)
  then have "index_of ?n ((replicate ?d CHR '' '' @ ''- '') @ ?n @ []) = Some (length (replicate ?d CHR '' '' @ ''- ''))"
    by (intro index_of_fresh) auto
  then have "index_of_plus1 ?n (item_line (length path) ?n) = ?d + 3"
    by (simp add: index_of_plus1_def item_line_def)
  then show ?thesis
    using find_lines_render [OF assms(2,4,3,5,6), of 0 rx 0] assms(1)
    by (simp add: findYamlPosition_def render_split [OF assms(1-3)] text_pos_def Let_def)
qed

section \<open>Soundness and completeness of the component scanner\<close>

text \<open>A component that was found on line \<open>yc_lineNumber\<close> of the text.\<close>

definition component_on_line :: "string list \<Rightarrow> YamlComponent \<Rightarrow> bool" where
  "component_on_line ls c =
     (1 \<le> yc_lineNumber c \<and> yc_lineNumber c \<le> length ls \<and> yc_name c \<noteq> []
      \<and> CHR '' '' \<notin> set (yc_name c)
      \<and> (\<exists>u. js_trim (ls ! (yc_lineNumber c - 1)) = u @ '':'' \<and> yc_name c = js_trim u))"

lemma js_includes_single: "js_includes [x] s \<longleftrightarrow> x \<in> set s"
  unfolding js_includes_iff using in_set_conv_decomp [of x s] by simp

lemma parse_line_components:
  "\<exists>new. ps_components (parse_line i l st) = ps_components st @ new
    \<and> (new = [] \<or> (\<exists>c. new = [c] \<and> yc_lineNumber c = i + 1 \<and> yc_name c \<noteq> []
        \<and> CHR '' '' \<notin> set (yc_name c) \<and> (\<exists>u. js_trim l = u @ '':'' \<and> yc_name c = js_trim u)))"
proof -
  have b: "ends_with '':'' t \<Longrightarrow> t = butlast t @ '':''" for t by (auto simp: ends_with_iff)
  show ?thesis
    by (auto simp: parse_line_def Let_def js_includes_single split: option.splits dest: b)
qed

lemma parse_lines_components:
  "drop i ls = rest \<Longrightarrow> \<exists>new. ps_components (parse_lines i rest st) = ps_components st @ new
    \<and> (\<forall>c \<in> set new. component_on_line ls c \<and> i < yc_lineNumber c)
    \<and> sorted_wrt (<) (map yc_lineNumber new)"
proof (induction rest arbitrary: i st)
  case (Cons l rest)
  note j = drop_ConsD [OF Cons.prems]
  obtain n1 where n1: "ps_components (parse_line i l st) = ps_components st @ n1"
    and c1: "n1 = [] \<or> (\<exists>c. n1 = [c] \<and> yc_lineNumber c = i + 1 \<and> yc_name c \<noteq> []
        \<and> CHR '' '' \<notin> set (yc_name c) \<and> (\<exists>u. js_trim l = u @ '':'' \<and> yc_name c = js_trim u))"
    using parse_line_components [of i l st] by blast
  obtain n2 where n2: "ps_components (parse_lines (i + 1) rest (parse_line i l st))
        = ps_components (parse_line i l st) @ n2"
      "\<forall>c \<in> set n2. component_on_line ls c \<and> i + 1 < yc_lineNumber c"
      "sorted_wrt (<) (map yc_lineNumber n2)"
    using Cons.IH [of "i + 1" "parse_line i l st"] j(3) by auto
  have "\<forall>c \<in> set n1. component_on_line ls c \<and> yc_lineNumber c = i + 1"
    using c1 j by (auto simp: component_on_line_def)
  moreover have "sorted_wrt (<) (map yc_lineNumber (n1 @ n2))"
    using c1 n2(2,3) by (auto simp: sorted_wrt_append)
  ultimately show ?case using n1 n2 by (intro exI [of _ "n1 @ n2"]) auto
qed simp

text \<open>every component that \<open>parseYamlComponents\<close> reports stands, with a trailing colon, on the line
  it is reported for, and the line numbers strictly increase.\<close>

theorem parseYamlComponents_sound:
  "(\<forall>c \<in> set (parseYamlComponents content). component_on_line (split_on newline content) c)
    \<and> sorted_wrt (<) (map yc_lineNumber (parseYamlComponents content))"
  using parse_lines_components [of 0 "split_on newline content" "split_on newline content"
      "\<lparr>ps_section = None, ps_indent = - 1, ps_components = []\<rparr>"]
  by (fastforce simp: parseYamlComponents_def)

lemma parseYamlComponents_sound_witness:
  "sorted_wrt (<) (map yc_lineNumber (parseYamlComponents ''receivers:''))"
  using parseYamlComponents_sound [of "''receivers:''"] by blast

fun section_name :: "component_type \<Rightarrow> string" where
  "section_name Receiver = ''receivers''"
| "section_name Processor = ''processors''"
| "section_name Exporter = ''exporters''"

definition render_section :: "component_type \<times> string list \<Rightarrow> string list" where
  "render_section s = key_line 0 (section_name (fst s)) # map (key_line 1) (snd s)"

fun section_components :: "nat \<Rightarrow> (component_type \<times> string list) list \<Rightarrow> YamlComponent list" where
  "section_components i [] = []"
| "section_components i ((sec, ns) # r) =
     map (\<lambda>(k, n). \<lparr>yc_name = n, yc_type = sec, yc_lineNumber = k\<rparr>) (zip [i + 2..<i + 2 + length ns] ns)
     @ section_components (i + 1 + length ns) r"

definition component_key :: "string \<Rightarrow> bool" where
  "component_key n =
     (plain_key n \<and> CHR '' '' \<notin> set n \<and> hd n \<noteq> CHR ''-''
      \<and> n \<notin> {''receivers'', ''processors'', ''exporters'', ''service'', ''extensions'', ''connectors''})"

lemma search_nonspace_key_line:
  "plain_key k \<Longrightarrow> search_nonspace (key_line d k) = 2 * int d"
  by (simp add: search_nonspace_def trim_start_key_line) (simp add: key_line_def)

lemma parse_line_header:
  "parse_line i (key_line 0 (section_name sec)) st = st\<lparr>ps_section := Some sec, ps_indent := 0\<rparr>"
proof -
  have pk: "plain_key (section_name sec)"
    by (cases sec) (simp_all add: plain_key_def trimmed_def js_ws_def key_char_def)
  have "section_header (section_name sec @ '':'') = Some sec"
    by (cases sec) (simp_all add: section_header_def)
  then show ?thesis
    using search_nonspace_key_line [OF pk, of 0] by (simp add: parse_line_def pk Let_def)
qed

lemma parse_line_component:
  assumes n: "component_key n" and st: "ps_section st = Some sec" "ps_indent st = 0"
  shows "parse_line i (key_line 1 n) st
    = st\<lparr>ps_components := ps_components st @ [\<lparr>yc_name = n, yc_type = sec, yc_lineNumber = i + 1\<rparr>]\<rparr>"
proof -
  have pk: "plain_key n" using n by (simp add: component_key_def)
  then have ne: "n \<noteq> []" "js_trim n = n" by (auto simp: plain_key_def trimmed_def)
  have sh: "section_header (n @ '':'') = None" "n @ '':'' \<noteq> ''service:''" "n @ '':'' \<noteq> ''extensions:''"
    "n @ '':'' \<noteq> ''connectors:''"
    using n append_same_eq [of n "'':''"] by (auto simp: section_header_def component_key_def)
  have "ends_with '':'' (n @ '':'')" "\<not> starts_with ''-'' (n @ '':'')"
    using ne n by (auto simp: ends_with_iff starts_with_def component_key_def hd_append take_Suc)
  then show ?thesis
    using sh ne n st search_nonspace_key_line [OF pk, of 1]
    by (simp add: parse_line_def pk Let_def js_includes_single component_key_def)
qed

lemma parse_lines_append:
  "parse_lines i (xs @ ys) st = parse_lines (i + length xs) ys (parse_lines i xs st)"
  by (induction xs arbitrary: i st) auto

lemma parse_lines_names:
  "\<forall>n \<in> set ns. component_key n \<Longrightarrow> ps_section st = Some sec \<Longrightarrow> ps_indent st = 0 \<Longrightarrow>
    parse_lines i (map (key_line 1) ns) st
      = st\<lparr>ps_components := ps_components st
            @ map (\<lambda>(k, n). \<lparr>yc_name = n, yc_type = sec, yc_lineNumber = k\<rparr>)
                (zip [i + 1..<i + 1 + length ns] ns)\<rparr>"
proof (induction ns arbitrary: i st)
  case (Cons n ns)
  have "[i + 1..<i + 1 + length (n # ns)] = (i + 1) # [i + 1 + 1..<i + 1 + 1 + length ns]"
    by (simp add: upt_conv_Cons del: upt_Suc)
  moreover have "parse_line i (key_line 1 n) st
      = st\<lparr>ps_components := ps_components st @ [\<lparr>yc_name = n, yc_type = sec, yc_lineNumber = i + 1\<rparr>]\<rparr>"
    using Cons.prems by (intro parse_line_component) auto
  ultimately show ?case using Cons by (simp del: upt_Suc)
qed simp

lemma parse_lines_sections:
  "\<forall>s \<in> set ss. \<forall>n \<in> set (snd s). component_key n \<Longrightarrow>
    ps_components (parse_lines i (concat (map render_section ss)) st)
      = ps_components st @ section_components i ss"
proof (induction ss arbitrary: i st)
  case (Cons s ss)
  obtain sec ns where s: "s = (sec, ns)" by (cases s)
  let ?st = "st\<lparr>ps_section := Some sec, ps_indent := 0\<rparr>"
  have "parse_lines i (render_section s) st = parse_lines (i + 1) (map (key_line 1) ns) ?st"
    using parse_line_header [of i sec st] by (simp add: render_section_def s)
  also have "\<dots> = ?st\<lparr>ps_components := ps_components ?st
      @ map (\<lambda>(k, n). \<lparr>yc_name = n, yc_type = sec, yc_lineNumber = k\<rparr>)
          (zip [i + 1 + 1..<i + 1 + 1 + length ns] ns)\<rparr>"
    using Cons.prems s by (intro parse_lines_names) auto
  finally show ?case
    using Cons s by (simp add: parse_lines_append render_section_def del: upt_Suc)
qed simp

text \<open>C19: a configuration text written as sections of component keys indented by two is read back
  as exactly those components, in order, each with its section and its line.\<close>

theorem parseYamlComponents_render:
  assumes "ss \<noteq> []" and "\<forall>s \<in> set ss. \<forall>n \<in> set (snd s). component_key n"
  shows "parseYamlComponents (join_with [newline] (concat (map render_section ss)))
    = section_components 0 ss"
proof -
  have sep: "newline \<notin> set l" if l: "l \<in> set (render_section s)" and s: "s \<in> set ss" for l s
  proof -
    have "newline \<notin> set (section_name (fst s))" by (cases "fst s") simp_all
    moreover have "\<forall>n \<in> set (snd s). newline \<notin> set n"
      using s assms(2) unfolding component_key_def plain_key_def by blast
    moreover have "newline \<notin> set (key_line d k)" if "newline \<notin> set k" for d k
      using that by (simp add: key_line_def)
    ultimately show ?thesis using l unfolding render_section_def by auto
  qed
  have "concat (map render_section ss) \<noteq> []" using assms(1) by (cases ss) (simp_all add: render_section_def)
  then have "split_on newline (join_with [newline] (concat (map render_section ss)))
      = concat (map render_section ss)"
    using sep by (intro split_on_join) auto
  then show ?thesis using parse_lines_sections [OF assms(2)] by (simp add: parseYamlComponents_def)
qed

lemma parseYamlComponents_render_witness:
  "parseYamlComponents (join_with [newline] (concat (map render_section
      [(Receiver, [''otlp'', ''hostmetrics/2'']), (Exporter, [''debug''])])))
    = [\<lparr>yc_name = ''otlp'', yc_type = Receiver, yc_lineNumber = 2\<rparr>,
       \<lparr>yc_name = ''hostmetrics/2'', yc_type = Receiver, yc_lineNumber = 3\<rparr>,
       \<lparr>yc_name = ''debug'', yc_type = Exporter, yc_lineNumber = 5\<rparr>]"
proof -
  have "\<forall>s \<in> set [(Receiver, [''otlp'', ''hostmetrics/2'']), (Exporter, [''debug''])].
      \<forall>n \<in> set (snd s). component_key n"
    by (simp add: component_key_def plain_key_def trimmed_def js_ws_def key_char_def)
  moreover have "section_components 0 [(Receiver, [''otlp'', ''hostmetrics/2'']), (Exporter, [''debug''])]
    = [\<lparr>yc_name = ''otlp'', yc_type = Receiver, yc_lineNumber = 2\<rparr>,
       \<lparr>yc_name = ''hostmetrics/2'', yc_type = Receiver, yc_lineNumber = 3\<rparr>,
       \<lparr>yc_name = ''debug'', yc_type = Exporter, yc_lineNumber = 5\<rparr>]"
    by code_simp
  ultimately show ?thesis
    using parseYamlComponents_render [of "[(Receiver, [''otlp'', ''hostmetrics/2'']), (Exporter, [''debug''])]"]
    by (metis list.distinct(1))
qed

lemma findYamlPosition_render_witness:
  "findYamlPosition (\<lambda>_ _. Inl SyntaxError)
      (join_with [newline] (render_lines [''service'', ''pipelines''] [''otlp'', ''data'']))
      [''service'', ''pipelines''] (JStr ''data'')
    = Inr (Some \<lparr>yp_line = 4, yp_column = 7, yp_endLine = 4, yp_endColumn = Num 11\<rparr>)"
  using findYamlPosition_render [of "[''service'', ''pipelines'']" "[''otlp'', ''data'']" 1
      "\<lambda>_ _. Inl SyntaxError"]
  by (simp add: plain_key_def plain_item_def word_name_def plain_name_def trimmed_def js_ws_def
      key_char_def regex_meta_def word_char_def at_boundary_def)


end
