(* ===== verification/Validation.thy ===== *)
theory Validation
  imports Yaml_Text
begin

text \<open>
  Validation of a collector configuration: the three validators and \<open>validateYamlConfig\<close> of
  ui/src/lib/validation, and the two debounced hooks hooks/useYamlValidation.ts and
  hooks/useYamlParser.ts.  A validator is a function of the text and the decoded value that may
  raise.  The locale \<open>validator\<close> is the contract that the callers rely on; it is interpreted on the
  three validators.  \<open>yaml.load\<close> is an argument.
\<close>

section \<open>Validators\<close>

type_synonym regex_engine = "string \<Rightarrow> string \<Rightarrow> js_error + bool"
type_synonym validate_fun = "string \<Rightarrow> jval \<Rightarrow> js_error + ValidationError list"

record Validator =
  v_name :: string
  v_validate :: validate_fun

definition quoted :: "string \<Rightarrow> string" where
  "quoted s = [CHR 0x27] @ s @ [CHR 0x27]"

text \<open>The loop over one list of references.\<close>

definition check_references ::
  "regex_engine \<Rightarrow> string \<Rightarrow> (string \<Rightarrow> string) \<Rightarrow> string list \<Rightarrow> string list \<Rightarrow> jval \<Rightarrow>
   js_error + ValidationError list" where
  "check_references rx yamlContent message path defined references =
     bindE (js_iter references) (collectE (\<lambda>r.
       if set_has defined r then Inr []
       else bindE (createValidationError rx (message (to_str r)) yamlContent path r SevError)
              (\<lambda>e. Inr [e])))"

definition undefined_message :: "string \<Rightarrow> string \<Rightarrow> string \<Rightarrow> string \<Rightarrow> string" where
  "undefined_message label sect pipelineName r =
     label @ '' '' @ quoted r @ '' is used in pipeline '' @ quoted pipelineName
     @ '' but not defined in '' @ sect @ '' section''"

definition check_pipeline_list ::
  "regex_engine \<Rightarrow> string \<Rightarrow> string \<Rightarrow> jval \<Rightarrow> string \<Rightarrow> string \<Rightarrow> string list \<Rightarrow>
   js_error + ValidationError list" where
  "check_pipeline_list rx yamlContent pipelineName pipeline label sect defined =
     bindE (get_prop pipeline sect) (\<lambda>references.
       if truthy references
       then check_references rx yamlContent (undefined_message label sect pipelineName)
              [''service'', ''pipelines'', pipelineName, sect] defined references
       else Inr [])"

text \<open>\<open>Object.keys(config.k || {})\<close>\<close>

definition defined_keys :: "jval \<Rightarrow> string \<Rightarrow> js_error + string list" where
  "defined_keys config k = bindE (get_prop config k) (\<lambda>v. Inr (js_keys (js_or v (JObj []))))"

definition service_field :: "jval \<Rightarrow> string \<Rightarrow> js_error + jval" where
  "service_field config k = bindE (get_prop config ''service'') (\<lambda>service. opt_prop service k)"

definition OTelPipelineValidator_validate :: "regex_engine \<Rightarrow> validate_fun" where
  "OTelPipelineValidator_validate rx yamlContent parsedData =
     (if \<not> truthy parsedData \<or> \<not> typeof_object parsedData then Inr []
      else bindE (service_field parsedData ''pipelines'') (\<lambda>pipelines.
        if \<not> truthy pipelines then Inr []
        else
          bindE (defined_keys parsedData ''receivers'') (\<lambda>receivers.
          bindE (defined_keys parsedData ''processors'') (\<lambda>definedProcessors.
          bindE (defined_keys parsedData ''exporters'') (\<lambda>exporters.
          bindE (defined_keys parsedData ''connectors'') (\<lambda>definedConnectors.
            let definedReceivers = receivers @ definedConnectors;
                definedExporters = exporters @ definedConnectors in
            collectE (\<lambda>(pipelineName, pipeline).
              bindE (check_pipeline_list rx yamlContent pipelineName pipeline ''Receiver''
                       ''receivers'' definedReceivers) (\<lambda>e1.
              bindE (check_pipeline_list rx yamlContent pipelineName pipeline ''Processor''
                       ''processors'' definedProcessors) (\<lambda>e2.
              bindE (check_pipeline_list rx yamlContent pipelineName pipeline ''Exporter''
                       ''exporters'' definedExporters) (\<lambda>e3.
                Inr (e1 @ e2 @ e3)))))
              (js_entries pipelines)))))))"

definition extension_message :: "string \<Rightarrow> string" where
  "extension_message extension =
     ''Extension '' @ quoted extension @ '' is used in service but not defined in extensions section''"

definition OTelExtensionsValidator_validate :: "regex_engine \<Rightarrow> validate_fun" where
  "OTelExtensionsValidator_validate rx yamlContent parsedData =
     (if \<not> truthy parsedData \<or> \<not> typeof_object parsedData then Inr []
      else bindE (service_field parsedData ''extensions'') (\<lambda>extensions.
        if \<not> truthy extensions then Inr []
        else bindE (defined_keys parsedData ''extensions'') (\<lambda>definedExtensions.
          check_references rx yamlContent
            extension_message
            [''service'', ''extensions''] definedExtensions extensions)))"

text \<open>\<open>!pipeline.k || pipeline.k.length === 0\<close>\<close>

definition lacks :: "jval \<Rightarrow> string \<Rightarrow> js_error + bool" where
  "lacks pipeline k =
     bindE (get_prop pipeline k) (\<lambda>v.
       if \<not> truthy v then Inr True
       else bindE (get_prop v ''length'') (\<lambda>n. Inr (n = JNum ''0'')))"

definition incomplete_message :: "string \<Rightarrow> string \<Rightarrow> string" where
  "incomplete_message pipelineName what =
     ''Pipeline '' @ quoted pipelineName @ '' must have at least one '' @ what"

definition check_nonempty ::
  "regex_engine \<Rightarrow> string \<Rightarrow> string \<Rightarrow> jval \<Rightarrow> string \<Rightarrow> string \<Rightarrow>
   js_error + ValidationError list" where
  "check_nonempty rx yamlContent pipelineName pipeline k what =
     bindE (lacks pipeline k) (\<lambda>b.
       if b then
         bindE (createValidationError rx
                  (incomplete_message pipelineName what)
                  yamlContent [''service'', ''pipelines'', pipelineName] JUndef SevWarning)
           (\<lambda>e. Inr [e])
       else Inr [])"

definition OTelEmptyPipelineValidator_validate :: "regex_engine \<Rightarrow> validate_fun" where
  "OTelEmptyPipelineValidator_validate rx yamlContent parsedData =
     (if \<not> truthy parsedData \<or> \<not> typeof_object parsedData then Inr []
      else bindE (service_field parsedData ''pipelines'') (\<lambda>pipelines.
        if \<not> truthy pipelines then Inr []
        else collectE (\<lambda>(pipelineName, pipeline).
               bindE (check_nonempty rx yamlContent pipelineName pipeline ''receivers'' ''receiver'') (\<lambda>e1.
               bindE (check_nonempty rx yamlContent pipelineName pipeline ''exporters'' ''exporter'') (\<lambda>e2.
                 Inr (e1 @ e2))))
               (js_entries pipelines)))"

definition defaultValidators :: "regex_engine \<Rightarrow> Validator list" where
  "defaultValidators rx =
     [\<lparr>v_name = ''otel-pipeline'', v_validate = OTelPipelineValidator_validate rx\<rparr>,
      \<lparr>v_name = ''otel-extensions'', v_validate = OTelExtensionsValidator_validate rx\<rparr>,
      \<lparr>v_name = ''otel-empty-pipeline'', v_validate = OTelEmptyPipelineValidator_validate rx\<rparr>]"

section \<open>Running the validators\<close>

record ValidationResult =
  vr_valid :: bool
  vr_errors :: "ValidationError list"

text \<open>The errors of all validators; a validator that raises contributes none.\<close>

definition collect_errors :: "Validator list \<Rightarrow> string \<Rightarrow> jval \<Rightarrow> ValidationError list" where
  "collect_errors validators yamlContent parsedData =
     concat (map (\<lambda>v. case v_validate v yamlContent parsedData of Inl e \<Rightarrow> [] | Inr es \<Rightarrow> es) validators)"

definition error_key :: "ValidationError \<Rightarrow> string" where
  "error_key e = ve_message e @ ''|'' @ show_nat (ve_line e) @ ''|'' @ show_nat (ve_column e)"

fun dedup_by :: "('a \<Rightarrow> 'k) \<Rightarrow> 'k set \<Rightarrow> 'a list \<Rightarrow> 'a list" where
  "dedup_by key seen [] = []"
| "dedup_by key seen (x # xs) =
     (if key x \<in> seen then dedup_by key seen xs else x # dedup_by key (insert (key x) seen) xs)"

definition validateYamlConfig :: "string \<Rightarrow> jval \<Rightarrow> Validator list \<Rightarrow> ValidationResult" where
  "validateYamlConfig yamlContent parsedData validators =
     (let uniqueErrors = dedup_by error_key {} (collect_errors validators yamlContent parsedData) in
      \<lparr>vr_valid = (filter (\<lambda>e. ve_severity e = SevError) uniqueErrors = []), vr_errors = uniqueErrors\<rparr>)"

lemma dedup_by_subset: "set (dedup_by key seen xs) \<subseteq> set xs"
  by (induction key seen xs rule: dedup_by.induct) auto

lemma dedup_by_keys: "key ` set (dedup_by key seen xs) = key ` set xs - seen"
  by (induction key seen xs rule: dedup_by.induct) auto

lemma dedup_by_Nil: "dedup_by key {} xs = [] \<longleftrightarrow> xs = []"
  by (cases xs) simp_all

lemma dedup_by_distinct: "distinct (map key (dedup_by key seen xs))"
proof (induction key seen xs rule: dedup_by.induct)
  case (2 key seen x xs)
  have "key x \<notin> key ` set (dedup_by key (insert (key x) seen) xs)" by (simp add: dedup_by_keys)
  with 2 show ?case by auto
qed simp

lemma dedup_by_first:
  "x \<in> set (dedup_by key seen xs) \<Longrightarrow>
    \<exists>u v. xs = u @ x # v \<and> key x \<notin> key ` set u"
proof (induction key seen xs rule: dedup_by.induct)
  case (2 key seen y xs)
  show ?case
  proof (cases "x = y")
    case True
    then show ?thesis by (intro exI [of _ "[]"] exI [of _ xs]) simp
  next
    case False
    then have "key y \<in> seen \<and> x \<in> set (dedup_by key seen xs)
        \<or> key y \<notin> seen \<and> x \<in> set (dedup_by key (insert (key y) seen) xs)"
      using "2.prems" by (auto split: if_splits)
    then have mem: "\<exists>u v. xs = u @ x # v \<and> key x \<notin> key ` set u" and ky: "key x \<noteq> key y"
      using "2.IH" dedup_by_keys [of key seen xs] dedup_by_keys [of key "insert (key y) seen" xs]
      by (metis, metis (no_types, lifting) Diff_iff image_eqI insertCI)
    then obtain u v where "xs = u @ x # v" "key x \<notin> key ` set u" by blast
    then show ?thesis using ky by (intro exI [of _ "y # u"] exI [of _ v]) auto
  qed
qed simp

section \<open>Every reported line exists\<close>

definition on_line_of :: "string list \<Rightarrow> yaml_pos \<Rightarrow> bool" where
  "on_line_of doc p = (1 \<le> yp_line p \<and> yp_line p \<le> length doc \<and> yp_endLine p = yp_line p)"

lemma on_line_text_pos [simp]: "on_line_of doc (text_pos i l s len) \<longleftrightarrow> i < length doc"
  by (auto simp: on_line_of_def text_pos_def Let_def)

lemma find_item_line:
  "find_item rx cn ind j ls = Inr (Some p) \<Longrightarrow> drop j doc = ls \<Longrightarrow> on_line_of doc p"
proof (induction ls arbitrary: j)
  case (Cons l ls)
  note j = drop_ConsD [OF Cons.prems(2)]
  have IH: "find_item rx cn ind (j + 1) ls = Inr (Some p) \<Longrightarrow> on_line_of doc p"
    using Cons.IH j(3) by simp
  show ?case using Cons.prems(1) IH j(1)
    by (auto simp: bindE_Inr_iff simp del: One_nat_def split: if_split_asm)
qed simp

lemma at_target_line:
  assumes "at_target rx cn key i l (drop (Suc i) doc) = Inr (Some p)" "i < length doc"
  shows "on_line_of doc p"
  using assms(1)
proof (cases rule: at_target_cases)
  case 2
  then obtain s len where "p = text_pos i l s len"
    by (auto simp: find_inline_def bindE_Inr_iff split: option.splits if_splits)
  then show ?thesis using assms(2) by simp
next
  case 3
  then show ?thesis using find_item_line [of rx cn "indent_of l" "i + 1" _ p doc] by simp
qed (use assms(2) in simp)

lemma find_lines_line:
  "find_lines rx path cn ind k i ls = Inr (Some p) \<Longrightarrow> drop i doc = ls \<Longrightarrow> on_line_of doc p"
proof (induction ls arbitrary: ind k i)
  case (Cons l ls)
  note j = drop_ConsD [OF Cons.prems(2)]
  have IH: "find_lines rx path cn ind' k' (Suc i) ls = Inr (Some p) \<Longrightarrow> ?case" for ind' k'
    using Cons.IH j(3) by blast
  have "at_target rx cn key i l ls = Inr (Some p) \<Longrightarrow> ?case" for key
    using at_target_line j by metis
  then show ?case using IH Cons.prems(1) by (auto split: if_splits)
qed simp

definition in_text :: "string \<Rightarrow> ValidationError \<Rightarrow> bool" where
  "in_text c e =
     (1 \<le> ve_line e \<and> ve_line e \<le> length (split_on newline c)
      \<and> (ve_endLine e = None \<or> ve_endLine e = Some (ve_line e)))"

lemma createValidationError_in_text:
  assumes "createValidationError rx m c path cn sev = Inr e"
  shows "in_text c e \<and> ve_severity e = sev \<and> ve_message e = m"
proof -
  obtain pos where pos: "findYamlPosition rx c path cn = Inr pos"
    using assms by (auto simp: createValidationError_def bindE_Inr_iff)
  have ne: "1 \<le> length (split_on newline c)"
    using split_on_nonempty [of newline c] by (cases "split_on newline c") simp_all
  show ?thesis
  proof (cases pos)
    case None
    then show ?thesis using assms pos ne by (auto simp: createValidationError_def in_text_def)
  next
    case (Some p)
    then have "find_lines rx path cn 0 0 0 (split_on newline c) = Inr (Some p)"
      using pos by (simp add: findYamlPosition_def)
    then have "on_line_of (split_on newline c) p" by (rule find_lines_line) (rule drop_0)
    then show ?thesis
      using assms pos Some by (auto simp: createValidationError_def in_text_def on_line_of_def)
  qed
qed

section \<open>The contract of a validator\<close>

locale validator =
  fixes validate :: validate_fun
  assumes not_object: "\<not> (truthy d \<and> typeof_object d) \<Longrightarrow> validate c d = Inr []"
    and located: "validate c d = Inr es \<Longrightarrow> e \<in> set es \<Longrightarrow> in_text c e"

text \<open>A list of validators that all keep the contract, as \<open>validateYamlConfig\<close> runs it.\<close>

locale validator_suite =
  fixes vs :: "Validator list"
  assumes members: "v \<in> set vs \<Longrightarrow> validator (v_validate v)"

context validator_suite
begin

lemma collected_in_text:
  assumes "e \<in> set (collect_errors vs c d)" shows "in_text c e"
proof -
  obtain v where v: "v \<in> set vs" "e \<in> set (case v_validate v c d of Inl x \<Rightarrow> [] | Inr es \<Rightarrow> es)"
    using assms by (auto simp: collect_errors_def)
  then obtain es where "v_validate v c d = Inr es" "e \<in> set es"
    by (cases "v_validate v c d") auto
  then show ?thesis by (rule validator.located [OF members [OF v(1)]])
qed

lemma collected_not_object:
  assumes "\<not> (truthy d \<and> typeof_object d)" shows "collect_errors vs c d = []"
proof -
  have "v_validate v c d = Inr []" if "v \<in> set vs" for v
    by (rule validator.not_object [OF members [OF that] assms])
  then show ?thesis by (simp add: collect_errors_def)
qed

lemma validated_in_text:
  "e \<in> set (vr_errors (validateYamlConfig c d vs)) \<Longrightarrow> in_text c e"
  using collected_in_text dedup_by_subset by (fastforce simp: validateYamlConfig_def Let_def)

lemma validated_not_object:
  "\<not> (truthy d \<and> typeof_object d) \<Longrightarrow>
    validateYamlConfig c d vs = \<lparr>vr_valid = True, vr_errors = []\<rparr>"
  by (simp add: validateYamlConfig_def collected_not_object)

end

lemma check_references_in_text:
  "check_references rx c m path ks refs = Inr es \<Longrightarrow> e \<in> set es \<Longrightarrow> in_text c e"
  by (fastforce simp: check_references_def bindE_Inr_iff collectE_mem
      dest: createValidationError_in_text split: if_splits)

lemma check_pipeline_list_in_text:
  "check_pipeline_list rx c pn p label sect ks = Inr es \<Longrightarrow> e \<in> set es \<Longrightarrow> in_text c e"
  by (auto simp: check_pipeline_list_def bindE_Inr_iff split: if_splits)
     (blast intro: check_references_in_text)

lemma check_nonempty_in_text:
  "check_nonempty rx c pn p k w = Inr es \<Longrightarrow> e \<in> set es \<Longrightarrow> in_text c e"
  by (auto simp: check_nonempty_def bindE_Inr_iff split: if_splits)
     (blast dest: createValidationError_in_text)

lemma pipeline_validator_in_text:
  assumes "OTelPipelineValidator_validate rx c d = Inr es" and "e \<in> set es"
  shows "in_text c e"
  using assms
  by (auto simp: OTelPipelineValidator_validate_def bindE_Inr_iff collectE_mem Let_def
      split: if_splits prod.splits) (blast intro: check_pipeline_list_in_text)+

lemma empty_validator_in_text:
  assumes "OTelEmptyPipelineValidator_validate rx c d = Inr es" and "e \<in> set es"
  shows "in_text c e"
  using assms
  by (auto simp: OTelEmptyPipelineValidator_validate_def bindE_Inr_iff collectE_mem
      split: if_splits prod.splits) (blast intro: check_nonempty_in_text)+

interpretation pipeline: validator "OTelPipelineValidator_validate rx" for rx
  by unfold_locales (simp add: OTelPipelineValidator_validate_def, rule pipeline_validator_in_text)

interpretation extensions: validator "OTelExtensionsValidator_validate rx" for rx
  by unfold_locales
    (simp add: OTelExtensionsValidator_validate_def,
     auto simp: OTelExtensionsValidator_validate_def bindE_Inr_iff split: if_splits,
     blast intro: check_references_in_text)

interpretation empty_pipeline: validator "OTelEmptyPipelineValidator_validate rx" for rx
  by unfold_locales (simp add: OTelEmptyPipelineValidator_validate_def, rule empty_validator_in_text)

interpretation default_suite: validator_suite "defaultValidators rx" for rx
  by (rule validator_suite.intro)
    (auto simp: defaultValidators_def pipeline.validator_axioms extensions.validator_axioms
      empty_pipeline.validator_axioms)

text \<open>C34: every error that the default validators report starts and ends on one line of the
  validated text, so that the editor can mark it.\<close>

theorem validateYamlConfig_in_text:
  "\<forall>e \<in> set (vr_errors (validateYamlConfig c d (defaultValidators rx))).
     1 \<le> ve_line e \<and> ve_line e \<le> length (split_on newline c)
     \<and> (ve_endLine e = None \<or> ve_endLine e = Some (ve_line e))"
  using default_suite.validated_in_text by (auto simp: in_text_def)

section \<open>Refinement: a configuration is valid when all its references are defined\<close>

text \<open>The abstract view: a decoded configuration whose sections have the documented shape.\<close>

record pipeline_spec =
  pl_receivers :: "string list option"
  pl_processors :: "string list option"
  pl_exporters :: "string list option"

record otel_config =
  oc_receivers :: "(string \<times> jval) list option"
  oc_processors :: "(string \<times> jval) list option"
  oc_exporters :: "(string \<times> jval) list option"
  oc_extensions :: "(string \<times> jval) list option"
  oc_connectors :: "(string \<times> jval) list option"
  oc_pipelines :: "(string \<times> pipeline_spec) list option"
  oc_service_extensions :: "string list option"

definition names_of :: "(string \<times> jval) list option \<Rightarrow> string set" where
  "names_of sect = (case sect of None \<Rightarrow> {} | Some kvs \<Rightarrow> fst ` set kvs)"

definition refs_of :: "'a list option \<Rightarrow> 'a list" where
  "refs_of r = (case r of None \<Rightarrow> [] | Some xs \<Rightarrow> xs)"

definition config_ok :: "otel_config \<Rightarrow> bool" where
  "config_ok c =
     ((\<forall>p \<in> set (refs_of (oc_pipelines c)).
         set (refs_of (pl_receivers (snd p))) \<subseteq> names_of (oc_receivers c) \<union> names_of (oc_connectors c)
       \<and> set (refs_of (pl_processors (snd p))) \<subseteq> names_of (oc_processors c)
       \<and> set (refs_of (pl_exporters (snd p))) \<subseteq> names_of (oc_exporters c) \<union> names_of (oc_connectors c))
      \<and> set (refs_of (oc_service_extensions c)) \<subseteq> names_of (oc_extensions c))"

text \<open>The value that the decoder gives for it; absent fields are absent.\<close>

definition field :: "string \<Rightarrow> ('a \<Rightarrow> jval) \<Rightarrow> 'a option \<Rightarrow> (string \<times> jval) list" where
  "field k f x = (case x of None \<Rightarrow> [] | Some y \<Rightarrow> [(k, f y)])"

definition encode_list :: "string list \<Rightarrow> jval" where
  "encode_list xs = JArr (map JStr xs)"

definition encode_pipeline :: "pipeline_spec \<Rightarrow> jval" where
  "encode_pipeline p =
     JObj (field ''receivers'' encode_list (pl_receivers p) @ field ''processors'' encode_list (pl_processors p)
           @ field ''exporters'' encode_list (pl_exporters p))"

definition encode_config :: "otel_config \<Rightarrow> jval" where
  "encode_config c =
     JObj (field ''receivers'' JObj (oc_receivers c) @ field ''processors'' JObj (oc_processors c)
           @ field ''exporters'' JObj (oc_exporters c) @ field ''extensions'' JObj (oc_extensions c)
           @ field ''connectors'' JObj (oc_connectors c)
           @ [(''service'',
               JObj (field ''extensions'' encode_list (oc_service_extensions c)
                     @ field ''pipelines'' (\<lambda>ps. JObj (map (\<lambda>(n, p). (n, encode_pipeline p)) ps))
                         (oc_pipelines c)))])"

lemma own_prop_append:
  "own_prop (xs @ ys) k = (if k \<in> fst ` set xs then own_prop xs k else own_prop ys k)"
  by (induction xs) (auto simp: own_prop_def)

lemma own_prop_field: "own_prop (field k f x) k' = (if k = k' then (case x of None \<Rightarrow> JUndef | Some y \<Rightarrow> f y) else JUndef)"
  by (auto simp: field_def own_prop_def split: option.splits)

lemma keys_field: "fst ` set (field k f x) = (case x of None \<Rightarrow> {} | Some _ \<Rightarrow> {k})"
  by (auto simp: field_def split: option.splits)

lemmas encode_read = own_prop_append own_prop_field keys_field

lemma encode_config_fields:
  fixes c :: otel_config
  defines "d \<equiv> encode_config c"
  shows "defined_keys d ''receivers'' = Inr (map fst (refs_of (oc_receivers c)))"
    "defined_keys d ''processors'' = Inr (map fst (refs_of (oc_processors c)))"
    "defined_keys d ''exporters'' = Inr (map fst (refs_of (oc_exporters c)))"
    "defined_keys d ''extensions'' = Inr (map fst (refs_of (oc_extensions c)))"
    "defined_keys d ''connectors'' = Inr (map fst (refs_of (oc_connectors c)))"
    "service_field d ''pipelines'' = Inr (case oc_pipelines c of None \<Rightarrow> JUndef
       | Some ps \<Rightarrow> JObj (map (\<lambda>(n, p). (n, encode_pipeline p)) ps))"
    "service_field d ''extensions'' = Inr (case oc_service_extensions c of None \<Rightarrow> JUndef
       | Some xs \<Rightarrow> encode_list xs)"
  by (auto simp: d_def defined_keys_def service_field_def encode_config_def encode_read refs_of_def
      js_or_def js_keys_def split: option.splits)

lemma encode_pipeline_fields:
  "get_prop (encode_pipeline p) ''receivers'' = Inr (case pl_receivers p of None \<Rightarrow> JUndef | Some xs \<Rightarrow> encode_list xs)"
  "get_prop (encode_pipeline p) ''processors'' = Inr (case pl_processors p of None \<Rightarrow> JUndef | Some xs \<Rightarrow> encode_list xs)"
  "get_prop (encode_pipeline p) ''exporters'' = Inr (case pl_exporters p of None \<Rightarrow> JUndef | Some xs \<Rightarrow> encode_list xs)"
  by (auto simp: encode_pipeline_def encode_read split: option.splits)

text \<open>A reference without regular expression operators cannot make a validator raise.\<close>

definition quiet :: "jval \<Rightarrow> bool" where
  "quiet cn = (cn = JUndef \<or> (\<exists>s. cn = JStr s \<and> \<not> list_ex regex_meta s))"

lemma quiet_test: "quiet cn \<Longrightarrow> truthy cn \<Longrightarrow>
    component_regex_test rx (to_str cn) s = Inr (match_from None (to_str cn) s)"
  by (auto simp: quiet_def component_regex_test_def)

lemma quiet_find_item: "quiet cn \<Longrightarrow> truthy cn \<Longrightarrow> \<exists>r. find_item rx cn ind j ls = Inr r"
  by (induction ls arbitrary: j) (auto simp: quiet_test)

lemma quiet_find_inline: "quiet cn \<Longrightarrow> truthy cn \<Longrightarrow> \<exists>r. find_inline rx cn i l = Inr r"
  by (auto simp: find_inline_def quiet_test split: option.splits)

lemma quiet_at_target: "quiet cn \<Longrightarrow> \<exists>r. at_target rx cn key i l rest = Inr r"
proof (cases "truthy cn")
  case True
  assume q: "quiet cn"
  obtain r where r: "find_inline rx cn i l = Inr r" using quiet_find_inline [OF q True] by blast
  obtain r' where r': "find_item rx cn (indent_of l) (i + 1) rest = Inr r'"
    using quiet_find_item [OF q True] by blast
  show ?thesis using True r r' by (cases r) (auto simp: at_target_def)
qed (simp add: at_target_def)

lemma quiet_find_lines: "quiet cn \<Longrightarrow> \<exists>r. find_lines rx path cn ind k i ls = Inr r"
  by (induction ls arbitrary: ind k i) (auto simp: quiet_at_target)

lemma quiet_createValidationError: "quiet cn \<Longrightarrow> \<exists>e. createValidationError rx m c path cn sev = Inr e"
  using quiet_find_lines by (fastforce simp: createValidationError_def findYamlPosition_def bindE_Inr_iff)

lemma collectE_total:
  "(\<And>x. x \<in> set xs \<Longrightarrow> \<exists>r. f x = Inr r) \<Longrightarrow> \<exists>ys. collectE f xs = Inr ys"
  by (metis collectE_Inl obj_sumE sum.distinct(1))

text \<open>What a check of a list gives: only errors, and none exactly if the list is covered.\<close>

definition checks :: "bool \<Rightarrow> js_error + ValidationError list \<Rightarrow> bool" where
  "checks ok r = (\<exists>es. r = Inr es \<and> (es = [] \<longleftrightarrow> ok) \<and> (\<forall>e \<in> set es. ve_severity e = SevError))"

lemma checks_references:
  assumes "\<forall>r \<in> set rs. \<not> list_ex regex_meta r"
  shows "checks (set rs \<subseteq> set ks) (check_references rx c m path ks (encode_list rs))"
proof -
  let ?f = "\<lambda>r. if set_has ks r then Inr []
       else bindE (createValidationError rx (m (to_str r)) c path r SevError) (\<lambda>e. Inr [e])"
  have step: "checks (r \<in> set ks) (?f (JStr r))" if r: "r \<in> set rs" for r
  proof -
    have "quiet (JStr r)" using assms r by (simp add: quiet_def)
    then obtain e where "createValidationError rx (m r) c path (JStr r) SevError = Inr e"
      using quiet_createValidationError by blast
    then show ?thesis by (simp add: checks_def createValidationError_in_text)
  qed
  have "checks (set rs \<subseteq> set ks) (collectE ?f (map JStr rs))" using step
  proof (induction rs)
    case (Cons r rs)
    then have IH: "checks (set rs \<subseteq> set ks) (collectE ?f (map JStr rs))" by simp
    have "checks (r \<in> set ks) (?f (JStr r))" using Cons.prems by simp
    then show ?case using IH unfolding checks_def by (elim exE conjE) auto
  qed (simp add: checks_def)
  then show ?thesis by (simp add: check_references_def encode_list_def)
qed

lemma checks_bind:
  assumes "checks a x" "checks b y"
  shows "checks (a \<and> b) (bindE x (\<lambda>as. bindE y (\<lambda>bs. Inr (as @ bs))))"
  using assms unfolding checks_def by fastforce

lemma checks_collect:
  "(\<And>x. x \<in> set xs \<Longrightarrow> checks (ok x) (f x)) \<Longrightarrow> checks (\<forall>x \<in> set xs. ok x) (collectE f xs)"
proof (induction xs)
  case (Cons x xs)
  then have "checks (ok x \<and> (\<forall>x \<in> set xs. ok x))
      (bindE (f x) (\<lambda>ys. bindE (collectE f xs) (\<lambda>zs. Inr (ys @ zs))))"
    by (intro checks_bind) auto
  then show ?case by simp
qed (simp add: checks_def)

lemma checks_pipeline_list:
  assumes "\<forall>r \<in> set (refs_of rs). \<not> list_ex regex_meta r"
    and "get_prop p sect = Inr (case rs of None \<Rightarrow> JUndef | Some xs \<Rightarrow> encode_list xs)"
  shows "checks (set (refs_of rs) \<subseteq> set ks) (check_pipeline_list rx c pn p label sect ks)"
proof (cases rs)
  case None
  then show ?thesis using assms(2) by (simp add: check_pipeline_list_def refs_of_def checks_def)
next
  case (Some xs)
  then have "check_pipeline_list rx c pn p label sect ks
      = check_references rx c (undefined_message label sect pn)
          [''service'', ''pipelines'', pn, sect] ks (encode_list xs)"
    using assms(2) by (simp add: check_pipeline_list_def encode_list_def)
  then show ?thesis using checks_references [of xs] assms(1) Some by (simp add: refs_of_def)
qed

definition plain_refs :: "otel_config \<Rightarrow> bool" where
  "plain_refs c =
     ((\<forall>p \<in> set (refs_of (oc_pipelines c)). \<forall>r \<in> set (refs_of (pl_receivers (snd p))
          @ refs_of (pl_processors (snd p)) @ refs_of (pl_exporters (snd p))). \<not> list_ex regex_meta r)
      \<and> (\<forall>r \<in> set (refs_of (oc_service_extensions c)). \<not> list_ex regex_meta r))"

definition pipelines_ok :: "otel_config \<Rightarrow> bool" where
  "pipelines_ok c =
     (\<forall>p \<in> set (refs_of (oc_pipelines c)).
         set (refs_of (pl_receivers (snd p))) \<subseteq> names_of (oc_receivers c) \<union> names_of (oc_connectors c)
       \<and> set (refs_of (pl_processors (snd p))) \<subseteq> names_of (oc_processors c)
       \<and> set (refs_of (pl_exporters (snd p))) \<subseteq> names_of (oc_exporters c) \<union> names_of (oc_connectors c))"

lemma set_keys_refs_of: "set (map fst (refs_of x)) = names_of x"
  by (cases x) (simp_all add: refs_of_def names_of_def)

lemma encode_config_object [simp]: "truthy (encode_config c)" "typeof_object (encode_config c)"
  by (simp_all add: encode_config_def)

lemma checks_pipelines:
  assumes "plain_refs c"
  shows "checks (pipelines_ok c) (OTelPipelineValidator_validate rx src (encode_config c))"
proof (cases "oc_pipelines c")
  case None
  then show ?thesis
    by (simp add: OTelPipelineValidator_validate_def encode_config_fields pipelines_ok_def refs_of_def checks_def)
next
  case (Some ps)
  let ?R = "map fst (refs_of (oc_receivers c)) @ map fst (refs_of (oc_connectors c))"
  let ?P = "map fst (refs_of (oc_processors c))"
  let ?X = "map fst (refs_of (oc_exporters c)) @ map fst (refs_of (oc_connectors c))"
  let ?f = "\<lambda>(pn, p).
      bindE (check_pipeline_list rx src pn p ''Receiver'' ''receivers'' ?R) (\<lambda>e1.
      bindE (check_pipeline_list rx src pn p ''Processor'' ''processors'' ?P) (\<lambda>e2.
      bindE (check_pipeline_list rx src pn p ''Exporter'' ''exporters'' ?X) (\<lambda>e3.
        Inr (e1 @ e2 @ e3))))"
  let ?ok = "\<lambda>p. set (refs_of (pl_receivers p)) \<subseteq> set ?R \<and> set (refs_of (pl_processors p)) \<subseteq> set ?P
      \<and> set (refs_of (pl_exporters p)) \<subseteq> set ?X"
  have one: "checks (?ok p) (?f (pn, encode_pipeline p))" if "(pn, p) \<in> set ps" for pn p
  proof -
    have pl: "\<forall>r \<in> set (refs_of (pl_receivers p)). \<not> list_ex regex_meta r"
        "\<forall>r \<in> set (refs_of (pl_processors p)). \<not> list_ex regex_meta r"
        "\<forall>r \<in> set (refs_of (pl_exporters p)). \<not> list_ex regex_meta r"
      using assms that Some by (fastforce simp: plain_refs_def refs_of_def)+
    note l = checks_pipeline_list [OF pl(1) encode_pipeline_fields(1)]
      checks_pipeline_list [OF pl(2) encode_pipeline_fields(2)]
      checks_pipeline_list [OF pl(3) encode_pipeline_fields(3)]
    show ?thesis
      using l(1) [of ?R rx src pn "''Receiver''"] l(2) [of ?P rx src pn "''Processor''"]
        l(3) [of ?X rx src pn "''Exporter''"]
      unfolding checks_def by (elim exE conjE) auto
  qed
  have "checks (\<forall>x \<in> set ps. ?ok (snd x)) (collectE (\<lambda>x. ?f (fst x, encode_pipeline (snd x))) ps)"
    using one by (intro checks_collect) auto
  moreover have "OTelPipelineValidator_validate rx src (encode_config c)
      = collectE (\<lambda>x. ?f (fst x, encode_pipeline (snd x))) ps"
    using Some
    by (simp add: OTelPipelineValidator_validate_def encode_config_fields collectE_map comp_def
        case_prod_beta del: map_append)
  moreover have "(\<forall>x \<in> set ps. ?ok (snd x)) = pipelines_ok c"
    unfolding pipelines_ok_def set_append set_keys_refs_of using Some by (simp add: refs_of_def)
  ultimately show ?thesis by simp
qed

lemma checks_extensions:
  assumes "plain_refs c"
  shows "checks (set (refs_of (oc_service_extensions c)) \<subseteq> names_of (oc_extensions c))
    (OTelExtensionsValidator_validate rx src (encode_config c))"
proof (cases "oc_service_extensions c")
  case None
  then show ?thesis
    by (simp add: OTelExtensionsValidator_validate_def encode_config_fields refs_of_def checks_def)
next
  case (Some xs)
  have "\<forall>r \<in> set xs. \<not> list_ex regex_meta r" using assms Some by (simp add: plain_refs_def refs_of_def)
  note checks_references [OF this, of "map fst (refs_of (oc_extensions c))" rx src extension_message "[''service'', ''extensions'']"]
  then show ?thesis
    using Some unfolding set_keys_refs_of
    by (simp add: OTelExtensionsValidator_validate_def encode_config_fields encode_list_def refs_of_def)
qed

lemma empty_validator_warns:
  "\<exists>ws. OTelEmptyPipelineValidator_validate rx src (encode_config c) = Inr ws
    \<and> (\<forall>e \<in> set ws. ve_severity e = SevWarning)"
proof -
  have get: "\<exists>v. get_prop (encode_pipeline p) k = Inr v" for p k
    by (simp add: encode_pipeline_def)
  have lk: "\<exists>b. lacks (encode_pipeline p) k = Inr b" for p k
  proof -
    obtain v where v: "get_prop (encode_pipeline p) k = Inr v" using get by blast
    then show ?thesis by (cases v) (auto simp: lacks_def)
  qed
  have ne: "\<exists>ws. check_nonempty rx src pn (encode_pipeline p) k what = Inr ws
      \<and> (\<forall>e \<in> set ws. ve_severity e = SevWarning)" for pn p k what
  proof -
    obtain b where b: "lacks (encode_pipeline p) k = Inr b" using lk by blast
    obtain e where e: "createValidationError rx (incomplete_message pn what)
        src [''service'', ''pipelines'', pn] JUndef SevWarning = Inr e"
      using quiet_createValidationError [of JUndef] unfolding quiet_def by blast
    then have "ve_severity e = SevWarning" by (simp add: createValidationError_in_text)
    then show ?thesis using b e by (cases b) (simp_all add: check_nonempty_def)
  qed
  let ?f = "\<lambda>(pn, p).
      bindE (check_nonempty rx src pn p ''receivers'' ''receiver'') (\<lambda>e1.
      bindE (check_nonempty rx src pn p ''exporters'' ''exporter'') (\<lambda>e2. Inr (e1 @ e2)))"
  have each: "\<exists>ws. ?f (pn, encode_pipeline p) = Inr ws \<and> (\<forall>e \<in> set ws. ve_severity e = SevWarning)" for pn p
    using ne [of pn p "''receivers''" "''receiver''"] ne [of pn p "''exporters''" "''exporter''"]
    by (elim exE conjE) auto
  have all: "\<exists>ws. collectE (\<lambda>x. ?f (fst x, encode_pipeline (snd x))) ps = Inr ws
      \<and> (\<forall>e \<in> set ws. ve_severity e = SevWarning)" for ps
  proof (induction ps)
    case (Cons q ps)
    obtain pn p where "q = (pn, p)" by (cases q)
    then show ?case using each [of pn p] Cons.IH by (elim exE conjE) auto
  qed simp
  show ?thesis
  proof (cases "oc_pipelines c")
    case None
    then show ?thesis by (simp add: OTelEmptyPipelineValidator_validate_def encode_config_fields)
  next
    case (Some ps)
    then show ?thesis using all [of ps]
      by (simp add: OTelEmptyPipelineValidator_validate_def encode_config_fields collectE_map comp_def
          case_prod_beta)
  qed
qed

lemma valid_errors_first:
  assumes "collect_errors vs c d = es @ ws" "\<forall>e \<in> set es. ve_severity e = SevError"
    "\<forall>e \<in> set ws. ve_severity e = SevWarning"
  shows "vr_valid (validateYamlConfig c d vs) \<longleftrightarrow> es = []"
proof (cases es)
  case Nil
  then show ?thesis using assms dedup_by_subset [of error_key "{}" ws]
    by (fastforce simp: validateYamlConfig_def Let_def filter_empty_conv)
next
  case (Cons e r)
  then show ?thesis using assms by (simp add: validateYamlConfig_def Let_def)
qed

lemma default_valid_iff:
  assumes "plain_refs c"
  shows "vr_valid (validateYamlConfig src (encode_config c) (defaultValidators rx)) \<longleftrightarrow> config_ok c"
proof -
  obtain e1 where e1: "OTelPipelineValidator_validate rx src (encode_config c) = Inr e1"
      "e1 = [] \<longleftrightarrow> pipelines_ok c" "\<forall>e \<in> set e1. ve_severity e = SevError"
    using checks_pipelines [OF assms] unfolding checks_def by blast
  obtain e2 where e2: "OTelExtensionsValidator_validate rx src (encode_config c) = Inr e2"
      "e2 = [] \<longleftrightarrow> set (refs_of (oc_service_extensions c)) \<subseteq> names_of (oc_extensions c)"
      "\<forall>e \<in> set e2. ve_severity e = SevError"
    using checks_extensions [OF assms] unfolding checks_def by blast
  obtain ws where ws: "OTelEmptyPipelineValidator_validate rx src (encode_config c) = Inr ws"
      "\<forall>e \<in> set ws. ve_severity e = SevWarning"
    using empty_validator_warns by blast
  have "collect_errors (defaultValidators rx) src (encode_config c) = (e1 @ e2) @ ws"
    by (simp add: collect_errors_def defaultValidators_def e1(1) e2(1) ws(1))
  from valid_errors_first [OF this] show ?thesis
    using e1 e2 ws(2) by (auto simp: config_ok_def pipelines_ok_def)
qed


lemma validateYamlConfig_in_text_witness:
  "ve_line (hd (vr_errors (validateYamlConfig ''a'' (JObj [(''service'', JObj [(''extensions'', JArr [JStr ''x''])])])
      (defaultValidators (\<lambda>_ _. Inl SyntaxError))))) \<le> 1"
proof -
  let ?d = "JObj [(''service'', JObj [(''extensions'', JArr [JStr ''x''])])]"
  let ?r = "validateYamlConfig ''a'' ?d (defaultValidators (\<lambda>_ _. Inl SyntaxError))"
  have "vr_errors ?r \<noteq> []"
    by (simp add: validateYamlConfig_def Let_def dedup_by_Nil collect_errors_def defaultValidators_def
        OTelExtensionsValidator_validate_def service_field_def defined_keys_def js_or_def js_keys_def
        check_references_def createValidationError_def findYamlPosition_def skipped_def key_match_def
        js_trim_def trim_start_def js_ws_def starts_with_def key_char_def indent_of_def)
  then have "hd (vr_errors ?r) \<in> set (vr_errors ?r)" by simp
  then have "ve_line (hd (vr_errors ?r)) \<le> length (split_on newline ''a'')"
    using validateYamlConfig_in_text [of "''a''" ?d "\<lambda>_ _. Inl SyntaxError"] by blast
  then show ?thesis by simp
qed


text \<open>the reported errors have pairwise different messages or positions, and each error that a
  validator produced is represented by the first one with its message and position.\<close>

theorem validateYamlConfig_dedup:
  "distinct (map error_key (vr_errors (validateYamlConfig c d vs)))
    \<and> error_key ` set (vr_errors (validateYamlConfig c d vs)) = error_key ` set (collect_errors vs c d)
    \<and> (\<forall>e \<in> set (vr_errors (validateYamlConfig c d vs)).
         \<exists>u v. collect_errors vs c d = u @ e # v \<and> error_key e \<notin> error_key ` set u)"
  unfolding validateYamlConfig_def Let_def ValidationResult.simps
proof (intro conjI ballI)
  fix e assume "e \<in> set (dedup_by error_key {} (collect_errors vs c d))"
  then show "\<exists>u v. collect_errors vs c d = u @ e # v \<and> error_key e \<notin> error_key ` set u"
    by (rule dedup_by_first)
qed (simp_all add: dedup_by_distinct dedup_by_keys)

lemma validateYamlConfig_dedup_witness:
  "length (vr_errors (validateYamlConfig ''a'' JNull [\<lparr>v_name = ''twice'', v_validate = (\<lambda>_ _.
     Inr [\<lparr>ve_message = ''m'', ve_severity = SevError, ve_line = 1, ve_column = 1, ve_endLine = None,
           ve_endColumn = None, ve_path = None\<rparr>,
          \<lparr>ve_message = ''m'', ve_severity = SevWarning, ve_line = 1, ve_column = 1, ve_endLine = None,
           ve_endColumn = None, ve_path = None\<rparr>])\<rparr>])) \<le> 1"
proof -
  let ?e = "\<lambda>sev. \<lparr>ve_message = ''m'', ve_severity = sev, ve_line = 1, ve_column = 1, ve_endLine = None,
      ve_endColumn = None, ve_path = None\<rparr>"
  let ?vs = "[\<lparr>v_name = ''twice'', v_validate = (\<lambda>_ _. Inr [?e SevError, ?e SevWarning])\<rparr>]"
  define r where "r = vr_errors (validateYamlConfig ''a'' JNull ?vs)"
  have "error_key ` set r = {error_key (?e SevError)}"
    using validateYamlConfig_dedup [of "''a''" JNull ?vs] by (simp add: r_def collect_errors_def error_key_def)
  then have "set (map error_key r) = {error_key (?e SevError)}" by simp
  moreover have "distinct (map error_key r)"
    using validateYamlConfig_dedup [of "''a''" JNull ?vs] unfolding r_def by blast
  ultimately have "length (map error_key r) = 1" using distinct_card [of "map error_key r"] by simp
  then show ?thesis unfolding r_def by simp
qed

lemma collect_errors_raising: "collect_errors (filter (\<lambda>v. \<not> isl (v_validate v c d)) vs) c d = collect_errors vs c d"
  by (induction vs) (auto simp: collect_errors_def split: sum.splits)

text \<open>C32: a validator that raises costs only its own errors.  The result is that of the validators that do not raise, and each error of one of
  them is reported, itself or by an earlier one with its message and position, wherever in the list another raises.\<close>

theorem validators_isolated:
  assumes "v \<in> set vs" and "v_validate v c d = Inr es" and "e \<in> set es"
  shows "(\<exists>e' \<in> set (vr_errors (validateYamlConfig c d vs)). error_key e' = error_key e)
    \<and> validateYamlConfig c d vs = validateYamlConfig c d (filter (\<lambda>v. \<not> isl (v_validate v c d)) vs)"
proof
  have "e \<in> set (collect_errors vs c d)" using assms by (force simp: collect_errors_def)
  then have "error_key e \<in> error_key ` set (dedup_by error_key {} (collect_errors vs c d))" by (simp add: dedup_by_keys)
  then show "\<exists>e' \<in> set (vr_errors (validateYamlConfig c d vs)). error_key e' = error_key e"
    by (auto simp: validateYamlConfig_def Let_def)
  show "validateYamlConfig c d vs = validateYamlConfig c d (filter (\<lambda>v. \<not> isl (v_validate v c d)) vs)"
    by (simp add: validateYamlConfig_def collect_errors_raising)
qed

lemma validators_isolated_witness:
  "map ve_message (vr_errors (validateYamlConfig ''a'' JNull [\<lparr>v_name = ''raises'', v_validate = (\<lambda>_ _. Inl TypeError)\<rparr>,
     \<lparr>v_name = ''finds'', v_validate = (\<lambda>_ _. Inr [\<lparr>ve_message = ''m'', ve_severity = SevError, ve_line = 1, ve_column = 1,
        ve_endLine = None, ve_endColumn = None, ve_path = None\<rparr>])\<rparr>])) = [''m'']"
proof -
  let ?e = "\<lparr>ve_message = ''m'', ve_severity = SevError, ve_line = 1, ve_column = 1, ve_endLine = None, ve_endColumn = None, ve_path = None\<rparr>"
  let ?f = "\<lparr>v_name = ''finds'', v_validate = (\<lambda>_ _. Inr [?e])\<rparr>"
  let ?r = "\<lparr>v_name = ''raises'', v_validate = (\<lambda>_ _. Inl TypeError)\<rparr>"
  have "validateYamlConfig ''a'' JNull [?r, ?f] = validateYamlConfig ''a'' JNull [?f]"
    using validators_isolated [of ?f "[?r, ?f]" "''a''" JNull "[?e]" ?e] by simp
  then show ?thesis by (simp add: validateYamlConfig_def collect_errors_def)
qed

lemma raising_entry:
  assumes "(k, v) \<in> set kvs" "f (k, v) = Inl e"
  shows "\<exists>e. collectE f kvs = Inl e"
proof (cases "collectE f kvs")
  case (Inr ys)
  then show ?thesis using collectE_Inr_each [OF Inr assms(1)] assms(2) by simp
qed simp

lemma nullish_raises: "nullish p \<Longrightarrow> get_prop p k = Inl TypeError"
  by (cases p) simp_all

text \<open>C33: one pipeline without a body makes both pipeline validators raise, so every undefined
  component of every pipeline goes unreported and only the extension errors remain.\<close>

theorem null_pipeline_hides_errors:
  assumes "service_field (JObj kvs) ''pipelines'' = Inr (JObj ps)" and "(pn, p) \<in> set ps" and "nullish p"
  shows "validateYamlConfig c (JObj kvs) (defaultValidators rx)
    = validateYamlConfig c (JObj kvs)
        [\<lparr>v_name = ''otel-extensions'', v_validate = OTelExtensionsValidator_validate rx\<rparr>]"
proof -
  have keys: "\<exists>ks. defined_keys (JObj kvs) k = Inr ks" for k by (simp add: defined_keys_def)
  obtain ks1 ks2 ks3 ks4 where ks: "defined_keys (JObj kvs) ''receivers'' = Inr ks1"
      "defined_keys (JObj kvs) ''processors'' = Inr ks2" "defined_keys (JObj kvs) ''exporters'' = Inr ks3"
      "defined_keys (JObj kvs) ''connectors'' = Inr ks4"
    using keys by metis
  note np = nullish_raises [OF assms(3)]
  have "\<exists>e. OTelPipelineValidator_validate rx c (JObj kvs) = Inl e"
    using assms(1)
    by (simp add: OTelPipelineValidator_validate_def ks)
      (rule raising_entry [OF assms(2)], simp add: check_pipeline_list_def np)
  moreover have "\<exists>e. OTelEmptyPipelineValidator_validate rx c (JObj kvs) = Inl e"
    using assms(1)
    by (simp add: OTelEmptyPipelineValidator_validate_def)
      (rule raising_entry [OF assms(2)], simp add: check_nonempty_def lacks_def np)
  ultimately have "collect_errors (defaultValidators rx) c (JObj kvs)
      = collect_errors [\<lparr>v_name = ''otel-extensions'', v_validate = OTelExtensionsValidator_validate rx\<rparr>]
          c (JObj kvs)"
    by (auto simp: collect_errors_def defaultValidators_def)
  then show ?thesis by (simp add: validateYamlConfig_def)
qed

lemma null_pipeline_hides_errors_witness:
  "vr_valid (validateYamlConfig ''x'' (JObj [(''service'', JObj [(''pipelines'',
      JObj [(''traces'', JObj [(''receivers'', JArr [JStr ''missing''])]), (''logs'', JNull)])])])
      (defaultValidators (\<lambda>_ _. Inl SyntaxError)))"
proof -
  let ?kvs = "[(''service'', JObj [(''pipelines'',
      JObj [(''traces'', JObj [(''receivers'', JArr [JStr ''missing''])]), (''logs'', JNull)])])]"
  have "service_field (JObj ?kvs) ''pipelines''
      = Inr (JObj [(''traces'', JObj [(''receivers'', JArr [JStr ''missing''])]), (''logs'', JNull)])"
    by (simp add: service_field_def)
  then have "validateYamlConfig ''x'' (JObj ?kvs) (defaultValidators (\<lambda>_ _. Inl SyntaxError))
    = validateYamlConfig ''x'' (JObj ?kvs)
        [\<lparr>v_name = ''otel-extensions'', v_validate = OTelExtensionsValidator_validate (\<lambda>_ _. Inl SyntaxError)\<rparr>]"
    by (rule null_pipeline_hides_errors [where pn = "''logs''" and p = JNull]) simp_all
  then show ?thesis
    by (simp add: validateYamlConfig_def collect_errors_def OTelExtensionsValidator_validate_def
        service_field_def)
qed

section \<open>The debounced hooks\<close>

text \<open>
  An effect that runs on every content change: it marks the hook as busy, clears the pending timer
  and starts one that performs the work for that content.  \<open>Fire\<close> is the timer's expiry.
\<close>

datatype debounce_event = Change string | Fire

record 's debounced =
  db_timer :: "string option"
  db_state :: 's

fun debounce_step :: "('s \<Rightarrow> 's) \<Rightarrow> (string \<Rightarrow> 's \<Rightarrow> 's) \<Rightarrow> debounce_event \<Rightarrow> 's debounced \<Rightarrow> 's debounced" where
  "debounce_step start perform (Change c) st = st\<lparr>db_timer := Some c, db_state := start (db_state st)\<rparr>"
| "debounce_step start perform Fire st =
     (case db_timer st of
        None \<Rightarrow> st
      | Some c \<Rightarrow> st\<lparr>db_timer := None, db_state := perform c (db_state st)\<rparr>)"

definition debounce_run ::
  "('s \<Rightarrow> 's) \<Rightarrow> (string \<Rightarrow> 's \<Rightarrow> 's) \<Rightarrow> debounce_event list \<Rightarrow> 's debounced \<Rightarrow> 's debounced" where
  "debounce_run start perform evs st = foldl (\<lambda>s ev. debounce_step start perform ev s) st evs"

text \<open>The last content that was set.\<close>

fun last_change :: "string option \<Rightarrow> debounce_event list \<Rightarrow> string option" where
  "last_change c [] = c"
| "last_change c (Change d # evs) = last_change (Some d) evs"
| "last_change c (Fire # evs) = last_change c evs"

text \<open>A hook whose result is a function of the content it was last run on.\<close>

locale debounced_hook =
  fixes start :: "'s \<Rightarrow> 's" and perform :: "string \<Rightarrow> 's \<Rightarrow> 's" and out :: "'s \<Rightarrow> 'r" and spec :: "string \<Rightarrow> 'r"
  assumes out_perform: "out (perform c s) = spec c"
    and out_start: "out (start s) = out s"

context debounced_hook
begin

definition consistent :: "string option \<Rightarrow> 's debounced \<Rightarrow> bool" where
  "consistent c st =
     (case db_timer st of
        Some d \<Rightarrow> c = Some d
      | None \<Rightarrow> (case c of None \<Rightarrow> True | Some d \<Rightarrow> out (db_state st) = spec d))"

lemma run_consistent:
  "consistent c st \<Longrightarrow> consistent (last_change c evs) (debounce_run start perform evs st)"
proof (induction evs arbitrary: c st)
  case (Cons ev evs)
  have "consistent (last_change c [ev]) (debounce_step start perform ev st)"
    using Cons.prems by (cases ev) (auto simp: consistent_def out_perform out_start split: option.splits)
  then have "consistent (last_change (last_change c [ev]) evs)
      (debounce_run start perform evs (debounce_step start perform ev st))"
    by (rule Cons.IH)
  then show ?case by (cases ev) (simp_all add: debounce_run_def)
qed (simp add: debounce_run_def)

lemma settled_result:
  assumes "db_timer (debounce_run start perform evs \<lparr>db_timer = None, db_state = s\<rparr>) = None"
    and "last_change None evs = Some c"
  shows "out (db_state (debounce_run start perform evs \<lparr>db_timer = None, db_state = s\<rparr>)) = spec c"
  using run_consistent [of None "\<lparr>db_timer = None, db_state = s\<rparr>" evs] assms
  by (simp add: consistent_def)

end

text \<open>hooks/useYamlValidation.ts; \<open>load\<close> gives the message of an exception that is an \<open>Error\<close>.\<close>

type_synonym yaml_load = "string \<Rightarrow> string option + jval"

record marker =
  mk_severity :: nat
  mk_startLineNumber :: nat
  mk_startColumn :: nat
  mk_endLineNumber :: nat
  mk_endColumn :: nat
  mk_message :: string

definition marker_of :: "ValidationError \<Rightarrow> marker" where
  "marker_of e =
     \<lparr>mk_severity = (if ve_severity e = SevError then 8 else 4),
      mk_startLineNumber = ve_line e,
      mk_startColumn = ve_column e,
      mk_endLineNumber = (case ve_endLine e of Some (Suc l) \<Rightarrow> Suc l | _ \<Rightarrow> ve_line e),
      mk_endColumn = (case ve_endColumn e of Some (Num (Suc k)) \<Rightarrow> Suc k | _ \<Rightarrow> ve_column e + 1),
      mk_message = ve_message e\<rparr>"

record yaml_validation =
  yv_result :: ValidationResult
  yv_isValidating :: bool
  yv_markers :: "marker list"

definition yaml_validation_init :: yaml_validation where
  "yaml_validation_init =
     \<lparr>yv_result = \<lparr>vr_valid = True, vr_errors = []\<rparr>, yv_isValidating = False, yv_markers = []\<rparr>"

definition parse_failure :: "string option \<Rightarrow> ValidationResult" where
  "parse_failure m =
     \<lparr>vr_valid = False,
      vr_errors = [\<lparr>ve_message = (case m of Some s \<Rightarrow> s | None \<Rightarrow> ''YAML parse error''),
                    ve_severity = SevError, ve_line = 1, ve_column = 1,
                    ve_endLine = None, ve_endColumn = None, ve_path = None\<rparr>]\<rparr>"

definition performValidation ::
  "yaml_load \<Rightarrow> Validator list \<Rightarrow> bool \<Rightarrow> string \<Rightarrow> yaml_validation \<Rightarrow> yaml_validation" where
  "performValidation load validators editor_ready content st =
     (if js_trim content = []
      then st\<lparr>yv_result := \<lparr>vr_valid = True, vr_errors = []\<rparr>, yv_isValidating := False\<rparr>
      else (case load content of
              Inr parsed \<Rightarrow>
                let r = validateYamlConfig content parsed validators in
                st\<lparr>yv_result := r, yv_isValidating := False,
                   yv_markers := (if editor_ready then map marker_of (vr_errors r) else yv_markers st)\<rparr>
            | Inl m \<Rightarrow> st\<lparr>yv_result := parse_failure m, yv_isValidating := False\<rparr>))"

definition validation_start :: "yaml_validation \<Rightarrow> yaml_validation" where
  "validation_start st = st\<lparr>yv_isValidating := True\<rparr>"

text \<open>What the hook promises for a content.\<close>

definition validation_of :: "yaml_load \<Rightarrow> Validator list \<Rightarrow> string \<Rightarrow> ValidationResult" where
  "validation_of load vs content =
     (if js_trim content = [] then \<lparr>vr_valid = True, vr_errors = []\<rparr>
      else (case load content of Inr d \<Rightarrow> validateYamlConfig content d vs | Inl m \<Rightarrow> parse_failure m))"

text \<open>hooks/useYamlParser.ts\<close>

record YamlParseResult =
  yp_valid :: bool
  yp_data :: jval
  yp_error :: "string option"

record yaml_parser =
  yp_result :: YamlParseResult
  yp_isParsing :: bool

definition yaml_parser_init :: yaml_parser where
  "yaml_parser_init = \<lparr>yp_result = \<lparr>yp_valid = True, yp_data = JNull, yp_error = None\<rparr>, yp_isParsing = False\<rparr>"

definition parse_of :: "yaml_load \<Rightarrow> string \<Rightarrow> YamlParseResult" where
  "parse_of load content =
     (if js_trim content = [] then \<lparr>yp_valid = True, yp_data = JNull, yp_error = None\<rparr>
      else (case load content of
              Inr d \<Rightarrow> \<lparr>yp_valid = True, yp_data = d, yp_error = None\<rparr>
            | Inl m \<Rightarrow> \<lparr>yp_valid = False, yp_data = JNull,
                        yp_error = Some (case m of Some s \<Rightarrow> s | None \<Rightarrow> ''Failed to parse YAML'')\<rparr>))"

text \<open>The early return for a blank content precedes the \<open>try\<close> whose \<open>finally\<close> clears the flag.\<close>

definition parseYaml :: "yaml_load \<Rightarrow> string \<Rightarrow> yaml_parser \<Rightarrow> yaml_parser" where
  "parseYaml load content st =
     (if js_trim content = []
      then st\<lparr>yp_result := \<lparr>yp_valid = True, yp_data = JNull, yp_error = None\<rparr>\<rparr>
      else st\<lparr>yp_result := (case load content of
                Inr parsed \<Rightarrow> \<lparr>yp_valid = True, yp_data = parsed, yp_error = None\<rparr>
              | Inl m \<Rightarrow> \<lparr>yp_valid = False, yp_data = JNull,
                          yp_error = Some (case m of Some s \<Rightarrow> s | None \<Rightarrow> ''Failed to parse YAML'')\<rparr>),
              yp_isParsing := False\<rparr>)"

definition parser_start :: "yaml_parser \<Rightarrow> yaml_parser" where
  "parser_start st = st\<lparr>yp_isParsing := True\<rparr>"

interpretation validation_hook:
  debounced_hook validation_start "performValidation load vs ready" yv_result "validation_of load vs"
  for load vs ready
  by unfold_locales
    (simp_all add: performValidation_def validation_of_def validation_start_def Let_def split: sum.splits)

interpretation parser_hook: debounced_hook parser_start "parseYaml load" yp_result "parse_of load" for load
  by unfold_locales (simp_all add: parseYaml_def parse_of_def parser_start_def)

lemma validation_flag:
  "yv_isValidating (db_state st) = (db_timer st \<noteq> None) \<Longrightarrow>
    yv_isValidating (db_state (debounce_run validation_start (performValidation load vs ready) evs st))
      = (db_timer (debounce_run validation_start (performValidation load vs ready) evs st) \<noteq> None)"
proof (induction evs arbitrary: st)
  case (Cons ev evs)
  have "yv_isValidating (db_state (debounce_step validation_start (performValidation load vs ready) ev st))
      = (db_timer (debounce_step validation_start (performValidation load vs ready) ev st) \<noteq> None)"
    using Cons.prems
    by (cases ev) (simp_all add: validation_start_def performValidation_def Let_def split: option.splits sum.splits)
  then show ?case using Cons.IH by (simp add: debounce_run_def)
qed (simp add: debounce_run_def)

text \<open>whatever the order of edits and timer expiries, once no timer is pending the hook shows the
  validation of the last content, and it claims to be validating exactly while a timer is pending.\<close>

theorem useYamlValidation_settles:
  fixes load :: yaml_load and vs ready evs
  defines "st \<equiv> debounce_run validation_start (performValidation load vs ready) evs
                  \<lparr>db_timer = None, db_state = yaml_validation_init\<rparr>"
  assumes "last_change None evs = Some c"
  shows "yv_isValidating (db_state st) = (db_timer st \<noteq> None)
    \<and> (db_timer st = None \<longrightarrow> yv_result (db_state st) = validation_of load vs c)"
proof
  show "yv_isValidating (db_state st) = (db_timer st \<noteq> None)"
    unfolding st_def by (rule validation_flag) (simp add: yaml_validation_init_def)
  show "db_timer st = None \<longrightarrow> yv_result (db_state st) = validation_of load vs c"
    using validation_hook.settled_result assms(2) unfolding st_def by blast
qed

lemma useYamlValidation_settles_witness:
  "yv_result (db_state (debounce_run validation_start (performValidation (\<lambda>_. Inl None) [] True)
      [Change ''a'', Change ''b'', Fire] \<lparr>db_timer = None, db_state = yaml_validation_init\<rparr>))
    = parse_failure None"
  using useYamlValidation_settles [of "[Change ''a'', Change ''b'', Fire]" "''b''" "\<lambda>_. Inl None" "[]" True]
  by (simp add: debounce_run_def validation_of_def js_trim_Nil_iff js_ws_def)

lemma parser_flag:
  "yp_isParsing (db_state st) = (db_timer st \<noteq> None \<or> (\<exists>d. c = Some d \<and> js_trim d = [])) \<Longrightarrow>
   (case db_timer st of None \<Rightarrow> True | Some d \<Rightarrow> c = Some d) \<Longrightarrow>
    yp_isParsing (db_state (debounce_run parser_start (parseYaml load) evs st))
      = (db_timer (debounce_run parser_start (parseYaml load) evs st) \<noteq> None
         \<or> (\<exists>d. last_change c evs = Some d \<and> js_trim d = []))"
proof (induction evs arbitrary: c st)
  case (Cons ev evs)
  show ?case
  proof (cases ev)
    case (Change d)
    then show ?thesis using Cons.IH [of "debounce_step parser_start (parseYaml load) ev st" "Some d"]
      by (simp add: debounce_run_def parser_start_def)
  next
    case Fire
    then show ?thesis
      using Cons.IH [of "debounce_step parser_start (parseYaml load) ev st" c] Cons.prems
      by (cases "db_timer st") (auto simp: debounce_run_def parseYaml_def)
  qed
qed (auto simp: debounce_run_def)

text \<open>once no timer is pending, the parser hook shows the parse of the last content, but it goes on
  claiming to be parsing exactly if that content is blank.\<close>

theorem useYamlParser_blank_stays_busy:
  fixes load :: yaml_load and evs
  defines "st \<equiv> debounce_run parser_start (parseYaml load) evs
                  \<lparr>db_timer = None, db_state = yaml_parser_init\<rparr>"
  assumes "last_change None evs = Some c" and "db_timer st = None"
  shows "yp_result (db_state st) = parse_of load c \<and> yp_isParsing (db_state st) = (js_trim c = [])"
proof
  show "yp_result (db_state st) = parse_of load c"
    using parser_hook.settled_result assms(2,3) unfolding st_def by blast
  have "yp_isParsing (db_state st) = (db_timer st \<noteq> None \<or> (\<exists>d. last_change None evs = Some d \<and> js_trim d = []))"
    unfolding st_def by (rule parser_flag) (simp_all add: yaml_parser_init_def)
  then show "yp_isParsing (db_state st) = (js_trim c = [])" using assms(2,3) by simp
qed

lemma useYamlParser_blank_stays_busy_witness:
  "yp_isParsing (db_state (debounce_run parser_start (parseYaml (\<lambda>_. Inl None))
      [Change ''a'', Fire, Change '' '', Fire] \<lparr>db_timer = None, db_state = yaml_parser_init\<rparr>))"
  using useYamlParser_blank_stays_busy [of "[Change ''a'', Fire, Change '' '', Fire]" "'' ''" "\<lambda>_. Inl None"]
  by (simp add: debounce_run_def js_trim_Nil_iff js_ws_def)

end
