(* ===== verification/Pipeline_Graph.thy ===== *)
theory Pipeline_Graph
  imports Validation
begin

text \<open>
  The pipeline canvas: \<open>generatePipelineNodes\<close> (components/collector-pipeline/PipelineGenerator.tsx),
  the colours of its sections (canvas-constants.ts, nodes/SectionNode.tsx) and the view's effect
  (CollectorPipelineView.tsx).  Coordinates are integers: every height is a multiple of 20, so the
  halvings of the code are exact.  Metric counts are integers, absent optional counts \<open>None\<close>.
\<close>

section \<open>Metrics\<close>

record ComponentMetrics =
  cm_component_type :: string
  cm_component_name :: string
  cm_pipeline_type :: string
  cm_errors :: int
  cm_received :: "int option"
  cm_accepted :: "int option"
  cm_sent :: "int option"

text \<open>\<open>x || d\<close> for an optional number.\<close>

definition num_or :: "int option \<Rightarrow> int \<Rightarrow> int" where
  "num_or x d = (case x of None \<Rightarrow> d | Some n \<Rightarrow> if n = 0 then d else n)"

definition js_eq_str :: "string \<Rightarrow> jval \<Rightarrow> bool" where
  "js_eq_str s v = (v = JStr s)"

definition findComponentMetrics ::
  "ComponentMetrics list \<Rightarrow> string \<Rightarrow> jval \<Rightarrow> string \<Rightarrow> ComponentMetrics option" where
  "findComponentMetrics metrics componentType componentName pipelineType =
     find (\<lambda>m. cm_component_type m = componentType \<and> js_eq_str (cm_component_name m) componentName
               \<and> cm_pipeline_type m = pipelineType) metrics"

section \<open>Nodes and edges\<close>

datatype node_metrics =
    Received int
  | Processed int
  | Exported int

datatype node_data =
    Message string
  | SectionData string string int int "(int \<times> int) option"
  | ComponentData jval string "node_metrics option"

record flow_node =
  fn_id :: string
  fn_type :: string
  fn_x :: int
  fn_y :: int
  fn_data :: node_data

record flow_edge =
  fe_id :: string
  fe_source :: string
  fe_target :: string

record flow_graph =
  fg_nodes :: "flow_node list"
  fg_edges :: "flow_edge list"

definition message_graph :: "string \<Rightarrow> string \<Rightarrow> flow_graph" where
  "message_graph ident label =
     \<lparr>fg_nodes = [\<lparr>fn_id = ident, fn_type = ''default'', fn_x = 300, fn_y = 200, fn_data = Message label\<rparr>],
      fg_edges = []\<rparr>"

section \<open>The dimensions of a pipeline\<close>

definition stack_height :: "nat \<Rightarrow> int" where
  "stack_height n = (if 0 < n then 100 + (int n - 1) * 120 else 0)"

definition section_height :: "nat \<Rightarrow> nat \<Rightarrow> int" where
  "section_height receiverCount exporterCount =
     max 320 (max (max (stack_height receiverCount) (stack_height exporterCount)) 100 + 160)"

definition section_width :: "nat \<Rightarrow> int" where
  "section_width processorCount =
     max 850 (850 + (if 1 < processorCount then (int processorCount - 1) * 220 else 0))"

definition stack_start :: "int \<Rightarrow> nat \<Rightarrow> int" where
  "stack_start centerY n = centerY - ((int n - 1) * 120) div 2 - 30"

definition exporter_x :: "nat \<Rightarrow> int" where
  "exporter_x processorCount =
     (if 0 < processorCount then 350 + (int processorCount - 1) * 220 + 250 else 600)"

definition display_name :: "string \<Rightarrow> string" where
  "display_name pipelineName =
     (if pipelineName = ''traces'' \<or> pipelineName = ''metrics'' \<or> pipelineName = ''logs''
      then to_upper pipelineName
      else to_upper (to_lower pipelineName) @ '' ('' @ pipelineName @ '')'')"

section \<open>One pipeline\<close>

text \<open>\<open>`${kind}-${pipelineType}-${name}`\<close>\<close>

definition node_id :: "string \<Rightarrow> string \<Rightarrow> jval \<Rightarrow> string" where
  "node_id kind pipelineType name = kind @ ''-'' @ pipelineType @ ''-'' @ to_str name"

definition edge_between :: "string \<Rightarrow> string \<Rightarrow> jval \<Rightarrow> string \<Rightarrow> jval \<Rightarrow> flow_edge" where
  "edge_between pipelineType kind1 a kind2 b =
     \<lparr>fe_id = ''edge-'' @ pipelineType @ ''-'' @ to_str a @ ''-to-'' @ to_str b,
      fe_source = node_id kind1 pipelineType a, fe_target = node_id kind2 pipelineType b\<rparr>"

definition section_node :: "ComponentMetrics list \<Rightarrow> string \<Rightarrow> int \<Rightarrow> nat \<Rightarrow> int \<Rightarrow> flow_node" where
  "section_node metrics pipelineName yOffset processorCount sectionHeight =
     (let pipelineType = to_lower pipelineName;
          pipelineMetrics = filter (\<lambda>m. cm_pipeline_type m = pipelineType) metrics;
          totalReceived = sum_list (map (\<lambda>m. num_or (cm_received m) 0) pipelineMetrics);
          totalErrors = sum_list (map cm_errors pipelineMetrics) in
      \<lparr>fn_id = ''section-'' @ pipelineName, fn_type = ''section'', fn_x = 50, fn_y = yOffset,
       fn_data = SectionData pipelineType (display_name pipelineName) (section_width processorCount)
         sectionHeight (if pipelineMetrics \<noteq> [] then Some (totalReceived, totalErrors) else None)\<rparr>)"

text \<open>The nodes of a list of components; \<open>at index\<close> is their position.\<close>

definition component_nodes ::
  "string \<Rightarrow> string \<Rightarrow> (jval \<Rightarrow> node_metrics option) \<Rightarrow> (nat \<Rightarrow> int \<times> int) \<Rightarrow> jval list \<Rightarrow> flow_node list" where
  "component_nodes kind pipelineType met at names =
     map (\<lambda>(i, name).
       \<lparr>fn_id = node_id kind pipelineType name, fn_type = kind, fn_x = fst (at i), fn_y = snd (at i),
        fn_data = ComponentData name pipelineType (met name)\<rparr>) (zip [0..<length names] names)"

fun chain_edges :: "string \<Rightarrow> jval list \<Rightarrow> flow_edge list" where
  "chain_edges pipelineType (a # b # r) =
     (if truthy a \<and> truthy b then [edge_between pipelineType ''processor'' a ''processor'' b] else [])
     @ chain_edges pipelineType (b # r)"
| "chain_edges pipelineType _ = []"

definition pipeline_edges :: "string \<Rightarrow> jval list \<Rightarrow> jval list \<Rightarrow> jval list \<Rightarrow> flow_edge list" where
  "pipeline_edges pipelineType receivers processors exporters =
     (if processors \<noteq> [] then
        map (\<lambda>r. edge_between pipelineType ''receiver'' r ''processor'' (hd processors)) receivers
        @ chain_edges pipelineType processors
        @ map (\<lambda>e. edge_between pipelineType ''processor'' (last processors) ''exporter'' e) exporters
      else concat (map (\<lambda>r. map (\<lambda>e. edge_between pipelineType ''receiver'' r ''exporter'' e) exporters)
                    receivers))"

definition pipeline_nodes ::
  "ComponentMetrics list \<Rightarrow> int \<Rightarrow> string \<Rightarrow> jval list \<Rightarrow> jval list \<Rightarrow> jval list \<Rightarrow> flow_node list" where
  "pipeline_nodes metrics yOffset pipelineName receivers processors exporters =
     (let pipelineType = to_lower pipelineName;
          sectionHeight = section_height (length receivers) (length exporters);
          centerY = yOffset + sectionHeight div 2 in
      section_node metrics pipelineName yOffset (length processors) sectionHeight
      # component_nodes ''receiver'' pipelineType
          (\<lambda>r. map_option (\<lambda>m. Received (num_or (cm_received m) (num_or (cm_accepted m) 0)))
                 (findComponentMetrics metrics ''receiver'' r pipelineType))
          (\<lambda>i. (100, stack_start centerY (length receivers) + int i * 120)) receivers
      @ component_nodes ''processor'' pipelineType
          (\<lambda>p. map_option (\<lambda>m. Processed (num_or (cm_accepted m) (num_or (cm_received m) 0)))
                 (findComponentMetrics metrics ''processor'' p pipelineType))
          (\<lambda>i. (350 + int i * 220, centerY - 30)) processors
      @ component_nodes ''exporter'' pipelineType
          (\<lambda>e. map_option (\<lambda>m. Exported (num_or (cm_sent m) 0))
                 (findComponentMetrics metrics ''exporter'' e pipelineType))
          (\<lambda>i. (exporter_x (length processors), stack_start centerY (length exporters) + int i * 120))
          exporters)"

text \<open>\<open>pipelineConfig?.k || []\<close>, on which \<open>forEach\<close> is called.\<close>

definition component_list :: "jval \<Rightarrow> string \<Rightarrow> js_error + jval list" where
  "component_list pipelineConfig k =
     bindE (opt_prop pipelineConfig k) (\<lambda>v.
       case js_or v (JArr []) of JArr xs \<Rightarrow> Inr xs | _ \<Rightarrow> Inl TypeError)"

fun layout_pipelines ::
  "ComponentMetrics list \<Rightarrow> int \<Rightarrow> (string \<times> jval) list \<Rightarrow> js_error + flow_graph" where
  "layout_pipelines metrics yOffset [] = Inr \<lparr>fg_nodes = [], fg_edges = []\<rparr>"
| "layout_pipelines metrics yOffset ((pipelineName, pipelineConfig) # rest) =
     bindE (component_list pipelineConfig ''receivers'') (\<lambda>receivers.
     bindE (component_list pipelineConfig ''processors'') (\<lambda>processors.
     bindE (component_list pipelineConfig ''exporters'') (\<lambda>exporters.
     bindE (layout_pipelines metrics
              (yOffset + section_height (length receivers) (length exporters) + 40) rest) (\<lambda>g.
       Inr \<lparr>fg_nodes = pipeline_nodes metrics yOffset pipelineName receivers processors exporters @ fg_nodes g,
            fg_edges = pipeline_edges (to_lower pipelineName) receivers processors exporters @ fg_edges g\<rparr>))))"

definition generatePipelineNodes ::
  "yaml_load \<Rightarrow> string \<Rightarrow> ComponentMetrics list \<Rightarrow> js_error + flow_graph" where
  "generatePipelineNodes load effectiveConfig metrics =
     (if effectiveConfig = [] then Inr (message_graph ''no-config'' ''No configuration available'')
      else (case load effectiveConfig of
              Inl m \<Rightarrow>
                Inr (message_graph ''parse-error''
                  (''YAML Parse Error: '' @ (case m of Some s \<Rightarrow> s | None \<Rightarrow> ''Error parsing configuration'')))
            | Inr parsedConfig \<Rightarrow>
                bindE (get_prop parsedConfig ''service'') (\<lambda>service.
                bindE (if truthy service then get_prop service ''pipelines'' else Inr JUndef) (\<lambda>pipelines.
                  if \<not> truthy service \<or> \<not> truthy pipelines
                  then Inr (message_graph ''no-service'' ''No service configuration found'')
                  else if js_keys pipelines = []
                  then Inr (message_graph ''no-pipelines'' ''No pipelines configured'')
                  else layout_pipelines metrics 0 (js_entries pipelines)))))"

section \<open>Colours and the view\<close>

text \<open>The names of the entries of \<open>COLOR_SCHEME\<close> with their colour and label.\<close>

definition COLOR_SCHEME :: "(string \<times> string \<times> string) list" where
  "COLOR_SCHEME =
     [(''traces'', ''blue'', ''Traces''), (''metrics'', ''green'', ''Metrics''),
      (''logs'', ''purple'', ''Logs''), (''connectors'', ''amber'', ''Connectors''),
      (''exporters'', ''purple'', ''Exporters''), (''processors'', ''green'', ''Processors''),
      (''receivers'', ''blue'', ''Receivers'')]"

definition color_scheme_for :: "string \<Rightarrow> string \<times> string" where
  "color_scheme_for ty =
     (case map_of COLOR_SCHEME ty of Some s \<Rightarrow> s | None \<Rightarrow> (''blue'', ''Traces''))"

datatype section_colors = BlueSection | GreenSection | PurpleSection | GraySection

definition section_colors_for :: "string \<Rightarrow> section_colors" where
  "section_colors_for ty =
     (let baseColor = fst (color_scheme_for ty) in
      if baseColor = ''blue'' then BlueSection
      else if baseColor = ''green'' then GreenSection
      else if baseColor = ''purple'' then PurpleSection
      else GraySection)"

definition section_badge :: "string \<Rightarrow> string option \<Rightarrow> string" where
  "section_badge ty label =
     (case label of Some (c # cs) \<Rightarrow> c # cs | _ \<Rightarrow> snd (color_scheme_for ty))"

record pipeline_view =
  pv_agentId :: "string option"
  pv_propConfig :: "string option"
  pv_previewMode :: bool
  pv_metricsData :: "ComponentMetrics list option"
  pv_configs :: "string list option"
  pv_configLoading :: bool
  pv_configError :: bool

definition nonempty :: "string option \<Rightarrow> bool" where
  "nonempty x = (case x of Some (c # cs) \<Rightarrow> True | _ \<Rightarrow> False)"

definition metrics_swr_key :: "pipeline_view \<Rightarrow> string option" where
  "metrics_swr_key v =
     (if \<not> pv_previewMode v \<and> nonempty (pv_agentId v)
      then Some (''agent-component-metrics-pipeline-'' @ the (pv_agentId v)) else None)"

definition config_swr_key :: "pipeline_view \<Rightarrow> string option" where
  "config_swr_key v =
     (if \<not> pv_previewMode v \<and> \<not> nonempty (pv_propConfig v) \<and> nonempty (pv_agentId v)
      then Some (''agent-config-pipeline-'' @ the (pv_agentId v)) else None)"

definition effective_config :: "pipeline_view \<Rightarrow> string option" where
  "effective_config v =
     (if nonempty (pv_propConfig v) then pv_propConfig v
      else (case pv_configs v of Some (c # cs) \<Rightarrow> Some c | _ \<Rightarrow> None))"

text \<open>The effect that sets the nodes and edges; an exception leaves it through \<open>Inl\<close>.\<close>

definition pipeline_effect :: "yaml_load \<Rightarrow> pipeline_view \<Rightarrow> js_error + flow_graph" where
  "pipeline_effect load v =
     (if \<not> nonempty (effective_config v) then Inr \<lparr>fg_nodes = [], fg_edges = []\<rparr>
      else generatePipelineNodes load (the (effective_config v))
             (if pv_previewMode v then [] else (case pv_metricsData v of None \<Rightarrow> [] | Some ms \<Rightarrow> ms)))"

datatype pipeline_screen = LoadingPipeline | PipelineError string | EmptyPipeline | PipelineCanvas flow_graph

definition pipeline_screen :: "pipeline_view \<Rightarrow> flow_graph \<Rightarrow> pipeline_screen" where
  "pipeline_screen v g =
     (if \<not> pv_previewMode v \<and> \<not> nonempty (pv_propConfig v) \<and> pv_configLoading v then LoadingPipeline
      else if \<not> pv_previewMode v \<and> pv_configError v then PipelineError ''Failed to fetch agent configuration''
      else if fg_nodes g = [] then EmptyPipeline
      else PipelineCanvas g)"

section \<open>Edges connect existing nodes\<close>

lemma component_node_ids:
  "fn_id ` set (component_nodes kind pt met at names) = node_id kind pt ` set names"
proof -
  have "map fn_id (component_nodes kind pt met at names) = map (node_id kind pt) names"
    by (rule nth_equalityI) (simp_all add: component_nodes_def)
  then show ?thesis by (metis set_map)
qed

definition closed_graph :: "flow_graph \<Rightarrow> bool" where
  "closed_graph g =
     (\<forall>e \<in> set (fg_edges g). fe_source e \<in> fn_id ` set (fg_nodes g) \<and> fe_target e \<in> fn_id ` set (fg_nodes g))"

lemma pipeline_node_ids:
  "fn_id ` set (pipeline_nodes m y pn rs ps es) =
     insert (''section-'' @ pn) (node_id ''receiver'' (to_lower pn) ` set rs
       \<union> node_id ''processor'' (to_lower pn) ` set ps \<union> node_id ''exporter'' (to_lower pn) ` set es)"
  by (auto simp: pipeline_nodes_def Let_def image_Un component_node_ids section_node_def)

lemma chain_edges_ends:
  "e \<in> set (chain_edges pt ps) \<Longrightarrow>
     fe_source e \<in> node_id ''processor'' pt ` set ps \<and> fe_target e \<in> node_id ''processor'' pt ` set ps"
  by (induction pt ps rule: chain_edges.induct) (auto simp: edge_between_def split: if_splits)

lemma pipeline_edges_closed:
  "e \<in> set (pipeline_edges (to_lower pn) rs ps es) \<Longrightarrow>
     fe_source e \<in> fn_id ` set (pipeline_nodes m y pn rs ps es)
     \<and> fe_target e \<in> fn_id ` set (pipeline_nodes m y pn rs ps es)"
  unfolding pipeline_node_ids pipeline_edges_def
  by (auto simp: edge_between_def split: if_splits dest: chain_edges_ends)

lemma layout_Cons:
  assumes "layout_pipelines m y ((pn, pc) # rest) = Inr g"
  obtains rs ps es h where
    "component_list pc ''receivers'' = Inr rs" "component_list pc ''processors'' = Inr ps"
    "component_list pc ''exporters'' = Inr es"
    "layout_pipelines m (y + section_height (length rs) (length es) + 40) rest = Inr h"
    "fg_nodes g = pipeline_nodes m y pn rs ps es @ fg_nodes h"
    "fg_edges g = pipeline_edges (to_lower pn) rs ps es @ fg_edges h"
  using assms by (auto simp: bindE_Inr_iff)

lemma layout_closed: "layout_pipelines m y ps = Inr g \<Longrightarrow> closed_graph g"
proof (induction ps arbitrary: y g)
  case Nil
  then show ?case by (auto simp: closed_graph_def)
next
  case (Cons p rest)
  obtain pn pc where p: "p = (pn, pc)" by (cases p)
  from Cons.prems [unfolded p] obtain rs qs es h where
    h: "layout_pipelines m (y + section_height (length rs) (length es) + 40) rest = Inr h"
    and g: "fg_nodes g = pipeline_nodes m y pn rs qs es @ fg_nodes h"
      "fg_edges g = pipeline_edges (to_lower pn) rs qs es @ fg_edges h"
    by (rule layout_Cons)
  have "closed_graph h" using Cons.IH h by blast
  then show ?case using pipeline_edges_closed unfolding closed_graph_def g by fastforce
qed

text \<open>Every graph of the generator is a message or a layout.\<close>

lemma generate_cases:
  assumes "generatePipelineNodes load cfg m = Inr g"
  obtains ident label where "g = message_graph ident label"
  | ps where "layout_pipelines m 0 ps = Inr g"
  using assms
  by (auto simp: generatePipelineNodes_def bindE_Inr_iff split: if_splits sum.splits)

text \<open>C14: every edge that the canvas is given starts and ends at one of the nodes it is given.\<close>

theorem generatePipelineNodes_closed:
  assumes "generatePipelineNodes load cfg m = Inr g"
  shows "\<forall>e \<in> set (fg_edges g). fe_source e \<in> fn_id ` set (fg_nodes g) \<and> fe_target e \<in> fn_id ` set (fg_nodes g)"
  using assms
proof (cases rule: generate_cases)
  case 1
  then show ?thesis by (simp add: message_graph_def)
next
  case 2
  then show ?thesis using layout_closed unfolding closed_graph_def by blast
qed

text \<open>A configuration with one pipeline from one receiver to one exporter.\<close>

definition demo_config :: jval where
  "demo_config = JObj [(''service'', JObj [(''pipelines'', JObj [(''traces'',
      JObj [(''receivers'', JArr [JStr ''otlp'']), (''exporters'', JArr [JStr ''debug''])])])])]"

definition demo_graph :: flow_graph where
  "demo_graph = \<lparr>fg_nodes = pipeline_nodes [] 0 ''traces'' [JStr ''otlp''] [] [JStr ''debug''],
        fg_edges = pipeline_edges (to_lower ''traces'') [JStr ''otlp''] [] [JStr ''debug'']\<rparr>"

lemma demo_generate: "generatePipelineNodes (\<lambda>_. Inr demo_config) ''x'' [] = Inr demo_graph"
  by (simp add: generatePipelineNodes_def js_keys_def component_list_def js_or_def demo_config_def demo_graph_def)

lemma generatePipelineNodes_closed_witness:
  "''receiver-traces-otlp'' \<in> fn_id ` set (fg_nodes demo_graph)"
proof -
  have "edge_between ''traces'' ''receiver'' (JStr ''otlp'') ''exporter'' (JStr ''debug'') \<in> set (fg_edges demo_graph)"
    by (simp add: demo_graph_def pipeline_edges_def to_lower_def lower_char_def)
  then have "fe_source (edge_between ''traces'' ''receiver'' (JStr ''otlp'') ''exporter'' (JStr ''debug''))
      \<in> fn_id ` set (fg_nodes demo_graph)"
    using generatePipelineNodes_closed [OF demo_generate] by blast
  then show ?thesis by (simp add: edge_between_def node_id_def)
qed

section \<open>Geometry\<close>

text \<open>The rendered size of a component node is at most 192 by 100.\<close>

definition section_size :: "flow_node \<Rightarrow> (int \<times> int) option" where
  "section_size n = (case fn_data n of SectionData _ _ w h _ \<Rightarrow> Some (w, h) | _ \<Rightarrow> None)"

definition inside :: "flow_node \<Rightarrow> flow_node \<Rightarrow> bool" where
  "inside s n =
     (case section_size s of
        None \<Rightarrow> False
      | Some (w, h) \<Rightarrow> fn_x s \<le> fn_x n \<and> fn_x n + 192 \<le> fn_x s + w
                      \<and> fn_y s \<le> fn_y n \<and> fn_y n + 100 \<le> fn_y s + h)"

definition below :: "flow_node \<Rightarrow> flow_node \<Rightarrow> bool" where
  "below a b = (case section_size a of None \<Rightarrow> False | Some (w, h) \<Rightarrow> fn_y a + h + 40 \<le> fn_y b)"

definition sections :: "flow_node list \<Rightarrow> flow_node list" where
  "sections ns = filter (\<lambda>n. section_size n \<noteq> None) ns"

lemma section_height_even: "\<exists>k. section_height r e = 2 * k \<and> 160 \<le> k \<and> stack_height r + 160 \<le> 2 * k
    \<and> stack_height e + 160 \<le> 2 * k"
proof -
  have "even (section_height r e)" by (auto simp: section_height_def stack_height_def max_def)
  then obtain k where "section_height r e = 2 * k" by (auto elim: evenE)
  then show ?thesis by (intro exI [of _ k]) (auto simp: section_height_def)
qed

lemma stacked_inside:
  assumes "i < n" "stack_height n + 160 \<le> 2 * k"
  shows "y \<le> stack_start (y + k) n + int i * 120 \<and> stack_start (y + k) n + int i * 120 + 100 \<le> y + 2 * k"
proof -
  have "((int n - 1) * 120) div 2 = (int n - 1) * 60" by simp
  then show ?thesis using assms by (auto simp: stack_start_def stack_height_def)
qed

lemma component_nodes_elem:
  "n \<in> set (component_nodes kind pt met at names) \<Longrightarrow>
    \<exists>i < length names. fn_x n = fst (at i) \<and> fn_y n = snd (at i)
      \<and> fn_data n = ComponentData (names ! i) pt (met (names ! i))"
  by (auto simp: component_nodes_def set_zip)

lemma pipeline_inside:
  assumes "n \<in> set (pipeline_nodes m y pn rs ps es)" "section_size n = None"
  shows "inside (section_node m pn y (length ps) (section_height (length rs) (length es))) n"
proof -
  let ?s = "section_node m pn y (length ps) (section_height (length rs) (length es))"
  obtain k where k: "section_height (length rs) (length es) = 2 * k" "160 \<le> k"
      "stack_height (length rs) + 160 \<le> 2 * k" "stack_height (length es) + 160 \<le> 2 * k"
    using section_height_even by blast
  have sz: "section_size ?s = Some (section_width (length ps), 2 * k)" "fn_x ?s = 50" "fn_y ?s = y"
    by (simp_all add: section_size_def section_node_def Let_def k)
  have w: "850 \<le> section_width (length ps)"
      "0 < length ps \<Longrightarrow> section_width (length ps) = 850 + (int (length ps) - 1) * 220"
    by (auto simp: section_width_def not_less le_Suc_eq)
  have "n \<noteq> ?s" using assms(2) sz(1) by auto
  then consider i where "i < length rs" "fn_x n = 100" "fn_y n = stack_start (y + k) (length rs) + int i * 120"
    | i where "i < length ps" "fn_x n = 350 + int i * 220" "fn_y n = y + k - 30"
    | i where "i < length es" "fn_x n = exporter_x (length ps)"
        "fn_y n = stack_start (y + k) (length es) + int i * 120"
    using assms(1) by (auto simp: pipeline_nodes_def Let_def k(1) dest!: component_nodes_elem)
  then show ?thesis
  proof cases
    case 1
    then show ?thesis using stacked_inside [OF 1(1) k(3), of y] w by (simp add: inside_def sz)
  next
    case 2
    then have "0 < length ps" by linarith
    note width = w(2) [OF this]
    have "int i + 1 \<le> int (length ps)" using 2(1) by simp
    then show ?thesis using 2(2,3) width k(2) by (simp add: inside_def sz)
  next
    case 3
    then show ?thesis using stacked_inside [OF 3(1) k(4), of y] w by (auto simp: inside_def sz exporter_x_def)
  qed
qed

lemma sections_pipeline:
  "sections (pipeline_nodes m y pn rs ps es)
     = [section_node m pn y (length ps) (section_height (length rs) (length es))]"
proof -
  have "sections (component_nodes kind pt met at names) = []" for kind pt met at names
    by (auto simp: sections_def filter_empty_conv section_size_def dest!: component_nodes_elem)
  then show ?thesis
    by (simp add: pipeline_nodes_def Let_def sections_def section_size_def section_node_def)
qed

lemma layout_geometry:
  "layout_pipelines m y ps = Inr g \<Longrightarrow>
    (\<forall>n \<in> set (fg_nodes g). section_size n = None \<longrightarrow> (\<exists>s \<in> set (sections (fg_nodes g)). inside s n))
    \<and> sorted_wrt below (sections (fg_nodes g)) \<and> (\<forall>s \<in> set (sections (fg_nodes g)). y \<le> fn_y s)"
proof (induction ps arbitrary: y g)
  case (Cons p rest)
  obtain pn pc where p: "p = (pn, pc)" by (cases p)
  from Cons.prems [unfolded p] obtain rs qs es h where
    h: "layout_pipelines m (y + section_height (length rs) (length es) + 40) rest = Inr h"
    and g: "fg_nodes g = pipeline_nodes m y pn rs qs es @ fg_nodes h"
    by (rule layout_Cons)
  let ?s = "section_node m pn y (length qs) (section_height (length rs) (length es))"
  have s: "sections (fg_nodes g) = ?s # sections (fg_nodes h)"
    using sections_pipeline [of m y pn rs qs es] by (simp add: g sections_def)
  note IH = Cons.IH [OF h]
  have sz: "section_size ?s = Some (section_width (length qs), section_height (length rs) (length es))"
      "fn_y ?s = y"
    by (simp_all add: section_size_def section_node_def Let_def)
  have pos: "0 \<le> section_height (length rs) (length es)" by (simp add: section_height_def)
  have "\<forall>b \<in> set (sections (fg_nodes h)). below ?s b" using IH by (simp add: below_def sz)
  moreover have "\<forall>b \<in> set (sections (fg_nodes h)). y \<le> fn_y b" using IH pos by fastforce
  moreover have "\<exists>s \<in> set (sections (fg_nodes g)). inside s n"
    if "n \<in> set (fg_nodes g)" "section_size n = None" for n
    using that pipeline_inside IH unfolding s unfolding g by auto
  ultimately show ?case using IH sz by (simp add: s)
qed (simp add: sections_def)



section \<open>Node identifiers\<close>

lemma dash_split: "CHR ''-'' \<notin> set a \<Longrightarrow> CHR ''-'' \<notin> set b \<Longrightarrow>
    a @ CHR ''-'' # x = b @ CHR ''-'' # y \<longleftrightarrow> a = b \<and> x = y"
proof (induction a arbitrary: b)
  case Nil
  then show ?case by (cases b) auto
next
  case (Cons c a)
  then show ?case by (cases b) auto
qed

definition kinds :: "string set" where
  "kinds = {''receiver'', ''processor'', ''exporter''}"

lemma node_id_inject:
  assumes "k1 \<in> kinds" "k2 \<in> kinds" "CHR ''-'' \<notin> set p1" "CHR ''-'' \<notin> set p2"
  shows "node_id k1 p1 a = node_id k2 p2 b \<longleftrightarrow> k1 = k2 \<and> p1 = p2 \<and> to_str a = to_str b"
proof -
  have "CHR ''-'' \<notin> set k1" "CHR ''-'' \<notin> set k2" using assms(1,2) by (auto simp: kinds_def)
  then show ?thesis using assms(3,4) by (auto simp: node_id_def dash_split)
qed

lemma node_id_not_section: "k \<in> kinds \<Longrightarrow> node_id k p a \<noteq> ''section-'' @ q"
  by (auto simp: kinds_def node_id_def)

lemma lower_char_dash: "lower_char c = CHR ''-'' \<Longrightarrow> c = CHR ''-''"
proof -
  assume l: "lower_char c = CHR ''-''"
  show ?thesis
  proof (cases "65 \<le> (of_char c :: nat) \<and> (of_char c :: nat) \<le> 90")
    case True
    then have "(of_char (lower_char c) :: nat) = of_char c + 32" by (simp add: lower_char_def)
    then show ?thesis using l True by simp
  next
    case False
    then show ?thesis using l by (auto simp: lower_char_def Let_def)
  qed
qed

lemma to_lower_dash: "CHR ''-'' \<notin> set s \<Longrightarrow> CHR ''-'' \<notin> set (to_lower s)"
  by (auto simp: to_lower_def dest!: lower_char_dash [OF sym])

text \<open>The identifiers a pipeline can contribute.\<close>

definition ids_of :: "string \<Rightarrow> string set" where
  "ids_of pn = insert (''section-'' @ pn) {node_id k (to_lower pn) a | k a. k \<in> kinds}"

lemma pipeline_ids_of: "fn_id ` set (pipeline_nodes m y pn rs ps es) \<subseteq> ids_of pn"
  unfolding pipeline_node_ids ids_of_def kinds_def by auto

lemma ids_of_disjoint:
  assumes "to_lower p \<noteq> to_lower q" "CHR ''-'' \<notin> set p" "CHR ''-'' \<notin> set q"
  shows "ids_of p \<inter> ids_of q = {}"
proof -
  have "p \<noteq> q" using assms(1) by auto
  then show ?thesis
    using assms(1) node_id_inject to_lower_dash [OF assms(2)] to_lower_dash [OF assms(3)]
    by (auto simp: ids_of_def dest: node_id_not_section node_id_not_section [THEN not_sym])
qed

lemma layout_ids: "layout_pipelines m y ps = Inr g \<Longrightarrow>
    fn_id ` set (fg_nodes g) \<subseteq> (\<Union>p \<in> set ps. ids_of (fst p))"
proof (induction ps arbitrary: y g)
  case (Cons p rest)
  obtain pn pc where p: "p = (pn, pc)" by (cases p)
  from Cons.prems [unfolded p] obtain rs qs es h where
    h: "layout_pipelines m (y + section_height (length rs) (length es) + 40) rest = Inr h"
    and g: "fg_nodes g = pipeline_nodes m y pn rs qs es @ fg_nodes h"
    by (rule layout_Cons)
  show ?case using Cons.IH [OF h] pipeline_ids_of [of m y pn rs qs es] by (auto simp: g p)
qed simp

lemma component_nodes_ids_list:
  "map fn_id (component_nodes kind pt met at names) = map (node_id kind pt) names"
  by (rule nth_equalityI) (simp_all add: component_nodes_def)

lemma pipeline_ids_distinct:
  assumes "CHR ''-'' \<notin> set pn" "distinct (map to_str rs)" "distinct (map to_str ps)" "distinct (map to_str es)"
  shows "distinct (map fn_id (pipeline_nodes m y pn rs ps es))"
proof -
  note d = to_lower_dash [OF assms(1)]
  have k: "''receiver'' \<in> kinds" "''processor'' \<in> kinds" "''exporter'' \<in> kinds" by (simp_all add: kinds_def)
  have one: "distinct (map (node_id kind (to_lower pn)) xs)" if "kind \<in> kinds" "distinct (map to_str xs)" for kind xs
    using that node_id_inject [OF that(1) that(1) d d] by (auto simp: distinct_map inj_on_def)
  have sep: "node_id k1 (to_lower pn) ` A \<inter> node_id k2 (to_lower pn) ` B = {}"
    if "k1 \<in> kinds" "k2 \<in> kinds" "k1 \<noteq> k2" for k1 k2 A B
    using node_id_inject [OF that(1,2) d d] that(3) by auto
  have sec: "''section-'' @ pn \<notin> node_id kind (to_lower pn) ` A" if "kind \<in> kinds" for kind A
  proof
    assume "''section-'' @ pn \<in> node_id kind (to_lower pn) ` A"
    then obtain a where "node_id kind (to_lower pn) a = ''section-'' @ pn" unfolding image_iff by metis
    then show False using node_id_not_section [OF that] by blast
  qed
  let ?R = "map (node_id ''receiver'' (to_lower pn)) rs" and ?P = "map (node_id ''processor'' (to_lower pn)) ps"
    and ?E = "map (node_id ''exporter'' (to_lower pn)) es"
  have eq: "map fn_id (pipeline_nodes m y pn rs ps es) = (''section-'' @ pn) # ?R @ ?P @ ?E"
    by (simp add: pipeline_nodes_def Let_def section_node_def component_nodes_ids_list)
  have "distinct ?R" "distinct ?P" "distinct ?E"
    using one [OF k(1) assms(2)] one [OF k(2) assms(3)] one [OF k(3) assms(4)] .
  moreover have "set ?R \<inter> set ?P = {}" "set ?R \<inter> set ?E = {}" "set ?P \<inter> set ?E = {}"
    unfolding set_map by (rule sep [OF k(1,2)], simp, rule sep [OF k(1,3)], simp, rule sep [OF k(2,3)], simp)
  moreover have "''section-'' @ pn \<notin> set ?R \<union> set ?P \<union> set ?E"
    unfolding set_map using sec k by blast
  ultimately have "distinct ((''section-'' @ pn) # ?R @ ?P @ ?E)"
    unfolding distinct.simps distinct_append set_append by blast
  then show ?thesis unfolding eq .
qed

definition well_named :: "(string \<times> jval) list \<Rightarrow> bool" where
  "well_named ps =
     (distinct (map (\<lambda>p. to_lower (fst p)) ps)
      \<and> (\<forall>p \<in> set ps. CHR ''-'' \<notin> set (fst p)
           \<and> (\<forall>k xs. component_list (snd p) k = Inr xs \<longrightarrow> distinct (map to_str xs))))"

lemma layout_distinct: "layout_pipelines m y ps = Inr g \<Longrightarrow> well_named ps \<Longrightarrow> distinct (map fn_id (fg_nodes g))"
proof (induction ps arbitrary: y g)
  case (Cons p rest)
  obtain pn pc where p: "p = (pn, pc)" by (cases p)
  from Cons.prems(1) [unfolded p] obtain rs qs es h where
    l: "component_list pc ''receivers'' = Inr rs" "component_list pc ''processors'' = Inr qs"
      "component_list pc ''exporters'' = Inr es"
    and h: "layout_pipelines m (y + section_height (length rs) (length es) + 40) rest = Inr h"
    and g: "fg_nodes g = pipeline_nodes m y pn rs qs es @ fg_nodes h"
    by (rule layout_Cons)
  have wn: "well_named rest" "CHR ''-'' \<notin> set pn"
      "distinct (map to_str rs)" "distinct (map to_str qs)" "distinct (map to_str es)"
    using Cons.prems(2) l by (auto simp: well_named_def p)
  have "ids_of pn \<inter> ids_of (fst q) = {}" if "q \<in> set rest" for q
    using Cons.prems(2) that by (intro ids_of_disjoint) (auto simp: well_named_def p)
  then have "fn_id ` set (pipeline_nodes m y pn rs qs es) \<inter> fn_id ` set (fg_nodes h) = {}"
    using pipeline_ids_of [of m y pn rs qs es] layout_ids [OF h] by blast
  then show ?case using Cons.IH [OF h wn(1)] pipeline_ids_distinct [OF wn(2-5)] by (simp add: g)
qed simp

text \<open>C35: when the pipelines' names differ beyond case and contain no dash and no pipeline lists a
  component twice in one role, the nodes of the canvas have pairwise different identifiers.\<close>

theorem generatePipelineNodes_distinct_ids:
  assumes "service_field d ''pipelines'' = Inr (JObj ps)" and "well_named ps" and "load cfg = Inr d"
    and "generatePipelineNodes load cfg m = Inr g"
  shows "distinct (map fn_id (fg_nodes g))"
proof -
  obtain service where s: "get_prop d ''service'' = Inr service" "opt_prop service ''pipelines'' = Inr (JObj ps)"
    using assms(1) by (auto simp: service_field_def bindE_Inr_iff)
  then have "g = message_graph ident label \<Longrightarrow> ?thesis" for ident label by (simp add: message_graph_def)
  moreover have "layout_pipelines m 0 ps' = Inr g \<Longrightarrow> ?thesis" if "ps' = ps" for ps'
    using layout_distinct assms(2) that by blast
  ultimately show ?thesis
    using assms(3,4) s
    by (auto simp: generatePipelineNodes_def bindE_Inr_iff opt_prop_def message_graph_def
        split: if_splits)
qed

lemma generatePipelineNodes_distinct_ids_witness: "distinct (map fn_id (fg_nodes demo_graph))"
proof -
  let ?ps = "[(''traces'', JObj [(''receivers'', JArr [JStr ''otlp'']), (''exporters'', JArr [JStr ''debug''])])]"
  have "well_named ?ps"
    by (auto simp: well_named_def component_list_def js_or_def own_prop_def split: if_splits)
  moreover have "service_field demo_config ''pipelines'' = Inr (JObj ?ps)"
    by (simp add: service_field_def demo_config_def)
  ultimately show ?thesis
    using generatePipelineNodes_distinct_ids [of demo_config ?ps "\<lambda>_. Inr demo_config" "''x''" "[]" demo_graph]
      demo_generate by simp
qed

end
