(* ===== verification/Api_Client.thy ===== *)
theory Api_Client
  imports Js_Values
begin

text \<open>
  The API layer: ui/src/config.ts, api/base.ts and the endpoint modules of ui/src/api.  The server
  is a function from its own state and a request to the next state and a result, an argument of
  every definition that fetches.  A promise that settles is \<open>Resolved\<close> or \<open>Rejected\<close>; one that stays
  pending is \<open>Never\<close>.  JSON bodies are the values they encode.  \<open>cl_log\<close> lists the requests that were
  sent and is only read by the theorems.
\<close>

section \<open>Configuration\<close>

definition PLACEHOLDER :: string where "PLACEHOLDER = ''__LAWRENCE_BACKEND_URL__''"

text \<open>The runtime and build-time URLs count only when non-empty and not the placeholder.\<close>

definition usable_url :: "string option \<Rightarrow> string option" where
  "usable_url u = (case u of Some v \<Rightarrow> if v \<noteq> [] \<and> v \<noteq> PLACEHOLDER then Some v else None | None \<Rightarrow> None)"

definition coalesce :: "'a option \<Rightarrow> 'a option \<Rightarrow> 'a option" where
  "coalesce a b = (case a of Some x \<Rightarrow> Some x | None \<Rightarrow> b)"

definition BACKEND_HOSTNAME :: "string option \<Rightarrow> string option \<Rightarrow> string option \<Rightarrow> string" where
  "BACKEND_HOSTNAME runtimeBackendUrl origin viteBackendUrl =
     (case coalesce (usable_url runtimeBackendUrl) (coalesce origin (usable_url viteBackendUrl)) of
        Some u \<Rightarrow> u
      | None \<Rightarrow> ''http://localhost:8080'')"

definition apiBaseUrl :: "string option \<Rightarrow> string option \<Rightarrow> string option \<Rightarrow> string" where
  "apiBaseUrl runtimeBackendUrl origin viteBackendUrl =
     BACKEND_HOSTNAME runtimeBackendUrl origin viteBackendUrl @ ''/api/v1''"

section \<open>Requests and results\<close>

datatype 'a settled = Resolved 'a | Rejected_with "string" "nat option" | Never

text \<open>\<open>Rejected_with message status\<close>: the status is present on errors that the API layer builds.\<close>

record request_init =
  ri_method :: string
  ri_body :: "jval option"
  ri_headers :: "(string \<times> string) list"

record http_request =
  rq_url :: string
  rq_init :: request_init

record http_response =
  rs_status :: nat
  rs_statusText :: string
  rs_body :: "jval option"

text \<open>The message of a failed fetch or an undecodable body is the platform's.\<close>

datatype fetch_result = NetworkFailure string | Response http_response

record 's client =
  cl_storage :: "string \<Rightarrow> string option"
  cl_location :: string
  cl_server :: 's
  cl_log :: "http_request list"

definition ACCESS_TOKEN_KEY :: string where "ACCESS_TOKEN_KEY = ''otel_hive_access_token''"
definition REFRESH_TOKEN_KEY :: string where "REFRESH_TOKEN_KEY = ''otel_hive_refresh_token''"
definition EXPIRES_AT_KEY :: string where "EXPIRES_AT_KEY = ''otel_hive_expires_at''"

definition getAccessToken :: "('s, 'm) client_scheme \<Rightarrow> string option" where
  "getAccessToken st = cl_storage st ACCESS_TOKEN_KEY"

text \<open>\<open>{ ...headers, ...options.headers }\<close> after the default and the authorization header.\<close>

definition buildHeaders ::
  "(string \<times> string) list \<Rightarrow> string option \<Rightarrow> string option \<Rightarrow> (string \<times> string) list" where
  "buildHeaders own stored token =
     (let base = [(''Content-Type'', ''application/json'')];
          t = coalesce token stored;
          authed = (case t of
             Some (c # cs) \<Rightarrow> obj_set ''Authorization'' (''Bearer '' @ (c # cs)) base
           | _ \<Rightarrow> base) in
      foldl (\<lambda>h (k, v). obj_set k v h) authed own)"

type_synonym 's server = "'s \<Rightarrow> http_request \<Rightarrow> 's \<times> fetch_result"

definition doFetch ::
  "'s server \<Rightarrow> string \<Rightarrow> request_init \<Rightarrow> string option \<Rightarrow> ('s, 'm) client_scheme \<Rightarrow>
   ('s, 'm) client_scheme \<times> fetch_result" where
  "doFetch srv url opts token st =
     (let rq = \<lparr>rq_url = url,
                rq_init = opts\<lparr>ri_headers := buildHeaders (ri_headers opts) (getAccessToken st) token\<rparr>\<rparr>;
          (s', r) = srv (cl_server st) rq in
      (st\<lparr>cl_server := s', cl_log := cl_log st @ [rq]\<rparr>, r))"

definition response_ok :: "http_response \<Rightarrow> bool" where
  "response_ok r = (200 \<le> rs_status r \<and> rs_status r \<le> 299)"

text \<open>The message built for a response that is not ok.\<close>

definition error_message :: "http_response \<Rightarrow> string" where
  "error_message r =
     (let default = ''API request failed: '' @ show_nat (rs_status r) @ '' '' @ rs_statusText r in
      case rs_body r of
        None \<Rightarrow> default
      | Some errorData \<Rightarrow>
          (case bindE (get_prop errorData ''error'') (\<lambda>e. bindE (get_prop errorData ''details'') (\<lambda>d. Inr (e, d))) of
             Inl _ \<Rightarrow> default
           | Inr (e, d) \<Rightarrow>
               if truthy e then to_str e @ (if truthy d then '': '' @ to_str d else []) else default))"

text \<open>What follows the fetches: the redirect to the setup page, errors, and the decoded body.\<close>

definition finish_response ::
  "http_response \<Rightarrow> ('s, 'm) client_scheme \<Rightarrow> ('s, 'm) client_scheme \<times> jval settled" where
  "finish_response r st =
     (if rs_status r = 503
         \<and> (case rs_body r of
              None \<Rightarrow> False
            | Some body \<Rightarrow> (case opt_prop body ''setup_required'' of Inr v \<Rightarrow> truthy v | Inl _ \<Rightarrow> False))
      then (st\<lparr>cl_location := ''/setup''\<rparr>, Never)
      else if \<not> response_ok r then (st, Rejected_with (error_message r) (Some (rs_status r)))
      else if rs_status r = 204 then (st, Resolved JUndef)
      else (case rs_body r of
              Some body \<Rightarrow> (st, Resolved body)
            | None \<Rightarrow> (st, Rejected_with ''invalid JSON'' None)))"

type_synonym ('s, 'm) refresh_fn =
  "('s, 'm) client_scheme \<Rightarrow> ('s, 'm) client_scheme \<times> string option settled"

definition finish_fetch ::
  "fetch_result \<Rightarrow> ('s, 'm) client_scheme \<Rightarrow> ('s, 'm) client_scheme \<times> jval settled" where
  "finish_fetch fr st =
     (case fr of
        NetworkFailure m \<Rightarrow> (st, Rejected_with m None)
      | Response r \<Rightarrow> finish_response r st)"

definition simpleRequest ::
  "'s server \<Rightarrow> ('s, 'm) refresh_fn option \<Rightarrow> string \<Rightarrow> string \<Rightarrow> request_init \<Rightarrow>
   ('s, 'm) client_scheme \<Rightarrow> ('s, 'm) client_scheme \<times> jval settled" where
  "simpleRequest srv refreshTokens baseUrl endpoint opts st =
     (let url = baseUrl @ endpoint;
          (st1, fr) = doFetch srv url opts None st in
      case fr of
        NetworkFailure m \<Rightarrow> (st1, Rejected_with m None)
      | Response r \<Rightarrow>
          (case refreshTokens of
             Some refresh \<Rightarrow>
               if rs_status r = 401 then
                 (case refresh st1 of
                    (st2, Resolved (Some (c # cs))) \<Rightarrow>
                      (case doFetch srv url opts (Some (c # cs)) st2 of (st3, fr2) \<Rightarrow> finish_fetch fr2 st3)
                  | (st2, Resolved _) \<Rightarrow> finish_response r st2
                  | (st2, Rejected_with m c) \<Rightarrow> (st2, Rejected_with m c)
                  | (st2, Never) \<Rightarrow> (st2, Never))
               else finish_response r st1
           | None \<Rightarrow> finish_response r st1))"

section \<open>Query strings\<close>

definition unreserved :: "char \<Rightarrow> bool" where
  "unreserved c =
     (let n = (of_char c :: nat) in
      (48 \<le> n \<and> n \<le> 57) \<or> (65 \<le> n \<and> n \<le> 90) \<or> (97 \<le> n \<and> n \<le> 122) \<or> c \<in> set ''*-._'')"

definition hex_digit :: "nat \<Rightarrow> char" where
  "hex_digit n = ''0123456789ABCDEF'' ! n"

definition percent :: "nat \<Rightarrow> string" where
  "percent n = [CHR ''%'', hex_digit (n div 16), hex_digit (n mod 16)]"

text \<open>The UTF-8 bytes of a code unit below 256.\<close>

definition utf8 :: "char \<Rightarrow> nat list" where
  "utf8 c = (let n = (of_char c :: nat) in if n < 128 then [n] else [192 + n div 64, 128 + n mod 64])"

definition form_encode_char :: "char \<Rightarrow> string" where
  "form_encode_char c =
     (if unreserved c then [c] else if c = CHR '' '' then ''+'' else concat (map percent (utf8 c)))"

definition form_encode :: "string \<Rightarrow> string" where
  "form_encode s = concat (map form_encode_char s)"

text \<open>\<open>`${new URLSearchParams(params)}`\<close>\<close>

definition URLSearchParams :: "(string \<times> string) list \<Rightarrow> string" where
  "URLSearchParams params =
     join_with ''&'' (map (\<lambda>(k, v). form_encode k @ ''='' @ form_encode v) params)"

section \<open>Method helpers\<close>

record api_request =
  ar_endpoint :: string
  ar_init :: request_init

definition plain_init :: "string \<Rightarrow> request_init" where
  "plain_init m = \<lparr>ri_method = m, ri_body = None, ri_headers = []\<rparr>"

text \<open>\<open>data ? JSON.stringify(data) : undefined\<close>\<close>

definition json_body :: "jval option \<Rightarrow> jval option" where
  "json_body d = (case d of Some v \<Rightarrow> if truthy v then Some v else None | None \<Rightarrow> None)"

definition apiGet :: "string \<Rightarrow> (string \<times> string) list option \<Rightarrow> api_request" where
  "apiGet endpoint params =
     \<lparr>ar_endpoint = (case params of Some ps \<Rightarrow> endpoint @ ''?'' @ URLSearchParams ps | None \<Rightarrow> endpoint),
      ar_init = plain_init ''GET''\<rparr>"

definition apiPost :: "string \<Rightarrow> jval option \<Rightarrow> api_request" where
  "apiPost endpoint d = \<lparr>ar_endpoint = endpoint, ar_init = (plain_init ''POST'')\<lparr>ri_body := json_body d\<rparr>\<rparr>"

definition apiPut :: "string \<Rightarrow> jval option \<Rightarrow> api_request" where
  "apiPut endpoint d = \<lparr>ar_endpoint = endpoint, ar_init = (plain_init ''PUT'')\<lparr>ri_body := json_body d\<rparr>\<rparr>"

definition apiDelete :: "string \<Rightarrow> api_request" where
  "apiDelete endpoint = \<lparr>ar_endpoint = endpoint, ar_init = plain_init ''DELETE''\<rparr>"

definition apiPatch :: "string \<Rightarrow> jval option \<Rightarrow> api_request" where
  "apiPatch endpoint d = \<lparr>ar_endpoint = endpoint, ar_init = (plain_init ''PATCH'')\<lparr>ri_body := json_body d\<rparr>\<rparr>"

section \<open>Endpoints\<close>

definition auth_request :: "string \<Rightarrow> string \<Rightarrow> jval option \<Rightarrow> api_request" where
  "auth_request m endpoint d = \<lparr>ar_endpoint = endpoint, ar_init = (plain_init m)\<lparr>ri_body := d\<rparr>\<rparr>"

definition credentials :: "string \<Rightarrow> string \<Rightarrow> jval" where
  "credentials username password = JObj [(''username'', JStr username), (''password'', JStr password)]"

definition authApi_getSetupStatus :: api_request where
  "authApi_getSetupStatus = auth_request ''GET'' ''/api/auth/setup/status'' None"
definition authApi_setup :: "string \<Rightarrow> string \<Rightarrow> api_request" where
  "authApi_setup u p = auth_request ''POST'' ''/api/auth/setup'' (Some (credentials u p))"
definition authApi_login :: "string \<Rightarrow> string \<Rightarrow> api_request" where
  "authApi_login u p = auth_request ''POST'' ''/api/auth/login'' (Some (credentials u p))"
definition authApi_logout :: api_request where
  "authApi_logout = auth_request ''POST'' ''/api/auth/logout'' None"
definition authApi_refresh :: "string \<Rightarrow> api_request" where
  "authApi_refresh refreshToken =
     auth_request ''POST'' ''/api/auth/refresh'' (Some (JObj [(''refresh_token'', JStr refreshToken)]))"
definition authApi_me :: api_request where
  "authApi_me = auth_request ''GET'' ''/api/auth/me'' None"
definition authApi_listApiKeys :: api_request where
  "authApi_listApiKeys = auth_request ''GET'' ''/api/auth/api-keys'' None"
definition authApi_createApiKey :: "string \<Rightarrow> api_request" where
  "authApi_createApiKey name = auth_request ''POST'' ''/api/auth/api-keys'' (Some (JObj [(''name'', JStr name)]))"
definition authApi_revokeApiKey :: "string \<Rightarrow> api_request" where
  "authApi_revokeApiKey ident = auth_request ''DELETE'' (''/api/auth/api-keys/'' @ ident) None"

definition getAgents :: api_request where "getAgents = apiGet ''/agents'' None"
definition getAgent :: "string \<Rightarrow> api_request" where
  "getAgent ident = apiGet (''/agents/'' @ ident) None"
definition getAgentStats :: api_request where "getAgentStats = apiGet ''/agents/stats'' None"
definition updateAgentGroup :: "string \<Rightarrow> string \<Rightarrow> api_request" where
  "updateAgentGroup ident groupId =
     apiPatch (''/agents/'' @ ident @ ''/group'') (Some (JObj [(''group_id'', JStr groupId)]))"
definition sendConfigToAgent :: "string \<Rightarrow> string \<Rightarrow> api_request" where
  "sendConfigToAgent agentId content =
     apiPost (''/agents/'' @ agentId @ ''/config'') (Some (JObj [(''content'', JStr content)]))"
definition restartAgent :: "string \<Rightarrow> api_request" where
  "restartAgent agentId = apiPost (''/agents/'' @ agentId @ ''/restart'') (Some (JObj []))"

text \<open>\<open>if (params?.k) queryParams.k = params.k\<close>\<close>

definition text_param :: "string \<Rightarrow> string option \<Rightarrow> (string \<times> string) list" where
  "text_param k v = (case v of Some (c # cs) \<Rightarrow> [(k, c # cs)] | _ \<Rightarrow> [])"

record get_configs_params =
  gc_agent_id :: "string option"
  gc_group_id :: "string option"
  gc_limit :: "int option"

definition getConfigs :: "get_configs_params option \<Rightarrow> api_request" where
  "getConfigs params =
     apiGet ''/configs'' (Some (case params of
       None \<Rightarrow> []
     | Some p \<Rightarrow> text_param ''agent_id'' (gc_agent_id p) @ text_param ''group_id'' (gc_group_id p)
         @ (case gc_limit p of Some n \<Rightarrow> if n = 0 then [] else [(''limit'', show_int n)] | None \<Rightarrow> [])))"
definition getConfig :: "string \<Rightarrow> api_request" where
  "getConfig ident = apiGet (''/configs/'' @ ident) None"
definition createConfig :: "jval \<Rightarrow> api_request" where
  "createConfig d = apiPost ''/configs'' (Some d)"
definition updateConfig :: "string \<Rightarrow> jval \<Rightarrow> api_request" where
  "updateConfig ident d = apiPut (''/configs/'' @ ident) (Some d)"
definition validateConfig :: "jval \<Rightarrow> api_request" where
  "validateConfig d = apiPost ''/configs/validate'' (Some d)"
definition getConfigVersions :: "string option \<Rightarrow> string option \<Rightarrow> api_request" where
  "getConfigVersions agent_id group_id =
     apiGet ''/configs/versions'' (Some (text_param ''agent_id'' agent_id @ text_param ''group_id'' group_id))"

definition getGroups :: api_request where "getGroups = apiGet ''/groups'' None"
definition getGroup :: "string \<Rightarrow> api_request" where
  "getGroup ident = apiGet (''/groups/'' @ ident) None"
definition createGroup :: "jval \<Rightarrow> api_request" where
  "createGroup d = apiPost ''/groups'' (Some d)"
definition deleteGroup :: "string \<Rightarrow> api_request" where
  "deleteGroup ident = apiDelete (''/groups/'' @ ident)"
definition assignConfigToGroup :: "string \<Rightarrow> string \<Rightarrow> api_request" where
  "assignConfigToGroup groupId config_id =
     apiPost (''/groups/'' @ groupId @ ''/config'') (Some (JObj [(''config_id'', JStr config_id)]))"
definition getGroupConfig :: "string \<Rightarrow> api_request" where
  "getGroupConfig groupId = apiGet (''/groups/'' @ groupId @ ''/config'') None"
definition getGroupAgents :: "string \<Rightarrow> api_request" where
  "getGroupAgents groupId = apiGet (''/groups/'' @ groupId @ ''/agents'') None"
definition restartGroup :: "string \<Rightarrow> api_request" where
  "restartGroup groupId = apiPost (''/groups/'' @ groupId @ ''/restart'') (Some (JObj []))"

definition listGitSources :: api_request where "listGitSources = apiGet ''/git-sources'' None"
definition getGitSource :: "string \<Rightarrow> api_request" where
  "getGitSource ident = apiGet (''/git-sources/'' @ ident) None"
definition createGitSource :: "jval \<Rightarrow> api_request" where
  "createGitSource d = apiPost ''/git-sources'' (Some d)"
definition updateGitSource :: "string \<Rightarrow> jval \<Rightarrow> api_request" where
  "updateGitSource ident d = apiPut (''/git-sources/'' @ ident) (Some d)"
definition deleteGitSource :: "string \<Rightarrow> api_request" where
  "deleteGitSource ident = apiDelete (''/git-sources/'' @ ident)"
definition triggerSync :: "string \<Rightarrow> api_request" where
  "triggerSync ident = apiPost (''/git-sources/'' @ ident @ ''/sync'') (Some (JObj []))"

definition getTopology :: api_request where "getTopology = apiGet ''/topology'' None"
definition getAgentTopology :: "string \<Rightarrow> api_request" where
  "getAgentTopology agentId = apiGet (''/topology/agent/'' @ agentId) None"
definition getGroupTopology :: "string \<Rightarrow> api_request" where
  "getGroupTopology groupId = apiGet (''/topology/group/'' @ groupId) None"

definition listAuditLog :: "int \<Rightarrow> int \<Rightarrow> string option \<Rightarrow> api_request" where
  "listAuditLog page limit eventType =
     apiGet (''/audit-log?'' @ URLSearchParams
       ([(''page'', show_int page), (''limit'', show_int limit)] @ text_param ''event_type'' eventType)) None"

text \<open>Sending a described request.\<close>

definition send ::
  "'s server \<Rightarrow> ('s, 'm) refresh_fn option \<Rightarrow> string \<Rightarrow> api_request \<Rightarrow>
   ('s, 'm) client_scheme \<Rightarrow> ('s, 'm) client_scheme \<times> jval settled" where
  "send srv refreshTokens baseUrl rq = simpleRequest srv refreshTokens baseUrl (ar_endpoint rq) (ar_init rq)"

section \<open>Query strings are read back\<close>

definition unhex :: "char \<Rightarrow> nat" where
  "unhex c = (let n = (of_char c :: nat) in if n \<le> 57 then n - 48 else n - 55)"

fun form_bytes :: "string \<Rightarrow> nat list" where
  "form_bytes [] = []"
| "form_bytes (c # s) =
     (if c = CHR ''+'' then 32 # form_bytes s
      else if c = CHR ''%'' then
        (case s of a # b # r \<Rightarrow> (16 * unhex a + unhex b) # form_bytes r | _ \<Rightarrow> of_char c # form_bytes s)
      else of_char c # form_bytes s)"

fun utf8_decode :: "nat list \<Rightarrow> string" where
  "utf8_decode [] = []"
| "utf8_decode [n] = [char_of n]"
| "utf8_decode (n # m # r) =
     (if n < 128 then char_of n # utf8_decode (m # r)
      else char_of (64 * (n - 192) + (m - 128)) # utf8_decode r)"

definition form_decode :: "string \<Rightarrow> string" where
  "form_decode s = utf8_decode (form_bytes s)"

definition parse_pair :: "string \<Rightarrow> string \<times> string" where
  "parse_pair p =
     (form_decode (takeWhile (\<lambda>c. c \<noteq> CHR ''='') p), form_decode (tl (dropWhile (\<lambda>c. c \<noteq> CHR ''='') p)))"

definition parse_query :: "string \<Rightarrow> (string \<times> string) list" where
  "parse_query q = (if q = [] then [] else map parse_pair (split_on CHR ''&'' q))"

lemma less16: "n < 16 \<Longrightarrow> n \<in> {0, 1, 2, 3, 4, 5, 6, 7, 8, 9, 10, 11, 12, 13, 14, 15 :: nat}"
  unfolding insert_iff empty_iff by presburger

lemma unhex_hex: "n < 16 \<Longrightarrow> unhex (hex_digit n) = n"
  by (drule less16) (auto simp: unhex_def hex_digit_def)

lemma hex_unreserved: "n < 16 \<Longrightarrow> unreserved (hex_digit n)"
  by (drule less16) (auto simp: unreserved_def hex_digit_def)

lemma form_bytes_percent: "n < 256 \<Longrightarrow> form_bytes (percent n @ s) = n # form_bytes s"
proof -
  assume "n < 256"
  then have "n div 16 < 16" by simp
  then show ?thesis by (simp add: percent_def unhex_hex)
qed

lemma of_char_less: "(of_char c :: nat) < 256"
  using of_char_mod_256 [of c] by (metis mod_less_divisor zero_less_numeral)

lemma div_64: "(n :: nat) < 256 \<Longrightarrow> n div 64 < 64"
  by (simp add: div_less_iff_less_mult)

lemma form_bytes_char: "form_bytes (form_encode_char c @ s) = utf8 c @ form_bytes s"
proof -
  let ?n = "of_char c :: nat"
  have n: "?n < 256" by (rule of_char_less)
  consider "unreserved c" | "\<not> unreserved c" "c = CHR '' ''" | "\<not> unreserved c" "c \<noteq> CHR '' ''" by blast
  then show ?thesis
  proof cases
    case 1
    then have "?n < 128" "c \<noteq> CHR ''+''" "c \<noteq> CHR ''%''" by (auto simp: unreserved_def Let_def)
    then show ?thesis using 1 by (simp add: form_encode_char_def utf8_def)
  next
    case 2
    then show ?thesis by (simp add: form_encode_char_def utf8_def)
  next
    case 3
    have "192 + ?n div 64 < 256" "128 + ?n mod 64 < 256" using div_64 [OF n] by auto
    then show ?thesis using 3 n
      by (simp add: form_encode_char_def utf8_def Let_def form_bytes_percent)
  qed
qed

lemma form_bytes_encode: "form_bytes (form_encode s) = concat (map utf8 s)"
  using form_bytes_char by (induction s) (simp_all add: form_encode_def)

lemma utf8_decode_small: "n < 128 \<Longrightarrow> utf8_decode (n # r) = char_of n # utf8_decode r"
  by (cases r) simp_all

lemma utf8_decode_concat: "utf8_decode (concat (map utf8 s)) = s"
proof (induction s)
  case (Cons c s)
  let ?n = "of_char c :: nat" and ?r = "concat (map utf8 s)"
  show ?case
  proof (cases "?n < 128")
    case True
    then have "utf8 c = [?n]" by (simp add: utf8_def)
    then show ?thesis using Cons True utf8_decode_small [of ?n ?r] by simp
  next
    case False
    have n: "?n < 256" by (rule of_char_less)
    have "64 * (?n div 64) + ?n mod 64 = ?n" by simp
    then show ?thesis using Cons False by (simp add: utf8_def Let_def)
  qed
qed simp

lemma form_decode_encode: "form_decode (form_encode s) = s"
  by (simp add: form_decode_def form_bytes_encode utf8_decode_concat)

lemma form_encode_chars: "c \<in> set (form_encode s) \<Longrightarrow> unreserved c \<or> c \<in> {CHR ''+'', CHR ''%''}"
proof -
  have p: "n < 256 \<Longrightarrow> c \<in> set (percent n) \<Longrightarrow> unreserved c \<or> c = CHR ''%''" for n
    using hex_unreserved by (auto simp: percent_def)
  have "\<forall>n \<in> set (utf8 x). n < 256" for x
    using of_char_less [of x] div_64 [OF of_char_less, of x] by (auto simp: utf8_def Let_def)
  then have "c \<in> set (form_encode_char x) \<Longrightarrow> unreserved c \<or> c \<in> {CHR ''+'', CHR ''%''}" for x
    using p by (auto simp: form_encode_char_def split: if_splits)
  then show "c \<in> set (form_encode s) \<Longrightarrow> ?thesis" by (auto simp: form_encode_def)
qed

lemma form_encode_no_sep: "CHR ''&'' \<notin> set (form_encode s)" "CHR ''='' \<notin> set (form_encode s)"
  using form_encode_chars [of "CHR ''&''" s] form_encode_chars [of "CHR ''=''" s]
  by (auto simp: unreserved_def)

lemma parse_pair_encode: "parse_pair (form_encode k @ ''='' @ form_encode v) = (k, v)"
proof -
  have "\<forall>c \<in> set (form_encode k). c \<noteq> CHR ''=''" using form_encode_no_sep(2) by metis
  then show ?thesis by (simp add: parse_pair_def form_decode_encode takeWhile_append2 dropWhile_append2)
qed

text \<open>the query string that \<open>URLSearchParams\<close> gives to a request decodes to exactly the parameters
  it was built from, whatever characters they contain.\<close>

theorem URLSearchParams_roundtrip:
  "parse_query (URLSearchParams params) = params"
proof (cases "params = []")
  case False
  let ?ps = "map (\<lambda>(k, v). form_encode k @ ''='' @ form_encode v) params"
  have "?ps \<noteq> []" using False by simp
  moreover have "\<forall>x \<in> set ?ps. CHR ''&'' \<notin> set x" using form_encode_no_sep by auto
  ultimately have "split_on CHR ''&'' (URLSearchParams params) = ?ps"
    unfolding URLSearchParams_def by (rule split_on_join)
  moreover have "URLSearchParams params \<noteq> []"
  proof
    assume "URLSearchParams params = []"
    then have "?ps = [[]]" using calculation by simp
    then show False by (cases params) (auto split: prod.splits)
  qed
  ultimately show ?thesis
    by (simp add: parse_query_def case_prod_beta parse_pair_encode [simplified] cong: map_cong)
qed (simp add: URLSearchParams_def parse_query_def)

section \<open>The request protocol\<close>

text \<open>The requests that a call adds to the log.\<close>

definition sent :: "('s, 'm) client_scheme \<Rightarrow> ('s, 'm) client_scheme \<Rightarrow> http_request list" where
  "sent st st' = drop (length (cl_log st)) (cl_log st')"

lemma doFetch_log:
  "doFetch srv url opts token st = (st', fr) \<Longrightarrow>
     cl_log st' = cl_log st @ [\<lparr>rq_url = url,
       rq_init = opts\<lparr>ri_headers := buildHeaders (ri_headers opts) (getAccessToken st) token\<rparr>\<rparr>]
     \<and> cl_storage st' = cl_storage st \<and> cl_location st' = cl_location st"
  by (auto simp: doFetch_def Let_def split: prod.splits)

lemma finish_response_log [simp]: "cl_log (fst (finish_response r st)) = cl_log st"
  by (simp add: finish_response_def split: option.splits)

lemma finish_fetch_log [simp]: "cl_log (fst (finish_fetch fr st)) = cl_log st"
  by (simp add: finish_fetch_def split: fetch_result.splits)

definition bearer :: "http_request \<Rightarrow> string option" where
  "bearer rq = map_of (ri_headers (rq_init rq)) ''Authorization''"

lemma buildHeaders_token: "buildHeaders [] stored (Some (c # cs))
    = [(''Content-Type'', ''application/json''), (''Authorization'', ''Bearer '' @ c # cs)]"
  by (simp add: buildHeaders_def coalesce_def)


lemma finish_response_never: "finish_response r st = (st', Never) \<Longrightarrow> cl_location st' = ''/setup''"
  by (auto simp: finish_response_def split: if_splits option.splits)

text \<open>a call of the API layer stays pending for ever only if the page is leaving for the setup page or
  the token refresh itself never settles.\<close>

theorem simpleRequest_pending:
  assumes "simpleRequest srv (Some refresh) base endpoint opts st = (st', Never)"
  shows "cl_location st' = ''/setup'' \<or> (\<exists>st1. refresh st1 = (st', Never))"
proof -
  obtain st1 fr where f: "doFetch srv (base @ endpoint) opts None st = (st1, fr)"
    by (cases "doFetch srv (base @ endpoint) opts None st")
  show ?thesis
    using assms finish_response_never
    by (auto simp: simpleRequest_def f finish_fetch_def split: fetch_result.splits if_splits prod.splits
        settled.splits option.splits list.splits)
qed

text \<open>A server that answers 401 until it has been asked \<open>n\<close> times.\<close>

definition demo_server :: "nat server" where
  "demo_server n rq =
     (if n = 0 then (0, Response \<lparr>rs_status = 200, rs_statusText = ''OK'', rs_body = Some JNull\<rparr>)
      else (n - 1, Response \<lparr>rs_status = 401, rs_statusText = ''Unauthorized'', rs_body = None\<rparr>))"

definition demo_client :: "nat client" where
  "demo_client = \<lparr>cl_storage = (\<lambda>_. None), cl_location = ''/'', cl_server = 1, cl_log = []\<rparr>"


lemma simpleRequest_pending_witness:
  "cl_location (fst (simpleRequest (\<lambda>n rq. (n, Response \<lparr>rs_status = 503, rs_statusText = ''x'',
      rs_body = Some (JObj [(''setup_required'', JBool True)])\<rparr>)) (Some (\<lambda>st. (st, Resolved None))) ''h'' ''/x''
      (plain_init ''GET'') demo_client)) = ''/setup''"
proof -
  let ?srv = "(\<lambda>n rq. (n, Response \<lparr>rs_status = 503, rs_statusText = ''x'',
      rs_body = Some (JObj [(''setup_required'', JBool True)])\<rparr>)) :: nat server"
  let ?refresh = "\<lambda>st. (st, Resolved None) :: (nat, unit) client_scheme \<times> string option settled"
  obtain st' where r: "simpleRequest ?srv (Some ?refresh) ''h'' ''/x'' (plain_init ''GET'') demo_client = (st', Never)"
    by (simp add: simpleRequest_def doFetch_def Let_def finish_response_def)
  show ?thesis using simpleRequest_pending [OF r] r by auto
qed

text \<open>every call of the authentication client goes below the versioned API prefix of the other
  endpoints, although its own path is already absolute; the prefix therefore occurs twice.\<close>

theorem auth_urls_doubled:
  "\<forall>rq \<in> {authApi_getSetupStatus, authApi_setup u p, authApi_login u p, authApi_logout, authApi_refresh t,
            authApi_me, authApi_listApiKeys, authApi_createApiKey n, authApi_revokeApiKey i}.
     \<exists>rest. apiBaseUrl runtime origin vite @ ar_endpoint rq
       = BACKEND_HOSTNAME runtime origin vite @ ''/api/v1/api/auth/'' @ rest"
  by (simp add: apiBaseUrl_def authApi_getSetupStatus_def authApi_setup_def authApi_login_def
      authApi_logout_def authApi_refresh_def authApi_me_def authApi_listApiKeys_def
      authApi_createApiKey_def authApi_revokeApiKey_def auth_request_def)

lemma auth_urls_doubled_witness:
  "apiBaseUrl None (Some ''https://hive'') None @ ar_endpoint authApi_me = ''https://hive/api/v1/api/auth/me''"
  using auth_urls_doubled [of _ _ _ _ _ None "Some ''https://hive''" None]
  by (simp add: apiBaseUrl_def BACKEND_HOSTNAME_def usable_url_def coalesce_def authApi_me_def auth_request_def)

end
