(* ===== verification/Auth_Session.thy ===== *)
theory Auth_Session
  imports Api_Client
begin

text \<open>
  The session: ui/src/hooks/useAuth.tsx over the API layer.  Its state extends the client's state by
  the status, the user and what \<open>refreshPromiseRef\<close> holds.  An operation runs to its end or stays
  pending (\<open>Never\<close>); the interleaving of several operations is the subject of Refresh_Protocol.  The
  server, the base URL and the clock (\<open>Date.now()\<close>, read off the server's state) are arguments.
\<close>

section \<open>State\<close>

datatype AuthStatus = Loading | Unauthenticated | Authenticated | SetupRequired

text \<open>No promise, one that is pending, or one that resolved and was kept.\<close>

datatype refresh_ref = RefNone | RefPending | RefResolved "string option"

record 's auth = "'s client" +
  au_status :: AuthStatus
  au_user :: "jval option"
  au_ref :: refresh_ref

definition auth_init :: "(string \<Rightarrow> string option) \<Rightarrow> 's \<Rightarrow> 's auth" where
  "auth_init storage s =
     \<lparr>cl_storage = storage, cl_location = ''/'', cl_server = s, cl_log = [],
      au_status = Loading, au_user = None, au_ref = RefNone\<rparr>"

section \<open>Tokens\<close>

text \<open>\<open>Number(v)\<close> in the multiplication; \<open>None\<close> is NaN.\<close>

fun to_num :: "jval \<Rightarrow> int option" where
  "to_num (JNum t) = js_Number t"
| "to_num (JStr t) = js_Number t"
| "to_num (JBool b) = Some (if b then 1 else 0)"
| "to_num JNull = Some 0"
| "to_num v = None"

definition storeTokens :: "int \<Rightarrow> jval \<Rightarrow> 's auth \<Rightarrow> js_error + 's auth" where
  "storeTokens now tokens st =
     bindE (get_prop tokens ''access_token'') (\<lambda>a.
     bindE (get_prop tokens ''refresh_token'') (\<lambda>r.
     bindE (get_prop tokens ''expires_in'') (\<lambda>e.
       Inr (st\<lparr>cl_storage := (cl_storage st)
                 (ACCESS_TOKEN_KEY \<mapsto> to_str a, REFRESH_TOKEN_KEY \<mapsto> to_str r,
                  EXPIRES_AT_KEY \<mapsto> (case to_num e of Some n \<Rightarrow> show_int (now + n * 1000) | None \<Rightarrow> ''NaN''))\<rparr>))))"

definition clearTokens :: "'s auth \<Rightarrow> 's auth" where
  "clearTokens st =
     st\<lparr>cl_storage := (cl_storage st)(ACCESS_TOKEN_KEY := None, REFRESH_TOKEN_KEY := None, EXPIRES_AT_KEY := None)\<rparr>"

definition isTokenExpiringSoon :: "int \<Rightarrow> 's auth \<Rightarrow> bool" where
  "isTokenExpiringSoon now st =
     (case js_Number (case cl_storage st EXPIRES_AT_KEY of Some t \<Rightarrow> t | None \<Rightarrow> ''0'') of
        Some expiresAt \<Rightarrow> now > expiresAt - 2 * 60 * 1000
      | None \<Rightarrow> False)"

section \<open>Refresh\<close>

text \<open>What a request inside the refresh sees when it calls \<open>refreshTokens\<close> itself: the pending promise.\<close>

definition joinRefresh :: "'s auth \<Rightarrow> 's auth \<times> string option settled" where
  "joinRefresh st = (st, case au_ref st of RefResolved r \<Rightarrow> Resolved r | _ \<Rightarrow> Never)"

definition drop_session :: "'s auth \<Rightarrow> 's auth" where
  "drop_session st = (clearTokens st)\<lparr>au_user := None, au_status := Unauthenticated\<rparr>"

text \<open>
  With no stored refresh token \<open>doRefresh\<close> returns before its \<open>try\<close>, and the assignment of the already
  resolved promise comes after it.
\<close>

definition doRefresh ::
  "'s server \<Rightarrow> ('s \<Rightarrow> int) \<Rightarrow> string \<Rightarrow> 's auth \<Rightarrow> 's auth \<times> string option settled" where
  "doRefresh srv clock base st =
     (case cl_storage st REFRESH_TOKEN_KEY of
        Some (c # cs) \<Rightarrow>
          (case send srv (Some joinRefresh) base (authApi_refresh (c # cs)) (st\<lparr>au_ref := RefPending\<rparr>) of
             (st1, Resolved tokens) \<Rightarrow>
               (case storeTokens (clock (cl_server st1)) tokens st1 of
                  Inr st2 \<Rightarrow>
                    (st2\<lparr>au_ref := RefNone\<rparr>,
                     Resolved (case get_prop tokens ''access_token'' of
                                 Inr v \<Rightarrow> if truthy v then Some (to_str v) else None
                               | Inl _ \<Rightarrow> None))
                | Inl _ \<Rightarrow> ((drop_session st1)\<lparr>au_ref := RefNone\<rparr>, Resolved None))
           | (st1, Rejected_with m c) \<Rightarrow> ((drop_session st1)\<lparr>au_ref := RefNone\<rparr>, Resolved None)
           | (st1, Never) \<Rightarrow> (st1, Never))
      | _ \<Rightarrow> (st\<lparr>au_status := Unauthenticated, au_ref := RefResolved None\<rparr>, Resolved None))"

definition refreshTokens ::
  "'s server \<Rightarrow> ('s \<Rightarrow> int) \<Rightarrow> string \<Rightarrow> 's auth \<Rightarrow> 's auth \<times> string option settled" where
  "refreshTokens srv clock base st =
     (case au_ref st of
        RefNone \<Rightarrow> doRefresh srv clock base st
      | _ \<Rightarrow> joinRefresh st)"

text \<open>A call of the API layer once \<open>RefreshBridge\<close> has registered \<open>refreshTokens\<close>.\<close>

definition call ::
  "'s server \<Rightarrow> ('s \<Rightarrow> int) \<Rightarrow> string \<Rightarrow> api_request \<Rightarrow> 's auth \<Rightarrow> 's auth \<times> jval settled" where
  "call srv clock base rq st = send srv (Some (refreshTokens srv clock base)) base rq st"

section \<open>Operations of the provider\<close>

definition fetchMe ::
  "'s server \<Rightarrow> ('s \<Rightarrow> int) \<Rightarrow> string \<Rightarrow> 's auth \<Rightarrow> 's auth \<times> bool settled" where
  "fetchMe srv clock base st =
     (case call srv clock base authApi_me st of
        (st1, Resolved me) \<Rightarrow> (st1\<lparr>au_user := Some me, au_status := Authenticated\<rparr>, Resolved True)
      | (st1, Rejected_with m c) \<Rightarrow> (drop_session st1, Resolved False)
      | (st1, Never) \<Rightarrow> (st1, Never))"

definition finish_login ::
  "'s server \<Rightarrow> ('s \<Rightarrow> int) \<Rightarrow> string \<Rightarrow> 's auth \<times> jval settled \<Rightarrow> 's auth \<times> unit settled" where
  "finish_login srv clock base res =
     (case res of
        (st1, Resolved tokens) \<Rightarrow>
          (case storeTokens (clock (cl_server st1)) tokens st1 of
             Inl _ \<Rightarrow> (st1, Rejected_with ''TypeError'' None)
           | Inr st2 \<Rightarrow>
               (case fetchMe srv clock base st2 of
                  (st3, Never) \<Rightarrow> (st3, Never)
                | (st3, _) \<Rightarrow> (st3, Resolved ())))
      | (st1, Rejected_with m c) \<Rightarrow> (st1, Rejected_with m c)
      | (st1, Never) \<Rightarrow> (st1, Never))"

definition login ::
  "'s server \<Rightarrow> ('s \<Rightarrow> int) \<Rightarrow> string \<Rightarrow> string \<Rightarrow> string \<Rightarrow> 's auth \<Rightarrow> 's auth \<times> unit settled" where
  "login srv clock base username password st =
     finish_login srv clock base (call srv clock base (authApi_login username password) st)"

definition setup_account ::
  "'s server \<Rightarrow> ('s \<Rightarrow> int) \<Rightarrow> string \<Rightarrow> string \<Rightarrow> string \<Rightarrow> 's auth \<Rightarrow> 's auth \<times> unit settled" where
  "setup_account srv clock base username password st =
     finish_login srv clock base (call srv clock base (authApi_setup username password) st)"

definition logout :: "'s server \<Rightarrow> ('s \<Rightarrow> int) \<Rightarrow> string \<Rightarrow> 's auth \<Rightarrow> 's auth \<times> unit settled" where
  "logout srv clock base st =
     (case call srv clock base authApi_logout st of
        (st1, Never) \<Rightarrow> (st1, Never)
      | (st1, _) \<Rightarrow> (drop_session st1, Resolved ()))"

text \<open>
  The effect on mount.  \<open>cancelled i\<close> tells whether the provider was unmounted by the time the
  \<open>i\<close>-th awaited call returned.
\<close>

definition init_fetch_me ::
  "'s server \<Rightarrow> ('s \<Rightarrow> int) \<Rightarrow> string \<Rightarrow> bool \<Rightarrow> 's auth \<Rightarrow> 's auth" where
  "init_fetch_me srv clock base cancelled st =
     (if cancelled then st else fst (fetchMe srv clock base st))"

definition init_with_token ::
  "'s server \<Rightarrow> ('s \<Rightarrow> int) \<Rightarrow> string \<Rightarrow> (nat \<Rightarrow> bool) \<Rightarrow> 's auth \<Rightarrow> 's auth" where
  "init_with_token srv clock base cancelled st =
     (if isTokenExpiringSoon (clock (cl_server st)) st
      then (case cl_storage st REFRESH_TOKEN_KEY of
              Some (c # cs) \<Rightarrow>
                (case call srv clock base (authApi_refresh (c # cs)) st of
                   (st1, Resolved tokens) \<Rightarrow>
                     if cancelled 1 then st1
                     else (case storeTokens (clock (cl_server st1)) tokens st1 of
                             Inr st2 \<Rightarrow> init_fetch_me srv clock base (cancelled 1) st2
                           | Inl _ \<Rightarrow> st1\<lparr>au_status := Unauthenticated\<rparr>)
                 | (st1, Rejected_with m e) \<Rightarrow>
                     if cancelled 1 then st1 else st1\<lparr>au_status := Unauthenticated\<rparr>
                 | (st1, Never) \<Rightarrow> st1)
            | _ \<Rightarrow> init_fetch_me srv clock base (cancelled 0) st)
      else init_fetch_me srv clock base (cancelled 0) st)"

definition init ::
  "'s server \<Rightarrow> ('s \<Rightarrow> int) \<Rightarrow> string \<Rightarrow> (nat \<Rightarrow> bool) \<Rightarrow> 's auth \<Rightarrow> 's auth" where
  "init srv clock base cancelled st =
     (case call srv clock base authApi_getSetupStatus st of
        (st1, Resolved body) \<Rightarrow>
          (case get_prop body ''setup_required'' of
             Inl _ \<Rightarrow> if cancelled 0 then st1 else st1\<lparr>au_status := Unauthenticated\<rparr>
           | Inr v \<Rightarrow>
               if cancelled 0 then st1
               else if truthy v then st1\<lparr>au_status := SetupRequired\<rparr>
               else if (case getAccessToken st1 of Some (c # cs) \<Rightarrow> True | _ \<Rightarrow> False)
               then init_with_token srv clock base cancelled st1
               else st1\<lparr>au_status := Unauthenticated\<rparr>)
      | (st1, Rejected_with m e) \<Rightarrow> if cancelled 0 then st1 else st1\<lparr>au_status := Unauthenticated\<rparr>
      | (st1, Never) \<Rightarrow> st1)"

section \<open>Expiry\<close>

lemma storage_keys [simp]:
  "ACCESS_TOKEN_KEY \<noteq> REFRESH_TOKEN_KEY" "REFRESH_TOKEN_KEY \<noteq> ACCESS_TOKEN_KEY"
  "ACCESS_TOKEN_KEY \<noteq> EXPIRES_AT_KEY" "EXPIRES_AT_KEY \<noteq> ACCESS_TOKEN_KEY"
  "REFRESH_TOKEN_KEY \<noteq> EXPIRES_AT_KEY" "EXPIRES_AT_KEY \<noteq> REFRESH_TOKEN_KEY"
  by (simp_all add: ACCESS_TOKEN_KEY_def REFRESH_TOKEN_KEY_def EXPIRES_AT_KEY_def)

text \<open>after tokens are stored at \<open>now\<close>, the expiry written to and read back from the storage makes the
  token count as expiring exactly from two minutes before its lifetime ends.\<close>

theorem storeTokens_expiry:
  assumes "storeTokens now (JObj [(''access_token'', a), (''refresh_token'', r), (''expires_in'', JInt n)]) st = Inr st'"
  shows "(isTokenExpiringSoon later st' \<longleftrightarrow> later - now > (n - 120) * 1000)
    \<and> getAccessToken st' = Some (to_str a) \<and> cl_storage st' REFRESH_TOKEN_KEY = Some (to_str r)"
  using assms
  by (auto simp: storeTokens_def isTokenExpiringSoon_def js_Number_show_int getAccessToken_def algebra_simps)

lemma storeTokens_expiry_witness:
  "\<not> isTokenExpiringSoon 1000 (case storeTokens 0
      (JObj [(''access_token'', JStr ''a''), (''refresh_token'', JStr ''r''), (''expires_in'', JInt 900)])
      (auth_init (\<lambda>_. None) ()) of Inr st \<Rightarrow> st | Inl _ \<Rightarrow> auth_init (\<lambda>_. None) ())"
proof -
  let ?t = "JObj [(''access_token'', JStr ''a''), (''refresh_token'', JStr ''r''), (''expires_in'', JInt 900)]"
  obtain st' where st': "storeTokens 0 ?t (auth_init (\<lambda>_. None) ()) = Inr st'" by (simp add: storeTokens_def)
  show ?thesis using storeTokens_expiry [OF st', of 1000] st' by simp
qed

section \<open>What the API layer leaves alone\<close>

lemma doFetch_auth [simp]:
  "au_status (fst (doFetch srv url opts token st)) = au_status st"
  "au_user (fst (doFetch srv url opts token st)) = au_user st"
  "au_ref (fst (doFetch srv url opts token st)) = au_ref st"
  "cl_storage (fst (doFetch srv url opts token st)) = cl_storage st"
  by (simp_all add: doFetch_def Let_def case_prod_beta)

lemma doFetch_authD:
  "doFetch srv url opts token st = (st', fr) \<Longrightarrow> au_status st' = au_status st \<and> au_user st' = au_user st
    \<and> au_ref st' = au_ref st \<and> cl_storage st' = cl_storage st"
  by (metis doFetch_auth fst_conv)

lemma finish_response_auth [simp]:
  "au_status (fst (finish_response r st)) = au_status st"
  "au_user (fst (finish_response r st)) = au_user st"
  "au_ref (fst (finish_response r st)) = au_ref st"
  "cl_storage (fst (finish_response r st)) = cl_storage st"
  by (simp_all add: finish_response_def split: option.splits)

lemma finish_fetch_auth [simp]:
  "au_status (fst (finish_fetch r st)) = au_status st"
  "au_user (fst (finish_fetch r st)) = au_user st"
  "au_ref (fst (finish_fetch r st)) = au_ref st"
  "cl_storage (fst (finish_fetch r st)) = cl_storage st"
  by (simp_all add: finish_fetch_def split: fetch_result.splits)

text \<open>A property of the session that survives the fetches and the given refresh survives a call.\<close>

lemma simpleRequest_preserves:
  fixes st :: "'s auth"
  assumes fetch: "\<And>t st. P st \<Longrightarrow> P (fst (doFetch srv (base @ endpoint) opts t st))"
    and fin: "\<And>r st. P st \<Longrightarrow> P (fst (finish_response r st))"
    and ref: "\<And>st. P st \<Longrightarrow> P (fst (refresh st))"
    and p: "P st"
  shows "P (fst (simpleRequest srv (Some refresh) base endpoint opts st))"
proof -
  obtain st1 fr where f: "doFetch srv (base @ endpoint) opts None st = (st1, fr)"
    by (cases "doFetch srv (base @ endpoint) opts None st")
  have p1: "P st1" using fetch [OF p] f by (metis fst_conv)
  obtain st2 tk where tk: "refresh st1 = (st2, tk)" by (cases "refresh st1")
  have p2: "P st2" using ref [OF p1] tk by simp
  have p3: "P (fst (finish_fetch fr2 st3))" if "doFetch srv (base @ endpoint) opts (Some tok) st2 = (st3, fr2)" for tok fr2 st3
  proof -
    have "P st3" using fetch [OF p2] that by (metis fst_conv)
    then show ?thesis using fin by (simp add: finish_fetch_def split: fetch_result.splits)
  qed
  show ?thesis
    using p1 p2 p3 fin
    by (auto simp: simpleRequest_def f tk split: fetch_result.splits settled.splits option.splits list.splits prod.splits)
qed

section \<open>The session invariant\<close>

definition session_ok :: "'s auth \<Rightarrow> bool" where
  "session_ok st = (au_status st = Authenticated \<longrightarrow> au_user st \<noteq> None)"

lemma drop_session_ok [simp]: "session_ok (drop_session st)"
  by (simp add: session_ok_def drop_session_def)

lemma session_ok_updates [simp]:
  "session_ok (st\<lparr>au_ref := r\<rparr>) = session_ok st"
  "session_ok (st\<lparr>au_status := Unauthenticated\<rparr>)" "session_ok (st\<lparr>au_status := SetupRequired\<rparr>)"
  "session_ok (st\<lparr>au_user := Some u, au_status := Authenticated\<rparr>)"
  "session_ok (st\<lparr>au_status := Unauthenticated, au_ref := r\<rparr>)"
  by (simp_all add: session_ok_def)

lemma storeTokens_ok: "storeTokens now t st = Inr st' \<Longrightarrow> session_ok st' = session_ok st"
  by (auto simp: storeTokens_def bindE_Inr_iff session_ok_def)

lemma storeTokens_okD: "storeTokens now t st = Inr st' \<Longrightarrow> session_ok st \<Longrightarrow> session_ok st'"
  using storeTokens_ok by blast

lemma send_ok:
  assumes "\<And>st. session_ok st \<Longrightarrow> session_ok (fst (refresh st))" and "session_ok st"
  shows "session_ok (fst (send srv (Some refresh) base rq st))"
  unfolding send_def using assms
  by (intro simpleRequest_preserves [where P = session_ok]) (simp_all add: session_ok_def)

lemma joinRefresh_state [simp]: "fst (joinRefresh st) = st"
  by (simp add: joinRefresh_def)

lemma doRefresh_ok: "session_ok st \<Longrightarrow> session_ok (fst (doRefresh srv clock base st))"
proof -
  assume st: "session_ok st"
  have "session_ok (fst (send srv (Some joinRefresh) base rq (st\<lparr>au_ref := RefPending\<rparr>)))" for rq
    by (rule send_ok) (simp_all add: st)
  then have "send srv (Some joinRefresh) base rq (st\<lparr>au_ref := RefPending\<rparr>) = (st1, r) \<Longrightarrow> session_ok st1" for rq st1 r
    by (metis fst_conv)
  then show ?thesis
    using st
    by (auto simp: doRefresh_def split: option.splits list.splits prod.splits settled.splits sum.splits
        dest: storeTokens_okD)
qed

lemma refreshTokens_ok: "session_ok st \<Longrightarrow> session_ok (fst (refreshTokens srv clock base st))"
  by (simp add: refreshTokens_def doRefresh_ok split: refresh_ref.splits)

lemma call_ok: "session_ok st \<Longrightarrow> session_ok (fst (call srv clock base rq st))"
  unfolding call_def by (rule send_ok) (simp_all add: refreshTokens_ok)

lemma call_okD: "call srv clock base rq st = (st', r) \<Longrightarrow> session_ok st \<Longrightarrow> session_ok st'"
  using call_ok by (metis fst_conv)

lemma fetchMe_ok: "session_ok st \<Longrightarrow> session_ok (fst (fetchMe srv clock base st))"
  by (auto simp: fetchMe_def split: prod.splits settled.splits dest: call_okD)

lemma finish_login_ok: "session_ok (fst res) \<Longrightarrow> session_ok (fst (finish_login srv clock base res))"
proof (cases res)
  case (Pair st1 r)
  assume ok: "session_ok (fst res)"
  have "session_ok (fst (fetchMe srv clock base st2))" if "storeTokens now t st1 = Inr st2" for now t st2
    using storeTokens_ok [OF that] ok Pair fetchMe_ok by auto
  then show ?thesis using ok Pair
    by (auto simp: finish_login_def split: settled.splits sum.splits prod.splits) (metis fst_conv)+
qed

lemma init_fetch_me_ok: "session_ok st \<Longrightarrow> session_ok (init_fetch_me srv clock base c st)"
  by (simp add: init_fetch_me_def fetchMe_ok)

lemma init_ok: "session_ok st \<Longrightarrow> session_ok (init srv clock base cancelled st)"
proof -
  assume st: "session_ok st"
  have wt: "session_ok (init_with_token srv clock base cancelled st1)" if "session_ok st1" for st1
    using that
    by (auto simp: init_with_token_def init_fetch_me_ok split: option.splits list.splits prod.splits
        settled.splits sum.splits dest: call_okD storeTokens_okD)
  show ?thesis
    using st wt
    by (auto simp: init_def split: prod.splits settled.splits sum.splits dest: call_okD)
qed

text \<open>The operations that the provider offers, with their settled or pending outcome dropped.\<close>

datatype auth_op = Init "nat \<Rightarrow> bool" | Login string string | Setup string string | Logout | Refresh | Api api_request

fun auth_step :: "'s server \<Rightarrow> ('s \<Rightarrow> int) \<Rightarrow> string \<Rightarrow> auth_op \<Rightarrow> 's auth \<Rightarrow> 's auth" where
  "auth_step srv clock base (Init c) st = init srv clock base c st"
| "auth_step srv clock base (Login u p) st = fst (login srv clock base u p st)"
| "auth_step srv clock base (Setup u p) st = fst (setup_account srv clock base u p st)"
| "auth_step srv clock base Logout st = fst (logout srv clock base st)"
| "auth_step srv clock base Refresh st = fst (refreshTokens srv clock base st)"
| "auth_step srv clock base (Api rq) st = fst (call srv clock base rq st)"

lemma auth_step_ok: "session_ok st \<Longrightarrow> session_ok (auth_step srv clock base op1 st)"
proof (cases op1)
  case Logout
  assume "session_ok st"
  with Logout show ?thesis
    by (auto simp: logout_def split: prod.splits settled.splits dest: call_okD)
qed (simp_all add: init_ok login_def setup_account_def finish_login_ok call_ok refreshTokens_ok)


text \<open>A server that accepts everything and issues one token pair.\<close>

definition kind_server :: "unit server" where
  "kind_server u rq = ((), Response \<lparr>rs_status = 200, rs_statusText = ''OK'',
     rs_body = Some (JObj [(''access_token'', JStr ''a''), (''refresh_token'', JStr ''r''), (''expires_in'', JInt 900)])\<rparr>)"

lemma kind_call:
  "call kind_server clock base rq st = (fst (doFetch kind_server (base @ ar_endpoint rq) (ar_init rq) None st),
     Resolved (JObj [(''access_token'', JStr ''a''), (''refresh_token'', JStr ''r''), (''expires_in'', JInt 900)]))"
  by (simp add: call_def send_def simpleRequest_def doFetch_def kind_server_def Let_def finish_response_def
      response_ok_def)


section \<open>A kept promise disables refreshing\<close>

definition keeps :: "string option \<Rightarrow> 's auth \<Rightarrow> bool" where
  "keeps x st = (au_ref st = RefResolved x)"

lemma keeps_updates [simp]:
  "keeps x (drop_session st) = keeps x st" "keeps x (st\<lparr>au_status := s\<rparr>) = keeps x st"
  "keeps x (st\<lparr>au_user := u\<rparr>) = keeps x st"
  by (simp_all add: keeps_def drop_session_def clearTokens_def)

lemma keeps_storeTokens: "storeTokens now t st = Inr st' \<Longrightarrow> keeps x st \<Longrightarrow> keeps x st'"
  by (auto simp: storeTokens_def bindE_Inr_iff keeps_def)

lemma keeps_refresh: "keeps x st \<Longrightarrow> refreshTokens srv clock base st = (st, Resolved x)"
  by (simp add: keeps_def refreshTokens_def joinRefresh_def)

lemma keeps_call: "keeps x st \<Longrightarrow> keeps x (fst (call srv clock base rq st))"
  unfolding call_def send_def
  by (rule simpleRequest_preserves) (simp_all add: keeps_refresh, simp_all add: keeps_def)

lemma keeps_callD: "call srv clock base rq st = (st', r) \<Longrightarrow> keeps x st \<Longrightarrow> keeps x st'"
  using keeps_call by (metis fst_conv)

lemma keeps_fetchMe: "keeps x st \<Longrightarrow> keeps x (fst (fetchMe srv clock base st))"
  by (auto simp: fetchMe_def split: prod.splits settled.splits dest: keeps_callD)

lemma keeps_fetchMeD: "fetchMe srv clock base st = (st', r) \<Longrightarrow> keeps x st \<Longrightarrow> keeps x st'"
  using keeps_fetchMe by (metis fst_conv)

lemma keeps_finish_login: "keeps x (fst res) \<Longrightarrow> keeps x (fst (finish_login srv clock base res))"
  by (cases res)
    (auto simp: finish_login_def split: settled.splits sum.splits prod.splits
      dest: keeps_storeTokens keeps_fetchMeD)

lemma keeps_init_fetch_me: "keeps x st \<Longrightarrow> keeps x (init_fetch_me srv clock base c st)"
  by (simp add: init_fetch_me_def keeps_fetchMe)

lemma keeps_init: "keeps x st \<Longrightarrow> keeps x (init srv clock base cancelled st)"
proof -
  assume st: "keeps x st"
  have wt: "keeps x (init_with_token srv clock base cancelled st1)" if "keeps x st1" for st1
    using that
    by (auto simp: init_with_token_def keeps_init_fetch_me split: option.splits list.splits prod.splits
        settled.splits sum.splits dest: keeps_callD keeps_storeTokens)
  show ?thesis
    using st wt
    by (auto simp: init_def split: prod.splits settled.splits sum.splits dest: keeps_callD)
qed

lemma keeps_step: "keeps x st \<Longrightarrow> keeps x (auth_step srv clock base op1 st)"
proof (cases op1)
  case Logout
  assume "keeps x st"
  with Logout show ?thesis
    by (auto simp: logout_def split: prod.splits settled.splits dest: keeps_callD)
next
  case Refresh
  assume "keeps x st"
  with Refresh show ?thesis by (simp add: keeps_refresh)
qed (simp_all add: keeps_init login_def setup_account_def keeps_finish_login keeps_call)

lemma keeps_run: "keeps x st \<Longrightarrow> keeps x (foldl (\<lambda>st op1. auth_step srv clock base op1 st) st ops)"
  by (induction ops arbitrary: st) (simp_all add: keeps_step)

text \<open>The server's answer to one endpoint.\<close>

definition answers :: "'s server \<Rightarrow> string \<Rightarrow> nat \<Rightarrow> bool" where
  "answers srv url status =
     (\<forall>s rq. rq_url rq = url \<longrightarrow> (\<exists>s' r. srv s rq = (s', Response r) \<and> rs_status r = status))"

lemma answers_doFetch:
  assumes "answers srv url status"
  obtains st1 r where "doFetch srv url opts t st = (st1, Response r)" "rs_status r = status"
proof -
  let ?rq = "\<lparr>rq_url = url, rq_init = opts\<lparr>ri_headers := buildHeaders (ri_headers opts) (getAccessToken st) t\<rparr>\<rparr>"
  obtain s' r where "srv (cl_server st) ?rq = (s', Response r)" "rs_status r = status"
    using assms unfolding answers_def by (metis http_request.select_convs(1))
  then show ?thesis using that by (simp add: doFetch_def Let_def)
qed

text \<open>C11: one login with wrong credentials, made while no refresh token is stored, leaves a resolved promise
  behind, and from then on, whatever happens, a silent refresh sends nothing and gives no token.\<close>

theorem failed_login_disables_refresh:
  fixes srv :: "'s server" and st :: "'s auth" and clock base u p ops
  assumes "answers srv (base @ ''/api/auth/login'') 401"
    and "au_ref st = RefNone" and "cl_storage st REFRESH_TOKEN_KEY = None"
  defines "later \<equiv> foldl (\<lambda>st op1. auth_step srv clock base op1 st) st (Login u p # ops)"
  shows "refreshTokens srv clock base later = (later, Resolved None)"
proof -
  obtain st1 r where f: "doFetch srv (base @ ''/api/auth/login'') (ar_init (authApi_login u p)) None st = (st1, Response r)"
      "rs_status r = 401"
    using answers_doFetch [OF assms(1)] by metis
  have st1: "au_ref st1 = RefNone" "cl_storage st1 REFRESH_TOKEN_KEY = None"
    using doFetch_authD [OF f(1)] assms(2,3)
    by simp_all
  have "call srv clock base (authApi_login u p) st
      = finish_response r (st1\<lparr>au_status := Unauthenticated, au_ref := RefResolved None\<rparr>)"
    using f st1
    by (simp add: call_def send_def simpleRequest_def authApi_login_def auth_request_def refreshTokens_def
        doRefresh_def)
  then have "keeps None (fst (call srv clock base (authApi_login u p) st))" by (simp add: keeps_def)
  then have "keeps None (auth_step srv clock base (Login u p) st)"
    by (simp add: login_def keeps_finish_login)
  then have "keeps None later" unfolding later_def by (simp add: keeps_run del: auth_step.simps)
  then show ?thesis by (rule keeps_refresh)
qed

text \<open>A server that rejects logins.\<close>

definition strict_server :: "string \<Rightarrow> unit server" where
  "strict_server rejected u rq =
     ((), Response (if rq_url rq = rejected
                    then \<lparr>rs_status = 401, rs_statusText = ''Unauthorized'', rs_body = None\<rparr>
                    else \<lparr>rs_status = 200, rs_statusText = ''OK'', rs_body = Some (JObj [])\<rparr>))"

lemma strict_answers: "answers (strict_server url) url 401"
  by (simp add: answers_def strict_server_def)

lemma failed_login_disables_refresh_witness:
  "snd (refreshTokens (strict_server ''h/api/auth/login'') (\<lambda>_. 0) ''h''
     (foldl (\<lambda>st op1. auth_step (strict_server ''h/api/auth/login'') (\<lambda>_. 0) ''h'' op1 st)
        (auth_init (\<lambda>_. None) ()) [Login ''u'' ''bad'', Setup ''u'' ''good''])) = Resolved None"
  using failed_login_disables_refresh [of "strict_server ''h/api/auth/login''" "''h''" "auth_init (\<lambda>_. None) ()"
      "\<lambda>_. 0" "''u''" "''bad''" "[Setup ''u'' ''good'']"]
    strict_answers [of "''h/api/auth/login''"]
  by (simp add: auth_init_def)

section \<open>A rejected refresh token\<close>

lemma refresh_deadlock:
  fixes st :: "'s auth"
  assumes "answers srv (base @ ''/api/auth/refresh'') 401"
    and "au_ref st = RefNone" and "cl_storage st REFRESH_TOKEN_KEY = Some (c # cs)"
  obtains st' where "refreshTokens srv clock base st = (st', Never)" "au_ref st' = RefPending"
    "au_status st' = au_status st" "au_user st' = au_user st" "cl_storage st' = cl_storage st"
proof -
  let ?rq = "authApi_refresh (c # cs)" and ?st = "st\<lparr>au_ref := RefPending\<rparr>"
  obtain st1 r where f: "doFetch srv (base @ ''/api/auth/refresh'') (ar_init ?rq) None ?st = (st1, Response r)"
      "rs_status r = 401"
    using answers_doFetch [OF assms(1)] by metis
  have st1: "au_ref st1 = RefPending" "au_status st1 = au_status st" "au_user st1 = au_user st"
      "cl_storage st1 = cl_storage st"
    using doFetch_authD [OF f(1)] by simp_all
  have "send srv (Some joinRefresh) base ?rq ?st = (st1, Never)"
    using f st1(1) by (simp add: send_def simpleRequest_def authApi_refresh_def auth_request_def joinRefresh_def)
  then have "refreshTokens srv clock base st = (st1, Never)"
    using assms(2,3) by (simp add: refreshTokens_def doRefresh_def)
  then show ?thesis using st1 by (intro that)
qed

text \<open>C12: when the stored access token is about to expire and the server answers the refresh with 401, the
  initial check never ends: the refresh waits for the promise of its own call, so the provider stays in
  its loading state and the refresh promise stays pending.\<close>

theorem init_stuck_on_rejected_refresh:
  fixes srv :: "'s server"
  assumes "answers srv (base @ ''/api/auth/refresh'') 401"
    and status: "\<And>s rq. rq_url rq = base @ ''/api/auth/setup/status'' \<Longrightarrow> \<exists>s'. srv s rq =
        (s', Response \<lparr>rs_status = 200, rs_statusText = ''OK'', rs_body = Some (JObj [(''setup_required'', JBool False)])\<rparr>)"
    and "storage ACCESS_TOKEN_KEY = Some (a # as)" and "storage REFRESH_TOKEN_KEY = Some (c # cs)"
    and "storage EXPIRES_AT_KEY = Some (show_int expiresAt)" and "\<And>s. expiresAt - 120000 < clock s"
  shows "au_status (init srv clock base cancelled (auth_init storage s)) = Loading
    \<and> (cancelled 0 \<or> au_ref (init srv clock base cancelled (auth_init storage s)) = RefPending)"
proof -
  let ?st = "auth_init storage s" and ?body = "JObj [(''setup_required'', JBool False)]"
  obtain st1 where f: "doFetch srv (base @ ''/api/auth/setup/status'') (ar_init authApi_getSetupStatus) None ?st
      = (st1, Response \<lparr>rs_status = 200, rs_statusText = ''OK'', rs_body = Some ?body\<rparr>)"
  proof -
    let ?rq = "\<lparr>rq_url = base @ ''/api/auth/setup/status'', rq_init = (ar_init authApi_getSetupStatus)
        \<lparr>ri_headers := buildHeaders (ri_headers (ar_init authApi_getSetupStatus)) (getAccessToken ?st) None\<rparr>\<rparr>"
    obtain s' where "srv (cl_server ?st) ?rq
        = (s', Response \<lparr>rs_status = 200, rs_statusText = ''OK'', rs_body = Some ?body\<rparr>)"
      using status [of ?rq] by (auto simp only: http_request.select_convs)
    then show ?thesis using that by (simp add: doFetch_def Let_def)
  qed
  have st1: "au_ref st1 = RefNone" "au_status st1 = Loading" "cl_storage st1 = storage"
    using doFetch_authD [OF f]
    by (simp_all add: auth_init_def)
  have c1: "call srv clock base authApi_getSetupStatus ?st = (st1, Resolved ?body)"
    using f by (simp add: call_def send_def simpleRequest_def authApi_getSetupStatus_def auth_request_def
        finish_response_def response_ok_def)
  obtain st2 r where f2: "doFetch srv (base @ ''/api/auth/refresh'') (ar_init (authApi_refresh (c # cs))) None st1
      = (st2, Response r)" "rs_status r = 401"
    using answers_doFetch [OF assms(1)] by metis
  have st2: "au_ref st2 = RefNone" "au_status st2 = Loading" "cl_storage st2 = storage"
    using doFetch_authD [OF f2(1)] st1
    by simp_all
  have "cl_storage st2 REFRESH_TOKEN_KEY = Some (c # cs)" using st2(3) assms(4) by simp
  then obtain st3 where st3: "refreshTokens srv clock base st2 = (st3, Never)" "au_ref st3 = RefPending"
      "au_status st3 = au_status st2"
    using refresh_deadlock [OF assms(1) st2(1), of c cs clock] by metis
  have c2: "call srv clock base (authApi_refresh (c # cs)) st1 = (st3, Never)"
    using f2 st3(1) by (simp add: call_def send_def simpleRequest_def authApi_refresh_def auth_request_def)
  have soon: "isTokenExpiringSoon (clock (cl_server st1)) st1"
    using assms(5,6) st1(3) by (simp add: isTokenExpiringSoon_def js_Number_show_int)
  show ?thesis
    using c1 c2 soon st1 st3 st2 assms(3,4) by (simp add: init_def init_with_token_def getAccessToken_def)
qed

definition expired_server :: "unit server" where
  "expired_server u rq =
     ((), Response (if rq_url rq = ''h/api/auth/refresh''
                    then \<lparr>rs_status = 401, rs_statusText = ''Unauthorized'', rs_body = None\<rparr>
                    else \<lparr>rs_status = 200, rs_statusText = ''OK'',
                          rs_body = Some (JObj [(''setup_required'', JBool False)])\<rparr>))"

lemma init_stuck_on_rejected_refresh_witness:
  "au_status (init expired_server (\<lambda>_. 900000) ''h'' (\<lambda>_. False) (auth_init
     (Map.empty(ACCESS_TOKEN_KEY \<mapsto> ''a'', REFRESH_TOKEN_KEY \<mapsto> ''r'', EXPIRES_AT_KEY \<mapsto> show_int 900000)) ()))
   = Loading"
proof -
  let ?storage = "Map.empty(ACCESS_TOKEN_KEY \<mapsto> ''a'', REFRESH_TOKEN_KEY \<mapsto> ''r'', EXPIRES_AT_KEY \<mapsto> show_int 900000)"
  have "answers expired_server (''h'' @ ''/api/auth/refresh'') 401" by (simp add: answers_def expired_server_def)
  from init_stuck_on_rejected_refresh [OF this, of ?storage "CHR ''a''" "[]" "CHR ''r''" "[]" 900000 "\<lambda>_. 900000"]
  show ?thesis by (simp add: expired_server_def)
qed

end
