(* ===== verification/Refresh_Protocol.thy ===== *)
theory Refresh_Protocol
  imports Auth_Session
begin

text \<open>
  Interleavings of the session's operations at their await points: \<open>refreshTokens\<close> of
  ui/src/hooks/useAuth.tsx called by several requests of ui/src/api/base.ts that were answered 401,
  with logins and logouts in between.  A promise is a number; \<open>pr_promises\<close> gives its state.  Tokens
  are numbers, and the server issues a refresh token at most once.  A request is a caller: it was
  sent, waits for a refresh promise, was repeated with a token, or failed.
\<close>

section \<open>Reachability\<close>

inductive reach :: "('s \<Rightarrow> bool) \<Rightarrow> ('s \<Rightarrow> 's \<Rightarrow> bool) \<Rightarrow> 's \<Rightarrow> bool"
  for init :: "'s \<Rightarrow> bool" and step :: "'s \<Rightarrow> 's \<Rightarrow> bool" where
  reach_init: "init s \<Longrightarrow> reach init step s"
| reach_step: "reach init step s \<Longrightarrow> step s t \<Longrightarrow> reach init step t"

locale inductive_invariant =
  fixes init :: "'s \<Rightarrow> bool" and step :: "'s \<Rightarrow> 's \<Rightarrow> bool" and inv :: "'s \<Rightarrow> bool"
  assumes inv_init: "init s \<Longrightarrow> inv s"
    and inv_step: "inv s \<Longrightarrow> step s t \<Longrightarrow> inv t"

context inductive_invariant
begin

lemma reach_inv: "reach init step s \<Longrightarrow> inv s"
  by (induction rule: reach.induct) (auto intro: inv_init inv_step)

end

section \<open>The protocol\<close>

datatype promise = Pending | Settled "nat option"
datatype caller = Sent "nat option" | Waiting nat | Retried nat | Failed
datatype phase = SignedOut | SignedIn

record proto =
  pr_access :: "nat option"
  pr_refresh :: "nat option"
  pr_ref :: "nat option"
  pr_promises :: "promise list"
  pr_flights :: "(nat \<times> nat) list"
  pr_callers :: "caller list"
  pr_phase :: phase
  pr_issued :: "nat set"
  pr_sent :: "nat list"

definition proto_init :: "proto \<Rightarrow> bool" where
  "proto_init s \<longleftrightarrow> s = \<lparr>pr_access = None, pr_refresh = None, pr_ref = None, pr_promises = [], pr_flights = [],
     pr_callers = [], pr_phase = SignedOut, pr_issued = {}, pr_sent = []\<rparr>"

text \<open>A request leaves with the stored access token.\<close>

definition issue :: "proto \<Rightarrow> proto" where
  "issue s = s\<lparr>pr_callers := pr_callers s @ [Sent (pr_access s)]\<rparr>"

text \<open>
  \<open>refreshTokens()\<close> for the caller \<open>i\<close> that was answered 401: join the promise in the reference; start a
  refresh; or, without a refresh token, leave a promise that is already resolved in the reference.
\<close>

definition on_unauthorized :: "nat \<Rightarrow> proto \<Rightarrow> proto" where
  "on_unauthorized i s =
     (case pr_ref s of
        Some p \<Rightarrow> s\<lparr>pr_callers := (pr_callers s)[i := Waiting p]\<rparr>
      | None \<Rightarrow>
          let p = length (pr_promises s) in
          (case pr_refresh s of
             Some r \<Rightarrow> s\<lparr>pr_ref := Some p, pr_promises := pr_promises s @ [Pending],
                         pr_flights := pr_flights s @ [(p, r)], pr_sent := pr_sent s @ [r],
                         pr_callers := (pr_callers s)[i := Waiting p]\<rparr>
           | None \<Rightarrow> s\<lparr>pr_ref := Some p, pr_promises := pr_promises s @ [Settled None],
                       pr_phase := SignedOut, pr_callers := (pr_callers s)[i := Waiting p]\<rparr>))"

text \<open>The refresh of promise \<open>p\<close> is answered with tokens, or fails.\<close>

definition on_refreshed :: "nat \<Rightarrow> nat \<Rightarrow> nat \<Rightarrow> nat \<Rightarrow> proto \<Rightarrow> proto" where
  "on_refreshed p r access refresh s =
     s\<lparr>pr_access := Some access, pr_refresh := Some refresh, pr_ref := None,
       pr_promises := (pr_promises s)[p := Settled (Some access)],
       pr_flights := remove1 (p, r) (pr_flights s), pr_issued := insert refresh (pr_issued s)\<rparr>"

definition on_refresh_failed :: "nat \<Rightarrow> nat \<Rightarrow> proto \<Rightarrow> proto" where
  "on_refresh_failed p r s =
     s\<lparr>pr_access := None, pr_refresh := None, pr_phase := SignedOut, pr_ref := None,
       pr_promises := (pr_promises s)[p := Settled None], pr_flights := remove1 (p, r) (pr_flights s)\<rparr>"

definition resume :: "nat \<Rightarrow> nat option \<Rightarrow> proto \<Rightarrow> proto" where
  "resume i v s =
     s\<lparr>pr_callers := (pr_callers s)[i := (case v of Some a \<Rightarrow> Retried a | None \<Rightarrow> Failed)]\<rparr>"

definition signed_in :: "nat \<Rightarrow> nat \<Rightarrow> proto \<Rightarrow> proto" where
  "signed_in access refresh s =
     s\<lparr>pr_access := Some access, pr_refresh := Some refresh, pr_phase := SignedIn,
       pr_issued := insert refresh (pr_issued s)\<rparr>"

definition signed_out :: "proto \<Rightarrow> proto" where
  "signed_out s = s\<lparr>pr_access := None, pr_refresh := None, pr_phase := SignedOut\<rparr>"

inductive proto_step :: "proto \<Rightarrow> proto \<Rightarrow> bool" where
  step_issue: "proto_step s (issue s)"
| step_unauthorized: "i < length (pr_callers s) \<Longrightarrow> pr_callers s ! i = Sent t \<Longrightarrow> proto_step s (on_unauthorized i s)"
| step_refreshed: "(p, r) \<in> set (pr_flights s) \<Longrightarrow> refresh \<notin> pr_issued s \<Longrightarrow>
    proto_step s (on_refreshed p r access refresh s)"
| step_refresh_failed: "(p, r) \<in> set (pr_flights s) \<Longrightarrow> proto_step s (on_refresh_failed p r s)"
| step_resume: "i < length (pr_callers s) \<Longrightarrow> pr_callers s ! i = Waiting p \<Longrightarrow> p < length (pr_promises s) \<Longrightarrow>
    pr_promises s ! p = Settled v \<Longrightarrow> proto_step s (resume i v s)"
| step_login: "refresh \<notin> pr_issued s \<Longrightarrow> proto_step s (signed_in access refresh s)"
| step_logout: "proto_step s (signed_out s)"

inductive_cases proto_stepE: "proto_step s t"

section \<open>Invariants\<close>

text \<open>The reference names the one refresh in flight; every waiter waits for it or for a settled promise.\<close>

definition flights_ok :: "(nat \<times> nat) list \<Rightarrow> nat option \<Rightarrow> promise list \<Rightarrow> bool" where
  "flights_ok fs rf ps \<longleftrightarrow> (case fs of
       [] \<Rightarrow> True
     | [(p, r)] \<Rightarrow> rf = Some p \<and> p < length ps \<and> ps ! p = Pending
     | _ \<Rightarrow> False)"

definition ref_ok :: "(nat \<times> nat) list \<Rightarrow> nat option \<Rightarrow> promise list \<Rightarrow> bool" where
  "ref_ok fs rf ps \<longleftrightarrow> (case rf of Some p \<Rightarrow> p < length ps | None \<Rightarrow> fs = [])"

definition pending_ok :: "(nat \<times> nat) list \<Rightarrow> promise list \<Rightarrow> bool" where
  "pending_ok fs ps \<longleftrightarrow> (\<forall>p < length ps. ps ! p = Pending \<longrightarrow> p \<in> fst ` set fs)"

definition waiters_ok :: "nat \<Rightarrow> caller list \<Rightarrow> bool" where
  "waiters_ok n cs \<longleftrightarrow> (\<forall>c \<in> set cs. case c of Waiting p \<Rightarrow> p < n | _ \<Rightarrow> True)"

definition flight_ok :: "proto \<Rightarrow> bool" where
  "flight_ok s \<longleftrightarrow> flights_ok (pr_flights s) (pr_ref s) (pr_promises s)
     \<and> ref_ok (pr_flights s) (pr_ref s) (pr_promises s) \<and> pending_ok (pr_flights s) (pr_promises s)
     \<and> waiters_ok (length (pr_promises s)) (pr_callers s)"

lemma ball_set_update: "P y \<Longrightarrow> \<forall>x \<in> set xs. P x \<Longrightarrow> \<forall>x \<in> set (xs[i := y]). P x"
  using set_update_subset_insert [of xs i y] by auto

lemma waiters_ok_update:
  "waiters_ok n cs \<Longrightarrow> (case c of Waiting p \<Rightarrow> p < n | _ \<Rightarrow> True) \<Longrightarrow> waiters_ok n (cs[i := c])"
  unfolding waiters_ok_def by (rule ball_set_update)

lemma waiters_ok_mono: "waiters_ok n cs \<Longrightarrow> n \<le> m \<Longrightarrow> waiters_ok m cs"
  by (fastforce simp: waiters_ok_def split: caller.splits)

lemma flight_ok_unauthorized:
  assumes "flight_ok s" shows "flight_ok (on_unauthorized i s)"
proof (cases "pr_ref s")
  case (Some p)
  then have "p < length (pr_promises s)" using assms by (simp add: flight_ok_def ref_ok_def)
  then show ?thesis using assms Some
    by (simp add: on_unauthorized_def flight_ok_def flights_ok_def ref_ok_def pending_ok_def waiters_ok_update)
next
  case None
  have nf: "pr_flights s = []" using assms None by (simp add: flight_ok_def ref_ok_def)
  have w: "waiters_ok (Suc (length (pr_promises s))) ((pr_callers s)[i := Waiting (length (pr_promises s))])"
    using assms waiters_ok_mono [of "length (pr_promises s)" "pr_callers s" "Suc (length (pr_promises s))"]
    by (intro waiters_ok_update) (simp_all add: flight_ok_def)
  have "pr_promises s ! p \<noteq> Pending" if "p < length (pr_promises s)" for p
    using assms that nf by (auto simp: flight_ok_def pending_ok_def)
  then show ?thesis using None nf w
    by (cases "pr_refresh s")
      (auto simp: on_unauthorized_def Let_def flight_ok_def flights_ok_def ref_ok_def pending_ok_def
        nth_append less_Suc_eq split: if_splits)
qed

lemma flight_ok_settle:
  assumes "flight_ok s" "(p, r) \<in> set (pr_flights s)"
  shows "flight_ok (on_refreshed p r a rt s)" "flight_ok (on_refresh_failed p r s)"
proof -
  have f: "pr_flights s = [(p, r)]"
    using assms by (auto simp: flight_ok_def flights_ok_def split: list.splits)
  have "(pr_promises s)[p := Settled v] ! q \<noteq> Pending" if "q < length (pr_promises s)" for q v
    using assms(1) f that by (cases "q = p") (auto simp: flight_ok_def pending_ok_def)
  then show "flight_ok (on_refreshed p r a rt s)" "flight_ok (on_refresh_failed p r s)"
    using assms(1) f
    by (simp_all add: flight_ok_def flights_ok_def ref_ok_def pending_ok_def on_refreshed_def on_refresh_failed_def)
qed

lemma flight_ok_others:
  assumes "flight_ok s"
  shows "flight_ok (issue s)" "flight_ok (resume i v s)" "flight_ok (signed_in a r s)" "flight_ok (signed_out s)"
proof -
  have "waiters_ok (length (pr_promises s)) ((pr_callers s)[i := (case v of Some a \<Rightarrow> Retried a | None \<Rightarrow> Failed)])"
    using assms by (intro waiters_ok_update) (simp_all add: flight_ok_def split: option.splits)
  then show "flight_ok (resume i v s)"
    using assms by (simp add: flight_ok_def flights_ok_def ref_ok_def pending_ok_def resume_def)
  show "flight_ok (issue s)" "flight_ok (signed_in a r s)" "flight_ok (signed_out s)"
    using assms
    by (simp_all add: flight_ok_def flights_ok_def ref_ok_def pending_ok_def waiters_ok_def issue_def
        signed_in_def signed_out_def)
qed

lemma flight_ok_step: "flight_ok s \<Longrightarrow> proto_step s t \<Longrightarrow> flight_ok t"
  by (erule proto_stepE) (simp_all add: flight_ok_unauthorized flight_ok_settle flight_ok_others)

lemma flight_ok_init: "proto_init s \<Longrightarrow> flight_ok s"
  by (simp add: proto_init_def flight_ok_def flights_ok_def ref_ok_def pending_ok_def waiters_ok_def)

interpretation flight: inductive_invariant proto_init proto_step flight_ok
  by unfold_locales (erule flight_ok_init, erule (1) flight_ok_step)

text \<open>C2: in every interleaving of requests, logins and logouts at most one refresh is in flight, and each
  request that waits for a refresh waits for that one or for a promise that has settled.\<close>

theorem single_flight:
  assumes "reach proto_init proto_step s"
  shows "length (pr_flights s) \<le> 1
    \<and> (\<forall>i < length (pr_callers s). \<forall>p. pr_callers s ! i = Waiting p \<longrightarrow>
         p \<in> fst ` set (pr_flights s) \<or> (\<exists>v. pr_promises s ! p = Settled v \<and> proto_step s (resume i v s)))"
proof (intro conjI allI impI)
  have ok: "flight_ok s" by (rule flight.reach_inv [OF assms])
  then show "length (pr_flights s) \<le> 1" by (auto simp: flight_ok_def flights_ok_def split: list.splits)
  fix i p assume i: "i < length (pr_callers s)" "pr_callers s ! i = Waiting p"
  have "Waiting p \<in> set (pr_callers s)" using i nth_mem by metis
  then have p: "p < length (pr_promises s)" using ok by (auto simp: flight_ok_def waiters_ok_def)
  show "p \<in> fst ` set (pr_flights s) \<or> (\<exists>v. pr_promises s ! p = Settled v \<and> proto_step s (resume i v s))"
  proof (cases "pr_promises s ! p")
    case Pending
    then show ?thesis using ok p by (simp add: flight_ok_def pending_ok_def)
  next
    case (Settled v)
    then show ?thesis using i p step_resume by blast
  qed
qed

text \<open>A run used by the witnesses: sign in, send two requests, both are answered 401.\<close>

definition demo_start :: proto where
  "demo_start = signed_in 1 2 (\<lparr>pr_access = None, pr_refresh = None, pr_ref = None, pr_promises = [],
     pr_flights = [], pr_callers = [], pr_phase = SignedOut, pr_issued = {}, pr_sent = []\<rparr>)"

definition demo_waiting :: proto where
  "demo_waiting = on_unauthorized 1 (on_unauthorized 0 (issue (issue demo_start)))"

lemma reach_demo_waiting: "reach proto_init proto_step demo_waiting"
proof -
  define s0 where "s0 = \<lparr>pr_access = None, pr_refresh = None, pr_ref = None, pr_promises = [],
     pr_flights = [], pr_callers = [], pr_phase = SignedOut, pr_issued = {}, pr_sent = []\<rparr>"
  have "reach proto_init proto_step s0" by (rule reach_init) (simp add: proto_init_def s0_def)
  moreover have "proto_step s0 demo_start"
    unfolding demo_start_def s0_def [symmetric] by (rule step_login) (simp add: s0_def)
  ultimately have "reach proto_init proto_step demo_start" by (rule reach_step)
  then have "reach proto_init proto_step (issue demo_start)" by (rule reach_step) (rule step_issue)
  then have "reach proto_init proto_step (issue (issue demo_start))" by (rule reach_step) (rule step_issue)
  then have "reach proto_init proto_step (on_unauthorized 0 (issue (issue demo_start)))"
    by (rule reach_step) (rule step_unauthorized, simp_all add: issue_def demo_start_def signed_in_def)
  then show ?thesis
    unfolding demo_waiting_def
    by (rule reach_step)
      (rule step_unauthorized, simp_all add: issue_def demo_start_def signed_in_def on_unauthorized_def Let_def)
qed

lemma demo_waiting_fields:
  "pr_flights demo_waiting = [(0, 2)]" "pr_callers demo_waiting = [Waiting 0, Waiting 0]"
  "pr_promises demo_waiting = [Pending]" "pr_issued demo_waiting = {2}" "pr_sent demo_waiting = [2]"
  by (simp_all add: demo_waiting_def on_unauthorized_def issue_def demo_start_def signed_in_def Let_def)

lemma single_flight_witness: "length (pr_flights demo_waiting) \<le> 1"
  using single_flight [OF reach_demo_waiting] by blast

section \<open>A refresh token is used once\<close>

definition tokens_ok :: "proto \<Rightarrow> bool" where
  "tokens_ok s \<longleftrightarrow> flight_ok s \<and> distinct (pr_sent s) \<and> set (pr_sent s) \<subseteq> pr_issued s
     \<and> (\<forall>r. pr_refresh s = Some r \<longrightarrow> r \<in> pr_issued s \<and> (r \<in> set (pr_sent s) \<longrightarrow> pr_flights s \<noteq> []))"

lemma tokens_ok_unauthorized: "tokens_ok s \<Longrightarrow> tokens_ok (on_unauthorized i s)"
proof -
  assume t: "tokens_ok s"
  then have f: "flight_ok (on_unauthorized i s)" by (simp add: tokens_ok_def flight_ok_unauthorized)
  show ?thesis
  proof (cases "pr_ref s")
    case (Some p)
    then show ?thesis using t f by (simp add: tokens_ok_def on_unauthorized_def)
  next
    case None
    then have "pr_flights s = []" using t by (simp add: tokens_ok_def flight_ok_def ref_ok_def)
    then show ?thesis using t f None
      by (cases "pr_refresh s") (auto simp: tokens_ok_def on_unauthorized_def Let_def)
  qed
qed

lemma tokens_ok_step: "tokens_ok s \<Longrightarrow> proto_step s t \<Longrightarrow> tokens_ok t"
proof (erule proto_stepE)
  assume t: "tokens_ok s"
  then have f: "flight_ok s" by (simp add: tokens_ok_def)
  { assume "t = issue s" then show ?thesis using t flight_ok_others(1) [OF f] by (simp add: tokens_ok_def issue_def) }
  { fix i assume "t = on_unauthorized i s" then show ?thesis using tokens_ok_unauthorized [OF t] by simp }
  { fix p r n a assume "t = on_refreshed p r a n s" "(p, r) \<in> set (pr_flights s)" "n \<notin> pr_issued s"
    then show ?thesis using t flight_ok_settle(1) [OF f]
      by (auto simp: tokens_ok_def on_refreshed_def) }
  { fix p r assume "t = on_refresh_failed p r s" "(p, r) \<in> set (pr_flights s)"
    then show ?thesis using t flight_ok_settle(2) [OF f] by (simp add: tokens_ok_def on_refresh_failed_def) }
  { fix i v assume "t = resume i v s" then show ?thesis using t flight_ok_others(2) [OF f]
      by (simp add: tokens_ok_def resume_def) }
  { fix n a assume "t = signed_in a n s" "n \<notin> pr_issued s" then show ?thesis using t flight_ok_others(3) [OF f]
      by (auto simp: tokens_ok_def signed_in_def) }
  { assume "t = signed_out s" then show ?thesis using t flight_ok_others(4) [OF f]
      by (simp add: tokens_ok_def signed_out_def) }
qed

lemma tokens_ok_init: "proto_init s \<Longrightarrow> tokens_ok s"
  using flight_ok_init [of s] by (auto simp: tokens_ok_def proto_init_def)

interpretation tokens: inductive_invariant proto_init proto_step tokens_ok
  by unfold_locales (erule tokens_ok_init, erule (1) tokens_ok_step)



section \<open>A logout during a refresh\<close>

text \<open>C37: a logout while a refresh is in flight is undone in the storage: when the answer arrives, the
  tokens are stored again although the session is signed out.\<close>

theorem logout_during_refresh:
  assumes "reach proto_init proto_step s" and "(p, r) \<in> set (pr_flights s)" and "n \<notin> pr_issued s"
  shows "reach proto_init proto_step (on_refreshed p r a n (signed_out s))
    \<and> pr_phase (on_refreshed p r a n (signed_out s)) = SignedOut
    \<and> pr_access (on_refreshed p r a n (signed_out s)) = Some a
    \<and> pr_refresh (on_refreshed p r a n (signed_out s)) = Some n"
proof -
  have "reach proto_init proto_step (signed_out s)" using assms(1) by (rule reach_step) (rule step_logout)
  then have "reach proto_init proto_step (on_refreshed p r a n (signed_out s))"
    by (rule reach_step) (rule step_refreshed, simp_all add: assms(2,3) signed_out_def)
  then show ?thesis by (simp add: on_refreshed_def signed_out_def)
qed

lemma logout_during_refresh_witness:
  "pr_access (on_refreshed 0 2 7 8 (signed_out demo_waiting)) = Some 7"
  using logout_during_refresh [OF reach_demo_waiting, of 0 2 8 7] by (simp add: demo_waiting_fields)

end
