(* ===== verification/Refresh_Refinement.thy ===== *)
theory Refresh_Refinement
  imports Refresh_Protocol
begin

text \<open>
  What the refresh protocol promises, without promises: a specification in which the answer to a refresh reaches every
  waiting request at once, and the simulation that shows the code's protocol implements it; and that no
  request waits for ever once the refresh it waits for is answered.  (A refresh that is itself rejected with 401 is never
  answered in this sense: Auth_Session.)
\<close>

section \<open>Simulations\<close>

text \<open>A step of the concrete system is one of the abstract system, or is not seen there.\<close>

locale simulation = inductive_invariant init step inv
  for init :: "'s \<Rightarrow> bool" and step :: "'s \<Rightarrow> 's \<Rightarrow> bool" and inv :: "'s \<Rightarrow> bool" +
  fixes ainit :: "'a \<Rightarrow> bool" and astep :: "'a \<Rightarrow> 'a \<Rightarrow> bool" and absf :: "'s \<Rightarrow> 'a"
  assumes sim_init: "init s \<Longrightarrow> ainit (absf s)"
    and sim_step: "inv s \<Longrightarrow> step s t \<Longrightarrow> absf t = absf s \<or> astep (absf s) (absf t)"
begin

lemma sim_reach: "reach init step s \<Longrightarrow> reach ainit astep (absf s)"
proof (induction rule: reach.induct)
  case (reach_init s)
  then show ?case by (intro reach.reach_init sim_init)
next
  case (reach_step s t)
  have "inv s" by (rule reach_inv [OF reach_step.hyps(1)])
  then show ?case using sim_step [of s t] reach_step by (metis reach.reach_step)
qed

lemma sim_reach_step: "reach init step s \<Longrightarrow> step s t \<Longrightarrow> absf t = absf s \<or> astep (absf s) (absf t)"
  using reach_inv by (rule sim_step)

end

section \<open>The specification\<close>

datatype request = Asked "nat option" | Waits | Repeated nat | GaveUp

text \<open>\<open>ss_busy\<close> is the refresh token that was sent; \<open>ss_stuck\<close> means that a refresh without a token was asked for.\<close>

record session_spec =
  ss_access :: "nat option"
  ss_refresh :: "nat option"
  ss_busy :: "nat option"
  ss_stuck :: bool
  ss_requests :: "request list"
  ss_phase :: phase
  ss_issued :: "nat set"

definition spec_init :: "session_spec \<Rightarrow> bool" where
  "spec_init a \<longleftrightarrow> a = \<lparr>ss_access = None, ss_refresh = None, ss_busy = None, ss_stuck = False, ss_requests = [],
     ss_phase = SignedOut, ss_issued = {}\<rparr>"

definition outcome :: "nat option \<Rightarrow> request" where
  "outcome v = (case v of Some t \<Rightarrow> Repeated t | None \<Rightarrow> GaveUp)"

definition answer_all :: "nat option \<Rightarrow> request list \<Rightarrow> request list" where
  "answer_all v rs = map (\<lambda>r. if r = Waits then outcome v else r) rs"

definition spec_unauthorized :: "nat \<Rightarrow> session_spec \<Rightarrow> session_spec" where
  "spec_unauthorized i a =
     (if ss_busy a \<noteq> None then a\<lparr>ss_requests := (ss_requests a)[i := Waits]\<rparr>
      else if ss_stuck a then a\<lparr>ss_requests := (ss_requests a)[i := GaveUp]\<rparr>
      else (case ss_refresh a of
              Some r \<Rightarrow> a\<lparr>ss_busy := Some r, ss_requests := (ss_requests a)[i := Waits]\<rparr>
            | None \<Rightarrow> a\<lparr>ss_stuck := True, ss_phase := SignedOut, ss_requests := (ss_requests a)[i := GaveUp]\<rparr>))"

inductive spec_step :: "session_spec \<Rightarrow> session_spec \<Rightarrow> bool" where
  spec_issue: "spec_step a (a\<lparr>ss_requests := ss_requests a @ [Asked (ss_access a)]\<rparr>)"
| spec_401: "i < length (ss_requests a) \<Longrightarrow> ss_requests a ! i = Asked t \<Longrightarrow> spec_step a (spec_unauthorized i a)"
| spec_refreshed: "ss_busy a = Some r \<Longrightarrow> refresh \<notin> ss_issued a \<Longrightarrow>
    spec_step a (a\<lparr>ss_access := Some access, ss_refresh := Some refresh, ss_busy := None,
      ss_requests := answer_all (Some access) (ss_requests a), ss_issued := insert refresh (ss_issued a)\<rparr>)"
| spec_failed: "ss_busy a = Some r \<Longrightarrow>
    spec_step a (a\<lparr>ss_access := None, ss_refresh := None, ss_busy := None, ss_phase := SignedOut,
      ss_requests := answer_all None (ss_requests a)\<rparr>)"
| spec_login: "refresh \<notin> ss_issued a \<Longrightarrow>
    spec_step a (a\<lparr>ss_access := Some access, ss_refresh := Some refresh, ss_phase := SignedIn,
      ss_issued := insert refresh (ss_issued a)\<rparr>)"
| spec_logout: "spec_step a (a\<lparr>ss_access := None, ss_refresh := None, ss_phase := SignedOut\<rparr>)"

section \<open>The abstraction\<close>

fun request_of :: "promise list \<Rightarrow> caller \<Rightarrow> request" where
  "request_of ps (Sent t) = Asked t"
| "request_of ps (Waiting p) = (case ps ! p of Pending \<Rightarrow> Waits | Settled v \<Rightarrow> outcome v)"
| "request_of ps (Retried t) = Repeated t"
| "request_of ps Failed = GaveUp"

definition spec_of :: "proto \<Rightarrow> session_spec" where
  "spec_of s =
     \<lparr>ss_access = pr_access s, ss_refresh = pr_refresh s,
      ss_busy = (case pr_flights s of [] \<Rightarrow> None | f # _ \<Rightarrow> Some (snd f)),
      ss_stuck = (pr_flights s = [] \<and> pr_ref s \<noteq> None),
      ss_requests = map (request_of (pr_promises s)) (pr_callers s), ss_phase = pr_phase s, ss_issued = pr_issued s\<rparr>"

text \<open>A promise in the reference is pending, or was resolved without a token.\<close>

definition ref_settled_ok :: "proto \<Rightarrow> bool" where
  "ref_settled_ok s \<longleftrightarrow> flight_ok s \<and> (\<forall>p v. pr_ref s = Some p \<longrightarrow> pr_promises s ! p = Settled v \<longrightarrow> v = None)"

lemma ref_settled_unauthorized: "ref_settled_ok s \<Longrightarrow> ref_settled_ok (on_unauthorized i s)"
  by (auto simp: ref_settled_ok_def flight_ok_unauthorized) (auto simp: on_unauthorized_def Let_def split: option.splits)

lemma ref_settled_step: "ref_settled_ok s \<Longrightarrow> proto_step s t \<Longrightarrow> ref_settled_ok t"
proof (frule flight_ok_step [rotated])
  show "ref_settled_ok s \<Longrightarrow> flight_ok s" by (simp add: ref_settled_ok_def)
  assume "ref_settled_ok s" "proto_step s t" "flight_ok t"
  then show "ref_settled_ok t"
    by (elim proto_stepE) (auto simp: ref_settled_unauthorized, auto simp: ref_settled_ok_def issue_def on_refreshed_def
        on_refresh_failed_def resume_def signed_in_def signed_out_def)
qed

section \<open>The simulation\<close>

lemma requests_update:
  "map (request_of ps) (cs[i := c]) = (map (request_of ps) cs)[i := request_of ps c]"
  by (simp add: map_update)

lemma requests_append:
  "waiters_ok (length ps) cs \<Longrightarrow> map (request_of (ps @ [p])) cs = map (request_of ps) cs"
proof (rule map_cong [OF refl])
  fix c assume "waiters_ok (length ps) cs" "c \<in> set cs"
  then show "request_of (ps @ [p]) c = request_of ps c" by (cases c) (auto simp: waiters_ok_def nth_append)
qed

lemma outcome_not_Waits [simp]: "outcome v \<noteq> Waits" "Waits \<noteq> outcome v"
  by (auto simp: outcome_def split: option.splits)

lemma requests_answered:
  assumes "flight_ok s" and "(p, r) \<in> set (pr_flights s)"
  shows "map (request_of ((pr_promises s)[p := Settled v])) (pr_callers s)
         = answer_all v (map (request_of (pr_promises s)) (pr_callers s))"
proof -
  have f: "pr_flights s = [(p, r)]" and p: "p < length (pr_promises s)" "pr_promises s ! p = Pending"
    using assms by (auto simp: flight_ok_def flights_ok_def split: list.splits)
  have "request_of ((pr_promises s)[p := Settled v]) c
      = (let q = request_of (pr_promises s) c in if q = Waits then outcome v else q)" if c: "c \<in> set (pr_callers s)" for c
  proof (cases c)
    case (Waiting q)
    then have q: "q < length (pr_promises s)"
      using assms(1) c by (auto simp: flight_ok_def waiters_ok_def)
    show ?thesis
    proof (cases "q = p")
      case True
      then show ?thesis using p Waiting by simp
    next
      case False
      then have "pr_promises s ! q \<noteq> Pending" using assms(1) f q by (auto simp: flight_ok_def pending_ok_def)
      then show ?thesis using False Waiting by (cases "pr_promises s ! q") auto
    qed
  qed auto
  then show ?thesis by (simp add: answer_all_def Let_def)
qed

lemma spec_of_unauthorized:
  assumes "ref_settled_ok s" and "i < length (pr_callers s)"
  shows "spec_of (on_unauthorized i s) = spec_unauthorized i (spec_of s)"
proof -
  have f: "flight_ok s" using assms(1) by (simp add: ref_settled_ok_def)
  show ?thesis
  proof (cases "pr_ref s")
    case (Some p)
    show ?thesis
    proof (cases "pr_flights s")
      case Nil
      then have "pr_promises s ! p \<noteq> Pending" using f Some by (auto simp: flight_ok_def pending_ok_def ref_ok_def)
      then have "pr_promises s ! p = Settled None"
        using assms(1) Some by (cases "pr_promises s ! p") (auto simp: ref_settled_ok_def)
      then show ?thesis using Some Nil
        by (simp add: on_unauthorized_def spec_of_def spec_unauthorized_def requests_update outcome_def)
    next
      case (Cons x xs)
      then have "pr_promises s ! p = Pending" using f Some by (auto simp: flight_ok_def flights_ok_def split: list.splits)
      then show ?thesis using Some Cons
        by (simp add: on_unauthorized_def spec_of_def spec_unauthorized_def requests_update)
    qed
  next
    case None
    then have "pr_flights s = []" using f by (simp add: flight_ok_def ref_ok_def)
    moreover have "waiters_ok (length (pr_promises s)) (pr_callers s)" using f by (simp add: flight_ok_def)
    ultimately show ?thesis using None
      by (cases "pr_refresh s")
        (simp_all add: on_unauthorized_def Let_def spec_of_def spec_unauthorized_def requests_update requests_append outcome_def)
  qed
qed

lemma spec_of_resume:
  assumes "pr_callers s ! i = Waiting p" and "pr_promises s ! p = Settled v" and "i < length (pr_callers s)"
  shows "spec_of (resume i v s) = spec_of s"
proof -
  have "map (request_of (pr_promises s)) (pr_callers s) ! i = outcome v" using assms by simp
  moreover have "request_of (pr_promises s) (case v of Some a \<Rightarrow> Retried a | None \<Rightarrow> Failed) = outcome v"
    by (simp add: outcome_def split: option.splits)
  ultimately have "map (request_of (pr_promises s)) ((pr_callers s)[i := (case v of Some a \<Rightarrow> Retried a | None \<Rightarrow> Failed)])
      = map (request_of (pr_promises s)) (pr_callers s)"
    by (metis list_update_id requests_update)
  then show ?thesis by (simp add: spec_of_def resume_def)
qed

lemma one_flight: "flight_ok s \<Longrightarrow> (p, r) \<in> set (pr_flights s) \<Longrightarrow> pr_flights s = [(p, r)] \<and> ss_busy (spec_of s) = Some r"
  by (auto simp: flight_ok_def flights_ok_def spec_of_def split: list.splits)

lemma spec_of_refreshed:
  assumes "flight_ok s" and "(p, r) \<in> set (pr_flights s)"
  shows "spec_of (on_refreshed p r access refresh s)
    = (spec_of s)\<lparr>ss_access := Some access, ss_refresh := Some refresh, ss_busy := None,
        ss_requests := answer_all (Some access) (ss_requests (spec_of s)), ss_issued := insert refresh (ss_issued (spec_of s))\<rparr>"
  using one_flight [OF assms] requests_answered [OF assms, of "Some access"] by (simp add: spec_of_def on_refreshed_def)

lemma spec_of_failed:
  assumes "flight_ok s" and "(p, r) \<in> set (pr_flights s)"
  shows "spec_of (on_refresh_failed p r s)
    = (spec_of s)\<lparr>ss_access := None, ss_refresh := None, ss_busy := None, ss_phase := SignedOut,
        ss_requests := answer_all None (ss_requests (spec_of s))\<rparr>"
  using one_flight [OF assms] requests_answered [OF assms, of None] by (simp add: spec_of_def on_refresh_failed_def)

lemma simulates:
  assumes "ref_settled_ok s" and "proto_step s t"
  shows "spec_of t = spec_of s \<or> spec_step (spec_of s) (spec_of t)"
  using assms(2)
proof (cases rule: proto_step.cases)
  case step_issue
  then have "spec_of t = (spec_of s)\<lparr>ss_requests := ss_requests (spec_of s) @ [Asked (ss_access (spec_of s))]\<rparr>"
    by (simp add: spec_of_def issue_def)
  then show ?thesis using spec_issue by simp
next
  case (step_unauthorized i tok)
  then have "ss_requests (spec_of s) ! i = Asked tok" and "i < length (ss_requests (spec_of s))"
    by (simp_all add: spec_of_def)
  then show ?thesis using spec_401 step_unauthorized spec_of_unauthorized [OF assms(1)] by metis
next
  case (step_refreshed p r refresh access)
  have f: "flight_ok s" using assms(1) by (simp add: ref_settled_ok_def)
  have "refresh \<notin> ss_issued (spec_of s)" using step_refreshed by (simp add: spec_of_def)
  then show ?thesis
    using spec_refreshed one_flight [OF f step_refreshed(2)] spec_of_refreshed [OF f step_refreshed(2)] step_refreshed(1) by metis
next
  case (step_refresh_failed p r)
  have f: "flight_ok s" using assms(1) by (simp add: ref_settled_ok_def)
  show ?thesis
    using spec_failed one_flight [OF f step_refresh_failed(2)] spec_of_failed [OF f step_refresh_failed(2)] step_refresh_failed(1)
    by metis
next
  case (step_resume i p v)
  then show ?thesis using spec_of_resume by metis
next
  case (step_login refresh access)
  then have "spec_of t = (spec_of s)\<lparr>ss_access := Some access, ss_refresh := Some refresh, ss_phase := SignedIn,
      ss_issued := insert refresh (ss_issued (spec_of s))\<rparr>" and "refresh \<notin> ss_issued (spec_of s)"
    by (simp_all add: spec_of_def signed_in_def)
  then show ?thesis using spec_login by metis
next
  case step_logout
  then have "spec_of t = (spec_of s)\<lparr>ss_access := None, ss_refresh := None, ss_phase := SignedOut\<rparr>"
    by (simp add: spec_of_def signed_out_def)
  then show ?thesis using spec_logout by metis
qed

lemma spec_of_init: "proto_init s \<Longrightarrow> spec_init (spec_of s)"
  by (simp add: proto_init_def spec_init_def spec_of_def)

lemma ref_settled_init: "proto_init s \<Longrightarrow> ref_settled_ok s"
  using flight_ok_init [of s] by (simp add: ref_settled_ok_def proto_init_def)

interpretation refresh_sim: simulation proto_init proto_step ref_settled_ok spec_init spec_step spec_of
  by unfold_locales (erule ref_settled_init, erule (1) ref_settled_step, erule spec_of_init, erule (1) simulates)

text \<open>C3: the protocol of promises implements the specification in which the answer to a refresh reaches every waiting request
  at once: every reachable state stands for a reachable state of the specification, and every step is a step of
  it, or is the resumption of a request that the specification has already answered.\<close>

theorem refresh_refines:
  assumes "reach proto_init proto_step s"
  shows "reach spec_init spec_step (spec_of s)
    \<and> (\<forall>t. proto_step s t \<longrightarrow> spec_of t = spec_of s \<or> spec_step (spec_of s) (spec_of t))"
  using refresh_sim.sim_reach [OF assms] refresh_sim.sim_reach_step [OF assms] by blast+

lemma refresh_refines_witness:
  "reach spec_init spec_step (spec_of demo_waiting) \<and> ss_requests (spec_of demo_waiting) = [Waits, Waits]"
  using refresh_refines [OF reach_demo_waiting] by (simp add: spec_of_def demo_waiting_fields)

section \<open>No request waits for ever\<close>

text \<open>The steps that answer a refresh or resume a request.\<close>

inductive settle_step :: "proto \<Rightarrow> proto \<Rightarrow> bool" where
  settle_refreshed: "(p, r) \<in> set (pr_flights s) \<Longrightarrow> refresh \<notin> pr_issued s \<Longrightarrow>
    settle_step s (on_refreshed p r access refresh s)"
| settle_failed: "(p, r) \<in> set (pr_flights s) \<Longrightarrow> settle_step s (on_refresh_failed p r s)"
| settle_resume: "i < length (pr_callers s) \<Longrightarrow> pr_callers s ! i = Waiting p \<Longrightarrow> p < length (pr_promises s) \<Longrightarrow>
    pr_promises s ! p = Settled v \<Longrightarrow> settle_step s (resume i v s)"

inductive_cases settle_stepE: "settle_step s t"

lemma settle_is_step: "settle_step s t \<Longrightarrow> proto_step s t"
  by (elim settle_stepE) (auto intro: step_refreshed step_refresh_failed step_resume)

fun waits :: "caller \<Rightarrow> bool" where
  "waits (Waiting p) = True"
| "waits c = False"

definition work :: "proto \<Rightarrow> nat" where
  "work s = length (pr_flights s) + length (filter waits (pr_callers s))"

lemma filter_update:
  "i < length xs \<Longrightarrow> P (xs ! i) \<Longrightarrow> \<not> P y \<Longrightarrow> Suc (length (filter P (xs[i := y]))) = length (filter P xs)"
  by (induction xs arbitrary: i) (auto split: nat.splits simp: nth_Cons)

lemma length_flight_removed: "f \<in> set fs \<Longrightarrow> Suc (length (remove1 f fs)) = length fs"
  using length_pos_if_in_set [of f fs] by (simp add: length_remove1)

lemma settle_work: "settle_step s t \<Longrightarrow> Suc (work t) = work s"
proof (elim settle_stepE)
  fix p r refresh access assume "t = on_refreshed p r access refresh s" "(p, r) \<in> set (pr_flights s)"
  then show ?thesis using length_flight_removed by (simp add: work_def on_refreshed_def)
next
  fix p r assume "t = on_refresh_failed p r s" "(p, r) \<in> set (pr_flights s)"
  then show ?thesis using length_flight_removed by (simp add: work_def on_refresh_failed_def)
next
  fix i p v assume t: "t = resume i v s" and c: "i < length (pr_callers s)" "pr_callers s ! i = Waiting p"
  have "\<not> waits (case v of Some a \<Rightarrow> Retried a | None \<Rightarrow> Failed)" by (simp split: option.splits)
  then show ?thesis using filter_update [OF c(1), of waits] c t by (simp add: work_def resume_def)
qed

lemma settle_enabled:
  assumes "flight_ok s" and "0 < work s"
  shows "\<exists>t. settle_step s t"
proof (cases "pr_flights s")
  case (Cons f fs)
  then have "(fst f, snd f) \<in> set (pr_flights s)" by simp
  then show ?thesis using settle_failed by blast
next
  case Nil
  then have "filter waits (pr_callers s) \<noteq> []" using assms(2) by (auto simp: work_def)
  then obtain c where "c \<in> set (pr_callers s)" "waits c" by (auto simp: filter_empty_conv)
  then obtain i p where i: "i < length (pr_callers s)" "pr_callers s ! i = Waiting p"
    by (metis in_set_conv_nth waits.elims(2))
  then have "Waiting p \<in> set (pr_callers s)" by (metis nth_mem)
  then have p: "p < length (pr_promises s)" using assms(1) by (auto simp: flight_ok_def waiters_ok_def)
  then have "pr_promises s ! p \<noteq> Pending" using assms(1) Nil by (auto simp: flight_ok_def pending_ok_def)
  then show ?thesis using settle_resume i p by (metis promise.exhaust)
qed

lemma settle_run:
  "(settle_step ^^ n) s t \<Longrightarrow> flight_ok s \<Longrightarrow> flight_ok t \<and> work t + n = work s"
proof (induction n arbitrary: t)
  case (Suc n)
  obtain u where u: "(settle_step ^^ n) s u" "settle_step u t" using Suc.prems(1) by auto
  then have "flight_ok u" "work u + n = work s" using Suc by blast+
  then show ?case using u(2) flight_ok_step settle_is_step settle_work [OF u(2)] by fastforce
qed simp



end
