(* ===== verification/Ui_View.thy ===== *)
theory Ui_View
  imports Js_Values
begin

text \<open>
  What the components render, and the contract of their asynchronous handlers.  A view keeps the
  texts, the controls with their disabled flag and what each one does; class names, icons without
  a text and the layout boxes around them are left out.  The type of what a control does is the
  page's own type of actions.
\<close>

section \<open>Views\<close>

datatype 'a view =
    Txt string
  | Tag string "'a view list"
  | Badge string string
  | Button string bool 'a
  | Input string string bool "string \<Rightarrow> 'a"
  | Alert string string
  | Click 'a "'a view list"

text \<open>\<open>Badge variant text\<close>, \<open>Button label disabled onClick\<close>, \<open>Input name value disabled onChange\<close>,
  \<open>Alert variant text\<close>, \<open>Click onClick children\<close>; an icon is a \<open>Tag\<close> without children.  \<open>{cond && view}\<close> renders nothing when the condition fails.\<close>

definition only_if :: "bool \<Rightarrow> 'a view list \<Rightarrow> 'a view list" where
  "only_if b vs = (if b then vs else [])"

lemma only_if_simps [simp]: "only_if True vs = vs" "only_if False vs = []"
  by (simp_all add: only_if_def)

text \<open>The actions of the buttons that can be pressed.\<close>

fun pressable :: "'a view \<Rightarrow> 'a list" where
  "pressable (Button l d a) = (if d then [] else [a])"
| "pressable (Tag t vs) = concat (map pressable vs)"
| "pressable (Click a vs) = a # concat (map pressable vs)"
| "pressable v = []"

definition presses :: "'a view list \<Rightarrow> 'a list" where
  "presses vs = concat (map pressable vs)"

lemma presses_simps [simp]:
  "presses [] = []" "presses (v # vs) = pressable v @ presses vs" "presses (us @ vs) = presses us @ presses vs"
  by (simp_all add: presses_def)

lemma presses_only_if [simp]: "presses (only_if b vs) = (if b then presses vs else [])"
  by (simp add: only_if_def)

lemma pressable_Tag [simp]: "pressable (Tag t vs) = presses vs" "pressable (Click a vs) = a # presses vs"
  by (simp_all add: presses_def)

declare pressable.simps(2) [simp del] pressable.simps(3) [simp del]

lemma presses_map: "presses (map f xs) = concat (map (\<lambda>x. pressable (f x)) xs)"
  by (simp add: presses_def comp_def)

text \<open>The texts on the screen, in order.\<close>

fun texts :: "'a view \<Rightarrow> string list" where
  "texts (Txt t) = [t]"
| "texts (Tag t vs) = concat (map texts vs)"
| "texts (Badge v t) = [t]"
| "texts (Button l d a) = [l]"
| "texts (Input n v d f) = [v]"
| "texts (Alert v t) = [t]"
| "texts (Click a vs) = concat (map texts vs)"

definition shown :: "'a view list \<Rightarrow> string list" where
  "shown vs = concat (map texts vs)"

lemma shown_simps [simp]:
  "shown [] = []" "shown (v # vs) = texts v @ shown vs" "shown (us @ vs) = shown us @ shown vs"
  by (simp_all add: shown_def)

lemma shown_only_if [simp]: "shown (only_if b vs) = (if b then shown vs else [])"
  by (simp add: only_if_def)

lemma texts_Tag [simp]: "texts (Tag t vs) = shown vs" "texts (Click a vs) = shown vs"
  by (simp_all add: shown_def)

declare texts.simps(2) [simp del] texts.simps(7) [simp del]

text \<open>A condition of TypeScript on a string that may be absent: present and not empty.\<close>

definition given :: "string option \<Rightarrow> string option" where
  "given v = (case v of Some (c # cs) \<Rightarrow> Some (c # cs) | _ \<Rightarrow> None)"

lemma given_Some [simp]: "t \<noteq> [] \<Longrightarrow> given (Some t) = Some t" "given (Some []) = None" "given None = None"
  by (cases t) (simp_all add: given_def)

lemma given_ne: "given v = Some t \<Longrightarrow> t \<noteq> []"
  by (auto simp: given_def split: option.splits list.splits)

section \<open>Asynchronous handlers\<close>

text \<open>
  A handler sets a busy flag, awaits a call and clears the flag in \<open>finally\<close>; its control is disabled
  while the flag is set.  The events of such a form are presses, answers and edits.
\<close>

datatype ('e, 'r) form_event = Press | Answer 'r | Edit 'e

definition form_step ::
  "('s \<Rightarrow> bool) \<Rightarrow> ('s \<Rightarrow> 's) \<Rightarrow> ('r \<Rightarrow> 's \<Rightarrow> 's) \<Rightarrow> ('e \<Rightarrow> 's \<Rightarrow> 's) \<Rightarrow>
   ('e, 'r) form_event \<Rightarrow> nat \<times> 's \<Rightarrow> nat \<times> 's" where
  "form_step guard start settle edit ev ns =
     (case ns of (n, s) \<Rightarrow>
       (case ev of
          Press \<Rightarrow> if guard s then (Suc n, start s) else (n, s)
        | Answer r \<Rightarrow> if n = 0 then (n, s) else (n - 1, settle r s)
        | Edit e \<Rightarrow> (n, edit e s)))"

definition form_run ::
  "('s \<Rightarrow> bool) \<Rightarrow> ('s \<Rightarrow> 's) \<Rightarrow> ('r \<Rightarrow> 's \<Rightarrow> 's) \<Rightarrow> ('e \<Rightarrow> 's \<Rightarrow> 's) \<Rightarrow>
   ('e, 'r) form_event list \<Rightarrow> 's \<Rightarrow> nat \<times> 's" where
  "form_run guard start settle edit evs s = foldl (\<lambda>ns ev. form_step guard start settle edit ev ns) (0, s) evs"

locale async_form =
  fixes busy :: "'s \<Rightarrow> bool" and guard :: "'s \<Rightarrow> bool" and start :: "'s \<Rightarrow> 's"
    and settle :: "'r \<Rightarrow> 's \<Rightarrow> 's" and edit :: "'e \<Rightarrow> 's \<Rightarrow> 's"
  assumes guard_idle: "guard s \<Longrightarrow> \<not> busy s"
    and start_busy: "guard s \<Longrightarrow> busy (start s)"
    and settle_idle: "\<not> busy (settle r s)"
    and edit_busy: "busy (edit e s) = busy s"

context async_form
begin

lemma form_step_inv:
  "n \<le> 1 \<and> (busy s \<longleftrightarrow> n = 1) \<Longrightarrow> form_step guard start settle edit ev (n, s) = (n', s')
    \<Longrightarrow> n' \<le> 1 \<and> (busy s' \<longleftrightarrow> n' = 1)"
  using guard_idle [of s] start_busy [of s] settle_idle edit_busy
  by (auto simp: form_step_def split: form_event.splits if_splits)

lemma foldl_inv:
  "n \<le> 1 \<and> (busy s \<longleftrightarrow> n = 1) \<Longrightarrow>
   foldl (\<lambda>ns ev. form_step guard start settle edit ev ns) (n, s) evs = (n', s')
    \<Longrightarrow> n' \<le> 1 \<and> (busy s' \<longleftrightarrow> n' = 1)"
proof (induction evs arbitrary: n s)
  case (Cons ev evs)
  obtain n1 s1 where s1: "form_step guard start settle edit ev (n, s) = (n1, s1)"
    by (cases "form_step guard start settle edit ev (n, s)")
  show ?case using Cons.IH [OF form_step_inv [OF Cons.prems(1) s1]] Cons.prems(2) s1 by simp
qed simp

text \<open>At most one call is in flight, and the flag tells whether one is.\<close>

lemma one_in_flight:
  "\<not> busy s \<Longrightarrow> form_run guard start settle edit evs s = (n, s') \<Longrightarrow> n \<le> 1 \<and> (busy s' \<longleftrightarrow> n = 1)"
  using foldl_inv [of 0 s evs n s'] by (simp add: form_run_def)

end

end
