(* ===== verification/Routing.thy ===== *)
theory Routing
  imports Ui_View Auth_Session
begin

text \<open>
  The route table and its guards (ui/src/App.tsx) and the two public pages, pages/Login.tsx and
  pages/Setup.tsx.  How react-router matches a path against the patterns is an argument.
\<close>

section \<open>Routes\<close>

datatype page =
    LoginPage | SetupPage | AgentsPage | GroupsPage | ConfigsPage "string option"
  | TopologyPage | GitSourcesPage | AuditLogPage | ApiKeysPage

datatype guard = Public | Protected

record location =
  pathname :: string
  from_state :: "string option"

text \<open>What a route renders, and the navigation it issues.\<close>

type_synonym frame = "page option \<times> location option"

definition RequireAuth :: "AuthStatus \<Rightarrow> location \<Rightarrow> page \<Rightarrow> frame" where
  "RequireAuth status loc children =
     (case status of
        Loading \<Rightarrow> (None, None)
      | SetupRequired \<Rightarrow> (None, Some \<lparr>pathname = ''/setup'', from_state = None\<rparr>)
      | Unauthenticated \<Rightarrow> (None, Some \<lparr>pathname = ''/login'', from_state = Some (pathname loc)\<rparr>)
      | Authenticated \<Rightarrow> (Some children, None))"

definition RedirectIfAuthed :: "AuthStatus \<Rightarrow> page \<Rightarrow> frame" where
  "RedirectIfAuthed status children =
     (if status = Loading then None else Some children,
      if status = Authenticated then Some \<lparr>pathname = ''/agents'', from_state = None\<rparr> else None)"

definition routes :: "(string \<times> guard \<times> page) list" where
  "routes =
     [(''/login'', Public, LoginPage),
      (''/setup'', Public, SetupPage),
      (''/'', Protected, AgentsPage),
      (''/agents'', Protected, AgentsPage),
      (''/groups'', Protected, GroupsPage),
      (''/configs'', Protected, ConfigsPage None),
      (''/configs/new'', Protected, ConfigsPage (Some ''create'')),
      (''/configs/:configId/edit'', Protected, ConfigsPage (Some ''edit'')),
      (''/topology'', Protected, TopologyPage),
      (''/git-sources'', Protected, GitSourcesPage),
      (''/audit-log'', Protected, AuditLogPage),
      (''/api-keys'', Protected, ApiKeysPage)]"

text \<open>\<open>matchRoutes patterns path\<close> is the pattern the router chooses, if one matches.\<close>

definition App :: "(string list \<Rightarrow> string \<Rightarrow> string option) \<Rightarrow> AuthStatus \<Rightarrow> location \<Rightarrow> frame" where
  "App matchRoutes status loc =
     (case matchRoutes (map fst routes) (pathname loc) of
        None \<Rightarrow> (None, None)
      | Some pattern \<Rightarrow>
          (case obj_get routes pattern of
             None \<Rightarrow> (None, None)
           | Some (Public, p) \<Rightarrow> RedirectIfAuthed status p
           | Some (Protected, p) \<Rightarrow> RequireAuth status loc p))"

text \<open>One navigation: the browser goes where the frame sends it.\<close>

definition navigated :: "(string list \<Rightarrow> string \<Rightarrow> string option) \<Rightarrow> AuthStatus \<Rightarrow> location \<Rightarrow> location" where
  "navigated matchRoutes status loc =
     (case snd (App matchRoutes status loc) of Some l \<Rightarrow> l | None \<Rightarrow> loc)"

text \<open>A path that is itself a pattern without parameters matches that pattern.\<close>

definition matches_literals :: "(string list \<Rightarrow> string \<Rightarrow> string option) \<Rightarrow> bool" where
  "matches_literals m = (\<forall>p \<in> set (map fst routes). CHR '':'' \<notin> set p \<longrightarrow> m (map fst routes) p = Some p)"

definition exact_match :: "string list \<Rightarrow> string \<Rightarrow> string option" where
  "exact_match ps path = (if path \<in> set ps then Some path else None)"

lemma matches_literals_public:
  assumes "matches_literals m"
  shows "m (map fst routes) ''/login'' = Some ''/login''" "m (map fst routes) ''/setup'' = Some ''/setup''"
    "m (map fst routes) ''/agents'' = Some ''/agents''"
  using assms by (simp_all add: matches_literals_def routes_def)

lemma App_public:
  assumes "matches_literals m"
  shows "App m status \<lparr>pathname = ''/login'', from_state = f\<rparr> = RedirectIfAuthed status LoginPage"
    "App m status \<lparr>pathname = ''/setup'', from_state = f\<rparr> = RedirectIfAuthed status SetupPage"
    "App m status \<lparr>pathname = ''/agents'', from_state = f\<rparr> = RequireAuth status \<lparr>pathname = ''/agents'', from_state = f\<rparr> AgentsPage"
  using matches_literals_public [OF assms]
  by (simp_all add: App_def) (simp_all add: routes_def obj_get_def)

lemma public_pages: "obj_get routes q = Some (Public, p) \<Longrightarrow> p = LoginPage \<or> p = SetupPage"
  by (simp add: routes_def obj_get_def split: if_splits)

text \<open>C8: whatever the path and however paths are matched, a page other than login and setup is rendered
  only for an authenticated session.\<close>

theorem protected_pages_need_auth:
  assumes "fst (App m status loc) = Some p" and "p \<noteq> LoginPage" and "p \<noteq> SetupPage"
  shows "status = Authenticated"
proof -
  obtain q g where q: "obj_get routes q = Some (g, p)" "g = Public \<or> status = Authenticated"
    using assms(1)
    by (auto simp: App_def RequireAuth_def RedirectIfAuthed_def
        split: option.splits prod.splits guard.splits AuthStatus.splits if_splits)
  then show ?thesis using public_pages assms(2,3) by (cases g) auto
qed

lemma protected_pages_need_auth_witness:
  "fst (App exact_match Authenticated \<lparr>pathname = ''/topology'', from_state = None\<rparr>) = Some TopologyPage
    \<and> Authenticated = Authenticated"
proof -
  have s: "fst (App exact_match Authenticated \<lparr>pathname = ''/topology'', from_state = None\<rparr>) = Some TopologyPage"
    by (simp add: App_def routes_def exact_match_def obj_get_def RequireAuth_def)
  show ?thesis using protected_pages_need_auth [OF s] s by simp
qed

text \<open>Where a known path ends for each status.\<close>

definition landing :: "AuthStatus \<Rightarrow> guard \<Rightarrow> page \<Rightarrow> page option" where
  "landing status g p =
     (case status of
        Loading \<Rightarrow> None
      | Authenticated \<Rightarrow> Some (if g = Public then AgentsPage else p)
      | Unauthenticated \<Rightarrow> Some (if g = Public then p else LoginPage)
      | SetupRequired \<Rightarrow> Some (if g = Public then p else SetupPage))"

text \<open>C9: the guards never bounce: from every known path one navigation at most leads to a location that
  issues no further one, and that shows the page the session's status calls for.\<close>

theorem routing_settles:
  assumes "matches_literals m" and "m (map fst routes) (pathname loc) = Some q"
    and "obj_get routes q = Some (g, p)"
  shows "App m status (navigated m status loc) = (landing status g p, None)"
proof (cases g)
  case Public
  then have a: "App m status loc = RedirectIfAuthed status p" using assms by (simp add: App_def)
  show ?thesis
  proof (cases status)
    case Authenticated
    then show ?thesis using a Public
      by (simp add: navigated_def RedirectIfAuthed_def App_public(3) [OF assms(1)] RequireAuth_def landing_def)
  qed (use a Public in \<open>simp_all add: navigated_def RedirectIfAuthed_def landing_def\<close>)
next
  case Protected
  then have a: "App m status loc = RequireAuth status loc p" using assms by (simp add: App_def)
  show ?thesis
    by (cases status)
      (use a Protected in \<open>simp_all add: navigated_def RequireAuth_def App_public [OF assms(1)] RedirectIfAuthed_def landing_def\<close>)
qed

lemma matches_literals_exact: "matches_literals exact_match"
  by (simp add: matches_literals_def exact_match_def routes_def)

lemma routing_settles_witness:
  "App exact_match Unauthenticated
     (navigated exact_match Unauthenticated \<lparr>pathname = ''/groups'', from_state = None\<rparr>) = (Some LoginPage, None)"
  using routing_settles [OF matches_literals_exact, of "\<lparr>pathname = ''/groups'', from_state = None\<rparr>" "''/groups''"
      Protected GroupsPage Unauthenticated]
  by (simp add: exact_match_def routes_def obj_get_def landing_def)

section \<open>The login page\<close>

record login_page =
  lp_username :: string
  lp_password :: string
  lp_showPassword :: bool
  lp_error :: "string option"
  lp_loading :: bool

definition login_page_init :: login_page where
  "login_page_init = \<lparr>lp_username = [], lp_password = [], lp_showPassword = False, lp_error = None, lp_loading = False\<rparr>"

datatype login_action = SetUsername string | SetPassword string | ToggleShow | SubmitLogin

definition login_from :: "location \<Rightarrow> string" where
  "login_from loc = (case from_state loc of Some f \<Rightarrow> f | None \<Rightarrow> ''/agents'')"

text \<open>The handler up to its \<open>await\<close>, and after it with the path it navigates to.\<close>

definition login_start :: "login_page \<Rightarrow> login_page" where
  "login_start p = p\<lparr>lp_error := None, lp_loading := True\<rparr>"

definition login_settle :: "string \<Rightarrow> unit settled \<Rightarrow> login_page \<Rightarrow> login_page \<times> string option" where
  "login_settle from r p =
     (case r of
        Resolved _ \<Rightarrow> (p\<lparr>lp_loading := False\<rparr>, Some from)
      | Rejected_with m _ \<Rightarrow> (p\<lparr>lp_error := Some m, lp_loading := False\<rparr>, None)
      | Never \<Rightarrow> (p, None))"

definition LoginPage_handleSubmit ::
  "'s server \<Rightarrow> ('s \<Rightarrow> int) \<Rightarrow> string \<Rightarrow> location \<Rightarrow> login_page \<times> 's auth \<Rightarrow>
   (login_page \<times> 's auth) \<times> string option" where
  "LoginPage_handleSubmit srv clock base loc ps =
     (let (p, st) = ps; p1 = login_start p;
          (st', r) = login srv clock base (lp_username p) (lp_password p) st;
          (p', to) = login_settle (login_from loc) r p1 in
      ((p', st'), to))"

definition login_edit :: "login_action \<Rightarrow> login_page \<Rightarrow> login_page" where
  "login_edit a p =
     (case a of
        SetUsername v \<Rightarrow> p\<lparr>lp_username := v\<rparr>
      | SetPassword v \<Rightarrow> p\<lparr>lp_password := v\<rparr>
      | ToggleShow \<Rightarrow> p\<lparr>lp_showPassword := \<not> lp_showPassword p\<rparr>
      | SubmitLogin \<Rightarrow> p)"

text \<open>A text that is empty is falsy, so an error without a message shows no alert.\<close>

definition LoginPage_view :: "login_page \<Rightarrow> login_action view list" where
  "LoginPage_view p =
     [Txt ''OTel Hive'', Txt ''Sign in to manage your OTel Collector fleet'',
      Tag ''form''
        ((case lp_error p of Some (c # cs) \<Rightarrow> [Alert ''destructive'' (c # cs)] | _ \<Rightarrow> [])
         @ [Txt ''Username'', Input ''username'' (lp_username p) (lp_loading p) SetUsername,
            Txt ''Password'',
            Input (if lp_showPassword p then ''text'' else ''password'') (lp_password p) (lp_loading p) SetPassword,
            Button (if lp_showPassword p then ''Hide password'' else ''Show password'') False ToggleShow,
            Button ''Sign in'' (lp_loading p) SubmitLogin])]"

text \<open>The browser submits a form whose required inputs are filled in.\<close>

definition login_can_submit :: "login_page \<Rightarrow> bool" where
  "login_can_submit p =
     (SubmitLogin \<in> set (presses (LoginPage_view p)) \<and> lp_username p \<noteq> [] \<and> lp_password p \<noteq> [])"

lemma login_can_submit_idle: "login_can_submit p \<Longrightarrow> \<not> lp_loading p"
  by (auto simp: login_can_submit_def LoginPage_view_def split: option.splits list.splits)

datatype answer = Accepted | Refused string

definition answer_settled :: "answer \<Rightarrow> unit settled" where
  "answer_settled a = (case a of Accepted \<Rightarrow> Resolved () | Refused m \<Rightarrow> Rejected_with m None)"

lemma login_settle_idle: "\<not> lp_loading (fst (login_settle from (answer_settled a) p))"
  by (simp add: login_settle_def answer_settled_def split: answer.splits)

lemma login_edit_loading: "lp_loading (login_edit a p) = lp_loading p"
  by (simp add: login_edit_def split: login_action.splits)

interpretation login_form: async_form lp_loading login_can_submit login_start
  "\<lambda>a p. fst (login_settle from (answer_settled a) p)" login_edit
  by unfold_locales (simp_all add: login_can_submit_idle login_start_def login_settle_idle login_edit_loading)

lemma fetchMe_status:
  "fetchMe srv clock base st = (st', r) \<Longrightarrow> r \<noteq> Never \<Longrightarrow>
   au_status st' = Authenticated \<and> au_user st' \<noteq> None \<or> au_status st' = Unauthenticated \<and> au_user st' = None"
  by (auto simp: fetchMe_def drop_session_def split: prod.splits settled.splits)

lemma login_status:
  assumes "login srv clock base u pw st = (st', Resolved ())"
  shows "au_status st' = Authenticated \<and> au_user st' \<noteq> None \<or> au_status st' = Unauthenticated \<and> au_user st' = None"
  using assms
  by (auto simp: login_def finish_login_def split: prod.splits settled.splits sum.splits dest: fetchMe_status)



section \<open>The setup page\<close>

definition isStrongEnough :: "string \<Rightarrow> bool" where
  "isStrongEnough pw = (8 \<le> length pw)"

record setup_page =
  sp_username :: string
  sp_password :: string
  sp_confirm :: string
  sp_showPw :: bool
  sp_error :: "string option"
  sp_loading :: bool

definition setup_page_init :: setup_page where
  "setup_page_init = \<lparr>sp_username = ''admin'', sp_password = [], sp_confirm = [], sp_showPw = False,
     sp_error = None, sp_loading = False\<rparr>"

datatype setup_action =
  SetupUsername string | SetupPassword string | SetupConfirm string | ToggleShowPw | SubmitSetup

definition canSubmit :: "setup_page \<Rightarrow> bool" where
  "canSubmit p =
     (0 < length (js_trim (sp_username p)) \<and> isStrongEnough (sp_password p)
      \<and> sp_password p = sp_confirm p \<and> \<not> sp_loading p)"

definition setup_start :: "setup_page \<Rightarrow> setup_page" where
  "setup_start p = p\<lparr>sp_error := None, sp_loading := True\<rparr>"

definition setup_settle :: "unit settled \<Rightarrow> setup_page \<Rightarrow> setup_page \<times> string option" where
  "setup_settle r p =
     (case r of
        Resolved _ \<Rightarrow> (p\<lparr>sp_loading := False\<rparr>, Some ''/agents'')
      | Rejected_with m _ \<Rightarrow> (p\<lparr>sp_error := Some m, sp_loading := False\<rparr>, None)
      | Never \<Rightarrow> (p, None))"

definition SetupPage_handleSubmit ::
  "'s server \<Rightarrow> ('s \<Rightarrow> int) \<Rightarrow> string \<Rightarrow> setup_page \<times> 's auth \<Rightarrow> (setup_page \<times> 's auth) \<times> string option" where
  "SetupPage_handleSubmit srv clock base ps =
     (let (p, st) = ps in
      if \<not> canSubmit p then (ps, None)
      else let (st', r) = setup_account srv clock base (js_trim (sp_username p)) (sp_password p) st;
               (p', to) = setup_settle r (setup_start p) in
           ((p', st'), to))"

definition setup_edit :: "setup_action \<Rightarrow> setup_page \<Rightarrow> setup_page" where
  "setup_edit a p =
     (case a of
        SetupUsername v \<Rightarrow> p\<lparr>sp_username := v\<rparr>
      | SetupPassword v \<Rightarrow> p\<lparr>sp_password := v\<rparr>
      | SetupConfirm v \<Rightarrow> p\<lparr>sp_confirm := v\<rparr>
      | ToggleShowPw \<Rightarrow> p\<lparr>sp_showPw := \<not> sp_showPw p\<rparr>
      | SubmitSetup \<Rightarrow> p)"

definition SetupPage_view :: "setup_page \<Rightarrow> setup_action view list" where
  "SetupPage_view p =
     [Txt ''OTel Hive'', Txt ''Create admin account'',
      Txt ''This is the first-time setup. Create your admin credentials to get started.'',
      Txt ''Create account'', Txt ''Connect collectors'',
      Tag ''form''
        ((case sp_error p of Some (c # cs) \<Rightarrow> [Alert ''destructive'' (c # cs)] | _ \<Rightarrow> [])
         @ [Txt ''Username'', Input ''username'' (sp_username p) (sp_loading p) SetupUsername,
            Txt ''Password'',
            Input (if sp_showPw p then ''text'' else ''password'') (sp_password p) (sp_loading p) SetupPassword,
            Button (if sp_showPw p then ''Hide password'' else ''Show password'') False ToggleShowPw]
         @ only_if (sp_password p \<noteq> [] \<and> \<not> isStrongEnough (sp_password p))
             [Txt ''Password must be at least 8 characters.'']
         @ [Txt ''Confirm password'', Input ''confirm'' (sp_confirm p) (sp_loading p) SetupConfirm]
         @ only_if (sp_confirm p \<noteq> [] \<and> sp_password p \<noteq> sp_confirm p) [Txt ''Passwords do not match.'']
         @ [Button ''Create account & continue'' (\<not> canSubmit p) SubmitSetup])]"

definition setup_can_submit :: "setup_page \<Rightarrow> bool" where
  "setup_can_submit p = (SubmitSetup \<in> set (presses (SetupPage_view p)))"

lemma setup_can_submit_iff: "setup_can_submit p \<longleftrightarrow> canSubmit p"
  by (auto simp: setup_can_submit_def SetupPage_view_def split: option.splits list.splits)

lemma setup_settle_idle: "\<not> sp_loading (fst (setup_settle (answer_settled a) p))"
  by (simp add: setup_settle_def answer_settled_def split: answer.splits)

lemma setup_edit_loading: "sp_loading (setup_edit a p) = sp_loading p"
  by (simp add: setup_edit_def split: setup_action.splits)

interpretation setup_form: async_form sp_loading setup_can_submit setup_start
  "\<lambda>a p. fst (setup_settle (answer_settled a) p)" setup_edit
  by unfold_locales (simp_all add: setup_can_submit_iff canSubmit_def setup_start_def setup_settle_idle setup_edit_loading)

text \<open>on the setup page, whatever is typed and pressed and however the server answers, at most one account
  request is in flight, the page is loading exactly while one is, and the button can be pressed only with a
  username that is not blank and a confirmed password of eight characters at least.\<close>

theorem setup_one_request:
  assumes "form_run setup_can_submit setup_start (\<lambda>a p. fst (setup_settle (answer_settled a) p)) setup_edit evs
      setup_page_init = (n, p)"
  shows "n \<le> 1 \<and> (sp_loading p \<longleftrightarrow> n = 1)
    \<and> (SubmitSetup \<in> set (presses (SetupPage_view p)) \<longleftrightarrow>
        n = 0 \<and> js_trim (sp_username p) \<noteq> [] \<and> 8 \<le> length (sp_password p) \<and> sp_password p = sp_confirm p)"
proof -
  have "n \<le> 1 \<and> (sp_loading p \<longleftrightarrow> n = 1)"
    using setup_form.one_in_flight [OF _ assms] by (simp add: setup_page_init_def)
  then show ?thesis
    using setup_can_submit_iff [of p] by (auto simp: setup_can_submit_def canSubmit_def isStrongEnough_def)
qed

definition demo_setup_events :: "(setup_action, answer) form_event list" where
  "demo_setup_events = [Edit (SetupPassword ''12345678''), Edit (SetupConfirm ''12345678''), Press, Press]"

lemma setup_one_request_witness:
  "fst (form_run setup_can_submit setup_start (\<lambda>a p. fst (setup_settle (answer_settled a) p)) setup_edit
     demo_setup_events setup_page_init) \<le> 1"
  using setup_one_request by (metis prod.collapse)

end
