(* ===== verification/Fleet_View.thy ===== *)
theory Fleet_View
  imports Ui_View Formatting
begin

text \<open>
  The shared table (ui/src/components/shared/PageTable.tsx) and the agents page
  (ui/src/pages/Agents.tsx): filtering and sorting the fleet, the rows and the drawers they open.
  \<open>getTime\<close> and \<open>showTime\<close> stand for the platform's \<open>Date\<close>.
\<close>

section \<open>Data\<close>

record Agent =
  ag_id :: string
  ag_name :: string
  ag_status :: string
  ag_last_seen :: string
  ag_version :: string
  ag_group_id :: "string option"
  ag_group_name :: "string option"
  ag_labels :: "(string \<times> string) list"
  ag_capabilities :: "string list option"
  ag_effective_config :: "string option"

record Group =
  gr_id :: string
  gr_name :: string
  gr_labels :: "(string \<times> string) list"
  gr_agent_count :: int
  gr_config_name :: "string option"
  gr_created_at :: string
  gr_updated_at :: string

section \<open>The shared table\<close>

record 'a page_action =
  pa_label :: string
  pa_onClick :: 'a
  pa_disabled :: bool

record 'a empty_state =
  es_title :: string
  es_description :: string
  es_action :: "(string \<times> 'a) option"

record ('t, 'a) page_table =
  pt_title :: string
  pt_description :: string
  pt_actions :: "'a page_action list"
  pt_cardTitle :: string
  pt_cardDescription :: string
  pt_extra :: "'a view list"
  pt_columns :: "'a view list"
  pt_data :: "'t list"
  pt_renderRow :: "'t \<Rightarrow> 'a view list"
  pt_empty :: "'a empty_state"
  pt_onRowClick :: "('t \<Rightarrow> 'a) option"

definition page_action_view :: "'a page_action \<Rightarrow> 'a view" where
  "page_action_view a = Button (pa_label a) (pa_disabled a) (pa_onClick a)"

definition empty_view :: "'a empty_state \<Rightarrow> 'a view list" where
  "empty_view e =
     [Txt (es_title e), Txt (es_description e)]
     @ (case es_action e of Some (l, a) \<Rightarrow> [Button l False a] | None \<Rightarrow> [])"

definition row_view :: "('t, 'a) page_table \<Rightarrow> 't \<Rightarrow> 'a view" where
  "row_view p x =
     (case pt_onRowClick p of
        Some f \<Rightarrow> Click (f x) (pt_renderRow p x)
      | None \<Rightarrow> Tag ''tr'' (pt_renderRow p x))"

definition PageTable :: "('t, 'a) page_table \<Rightarrow> 'a view list" where
  "PageTable p =
     [Txt (pt_title p), Txt (pt_description p)]
     @ map page_action_view (pt_actions p)
     @ [Txt (pt_cardTitle p), Txt (pt_cardDescription p)]
     @ pt_extra p
     @ (if pt_data p = [] then empty_view (pt_empty p)
        else [Tag ''thead'' (pt_columns p), Tag ''tbody'' (map (row_view p) (pt_data p))])"

lemma presses_actions:
  "presses (map page_action_view as) = map pa_onClick (filter (\<lambda>a. \<not> pa_disabled a) as)"
  by (induction as) (simp_all add: page_action_view_def)

section \<open>The agents page\<close>

datatype SortOrder = Asc | Desc

record agents_page =
  ap_refreshing :: bool
  ap_selectedAgentId :: "string option"
  ap_drawerOpen :: bool
  ap_selectedGroupId :: "string option"
  ap_groupDrawerOpen :: bool
  ap_sortOrder :: "SortOrder option"
  ap_showActiveOnly :: bool

definition agents_page_init :: agents_page where
  "agents_page_init = \<lparr>ap_refreshing = False, ap_selectedAgentId = None, ap_drawerOpen = False,
     ap_selectedGroupId = None, ap_groupDrawerOpen = False, ap_sortOrder = Some Desc, ap_showActiveOnly = False\<rparr>"

datatype agents_action =
  RefreshAgents | OpenAgent string | OpenGroup string | SortToggle | ActiveOnly bool
  | AgentDrawer bool | GroupDrawer bool

definition handleSortToggle :: "agents_page \<Rightarrow> agents_page" where
  "handleSortToggle p =
     p\<lparr>ap_sortOrder := (case ap_sortOrder p of
         None \<Rightarrow> Some Desc
       | Some Desc \<Rightarrow> Some Asc
       | Some Asc \<Rightarrow> Some Desc)\<rparr>"

definition handleAgentClick :: "string \<Rightarrow> agents_page \<Rightarrow> agents_page" where
  "handleAgentClick agentId p = p\<lparr>ap_selectedAgentId := Some agentId, ap_drawerOpen := True\<rparr>"

definition handleGroupClick :: "string \<Rightarrow> agents_page \<Rightarrow> agents_page" where
  "handleGroupClick groupId p = p\<lparr>ap_selectedGroupId := Some groupId, ap_groupDrawerOpen := True\<rparr>"

text \<open>\<open>handleRefresh\<close> up to its \<open>await\<close> and after it; \<open>mutate\<close> of the cache resolves, whatever the fetch did.\<close>

definition agents_refresh_start :: "agents_page \<Rightarrow> agents_page" where
  "agents_refresh_start p = p\<lparr>ap_refreshing := True\<rparr>"

definition agents_refresh_settle :: "unit \<Rightarrow> agents_page \<Rightarrow> agents_page" where
  "agents_refresh_settle u p = p\<lparr>ap_refreshing := False\<rparr>"

definition agents_edit :: "agents_action \<Rightarrow> agents_page \<Rightarrow> agents_page" where
  "agents_edit a p =
     (case a of
        RefreshAgents \<Rightarrow> p
      | OpenAgent i \<Rightarrow> handleAgentClick i p
      | OpenGroup i \<Rightarrow> handleGroupClick i p
      | SortToggle \<Rightarrow> handleSortToggle p
      | ActiveOnly b \<Rightarrow> p\<lparr>ap_showActiveOnly := b\<rparr>
      | AgentDrawer b \<Rightarrow> p\<lparr>ap_drawerOpen := b\<rparr>
      | GroupDrawer b \<Rightarrow> p\<lparr>ap_groupDrawerOpen := b\<rparr>)"

definition status_icon :: "string \<Rightarrow> 'a view" where
  "status_icon status =
     (if status = ''online'' then Tag ''CheckCircle'' []
      else if status = ''offline'' then Tag ''XCircle'' []
      else if status = ''error'' then Tag ''AlertCircle'' []
      else Tag ''Server'' [])"

definition getStatusBadge :: "string \<Rightarrow> 'a view" where
  "getStatusBadge status =
     (if status = ''online'' then Badge ''default'' ''Online''
      else if status = ''offline'' then Badge ''default'' ''Offline''
      else if status = ''error'' then Badge ''destructive'' ''Error''
      else Badge ''outline'' ''Unknown'')"

definition getSortIcon :: "SortOrder option \<Rightarrow> 'a view" where
  "getSortIcon sortOrder =
     (case sortOrder of
        Some Desc \<Rightarrow> Tag ''ArrowDown'' []
      | Some Asc \<Rightarrow> Tag ''ArrowUp'' []
      | None \<Rightarrow> Tag ''ArrowUpDown'' [])"

text \<open>\<open>map[group.id] = group.name\<close> for each group in turn.\<close>

definition groupIdToName :: "Group list \<Rightarrow> (string \<times> string) list" where
  "groupIdToName groups = foldl (\<lambda>m g. obj_set (gr_id g) (gr_name g) m) [] groups"

text \<open>
  The comparator is a difference of times.  For valid dates it orders the agents by time, and the sort
  is stable; for an invalid date the comparator is NaN and the order is up to the platform, so
  \<open>getTime\<close> gives a number for every text.
\<close>

definition filteredAndSortedAgents ::
  "(string \<Rightarrow> int) \<Rightarrow> bool \<Rightarrow> SortOrder option \<Rightarrow> Agent list \<Rightarrow> Agent list" where
  "filteredAndSortedAgents getTime showActiveOnly sortOrder allAgents =
     (let filtered = (if showActiveOnly then filter (\<lambda>a. ag_status a = ''online'') allAgents else allAgents) in
      case sortOrder of
        None \<Rightarrow> filtered
      | Some Asc \<Rightarrow> sort_key (\<lambda>a. getTime (ag_last_seen a)) filtered
      | Some Desc \<Rightarrow> sort_key (\<lambda>a. - getTime (ag_last_seen a)) filtered)"

definition group_cell :: "(string \<times> string) list \<Rightarrow> Agent \<Rightarrow> agents_action view" where
  "group_cell names a =
     (case given (ag_group_id a) of
        Some g \<Rightarrow> Click (OpenGroup g)
                    [Txt (case given (obj_get names g) of Some n \<Rightarrow> n | None \<Rightarrow> g)]
      | None \<Rightarrow> Txt ''No Group'')"

definition label_badges :: "(string \<times> string) list \<Rightarrow> 'a view list" where
  "label_badges labels =
     map (\<lambda>(k, v). Badge ''outline'' (k @ ''='' @ v)) (take 2 labels)
     @ only_if (length labels > 2) [Badge ''outline'' (''+'' @ show_nat (length labels - 2) @ '' more'')]"

definition agent_row :: "(string \<Rightarrow> string) \<Rightarrow> (string \<times> string) list \<Rightarrow> Agent \<Rightarrow> agents_action view list" where
  "agent_row showTime names a =
     [Tag ''td'' [status_icon (ag_status a), getStatusBadge (ag_status a)],
      Tag ''td'' [Txt (ag_name a)],
      Tag ''td'' [Txt (ag_version a)],
      Tag ''td'' [group_cell names a],
      Tag ''td'' [Txt (showTime (ag_last_seen a))],
      Tag ''td'' (label_badges (ag_labels a))]"

definition agents_table ::
  "(string \<Rightarrow> int) \<Rightarrow> (string \<Rightarrow> string) \<Rightarrow> Agent list \<Rightarrow> Group list \<Rightarrow> agents_page \<Rightarrow>
   (Agent, agents_action) page_table" where
  "agents_table getTime showTime allAgents groups p =
     (let agents = filteredAndSortedAgents getTime (ap_showActiveOnly p) (ap_sortOrder p) allAgents in
      \<lparr>pt_title = ''Agents'', pt_description = ''Manage and monitor your OpenTelemetry agents'',
       pt_actions = [\<lparr>pa_label = ''Refresh'', pa_onClick = RefreshAgents, pa_disabled = ap_refreshing p\<rparr>],
       pt_cardTitle = ''Agents ('' @ show_nat (length agents) @ '')'',
       pt_cardDescription = ''All registered OpenTelemetry agents and their current status'',
       pt_extra = [Click (ActiveOnly (\<not> ap_showActiveOnly p)) [Txt ''Show active only'']],
       pt_columns = [Txt ''Status'', Txt ''Name'', Txt ''Version'', Txt ''Group'',
                     Click SortToggle [Txt ''Last Seen'', getSortIcon (ap_sortOrder p)], Txt ''Labels''],
       pt_data = agents,
       pt_renderRow = agent_row showTime (groupIdToName groups),
       pt_empty = \<lparr>es_title = if allAgents = [] then ''No Agents Found'' else ''No Matching Agents'',
                   es_description = if allAgents = []
                     then ''No agents are currently registered. Agents will appear here once they connect.''
                     else ''No agents match the current filter criteria.'',
                   es_action = None\<rparr>,
       pt_onRowClick = Some (\<lambda>a. OpenAgent (ag_id a))\<rparr>)"

text \<open>\<open>agentsError\<close> is the message of the failed fetch.\<close>

definition AgentsPage_view ::
  "(string \<Rightarrow> int) \<Rightarrow> (string \<Rightarrow> string) \<Rightarrow> string option \<Rightarrow> Agent list \<Rightarrow> Group list \<Rightarrow> agents_page \<Rightarrow>
   agents_action view list" where
  "AgentsPage_view getTime showTime agentsError allAgents groups p =
     (case agentsError of
        Some m \<Rightarrow> [Txt ''Error Loading Data'', Txt (if m = [] then ''Failed to load agent data'' else m),
                   Button ''Retry'' False RefreshAgents]
      | None \<Rightarrow> PageTable (agents_table getTime showTime allAgents groups p))"

section \<open>Order and content of the table\<close>

lemma filteredAndSorted_mset:
  "mset (filteredAndSortedAgents getTime b so xs)
     = (if b then filter_mset (\<lambda>a. ag_status a = ''online'') (mset xs) else mset xs)"
  by (simp add: filteredAndSortedAgents_def Let_def mset_filter split: option.splits SortOrder.splits)

lemma sort_key_sorted_wrt: "sorted_wrt (\<lambda>x y. f x \<le> f y) (sort_key f xs)" for f :: "'x \<Rightarrow> int"
  using sorted_sort_key [of f xs] by (simp add: sorted_map)

lemma sort_key_stable_filter:
  fixes f :: "'x \<Rightarrow> int"
  shows "filter (\<lambda>x. f x = k) (sort_key f xs) = filter (\<lambda>x. f x = k) xs"
  by (rule sort_key_stable [symmetric, THEN sym])

text \<open>C25: the agents page shows each agent that passes the filter exactly once, newest first or oldest first as
  the header says, and agents seen at the same time keep the order in which the server listed them.\<close>

theorem agents_sorted:
  "mset (filteredAndSortedAgents getTime active so xs)
     = (if active then filter_mset (\<lambda>a. ag_status a = ''online'') (mset xs) else mset xs)
   \<and> (so = Some Desc \<longrightarrow> sorted_wrt (\<lambda>a b. getTime (ag_last_seen b) \<le> getTime (ag_last_seen a))
        (filteredAndSortedAgents getTime active so xs))
   \<and> (so = Some Asc \<longrightarrow> sorted_wrt (\<lambda>a b. getTime (ag_last_seen a) \<le> getTime (ag_last_seen b))
        (filteredAndSortedAgents getTime active so xs))
   \<and> filter (\<lambda>a. getTime (ag_last_seen a) = t) (filteredAndSortedAgents getTime active so xs)
       = filter (\<lambda>a. getTime (ag_last_seen a) = t \<and> (active \<longrightarrow> ag_status a = ''online'')) xs"
proof -
  let ?g = "\<lambda>a. getTime (ag_last_seen a)" and ?F = "if active then filter (\<lambda>a. ag_status a = ''online'') xs else xs"
  have d: "sorted_wrt (\<lambda>a b. ?g b \<le> ?g a) (sort_key (\<lambda>a. - ?g a) ?F)"
    using sort_key_sorted_wrt [of "\<lambda>a. - ?g a" ?F] by simp
  have a: "sorted_wrt (\<lambda>a b. ?g a \<le> ?g b) (sort_key ?g ?F)" by (rule sort_key_sorted_wrt)
  have f: "filter (\<lambda>a. ?g a = t) ?F = filter (\<lambda>a. ?g a = t \<and> (active \<longrightarrow> ag_status a = ''online'')) xs"
    by (simp add: conj_commute)
  have s: "filter (\<lambda>a. ?g a = t) (case so of None \<Rightarrow> F | Some Asc \<Rightarrow> sort_key ?g F | Some Desc \<Rightarrow> sort_key (\<lambda>a. - ?g a) F)
      = filter (\<lambda>a. ?g a = t) F" for F
    using sort_key_stable_filter [of "\<lambda>a. - ?g a" "- t" F] sort_key_stable_filter [of ?g t F]
    by (simp split: option.splits SortOrder.splits)
  show ?thesis
    using filteredAndSorted_mset [of getTime active so xs] d a trans [OF s [of ?F] f]
    by (simp add: filteredAndSortedAgents_def Let_def)
qed

definition demo_agent :: "string \<Rightarrow> string \<Rightarrow> string \<Rightarrow> Agent" where
  "demo_agent i status seen = \<lparr>ag_id = i, ag_name = i, ag_status = status, ag_last_seen = seen, ag_version = ''1'',
     ag_group_id = None, ag_group_name = None, ag_labels = [], ag_capabilities = None, ag_effective_config = None\<rparr>"

definition demo_group :: "string \<Rightarrow> (string \<times> string) list \<Rightarrow> Group" where
  "demo_group i labels = \<lparr>gr_id = i, gr_name = i, gr_labels = labels, gr_agent_count = 0, gr_config_name = None,
     gr_created_at = ''1'', gr_updated_at = ''1''\<rparr>"

lemma agents_sorted_witness:
  "sorted_wrt (\<lambda>a b. int (length (ag_last_seen b)) \<le> int (length (ag_last_seen a)))
     (filteredAndSortedAgents (\<lambda>s. int (length s)) True (Some Desc)
       [demo_agent ''a'' ''online'' ''1'', demo_agent ''b'' ''offline'' ''111'', demo_agent ''c'' ''online'' ''11''])"
  using agents_sorted [of "\<lambda>s. int (length s)" True "Some Desc"] by blast

lemma group_cell_presses: "presses [group_cell names a] = (case given (ag_group_id a) of Some g \<Rightarrow> [OpenGroup g] | None \<Rightarrow> [])"
  by (simp add: group_cell_def split: option.splits)

lemma badges_presses: "presses (label_badges labels) = []"
  by (induction labels rule: induct_list012) (auto simp: label_badges_def presses_map split: prod.splits)

lemma icon_presses [simp]:
  "pressable (status_icon s) = []" "pressable (getStatusBadge s) = []" "pressable (getSortIcon so) = []"
  by (simp_all add: status_icon_def getStatusBadge_def getSortIcon_def split: option.splits SortOrder.splits)

lemma agent_row_presses:
  "presses (agent_row showTime names a) = (case given (ag_group_id a) of Some g \<Rightarrow> [OpenGroup g] | None \<Rightarrow> [])"
  using group_cell_presses [of names a] badges_presses [of "ag_labels a"] by (simp add: agent_row_def)

text \<open>what can be pressed on the agents page, in order: refreshing unless a refresh runs, the filter, the sort
  header, and for each agent in the table's order its own details and the details of its group.\<close>

theorem agents_page_presses:
  "presses (AgentsPage_view getTime showTime None xs groups p)
    = (if ap_refreshing p then [] else [RefreshAgents]) @ [ActiveOnly (\<not> ap_showActiveOnly p)]
      @ (let shown_agents = filteredAndSortedAgents getTime (ap_showActiveOnly p) (ap_sortOrder p) xs in
         if shown_agents = [] then []
         else SortToggle # concat (map (\<lambda>a. OpenAgent (ag_id a)
                # (case given (ag_group_id a) of Some g \<Rightarrow> [OpenGroup g] | None \<Rightarrow> [])) shown_agents))"
  by (simp add: AgentsPage_view_def agents_table_def PageTable_def Let_def presses_actions empty_view_def
      presses_map row_view_def agent_row_presses page_action_view_def)

lemma agents_edit_refreshing: "ap_refreshing (agents_edit a p) = ap_refreshing p"
  by (simp add: agents_edit_def handleAgentClick_def handleGroupClick_def handleSortToggle_def
      split: agents_action.splits)

interpretation agents_refresh: async_form ap_refreshing "\<lambda>p. \<not> ap_refreshing p" agents_refresh_start
  agents_refresh_settle agents_edit
  by unfold_locales (simp_all add: agents_refresh_start_def agents_refresh_settle_def agents_edit_refreshing)

end
