(* ===== verification/Topology_View.thy ===== *)
theory Topology_View
  imports Fleet_View Js_Number
begin

text \<open>
  The topology page (ui/src/pages/Topology.tsx), its layout (components/topology/useTopologyLayout.ts),
  the resource sidebar (DisplaySidebar.tsx), the header, the canvas and its node components.
\<close>

section \<open>Data\<close>

datatype node_type = AgentType | GroupType | ServiceType
datatype level = Instance | GroupLevel

record node_metrics_data =
  nm_metric_count :: int
  nm_log_count :: int
  nm_throughput_rps :: dbl

record topology_node =
  tn_id :: string
  tn_type :: node_type
  tn_name :: string
  tn_status :: string
  tn_group_name :: "string option"
  tn_metrics :: "node_metrics_data option"
  tn_labels :: "(string \<times> string) list"

record topology_edge =
  te_source :: string
  te_target :: string
  te_label :: "string option"

record group_summary =
  gs_id :: string
  gs_name :: string
  gs_agent_count :: int

record TopologyData =
  td_nodes :: "topology_node list"
  td_edges :: "topology_edge list"
  td_groups :: "group_summary list option"

section \<open>Layout\<close>

text \<open>The node data the node components read; \<open>ln_agent_count\<close> belongs to groups.\<close>

record layout_node =
  ln_id :: string
  ln_type :: node_type
  ln_name :: string
  ln_status :: string
  ln_agent_count :: int
  ln_group_name :: "string option"
  ln_metrics :: "node_metrics_data option"
  ln_x :: int
  ln_y :: int

definition group_count :: "group_summary list option \<Rightarrow> string \<Rightarrow> int" where
  "group_count groups ident =
     (case groups of
        None \<Rightarrow> 0
      | Some gs \<Rightarrow> (case find (\<lambda>g. gs_id g = replace_first ''group-'' [] ident) gs of
                      Some g \<Rightarrow> gs_agent_count g
                    | None \<Rightarrow> 0))"

definition group_layout_node :: "group_summary list option \<Rightarrow> nat \<Rightarrow> topology_node \<Rightarrow> layout_node" where
  "group_layout_node groups idx n =
     \<lparr>ln_id = tn_id n, ln_type = GroupType, ln_name = tn_name n, ln_status = tn_status n,
      ln_agent_count = group_count groups (tn_id n), ln_group_name = None, ln_metrics = None,
      ln_x = int idx * 300 + 50, ln_y = 150\<rparr>"

definition agentsPerRow :: nat where "agentsPerRow = 4"

definition agent_layout_node :: "nat \<Rightarrow> topology_node \<Rightarrow> layout_node" where
  "agent_layout_node idx n =
     (let row = idx div agentsPerRow; col = idx mod agentsPerRow in
      \<lparr>ln_id = tn_id n, ln_type = AgentType, ln_name = tn_name n, ln_status = tn_status n,
       ln_agent_count = 0, ln_group_name = tn_group_name n, ln_metrics = tn_metrics n,
       ln_x = int col * 250 + 50, ln_y = int row * 200 + 150\<rparr>)"

definition layout_nodes :: "TopologyData option \<Rightarrow> level \<Rightarrow> layout_node list" where
  "layout_nodes topologyData topologyLevel =
     (case topologyData of
        None \<Rightarrow> []
      | Some td \<Rightarrow>
          if td_nodes td = [] then []
          else case topologyLevel of
            GroupLevel \<Rightarrow> map (\<lambda>(i, n). group_layout_node (td_groups td) i n)
              (enumerate 0 (filter (\<lambda>n. tn_type n = GroupType) (td_nodes td)))
          | Instance \<Rightarrow> map (\<lambda>(i, n). agent_layout_node i n)
              (enumerate 0 (filter (\<lambda>n. tn_type n = AgentType) (td_nodes td))))"

record layout_edge =
  le_id :: string
  le_source :: string
  le_target :: string
  le_label :: "string option"

definition shown_edge :: "level \<Rightarrow> topology_edge \<Rightarrow> bool" where
  "shown_edge topologyLevel e =
     (case topologyLevel of
        GroupLevel \<Rightarrow> starts_with ''group-'' (te_source e) \<and> starts_with ''group-'' (te_target e)
      | Instance \<Rightarrow> starts_with ''agent-'' (te_source e) \<and> starts_with ''agent-'' (te_target e))"

definition layout_edges :: "TopologyData option \<Rightarrow> level \<Rightarrow> layout_edge list" where
  "layout_edges topologyData topologyLevel =
     (case topologyData of
        None \<Rightarrow> []
      | Some td \<Rightarrow>
          map (\<lambda>(i, e). \<lparr>le_id = ''edge-'' @ show_nat i, le_source = te_source e, le_target = te_target e,
                         le_label = te_label e\<rparr>)
            (enumerate 0 (filter (shown_edge topologyLevel) (td_edges td))))"

section \<open>The page\<close>

record topology_page =
  tp_refreshing :: bool
  tp_selectedAgentId :: "string option"
  tp_drawerOpen :: bool
  tp_selectedGroupId :: "string option"
  tp_groupDrawerOpen :: bool
  tp_level :: level

definition topology_page_init :: topology_page where
  "topology_page_init = \<lparr>tp_refreshing = False, tp_selectedAgentId = None, tp_drawerOpen = False,
     tp_selectedGroupId = None, tp_groupDrawerOpen = False, tp_level = Instance\<rparr>"

definition select_agent :: "string \<Rightarrow> topology_page \<Rightarrow> topology_page" where
  "select_agent i p = p\<lparr>tp_selectedAgentId := Some i, tp_drawerOpen := True\<rparr>"

definition select_group :: "string \<Rightarrow> topology_page \<Rightarrow> topology_page" where
  "select_group i p = p\<lparr>tp_selectedGroupId := Some i, tp_groupDrawerOpen := True\<rparr>"

definition onNodeClick :: "layout_node \<Rightarrow> topology_page \<Rightarrow> topology_page" where
  "onNodeClick n p =
     (case ln_type n of
        AgentType \<Rightarrow> select_agent (replace_first ''agent-'' [] (ln_id n)) p
      | GroupType \<Rightarrow> select_group (replace_first ''group-'' [] (ln_id n)) p
      | ServiceType \<Rightarrow> p)"

definition handleNodeSelect :: "node_type \<Rightarrow> string \<Rightarrow> topology_page \<Rightarrow> topology_page" where
  "handleNodeSelect t i p =
     (case t of AgentType \<Rightarrow> select_agent i p | GroupType \<Rightarrow> select_group i p | ServiceType \<Rightarrow> p)"

datatype topology_action =
  RefreshTopology | SetLevel level | NodeSelect node_type string | ToggleGroups | ToggleAgents

definition topology_refresh_start :: "topology_page \<Rightarrow> topology_page" where
  "topology_refresh_start p = p\<lparr>tp_refreshing := True\<rparr>"

definition topology_refresh_settle :: "unit \<Rightarrow> topology_page \<Rightarrow> topology_page" where
  "topology_refresh_settle u p = p\<lparr>tp_refreshing := False\<rparr>"

definition TopologyHeader :: "topology_page \<Rightarrow> topology_action view list" where
  "TopologyHeader p =
     [Txt ''Topology'', Txt ''Visualize your agent infrastructure'',
      Click (SetLevel Instance) [Txt ''Instance''], Click (SetLevel GroupLevel) [Txt ''Group''],
      Button ''Refresh'' (tp_refreshing p) RefreshTopology]"

text \<open>The canvas keeps its own nodes, which can be dragged, and takes over the layout when that changes.\<close>

record canvas =
  cv_nodes :: "layout_node list"
  cv_edges :: "layout_edge list"

definition canvas_effect :: "layout_node list \<Rightarrow> layout_edge list \<Rightarrow> canvas \<Rightarrow> canvas" where
  "canvas_effect nodes edges cv = cv\<lparr>cv_nodes := nodes, cv_edges := edges\<rparr>"

definition AgentNode :: "layout_node \<Rightarrow> 'a view list" where
  "AgentNode d =
     [Tag ''Server'' [], Txt (ln_name d), status_icon (ln_status d)]
     @ (case ln_metrics d of
          Some m \<Rightarrow> [Txt (''Metrics: '' @ formatCount (nm_metric_count m)),
                     Txt (''Logs: '' @ formatCount (nm_log_count m)),
                     Txt (''Throughput: '' @ to_fixed 2 (nm_throughput_rps m) @ '' rps'')]
        | None \<Rightarrow> [])
     @ (case given (ln_group_name d) of Some g \<Rightarrow> [Badge ''outline'' g] | None \<Rightarrow> [])"

definition GroupNode :: "layout_node \<Rightarrow> 'a view list" where
  "GroupNode d = [Tag ''Users'' [], Txt (ln_name d), Txt (show_int (ln_agent_count d) @ '' agents'')]"

section \<open>The sidebar\<close>

text \<open>\<open>Object.entries(groupLabels).every(([key, value]) => agentLabels[key] === value)\<close>\<close>

definition labels_match :: "(string \<times> string) list \<Rightarrow> (string \<times> string) list \<Rightarrow> bool" where
  "labels_match groupLabels agentLabels = list_all (\<lambda>(k, v). obj_get agentLabels k = Some v) groupLabels"

definition groupAgentCounts :: "Group list \<Rightarrow> Agent list \<Rightarrow> (string \<times> nat) list" where
  "groupAgentCounts groups agents =
     foldl (\<lambda>acc g. obj_set (gr_id g) (length (filter (\<lambda>a. labels_match (gr_labels g) (ag_labels a)) agents)) acc)
       [] groups"

definition group_item :: "(string \<times> nat) list \<Rightarrow> Group \<Rightarrow> topology_action view" where
  "group_item counts g =
     Click (NodeSelect GroupType (gr_id g))
       [Txt (gr_name g),
        Txt (show_nat (case obj_get counts (gr_id g) of Some n \<Rightarrow> n | None \<Rightarrow> 0) @ '' agents'')]"

definition GroupsDisplaySection :: "bool \<Rightarrow> Group list \<Rightarrow> Agent list \<Rightarrow> topology_action view list" where
  "GroupsDisplaySection expanded groups agents =
     [Click ToggleGroups [Tag (if expanded then ''ChevronDown'' else ''ChevronRight'') []],
      Txt ''Agent Groups'', Badge ''outline'' (show_nat (length groups))]
     @ only_if expanded
         (if groups \<noteq> [] then map (group_item (groupAgentCounts groups agents)) groups
          else [Txt ''No groups found''])"

definition agent_label :: "Agent \<Rightarrow> string" where
  "agent_label a = (if ag_name a \<noteq> [] then ag_name a else take 8 (ag_id a))"

definition status_dot :: "string \<Rightarrow> string" where
  "status_dot status = (if status = ''online'' then ''green'' else if status = ''error'' then ''red'' else ''amber'')"

definition agent_item :: "Agent \<Rightarrow> topology_action view" where
  "agent_item a =
     Click (NodeSelect AgentType (ag_id a))
       [Tag (status_dot (ag_status a)) [], Txt (agent_label a), Txt (ag_status a)]"

definition AgentsDisplaySection :: "bool \<Rightarrow> Agent list \<Rightarrow> topology_action view list" where
  "AgentsDisplaySection expanded agents =
     [Click ToggleAgents [Tag (if expanded then ''ChevronDown'' else ''ChevronRight'') []],
      Txt ''Agents'', Badge ''outline'' (show_nat (length agents))]
     @ only_if expanded (map agent_item agents @ only_if (agents = []) [Txt ''No agents found''])"

definition DisplaySidebar :: "bool \<times> bool \<Rightarrow> Group list \<Rightarrow> Agent list \<Rightarrow> topology_action view list" where
  "DisplaySidebar open1 groups agents =
     Txt ''Resources'' # GroupsDisplaySection (fst open1) groups agents @ AgentsDisplaySection (snd open1) agents"

definition topology_step :: "topology_action \<Rightarrow> topology_page \<times> bool \<times> bool \<Rightarrow> topology_page \<times> bool \<times> bool" where
  "topology_step a s =
     (case s of (p, g, ag) \<Rightarrow>
       (case a of
          RefreshTopology \<Rightarrow> (topology_refresh_start p, g, ag)
        | SetLevel l \<Rightarrow> (p\<lparr>tp_level := l\<rparr>, g, ag)
        | NodeSelect t i \<Rightarrow> (handleNodeSelect t i p, g, ag)
        | ToggleGroups \<Rightarrow> (p, \<not> g, ag)
        | ToggleAgents \<Rightarrow> (p, g, \<not> ag)))"

definition TopologyPage_view ::
  "string option \<Rightarrow> bool \<times> bool \<Rightarrow> Group list \<Rightarrow> Agent list \<Rightarrow> topology_page \<Rightarrow> topology_action view list" where
  "TopologyPage_view err open1 groups agents p =
     (case err of
        Some m \<Rightarrow> [Txt ''Error Loading Topology'', Txt m, Button ''Retry'' False RefreshTopology]
      | None \<Rightarrow> TopologyHeader p @ DisplaySidebar open1 groups agents)"

section \<open>Geometry of the layout\<close>

text \<open>Node cards are at least 200 wide; a card of the layout and its neighbours never overlap.\<close>

definition apart :: "int \<Rightarrow> int \<Rightarrow> layout_node \<Rightarrow> layout_node \<Rightarrow> bool" where
  "apart w h a b \<longleftrightarrow> ln_x a + w \<le> ln_x b \<or> ln_x b + w \<le> ln_x a \<or> ln_y a + h \<le> ln_y b \<or> ln_y b + h \<le> ln_y a"

lemma grid_apart:
  assumes "i < j"
  shows "apart 250 200 (agent_layout_node i m) (agent_layout_node j n)"
proof (cases "i div 4 = j div 4")
  case True
  then have "i mod 4 < j mod 4" using assms by (metis div_mult_mod_eq nat_add_left_cancel_less)
  then show ?thesis by (simp add: apart_def agent_layout_node_def agentsPerRow_def Let_def)
next
  case False
  then have "i div 4 < j div 4" using assms div_le_mono [of i j 4] by linarith
  then show ?thesis by (simp add: apart_def agent_layout_node_def agentsPerRow_def Let_def)
qed

lemma line_apart: "i < j \<Longrightarrow> apart 250 200 (group_layout_node gs i m) (group_layout_node gs j n)"
  by (simp add: apart_def group_layout_node_def)

lemma sorted_wrt_enumerate:
  assumes "\<And>i j m n. i < j \<Longrightarrow> P (f i m) (f j n)"
  shows "sorted_wrt P (map (\<lambda>(i, n). f i n) (enumerate k xs))"
  using assms by (auto simp: sorted_wrt_iff_nth_less nth_enumerate_eq)

lemma layout_nodes_ids:
  "map ln_id (layout_nodes td lv)
       = (case td of None \<Rightarrow> [] | Some d \<Rightarrow>
            map tn_id (filter (\<lambda>n. tn_type n = (case lv of Instance \<Rightarrow> AgentType | GroupLevel \<Rightarrow> GroupType)) (td_nodes d)))"
proof -
  have a: "map ln_id (map (\<lambda>(i, n). agent_layout_node i n) (enumerate k xs)) = map tn_id xs" for k xs
    by (induction xs arbitrary: k) (simp_all add: agent_layout_node_def Let_def)
  have g: "map ln_id (map (\<lambda>(i, n). group_layout_node gs i n) (enumerate k xs)) = map tn_id xs" for gs k xs
    by (induction xs arbitrary: k) (simp_all add: group_layout_node_def)
  show ?thesis
    by (cases td; cases lv) (simp_all add: layout_nodes_def a g del: map_map)
qed

lemma layout_nodes_apart: "sorted_wrt (apart 250 200) (layout_nodes td lv)"
proof -
  have a: "sorted_wrt (apart 250 200) (map (\<lambda>(i, n). agent_layout_node i n) (enumerate 0 xs))" for xs
    by (rule sorted_wrt_enumerate) (rule grid_apart)
  have g: "sorted_wrt (apart 250 200) (map (\<lambda>(i, n). group_layout_node gs i n) (enumerate 0 xs))" for gs xs
    by (rule sorted_wrt_enumerate) (rule line_apart)
  show ?thesis by (cases td; cases lv) (simp_all add: layout_nodes_def a g)
qed


text \<open>Node identifiers of the server carry their type as a prefix, and edges join nodes.\<close>

definition topology_wf :: "TopologyData \<Rightarrow> bool" where
  "topology_wf d \<longleftrightarrow>
     (\<forall>n \<in> set (td_nodes d). starts_with ''agent-'' (tn_id n) = (tn_type n = AgentType)
        \<and> starts_with ''group-'' (tn_id n) = (tn_type n = GroupType))
     \<and> (\<forall>e \<in> set (td_edges d). te_source e \<in> tn_id ` set (td_nodes d) \<and> te_target e \<in> tn_id ` set (td_nodes d))"

lemma mem_map_enumerate: "y \<in> set (map (\<lambda>(i, x). f i x) (enumerate k xs)) \<Longrightarrow> \<exists>i. \<exists>x \<in> set xs. y = f i x"
proof -
  assume "y \<in> set (map (\<lambda>(i, x). f i x) (enumerate k xs))"
  then obtain i x where x: "(i, x) \<in> set (enumerate k xs)" "y = f i x" by auto
  then have "x \<in> set xs" by (metis map_snd_enumerate imageI list.set_map snd_conv)
  then show ?thesis using x by blast
qed

text \<open>for a topology whose node identifiers carry their type, every edge the layout shows joins two nodes it
  shows.\<close>

theorem topology_edges_closed:
  assumes "topology_wf d" and "e \<in> set (layout_edges (Some d) lv)"
  shows "le_source e \<in> ln_id ` set (layout_nodes (Some d) lv) \<and> le_target e \<in> ln_id ` set (layout_nodes (Some d) lv)"
proof -
  obtain e0 where e0: "e0 \<in> set (td_edges d)" "shown_edge lv e0" "le_source e = te_source e0" "le_target e = te_target e0"
    using assms(2) by (auto simp: layout_edges_def simp del: set_map dest!: mem_map_enumerate)
  let ?t = "case lv of Instance \<Rightarrow> AgentType | GroupLevel \<Rightarrow> GroupType"
  have n: "i \<in> tn_id ` {n \<in> set (td_nodes d). tn_type n = ?t}"
    if "i \<in> tn_id ` set (td_nodes d)" "starts_with (case lv of Instance \<Rightarrow> ''agent-'' | GroupLevel \<Rightarrow> ''group-'') i" for i
    using that assms(1) by (cases lv) (auto simp: topology_wf_def)
  have "set (map ln_id (layout_nodes (Some d) lv)) = tn_id ` {n \<in> set (td_nodes d). tn_type n = ?t}"
    using layout_nodes_ids [of "Some d" lv] by simp
  moreover have "te_source e0 \<in> tn_id ` set (td_nodes d)" "te_target e0 \<in> tn_id ` set (td_nodes d)"
    using assms(1) e0(1) by (auto simp: topology_wf_def)
  ultimately show ?thesis
    using n [of "te_source e0"] n [of "te_target e0"] e0
    by (cases lv) (simp_all only: shown_edge_def level.case list.set_map)
qed

definition demo_topology :: TopologyData where
  "demo_topology = \<lparr>td_nodes =
     [\<lparr>tn_id = ''agent-1'', tn_type = AgentType, tn_name = ''a'', tn_status = ''online'', tn_group_name = None,
        tn_metrics = None, tn_labels = []\<rparr>,
      \<lparr>tn_id = ''group-1'', tn_type = GroupType, tn_name = ''g'', tn_status = ''ok'', tn_group_name = None,
        tn_metrics = None, tn_labels = []\<rparr>],
     td_edges = [\<lparr>te_source = ''agent-1'', te_target = ''agent-1'', te_label = None\<rparr>,
                 \<lparr>te_source = ''agent-1'', te_target = ''group-1'', te_label = None\<rparr>],
     td_groups = None\<rparr>"

lemma topology_edges_closed_witness:
  "''agent-1'' \<in> ln_id ` set (layout_nodes (Some demo_topology) Instance)"
proof -
  let ?e = "\<lparr>le_id = ''edge-0'', le_source = ''agent-1'', le_target = ''agent-1'', le_label = None\<rparr>"
  have "topology_wf demo_topology" by (simp add: topology_wf_def demo_topology_def starts_with_def)
  moreover have "?e \<in> set (layout_edges (Some demo_topology) Instance)"
    by (simp add: demo_topology_def layout_edges_def shown_edge_def starts_with_def show_nat.simps)
  ultimately show ?thesis using topology_edges_closed [of demo_topology ?e Instance] by simp
qed

text \<open>selecting an agent or a group on the canvas or in the sidebar opens the drawer of the same resource,
  whatever the identifier contains, as the canvas removes the type prefix once.\<close>

theorem canvas_and_sidebar_agree:
  "onNodeClick (agent_layout_node k (n\<lparr>tn_id := ''agent-'' @ i\<rparr>)) p = handleNodeSelect AgentType i p
   \<and> onNodeClick (group_layout_node gs k (n\<lparr>tn_id := ''group-'' @ i\<rparr>)) p = handleNodeSelect GroupType i p"
proof -
  have "replace_first ''agent-'' [] (''agent-'' @ i) = i" "replace_first ''group-'' [] (''group-'' @ i) = i"
    by (simp_all only: replace_first_prefix append_Nil)
  then show ?thesis
    by (simp add: onNodeClick_def handleNodeSelect_def agent_layout_node_def group_layout_node_def Let_def
        del: append_Cons)
qed

section \<open>Counts of the sidebar\<close>

lemma get_counts_from:
  "obj_get (foldl (\<lambda>acc g. obj_set (gr_id g) (f g) acc) acc groups) i
    = (case find (\<lambda>g. gr_id g = i) (rev groups) of Some g \<Rightarrow> Some (f g) | None \<Rightarrow> obj_get acc i)"
  by (induction groups rule: rev_induct) (auto simp: obj_get_set)

text \<open>the sidebar shows each group with the number of agents that carry all of the group's labels, when
  no two groups share an identifier.\<close>

theorem sidebar_counts:
  assumes "distinct (map gr_id groups)" and "g \<in> set groups"
  shows "group_item (groupAgentCounts groups agents) g
    = Click (NodeSelect GroupType (gr_id g)) [Txt (gr_name g),
        Txt (show_nat (length (filter (\<lambda>a. \<forall>(k, v) \<in> set (gr_labels g). obj_get (ag_labels a) k = Some v) agents)) @ '' agents'')]"
proof -
  have "find (\<lambda>h. gr_id h = gr_id g) (rev groups) = Some g"
  proof (cases "find (\<lambda>h. gr_id h = gr_id g) (rev groups)")
    case None
    then show ?thesis using assms(2) by (auto simp: find_None_iff)
  next
    case (Some h)
    then have "h \<in> set groups" "gr_id h = gr_id g" by (auto simp: find_Some_iff) (metis nth_mem set_rev length_rev)
    then show ?thesis using assms Some by (auto simp: distinct_map inj_on_def)
  qed
  then show ?thesis
    by (simp add: group_item_def groupAgentCounts_def get_counts_from labels_match_def list_all_iff)
qed

lemma sidebar_counts_witness:
  "group_item (groupAgentCounts [demo_group ''g'' [(''env'', ''prod'')]] [demo_agent ''a'' ''online'' ''1'']) (demo_group ''g'' [(''env'', ''prod'')])
    = Click (NodeSelect GroupType ''g'') [Txt ''g'', Txt ''0 agents'']"
  using sidebar_counts [of "[demo_group ''g'' [(''env'', ''prod'')]]" "demo_group ''g'' [(''env'', ''prod'')]"
      "[demo_agent ''a'' ''online'' ''1'']"]
  by (simp add: demo_group_def demo_agent_def obj_get_def show_nat.simps)

lemma select_refreshing: "tp_refreshing (handleNodeSelect t i p) = tp_refreshing p"
  by (simp add: handleNodeSelect_def select_agent_def select_group_def split: node_type.splits)

interpretation topology_refresh: async_form tp_refreshing
  "\<lambda>p. RefreshTopology \<in> set (presses (TopologyHeader p))" topology_refresh_start topology_refresh_settle
  "\<lambda>(t, i). handleNodeSelect t i"
  by unfold_locales
    (auto simp: TopologyHeader_def topology_refresh_start_def topology_refresh_settle_def select_refreshing split: if_splits)

end
