(* ===== verification/Detail_Drawers.thy ===== *)
theory Detail_Drawers
  imports Topology_View Api_Client
begin

text \<open>
  The drawers with the details of an agent and of a group (ui/src/components/AgentDetailsDrawer.tsx,
  GroupDetailsDrawer.tsx, agent-details/AgentOverview.tsx, group-details): what they fetch and show,
  and restarting an agent or a group, with the timers that clear the message.  The bodies of the other
  tabs are components of their own and appear by name.
\<close>

section \<open>Restarting\<close>

record restart_response =
  rr_success :: bool
  rr_message :: string
  rr_restarted_count :: int
  rr_failed_count :: int

text \<open>The kind of a message tells its alert variant.\<close>

datatype message_kind = Success | Error

record restart_panel =
  rp_isRestarting :: bool
  rp_restartMessage :: "(message_kind \<times> string) option"
  rp_timers :: nat

definition restart_panel_init :: restart_panel where
  "restart_panel_init = \<lparr>rp_isRestarting = False, rp_restartMessage = None, rp_timers = 0\<rparr>"

text \<open>\<open>handleRestart\<close> up to its \<open>await\<close>, for a drawer that has an identifier.\<close>

definition restart_start :: "restart_panel \<Rightarrow> restart_panel" where
  "restart_start p = p\<lparr>rp_isRestarting := True, rp_restartMessage := None\<rparr>"

text \<open>After it: \<open>Inr\<close> a response, \<open>Inl\<close> the message of the error.  A success starts a timer.\<close>

definition restart_settle ::
  "(restart_response \<Rightarrow> string) \<Rightarrow> string + restart_response \<Rightarrow> restart_panel \<Rightarrow> restart_panel" where
  "restart_settle summary r p =
     (case r of
        Inr response \<Rightarrow>
          if rr_success response
          then p\<lparr>rp_restartMessage := Some (Success, summary response), rp_timers := Suc (rp_timers p), rp_isRestarting := False\<rparr>
          else p\<lparr>rp_restartMessage := Some (Error, rr_message response), rp_isRestarting := False\<rparr>
      | Inl m \<Rightarrow> p\<lparr>rp_restartMessage := Some (Error, m), rp_isRestarting := False\<rparr>)"

text \<open>\<open>setTimeout(() => setRestartMessage(null), ...)\<close> fires.\<close>

definition timer_fires :: "restart_panel \<Rightarrow> restart_panel" where
  "timer_fires p = (if rp_timers p = 0 then p else p\<lparr>rp_restartMessage := None, rp_timers := rp_timers p - 1\<rparr>)"

definition agent_summary :: "restart_response \<Rightarrow> string" where
  "agent_summary r = rr_message r"

definition group_summary_text :: "restart_response \<Rightarrow> string" where
  "group_summary_text r =
     rr_message r @ '' ('' @ show_int (rr_restarted_count r) @ '' restarted, '' @ show_int (rr_failed_count r) @ '' failed)''"

section \<open>The agent's drawer\<close>

record topology_metrics =
  tm_metric_count :: int
  tm_log_count :: int
  tm_trace_count :: int
  tm_throughput_rps :: dbl

record agent_topology =
  at_agent :: Agent
  at_metrics :: "topology_metrics option"

datatype drawer_action = Restart | CloseDrawer | ClickAgent string

text \<open>The key of the cache, and so whether anything is fetched.\<close>

definition agent_topology_key :: "string option \<Rightarrow> bool \<Rightarrow> string option" where
  "agent_topology_key agentId is_open =
     (case given agentId of Some i \<Rightarrow> if is_open then Some (''agent-topology-'' @ i) else None | None \<Rightarrow> None)"

definition supportsRestart :: "agent_topology option \<Rightarrow> bool" where
  "supportsRestart t =
     (case t of
        Some a \<Rightarrow> (case ag_capabilities (at_agent a) of
                     Some cs \<Rightarrow> ''accepts_restart_command'' \<in> set cs | None \<Rightarrow> False)
      | None \<Rightarrow> False)"

definition message_alert :: "(message_kind \<times> string) option \<Rightarrow> 'a view list" where
  "message_alert m =
     (case m of
        Some (k, t) \<Rightarrow> [Alert (if k = Error then ''destructive'' else ''default'') t]
      | None \<Rightarrow> [])"

definition InfoCard :: "string \<Rightarrow> (string \<times> 'a view list) list \<Rightarrow> 'a view" where
  "InfoCard title items = Tag ''card'' (Txt title # map (\<lambda>(l, v). Tag ''item'' (Txt (l @ '':'') # v)) items)"

definition count_value :: "int \<Rightarrow> 'a view list" where
  "count_value n = [Txt (if n = 0 then ''No data received'' else show_int n)]"

definition labels_card :: "(string \<times> string) list \<Rightarrow> 'a view list" where
  "labels_card labels =
     only_if (labels \<noteq> [])
       [Tag ''card'' (Txt ''Labels'' # map (\<lambda>(k, v). Badge ''outline'' (k @ ''='' @ v)) labels)]"

definition AgentOverview :: "(string \<Rightarrow> string) \<Rightarrow> Agent \<Rightarrow> topology_metrics option \<Rightarrow> 'a view list" where
  "AgentOverview showTime a metrics =
     [InfoCard ''Agent Information''
        [(''ID'', [Txt (ag_id a)]), (''Version'', [Txt (ag_version a)]),
         (''Status'', [Badge (if ag_status a = ''online'' then ''default'' else ''secondary'') (ag_status a)]),
         (''Group'', [Txt (case given (ag_group_name a) of Some g \<Rightarrow> g | None \<Rightarrow> ''No Group'')]),
         (''Last Seen'', [Txt (showTime (ag_last_seen a))])]]
     @ (case metrics of
          Some m \<Rightarrow> [InfoCard ''Telemetry Stats (Last 5 min)''
                      [(''Metrics'', count_value (tm_metric_count m)), (''Logs'', count_value (tm_log_count m)),
                       (''Traces'', count_value (tm_trace_count m)),
                       (''Throughput'', [Txt (to_fixed 2 (tm_throughput_rps m) @ '' rps'')])]]
        | None \<Rightarrow> [])
     @ (case ag_capabilities a of
          Some (c # cs) \<Rightarrow> [Tag ''card'' (Txt ''Capabilities'' # map (Badge ''secondary'') (c # cs))]
        | _ \<Rightarrow> [])
     @ labels_card (ag_labels a)"

definition restart_button :: "restart_panel \<Rightarrow> bool \<Rightarrow> string \<Rightarrow> drawer_action view" where
  "restart_button p disabled label =
     Button (if rp_isRestarting p then ''Restarting...'' else label) (disabled \<or> rp_isRestarting p) Restart"

definition AgentDetailsDrawer ::
  "(string \<Rightarrow> string) \<Rightarrow> string option \<Rightarrow> agent_topology option \<Rightarrow> bool \<Rightarrow> restart_panel \<Rightarrow> drawer_action view list" where
  "AgentDetailsDrawer showTime agentId t isLoading p =
     (case t of Some a \<Rightarrow> [status_icon (ag_status (at_agent a))] | None \<Rightarrow> [])
     @ [Txt ''Agent Details'',
        Txt (case t of
               Some a \<Rightarrow> if ag_name (at_agent a) \<noteq> [] then ag_name (at_agent a) else ''Loading...''
             | None \<Rightarrow> ''Loading...'')]
     @ (case t of
          Some a \<Rightarrow> only_if (supportsRestart t)
                      [restart_button p (ag_status (at_agent a) \<noteq> ''online'') ''Restart'']
        | None \<Rightarrow> [])
     @ message_alert (rp_restartMessage p)
     @ (if isLoading then [Tag ''LoadingSpinner'' []]
        else case t of
          Some a \<Rightarrow> [Txt ''Overview'', Txt ''Config'', Txt ''Metrics'', Txt ''Logs'',
                     Tag ''overview'' (AgentOverview showTime (at_agent a) (at_metrics a))]
                    @ (case given agentId of
                         Some i \<Rightarrow> [Tag ''AgentConfigPipeline'' [], Tag ''AgentMetrics'' [], Tag ''AgentLogs'' []]
                       | None \<Rightarrow> [])
        | None \<Rightarrow> [])"

text \<open>The request of a press: none without an identifier.\<close>

definition handleRestart_agent :: "string option \<Rightarrow> restart_panel \<Rightarrow> restart_panel \<times> api_request option" where
  "handleRestart_agent agentId p =
     (case given agentId of None \<Rightarrow> (p, None) | Some i \<Rightarrow> (restart_start p, Some (restartAgent i)))"

section \<open>The group's drawer\<close>

record group_topology =
  gt_agent_count :: int
  gt_metric_count :: int

record group_metrics =
  gm_agent_count :: int
  gm_metric_count :: int
  gm_log_count :: int
  gm_trace_count :: int
  gm_throughput_rps :: "dbl option"

definition group_keys :: "string option \<Rightarrow> bool \<Rightarrow> (string \<times> string) option" where
  "group_keys groupId is_open =
     (case given groupId of
        Some i \<Rightarrow> if is_open then Some (''group-'' @ i, ''group-topology-'' @ i) else None
      | None \<Rightarrow> None)"

definition group_status_icon :: "int option \<Rightarrow> 'a view" where
  "group_status_icon agentCount =
     (case agentCount of Some n \<Rightarrow> if n = 0 then Tag ''XCircle'' [] else Tag ''CheckCircle'' []
      | None \<Rightarrow> Tag ''XCircle'' [])"

definition drawer_metrics :: "group_topology option \<Rightarrow> group_metrics option" where
  "drawer_metrics t =
     (case t of
        Some g \<Rightarrow> Some \<lparr>gm_agent_count = gt_agent_count g, gm_metric_count = gt_metric_count g, gm_log_count = 0,
                        gm_trace_count = 0, gm_throughput_rps = None\<rparr>
      | None \<Rightarrow> None)"

definition GroupOverview ::
  "(string \<Rightarrow> string) \<Rightarrow> Group \<Rightarrow> group_metrics option \<Rightarrow> (message_kind \<times> string) option \<Rightarrow> 'a view list" where
  "GroupOverview showTime g metrics msg =
     message_alert msg
     @ [InfoCard ''Group Information''
          [(''ID'', [Txt (gr_id g)]), (''Name'', [Txt (gr_name g)]), (''Created'', [Txt (showTime (gr_created_at g))]),
           (''Updated'', [Txt (showTime (gr_updated_at g))])]]
     @ (case metrics of
          Some m \<Rightarrow> [InfoCard ''Group Stats (Last 5 min)''
             ([(''Agents'', [Txt (show_int (gm_agent_count m))]), (''Metrics'', [Txt (show_int (gm_metric_count m))]),
               (''Logs'', [Txt (show_int (gm_log_count m))]), (''Traces'', [Txt (show_int (gm_trace_count m))])]
              @ (case gm_throughput_rps m of
                   Some d \<Rightarrow> [(''Throughput'', [Txt (to_fixed 2 d @ '' rps'')])] | None \<Rightarrow> []))]
        | None \<Rightarrow> [])
     @ labels_card (gr_labels g)"

definition group_agent_badge :: "string \<Rightarrow> 'a view" where
  "group_agent_badge status =
     (if status = ''online'' then Badge ''default'' ''Online''
      else if status = ''offline'' then Badge ''secondary'' ''Offline''
      else if status = ''error'' then Badge ''destructive'' ''Error''
      else Badge ''outline'' ''Unknown'')"

definition GroupAgents :: "(string \<Rightarrow> string) \<Rightarrow> bool \<Rightarrow> Agent list \<Rightarrow> drawer_action view list" where
  "GroupAgents showTime isLoading agents =
     (if isLoading then [Tag ''LoadingSpinner'' []]
      else [Txt ''Group Agents'', Txt (show_nat (length agents) @ '' agents in this group'')]
        @ (if agents = [] then [Txt ''No agents in this group'']
           else [Tag ''thead'' [Txt ''Status'', Txt ''Name'', Txt ''Version'', Txt ''Last Seen''],
                 Tag ''tbody'' (map (\<lambda>a. Click (ClickAgent (ag_id a))
                   [Tag ''td'' [status_icon (ag_status a), group_agent_badge (ag_status a)],
                    Tag ''td'' [Txt (ag_name a)], Tag ''td'' [Txt (ag_version a)],
                    Tag ''td'' [Txt (showTime (ag_last_seen a))]]) agents)]))"

definition GroupDetailsDrawer ::
  "(string \<Rightarrow> string) \<Rightarrow> string option \<Rightarrow> Group option \<Rightarrow> bool \<Rightarrow> group_topology option \<Rightarrow> bool \<Rightarrow> Agent list \<Rightarrow>
   restart_panel \<Rightarrow> drawer_action view list" where
  "GroupDetailsDrawer showTime groupId grp groupLoading t agentsLoading agents p =
     (case grp of Some g \<Rightarrow> [group_status_icon (map_option gt_agent_count t)] | None \<Rightarrow> [])
     @ [Txt ''Group Details'',
        Txt (case grp of Some g \<Rightarrow> if gr_name g \<noteq> [] then gr_name g else ''Loading...'' | None \<Rightarrow> ''Loading...'')]
     @ (case (grp, t) of
          (Some g, Some gt) \<Rightarrow> only_if (0 < gt_agent_count gt) [restart_button p False ''Restart All'']
        | _ \<Rightarrow> [])
     @ (if groupLoading then [Tag ''LoadingSpinner'' []]
        else case grp of
          Some g \<Rightarrow> [Txt ''Overview'', Txt ''Agents'', Txt ''Metrics'', Txt ''Logs'',
                     Tag ''overview'' (GroupOverview showTime g (drawer_metrics t) (rp_restartMessage p))]
                    @ (case given groupId of
                         Some i \<Rightarrow> [Tag ''agents'' (GroupAgents showTime agentsLoading agents),
                                    Tag ''GroupMetrics'' [], Tag ''GroupLogs'' []]
                       | None \<Rightarrow> [])
        | None \<Rightarrow> [])"

definition handleRestart_group :: "string option \<Rightarrow> restart_panel \<Rightarrow> restart_panel \<times> api_request option" where
  "handleRestart_group groupId p =
     (case given groupId of None \<Rightarrow> (p, None) | Some i \<Rightarrow> (restart_start p, Some (restartGroup i)))"

text \<open>A row of the agents tab opens a second drawer; what that drawer fetches follows from the selection.\<close>

record group_drawer =
  gd_selectedAgentId :: "string option"
  gd_agentDrawerOpen :: bool

definition group_drawer_init :: group_drawer where
  "group_drawer_init = \<lparr>gd_selectedAgentId = None, gd_agentDrawerOpen = False\<rparr>"

definition group_handleAgentClick :: "string \<Rightarrow> group_drawer \<Rightarrow> group_drawer" where
  "group_handleAgentClick agentId d = d\<lparr>gd_selectedAgentId := Some agentId, gd_agentDrawerOpen := True\<rparr>"

definition setAgentDrawerOpen :: "bool \<Rightarrow> group_drawer \<Rightarrow> group_drawer" where
  "setAgentDrawerOpen b d = d\<lparr>gd_agentDrawerOpen := b\<rparr>"

definition nested_agent_key :: "group_drawer \<Rightarrow> string option" where
  "nested_agent_key d = agent_topology_key (gd_selectedAgentId d) (gd_agentDrawerOpen d)"

section \<open>One restart at a time\<close>

lemma InfoCard_presses [simp]: "pressable (InfoCard t items) = concat (map (\<lambda>(l, v). presses v) items)"
  by (induction items) (auto simp: InfoCard_def)

lemma badge_presses [simp]: "presses (map (Badge v) cs) = []"
  by (induction cs) simp_all

lemma label_badge_presses [simp]: "presses (map (\<lambda>(k, v). Badge b (f k v)) ls) = []"
  by (induction ls) auto

lemma no_presses [simp]:
  "presses (labels_card ls) = []" "presses (message_alert x) = []" "pressable (group_status_icon n) = []"
  "presses (AgentOverview showTime a m) = []"
  by (simp_all add: labels_card_def message_alert_def group_status_icon_def AgentOverview_def count_value_def
      split: option.splits prod.splits list.splits)

definition agent_can_restart :: "agent_topology option \<Rightarrow> restart_panel \<Rightarrow> bool" where
  "agent_can_restart t p = (Restart \<in> set (presses (AgentDetailsDrawer (\<lambda>s. s) None t False p)))"

lemma agent_can_restart_iff:
  "agent_can_restart t p \<longleftrightarrow> supportsRestart t \<and> (\<exists>a. t = Some a \<and> ag_status (at_agent a) = ''online'')
     \<and> \<not> rp_isRestarting p"
  by (cases t) (auto simp: agent_can_restart_def AgentDetailsDrawer_def restart_button_def)

lemma restart_settle_idle: "\<not> rp_isRestarting (restart_settle f r p)"
  by (simp add: restart_settle_def split: sum.splits)

interpretation agent_restart: async_form rp_isRestarting "agent_can_restart t" restart_start
  "restart_settle agent_summary" "\<lambda>u :: unit. timer_fires"
  by unfold_locales (auto simp: agent_can_restart_iff restart_start_def restart_settle_idle timer_fires_def)

text \<open>in the drawer of an agent at most one restart is in flight, whatever is pressed, answered and timed out, and
  the button can be pressed exactly for an online agent that accepts the command while none is.\<close>

theorem agent_restart_once:
  assumes "form_run (agent_can_restart t) restart_start (restart_settle agent_summary) (\<lambda>u :: unit. timer_fires) evs
      restart_panel_init = (n, p)"
  shows "n \<le> 1 \<and> (agent_can_restart t p \<longleftrightarrow> n = 0 \<and> supportsRestart t
      \<and> (\<exists>a. t = Some a \<and> ag_status (at_agent a) = ''online''))"
proof -
  have "n \<le> 1 \<and> (rp_isRestarting p \<longleftrightarrow> n = 1)"
    using agent_restart.one_in_flight [OF _ assms]
    by (simp add: restart_panel_init_def)
  then show ?thesis by (auto simp: agent_can_restart_iff)
qed

definition demo_online :: "agent_topology option" where
  "demo_online = Some \<lparr>at_agent = (demo_agent ''a'' ''online'' ''1'')\<lparr>ag_capabilities := Some [''accepts_restart_command'']\<rparr>,
     at_metrics = None\<rparr>"

lemma agent_restart_once_witness:
  "fst (form_run (agent_can_restart demo_online) restart_start (restart_settle agent_summary) (\<lambda>u :: unit. timer_fires)
     [Press, Press, Answer (Inl ''gone''), Press] restart_panel_init) \<le> 1"
  using agent_restart_once by (metis prod.collapse)

section \<open>Messages that outlive their restart\<close>

text \<open>the timer of a successful restart is never cancelled, so the error of a restart pressed before it fires
  is erased by it, while an error without an earlier success stays.\<close>

theorem stale_timer_erases_error:
  "rr_success ok \<Longrightarrow>
   rp_restartMessage (restart_settle f (Inl m) (restart_start (restart_settle f (Inr ok) p))) = Some (Error, m)
   \<and> rp_restartMessage (timer_fires (restart_settle f (Inl m) (restart_start (restart_settle f (Inr ok) p)))) = None
   \<and> rp_restartMessage (timer_fires (restart_settle f (Inl m) (restart_start restart_panel_init))) = Some (Error, m)"
  by (simp add: restart_settle_def restart_start_def timer_fires_def restart_panel_init_def)

lemma stale_timer_erases_error_witness:
  "rp_restartMessage (timer_fires (restart_settle agent_summary (Inl ''offline'') (restart_start
     (restart_settle agent_summary (Inr \<lparr>rr_success = True, rr_message = ''ok'', rr_restarted_count = 1, rr_failed_count = 0\<rparr>)
       restart_panel_init)))) = None"
  using stale_timer_erases_error
    [of "\<lparr>rr_success = True, rr_message = ''ok'', rr_restarted_count = 1, rr_failed_count = 0\<rparr>" agent_summary "''offline''"
      restart_panel_init]
  by simp

text \<open>the message of a restart is shown in the drawer of whichever agent is open when the answer arrives, as the
  drawer keeps its state when it turns to another agent.\<close>

theorem restart_message_shown_for_any_agent:
  "Alert (if k = Error then ''destructive'' else ''default'') m
     \<in> set (AgentDetailsDrawer showTime other t isLoading (p\<lparr>rp_restartMessage := Some (k, m)\<rparr>))"
  by (simp add: AgentDetailsDrawer_def message_alert_def)

end
