(* ===== verification/Git_Sources.thy ===== *)
theory Git_Sources
  imports Fleet_View Api_Client
begin

text \<open>
  The page of the git repositories (ui/src/pages/GitSources.tsx): its form, the handlers for saving,
  deleting and synchronising, and the table, the sheet and the dialog it shows.  A handler is split
  at its awaited calls; \<open>mutate\<close> of the cache resolves, whatever the fetch did.
\<close>

section \<open>Data\<close>

datatype ProviderType = Github | Gitlab | Gitea | Http

definition provider_name :: "ProviderType \<Rightarrow> string" where
  "provider_name p =
     (case p of Github \<Rightarrow> ''github'' | Gitlab \<Rightarrow> ''gitlab'' | Gitea \<Rightarrow> ''gitea'' | Http \<Rightarrow> ''http'')"

record GitSource =
  src_id :: string
  src_name :: string
  src_repo_url :: string
  src_has_token :: bool
  src_branch :: string
  src_config_root :: string
  src_provider :: ProviderType
  src_poll :: int
  src_has_webhook_secret :: bool
  src_last_sync_at :: "string option"
  src_last_sync_status :: string
  src_last_sync_error :: "string option"

record git_form =
  gf_name :: string
  gf_repo_url :: string
  gf_token :: string
  gf_branch :: string
  gf_config_root :: string
  gf_provider :: ProviderType
  gf_poll :: int
  gf_webhook_secret :: string

definition emptyForm :: git_form where
  "emptyForm = \<lparr>gf_name = [], gf_repo_url = [], gf_token = [], gf_branch = ''main'', gf_config_root = ''configs'',
     gf_provider = Github, gf_poll = 300, gf_webhook_secret = []\<rparr>"

record git_page =
  gp_refreshing :: bool
  gp_syncing :: "string option"
  gp_sheetOpen :: bool
  gp_editTarget :: "GitSource option"
  gp_deleteTarget :: "GitSource option"
  gp_form :: git_form
  gp_formError :: "string option"
  gp_saving :: bool

definition git_page_init :: git_page where
  "git_page_init = \<lparr>gp_refreshing = False, gp_syncing = None, gp_sheetOpen = False, gp_editTarget = None,
     gp_deleteTarget = None, gp_form = emptyForm, gp_formError = None, gp_saving = False\<rparr>"

section \<open>Typing into the form\<close>

definition is_digit :: "char \<Rightarrow> bool" where
  "is_digit c = (let d = (of_char c :: nat) in 48 \<le> d \<and> d \<le> 57)"

text \<open>\<open>parseInt\<close> on what a number input delivers: white space, a sign, and as many digits as follow.\<close>

definition parse_digits :: "string \<Rightarrow> int option" where
  "parse_digits s = (case takeWhile is_digit s of [] \<Rightarrow> None | d # ds \<Rightarrow> map_option int (read_nat 0 (d # ds)))"

definition parseInt :: "string \<Rightarrow> int option" where
  "parseInt s =
     (case trim_start s of
        [] \<Rightarrow> None
      | c # r \<Rightarrow> if c = CHR ''-'' then map_option uminus (parse_digits r)
                 else if c = CHR ''+'' then parse_digits r
                 else parse_digits (c # r))"

datatype form_edit =
    SetName string | SetProvider ProviderType | SetUrl string | SetToken string | SetBranch string
  | SetRoot string | SetPoll string | SetSecret string

definition edit_form :: "form_edit \<Rightarrow> git_form \<Rightarrow> git_form" where
  "edit_form e f =
     (case e of
        SetName v \<Rightarrow> f\<lparr>gf_name := v\<rparr>
      | SetProvider p \<Rightarrow> f\<lparr>gf_provider := p\<rparr>
      | SetUrl v \<Rightarrow> f\<lparr>gf_repo_url := v\<rparr>
      | SetToken v \<Rightarrow> f\<lparr>gf_token := v\<rparr>
      | SetBranch v \<Rightarrow> f\<lparr>gf_branch := v\<rparr>
      | SetRoot v \<Rightarrow> f\<lparr>gf_config_root := v\<rparr>
      | SetPoll v \<Rightarrow> f\<lparr>gf_poll := (case parseInt v of Some n \<Rightarrow> if n = 0 then 300 else n | None \<Rightarrow> 300)\<rparr>
      | SetSecret v \<Rightarrow> f\<lparr>gf_webhook_secret := v\<rparr>)"

section \<open>Handlers\<close>

datatype git_control =
    RefreshSources | OpenCreate | OpenEdit GitSource | Save | CloseSheet | SyncNow string
  | AskDelete GitSource | CancelDelete | ConfirmDelete | EditForm form_edit

definition openCreate :: "git_page \<Rightarrow> git_page" where
  "openCreate p = p\<lparr>gp_editTarget := None, gp_form := emptyForm, gp_formError := None, gp_sheetOpen := True\<rparr>"

definition form_of :: "GitSource \<Rightarrow> git_form" where
  "form_of gs = \<lparr>gf_name = src_name gs, gf_repo_url = src_repo_url gs, gf_token = [], gf_branch = src_branch gs,
     gf_config_root = src_config_root gs, gf_provider = src_provider gs, gf_poll = src_poll gs, gf_webhook_secret = []\<rparr>"

definition openEdit :: "GitSource \<Rightarrow> git_page \<Rightarrow> git_page" where
  "openEdit gs p =
     p\<lparr>gp_editTarget := Some gs, gp_form := form_of gs, gp_formError := None, gp_sheetOpen := True\<rparr>"

definition form_json :: "git_form \<Rightarrow> jval" where
  "form_json f =
     JObj [(''name'', JStr (gf_name f)), (''repo_url'', JStr (gf_repo_url f)), (''token'', JStr (gf_token f)),
           (''branch'', JStr (gf_branch f)), (''config_root'', JStr (gf_config_root f)),
           (''provider'', JStr (provider_name (gf_provider f))), (''poll_interval_seconds'', JInt (gf_poll f)),
           (''webhook_secret'', JStr (gf_webhook_secret f))]"

text \<open>\<open>handleSave\<close>: up to the first \<open>await\<close> with its request; the answer; and the end of \<open>mutate\<close>.\<close>

definition save_request :: "git_page \<Rightarrow> api_request" where
  "save_request p =
     (case gp_editTarget p of
        Some t \<Rightarrow> updateGitSource (src_id t) (form_json (gp_form p))
      | None \<Rightarrow> createGitSource (form_json (gp_form p)))"

definition save_start :: "git_page \<Rightarrow> git_page" where
  "save_start p = p\<lparr>gp_saving := True, gp_formError := None\<rparr>"

definition save_accepted :: "git_page \<Rightarrow> git_page" where
  "save_accepted p = p\<lparr>gp_sheetOpen := False\<rparr>"

definition save_finish :: "string option \<Rightarrow> git_page \<Rightarrow> git_page" where
  "save_finish failed p =
     (case failed of
        Some m \<Rightarrow> p\<lparr>gp_formError := Some m, gp_saving := False\<rparr>
      | None \<Rightarrow> p\<lparr>gp_saving := False\<rparr>)"

definition delete_request :: "git_page \<Rightarrow> api_request option" where
  "delete_request p = map_option (\<lambda>t. deleteGitSource (src_id t)) (gp_deleteTarget p)"

definition delete_accepted :: "git_page \<Rightarrow> git_page" where
  "delete_accepted p = p\<lparr>gp_deleteTarget := None\<rparr>"

definition sync_start :: "string \<Rightarrow> git_page \<Rightarrow> git_page" where
  "sync_start i p = p\<lparr>gp_syncing := Some i\<rparr>"

definition sync_finish :: "git_page \<Rightarrow> git_page" where
  "sync_finish p = p\<lparr>gp_syncing := None\<rparr>"

definition git_refresh_start :: "git_page \<Rightarrow> git_page" where
  "git_refresh_start p = p\<lparr>gp_refreshing := True\<rparr>"

definition git_refresh_finish :: "git_page \<Rightarrow> git_page" where
  "git_refresh_finish p = p\<lparr>gp_refreshing := False\<rparr>"

text \<open>What an action does at once, and the request it sends.\<close>

definition git_action :: "git_control \<Rightarrow> git_page \<Rightarrow> git_page \<times> api_request option" where
  "git_action a p =
     (case a of
        RefreshSources \<Rightarrow> (git_refresh_start p, Some listGitSources)
      | OpenCreate \<Rightarrow> (openCreate p, None)
      | OpenEdit gs \<Rightarrow> (openEdit gs p, None)
      | Save \<Rightarrow> (save_start p, Some (save_request p))
      | CloseSheet \<Rightarrow> (p\<lparr>gp_sheetOpen := False\<rparr>, None)
      | SyncNow i \<Rightarrow> (sync_start i p, Some (triggerSync i))
      | AskDelete gs \<Rightarrow> (p\<lparr>gp_deleteTarget := Some gs\<rparr>, None)
      | CancelDelete \<Rightarrow> (p\<lparr>gp_deleteTarget := None\<rparr>, None)
      | ConfirmDelete \<Rightarrow> (p, delete_request p)
      | EditForm e \<Rightarrow> (p\<lparr>gp_form := edit_form e (gp_form p)\<rparr>, None))"

section \<open>What the page shows\<close>

definition StatusBadge :: "string \<Rightarrow> 'a view" where
  "StatusBadge status =
     (if status = ''success'' then Badge ''default'' ''synced''
      else if status = ''failed'' then Badge ''destructive'' ''failed''
      else Badge ''secondary'' (if status = [] then ''pending'' else status))"

definition or_default :: "string \<Rightarrow> string \<Rightarrow> string" where
  "or_default s d = (if s = [] then d else s)"

definition source_row :: "(string \<Rightarrow> js_time) \<Rightarrow> int \<Rightarrow> git_page \<Rightarrow> GitSource \<Rightarrow> git_control view list" where
  "source_row getTime now p gs =
     [Tag ''td'' [Txt (src_name gs)],
      Tag ''td'' [Badge ''outline'' (provider_name (src_provider gs))],
      Tag ''td'' [Txt (or_default (src_branch gs) ''main'')],
      Tag ''td'' [Txt (or_default (src_config_root gs) ''configs'')],
      Tag ''td'' (StatusBadge (src_last_sync_status gs)
        # (case given (src_last_sync_error gs) of
             Some e \<Rightarrow> only_if (src_last_sync_status gs = ''failed'') [Txt e]
           | None \<Rightarrow> [])),
      Tag ''td'' [Txt (relativeTime getTime now (src_last_sync_at gs))],
      Tag ''td'' [Button ''Sync Now'' (gp_syncing p = Some (src_id gs)) (SyncNow (src_id gs)),
                Button ''Edit'' False (OpenEdit gs), Button ''Delete'' False (AskDelete gs)]]"

definition sources_table ::
  "(string \<Rightarrow> js_time) \<Rightarrow> int \<Rightarrow> GitSource list \<Rightarrow> git_page \<Rightarrow> (GitSource, git_control) page_table" where
  "sources_table getTime now sources p =
     \<lparr>pt_title = ''Git Sources'',
      pt_description = ''Sync collector configs from git repositories via polling or webhook'',
      pt_actions = [\<lparr>pa_label = ''Refresh'', pa_onClick = RefreshSources, pa_disabled = gp_refreshing p\<rparr>,
                    \<lparr>pa_label = ''Add Source'', pa_onClick = OpenCreate, pa_disabled = False\<rparr>],
      pt_cardTitle = ''Git Sources ('' @ show_nat (length sources) @ '')'',
      pt_cardDescription = ''Git repositories polled for collector configuration files'',
      pt_extra = [],
      pt_columns = [Txt ''Name'', Txt ''Provider'', Txt ''Branch'', Txt ''Config Root'', Txt ''Status'',
                    Txt ''Last Sync'', Txt ''Actions''],
      pt_data = sources,
      pt_renderRow = source_row getTime now p,
      pt_empty = \<lparr>es_title = ''No Git Sources'',
                  es_description = ''Add a git repository to start syncing collector configs.'',
                  es_action = Some (''Add Source'', OpenCreate)\<rparr>,
      pt_onRowClick = None\<rparr>"

definition keep_hint :: "bool \<Rightarrow> 'a view list" where
  "keep_hint b = only_if b [Txt ''(blank = keep existing)'']"

definition source_sheet :: "git_page \<Rightarrow> git_control view list" where
  "source_sheet p =
     (let f = gp_form p; t = gp_editTarget p in
      [Txt (if t \<noteq> None then ''Edit Git Source'' else ''Add Git Source''),
       Txt (if t \<noteq> None
            then ''Update repository settings. Leave token / webhook secret blank to keep existing values.''
            else ''Connect a git repository to automatically sync collector configs.''),
       Txt ''Name *'', Input ''gs-name'' (gf_name f) False (\<lambda>v. EditForm (SetName v)),
       Txt ''Provider *'', Txt (provider_name (gf_provider f)),
       Click (EditForm (SetProvider Github)) [Txt ''GitHub''], Click (EditForm (SetProvider Gitlab)) [Txt ''GitLab''],
       Click (EditForm (SetProvider Gitea)) [Txt ''Gitea''], Click (EditForm (SetProvider Http)) [Txt ''Generic HTTP''],
       Txt ''Repository URL *'', Input ''gs-url'' (gf_repo_url f) False (\<lambda>v. EditForm (SetUrl v)),
       Txt ''Access Token'']
      @ keep_hint (case t of Some gs \<Rightarrow> src_has_token gs | None \<Rightarrow> False)
      @ [Input ''gs-token'' (gf_token f) False (\<lambda>v. EditForm (SetToken v)),
         Txt ''Branch'', Input ''gs-branch'' (gf_branch f) False (\<lambda>v. EditForm (SetBranch v)),
         Txt ''Config Root'', Input ''gs-root'' (gf_config_root f) False (\<lambda>v. EditForm (SetRoot v)),
         Txt ''Poll Interval (seconds)'',
         Input ''gs-poll'' (show_int (gf_poll f)) False (\<lambda>v. EditForm (SetPoll v)),
         Txt ''Minimum 30s. Use webhooks for instant delivery.'', Txt ''Webhook Secret'']
      @ keep_hint (case t of Some gs \<Rightarrow> src_has_webhook_secret gs | None \<Rightarrow> False)
      @ [Input ''gs-webhook'' (gf_webhook_secret f) False (\<lambda>v. EditForm (SetSecret v))]
      @ (case t of Some gs \<Rightarrow> [Txt (''Webhook: /api/webhook/git/'' @ src_id gs)] | None \<Rightarrow> [])
      @ (case given (gp_formError p) of Some m \<Rightarrow> [Txt m] | None \<Rightarrow> [])
      @ [Button ''Cancel'' (gp_saving p) CloseSheet,
         Button (if t \<noteq> None then ''Save Changes'' else ''Add Source'') (gp_saving p) Save])"

definition delete_dialog :: "GitSource \<Rightarrow> git_control view list" where
  "delete_dialog gs =
     [Txt ''Delete Git Source'', Txt (''Remove '' @ src_name gs @
        ''? This stops background polling and removes sync history. Agent configs already pushed are not affected.''),
      Button ''Cancel'' False CancelDelete, Button ''Delete'' False ConfirmDelete]"

text \<open>An open sheet and an open dialog can also be closed from outside their buttons.\<close>

definition GitSourcesPage_view ::
  "(string \<Rightarrow> js_time) \<Rightarrow> int \<Rightarrow> string option \<Rightarrow> GitSource list \<Rightarrow> git_page \<Rightarrow> git_control view list" where
  "GitSourcesPage_view getTime now err sources p =
     (case err of
        Some m \<Rightarrow> [Txt ''Error Loading Git Sources'', Txt m, Button ''Retry'' False RefreshSources]
      | None \<Rightarrow> PageTable (sources_table getTime now sources p)
          @ only_if (gp_sheetOpen p) [Tag ''sheet'' (Click CloseSheet [] # source_sheet p)]
          @ (case gp_deleteTarget p of
               Some gs \<Rightarrow> [Tag ''dialog'' (Click CancelDelete [] # delete_dialog gs)]
             | None \<Rightarrow> []))"

section \<open>The poll interval\<close>

lemma digit_chars: "c \<in> set ''0123456789'' \<Longrightarrow> is_digit c"
  by (auto simp: is_digit_def)

lemma takeWhile_show_nat: "takeWhile is_digit (show_nat n) = show_nat n"
  using show_nat_digits digit_chars by (intro takeWhile_eq_all_conv [THEN iffD2]) blast

lemma parse_digits_show_nat: "parse_digits (show_nat n) = Some (int n)"
proof -
  obtain c r where cr: "show_nat n = c # r" by (meson show_nat_ne neq_Nil_conv)
  show ?thesis
    unfolding parse_digits_def takeWhile_show_nat using read_show_nat [of n] by (simp add: cr del: read_nat.simps)
qed

lemma trim_start_digits: "show_nat n = c # r \<Longrightarrow> trim_start (show_nat n) = show_nat n \<and> c \<noteq> CHR ''-'' \<and> c \<noteq> CHR ''+''"
proof -
  assume cr: "show_nat n = c # r"
  have "c \<in> set ''0123456789''" using show_nat_digits [of c n] cr by simp
  then have "\<not> js_ws c" "c \<noteq> CHR ''-''" "c \<noteq> CHR ''+''" by (auto simp: js_ws_def)
  then show ?thesis using cr by (simp add: trim_start_def)
qed

lemma parseInt_show_int: "parseInt (show_int k) = Some k"
proof (cases "k < 0")
  case True
  then show ?thesis
    using parse_digits_show_nat [of "nat (- k)"] by (simp add: parseInt_def show_int_def trim_start_def js_ws_def)
next
  case False
  obtain c r where cr: "show_nat (nat k) = c # r" by (meson show_nat_ne neq_Nil_conv)
  show ?thesis
    using trim_start_digits [OF cr] parse_digits_show_nat [of "nat k"] cr False
    by (simp add: parseInt_def show_int_def)
qed

text \<open>typing a whole number into the poll interval stores that number, with the default for zero, and any
  other text never stores zero; nothing enforces the minimum of 30 seconds the form announces.\<close>

theorem poll_interval_typed:
  "gf_poll (edit_form (SetPoll (show_int k)) f) = (if k = 0 then 300 else k)
   \<and> gf_poll (edit_form (SetPoll v) f) \<noteq> 0"
  by (simp add: edit_form_def parseInt_show_int split: option.splits)

section \<open>Secrets are sent only when typed\<close>

definition types_secret :: "form_edit \<Rightarrow> bool" where
  "types_secret e = (case e of SetToken v \<Rightarrow> True | SetSecret v \<Rightarrow> True | _ \<Rightarrow> False)"

lemma edit_form_secrets:
  "\<not> types_secret e \<Longrightarrow> gf_token (edit_form e f) = gf_token f \<and> gf_webhook_secret (edit_form e f) = gf_webhook_secret f"
  by (cases e) (simp_all add: edit_form_def types_secret_def)

lemma edit_forms_secrets:
  "\<forall>e \<in> set es. \<not> types_secret e \<Longrightarrow>
   gf_token (foldl (\<lambda>f e. edit_form e f) f es) = gf_token f
     \<and> gf_webhook_secret (foldl (\<lambda>f e. edit_form e f) f es) = gf_webhook_secret f"
  by (induction es arbitrary: f) (simp_all add: edit_form_secrets)


definition demo_source :: "string \<Rightarrow> GitSource" where
  "demo_source i = \<lparr>src_id = i, src_name = ''prod'', src_repo_url = ''https://h/r'', src_has_token = True, src_branch = ''main'',
     src_config_root = ''configs'', src_provider = Github, src_poll = 60, src_has_webhook_secret = False,
     src_last_sync_at = None, src_last_sync_status = [], src_last_sync_error = None\<rparr>"


section \<open>One save at a time\<close>

definition git_edit :: "git_control \<Rightarrow> git_page \<Rightarrow> git_page" where
  "git_edit a p = (case a of Save \<Rightarrow> save_accepted p | _ \<Rightarrow> fst (git_action a p))"

definition can_save :: "git_page \<Rightarrow> bool" where
  "can_save p = (gp_sheetOpen p \<and> Save \<in> set (presses (source_sheet p)))"

lemma can_save_iff: "can_save p \<longleftrightarrow> gp_sheetOpen p \<and> \<not> gp_saving p"
  by (auto simp: can_save_def source_sheet_def Let_def keep_hint_def split: option.splits)

lemma git_edit_saving: "gp_saving (git_edit a p) = gp_saving p"
  by (simp add: git_edit_def git_action_def save_accepted_def git_refresh_start_def openCreate_def openEdit_def
      sync_start_def split: git_control.splits)

interpretation git_save: async_form gp_saving can_save save_start save_finish git_edit
  by unfold_locales
    (auto simp: can_save_iff save_start_def save_finish_def git_edit_saving split: option.splits)

text \<open>at most one save is in flight, whatever is opened, typed, closed and answered in between, and the sheet
  offers saving exactly while none is.\<close>

theorem git_save_once:
  assumes "form_run can_save save_start save_finish git_edit evs git_page_init = (n, p)"
  shows "n \<le> 1 \<and> (gp_saving p \<longleftrightarrow> n = 1) \<and> (gp_sheetOpen p \<longrightarrow> (Save \<in> set (presses (source_sheet p)) \<longleftrightarrow> n = 0))"
proof -
  have "n \<le> 1 \<and> (gp_saving p \<longleftrightarrow> n = 1)"
    using git_save.one_in_flight [OF _ assms] by (simp add: git_page_init_def)
  then show ?thesis using can_save_iff [of p] by (auto simp: can_save_def)
qed

lemma git_save_once_witness:
  "fst (form_run can_save save_start save_finish git_edit
     [Edit OpenCreate, Press, Press, Answer (Some ''bad'')] git_page_init) \<le> 1"
  using git_save_once by (metis prod.collapse)

section \<open>Late answers\<close>

text \<open>answers are not tied to the sheet or row they belong to.  The success of a save closes the sheet that
  is open when it arrives, even one opened for another source with unsaved input; its failure is shown
  there; and the end of one synchronisation clears the indicator of another that still runs, so its
  button can be pressed again.\<close>

theorem late_answers_cross:
  "gp_sheetOpen (save_accepted (git_edit (OpenEdit b) (git_edit CloseSheet (save_start p)))) = False
   \<and> gp_formError (save_finish (Some m) (git_edit (OpenEdit b) (git_edit CloseSheet (save_start p)))) = Some m
   \<and> gp_editTarget (save_finish (Some m) (git_edit (OpenEdit b) (git_edit CloseSheet (save_start p)))) = Some b
   \<and> Button ''Sync Now'' False (SyncNow (src_id b))
       \<in> set (case source_row getTime now (sync_finish (sync_start (src_id b) (sync_start i p))) b ! 6 of Tag t vs \<Rightarrow> vs | _ \<Rightarrow> [])"
  by (simp add: save_accepted_def save_finish_def git_edit_def git_action_def openEdit_def source_row_def
      sync_finish_def sync_start_def)

end
