(* ===== verification/Admin_Pages.thy ===== *)
theory Admin_Pages
  imports Fleet_View Api_Client
begin

text \<open>
  The pages of the API keys, the audit log and the groups (ui/src/pages/ApiKeys.tsx, AuditLog.tsx,
  Groups.tsx).  Handlers are split at their awaited calls.  The platform's formatting of dates and
  numbers and the clipboard are arguments or left out.
\<close>

section \<open>API keys\<close>

record keys_page =
  kp_createOpen :: bool
  kp_newKeyName :: string
  kp_creating :: bool
  kp_createError :: "string option"
  kp_newPlaintextKey :: "string option"
  kp_revokingId :: "string option"

definition keys_page_init :: keys_page where
  "keys_page_init = \<lparr>kp_createOpen = False, kp_newKeyName = [], kp_creating = False, kp_createError = None,
     kp_newPlaintextKey = None, kp_revokingId = None\<rparr>"

datatype keys_control = OpenCreateKey | TypeKeyName string | SubmitKey | CloseCreate | Revoke string | CopyKey string

text \<open>\<open>handleCreate\<close> up to its \<open>await\<close> with its request, and after it: a key or the message of an error.\<close>

definition create_key_start :: "keys_page \<Rightarrow> keys_page \<times> api_request option" where
  "create_key_start p =
     (if js_trim (kp_newKeyName p) = [] then (p, None)
      else (p\<lparr>kp_creating := True, kp_createError := None\<rparr>, Some (authApi_createApiKey (js_trim (kp_newKeyName p)))))"

definition create_key_finish :: "string + string \<Rightarrow> keys_page \<Rightarrow> keys_page" where
  "create_key_finish r p =
     (case r of
        Inr key \<Rightarrow> p\<lparr>kp_newPlaintextKey := Some key, kp_newKeyName := [], kp_creating := False\<rparr>
      | Inl m \<Rightarrow> p\<lparr>kp_createError := Some m, kp_creating := False\<rparr>)"

definition revoke_start :: "string \<Rightarrow> keys_page \<Rightarrow> keys_page \<times> api_request option" where
  "revoke_start i p = (p\<lparr>kp_revokingId := Some i\<rparr>, Some (authApi_revokeApiKey i))"

definition revoke_finish :: "keys_page \<Rightarrow> keys_page" where
  "revoke_finish p = p\<lparr>kp_revokingId := None\<rparr>"

definition handleCloseCreate :: "keys_page \<Rightarrow> keys_page" where
  "handleCloseCreate p =
     p\<lparr>kp_createOpen := False, kp_newKeyName := [], kp_createError := None, kp_newPlaintextKey := None\<rparr>"

definition keys_action :: "keys_control \<Rightarrow> keys_page \<Rightarrow> keys_page \<times> api_request option" where
  "keys_action a p =
     (case a of
        OpenCreateKey \<Rightarrow> (p\<lparr>kp_createOpen := True\<rparr>, None)
      | TypeKeyName v \<Rightarrow> (p\<lparr>kp_newKeyName := v\<rparr>, None)
      | SubmitKey \<Rightarrow> create_key_start p
      | CloseCreate \<Rightarrow> (handleCloseCreate p, None)
      | Revoke i \<Rightarrow> revoke_start i p
      | CopyKey t \<Rightarrow> (p, None))"

text \<open>\<open>data?.api_keys ?? []\<close>; the field is an array when it is present.\<close>

definition api_keys :: "jval \<Rightarrow> jval list" where
  "api_keys d = (case opt_prop d ''api_keys'' of Inr (JArr ks) \<Rightarrow> ks | _ \<Rightarrow> [])"

definition key_field :: "jval \<Rightarrow> string \<Rightarrow> string" where
  "key_field k f = (case get_prop k f of Inr (JStr s) \<Rightarrow> s | _ \<Rightarrow> [])"

definition formatDate :: "(string \<Rightarrow> string) \<Rightarrow> string \<Rightarrow> string" where
  "formatDate showDate ts = (if ts = [] then ''Never'' else showDate ts)"

definition key_row :: "(string \<Rightarrow> string) \<Rightarrow> keys_page \<Rightarrow> jval \<Rightarrow> keys_control view" where
  "key_row showDate p k =
     Tag ''tr'' [Tag ''td'' [Txt (key_field k ''name'')], Tag ''td'' [Txt (formatDate showDate (key_field k ''created_at''))],
       Tag ''td'' [Txt (formatDate showDate (key_field k ''last_used_at''))],
       Tag ''td'' [Button ''Revoke'' (kp_revokingId p = Some (key_field k ''id'')) (Revoke (key_field k ''id''))]]"

definition key_dialog :: "keys_page \<Rightarrow> keys_control view list" where
  "key_dialog p =
     Txt ''Create API key'' #
     (case given (kp_newPlaintextKey p) of
        Some key \<Rightarrow> [Alert ''default'' ''Save this key now. It will not be shown again.'', Tag ''code'' [Txt key],
                     Button ''Copy'' False (CopyKey key), Button ''Done'' False CloseCreate]
      | None \<Rightarrow> (case given (kp_createError p) of Some m \<Rightarrow> [Alert ''destructive'' m] | None \<Rightarrow> [])
          @ [Txt ''Key name'', Input ''key-name'' (kp_newKeyName p) (kp_creating p) TypeKeyName,
             Button ''Cancel'' False CloseCreate,
             Button ''Create'' (kp_creating p \<or> js_trim (kp_newKeyName p) = []) SubmitKey])"

definition ApiKeysPage_view :: "(string \<Rightarrow> string) \<Rightarrow> jval \<Rightarrow> bool \<Rightarrow> keys_page \<Rightarrow> keys_control view list" where
  "ApiKeysPage_view showDate d isLoading p =
     [Txt ''API Keys'', Txt ''Use API keys for programmatic access (CI/CD, collector supervisor, scripts).'',
      Button ''New key'' False OpenCreateKey]
     @ (if isLoading then [Txt ''Loading'']
        else if api_keys d = [] then [Txt ''No API keys yet.'', Button ''Create your first key'' False OpenCreateKey]
        else [Tag ''thead'' [Txt ''Name'', Txt ''Created'', Txt ''Last used''],
              Tag ''tbody'' (map (key_row showDate p) (api_keys d))])
     @ only_if (kp_createOpen p) [Tag ''dialog'' (Click CloseCreate [] # key_dialog p)]"

text \<open>The specification: the key on screen is the one of the last answer after which the dialog was not closed.\<close>

datatype keys_event = Act keys_control | Created "string + string" | Revoked

definition keys_step :: "keys_event \<Rightarrow> keys_page \<Rightarrow> keys_page" where
  "keys_step ev p =
     (case ev of Act a \<Rightarrow> fst (keys_action a p) | Created r \<Rightarrow> create_key_finish r p | Revoked \<Rightarrow> revoke_finish p)"

fun last_key :: "string option \<Rightarrow> keys_event list \<Rightarrow> string option" where
  "last_key k [] = k"
| "last_key k (ev # evs) =
     last_key (case ev of Created (Inr key) \<Rightarrow> Some key | Act CloseCreate \<Rightarrow> None | _ \<Rightarrow> k) evs"

lemma keys_step_key:
  "kp_newPlaintextKey (keys_step ev p)
    = (case ev of Created (Inr key) \<Rightarrow> Some key | Act CloseCreate \<Rightarrow> None | _ \<Rightarrow> kp_newPlaintextKey p)"
  by (simp add: keys_step_def keys_action_def create_key_start_def create_key_finish_def revoke_start_def
      revoke_finish_def handleCloseCreate_def split: keys_event.splits keys_control.splits sum.splits)

lemma keys_run_key:
  "kp_newPlaintextKey (foldl (\<lambda>p ev. keys_step ev p) p evs) = last_key (kp_newPlaintextKey p) evs"
  by (induction evs arbitrary: p) (simp_all add: keys_step_key)

text \<open>C29: whatever the order of user actions and answers, the dialog offers to copy a plaintext key exactly if an
  answer brought it and the dialog was not closed since; so a key seen once is gone after closing, and
  an answer that arrives after closing is shown when the dialog is opened again.\<close>

theorem api_key_shown_once:
  "CopyKey key \<in> set (presses (ApiKeysPage_view showDate d isLoading (foldl (\<lambda>p ev. keys_step ev p) keys_page_init evs)))
    \<longleftrightarrow> kp_createOpen (foldl (\<lambda>p ev. keys_step ev p) keys_page_init evs) \<and> key \<noteq> [] \<and> last_key None evs = Some key"
proof -
  let ?p = "foldl (\<lambda>p ev. keys_step ev p) keys_page_init evs"
  have rows: "CopyKey key \<notin> set (presses (map (key_row showDate ?p) ks))" for ks
    by (induction ks) (simp_all add: key_row_def)
  have "CopyKey key \<in> set (presses (key_dialog ?p)) \<longleftrightarrow> given (kp_newPlaintextKey ?p) = Some key"
    by (auto simp: key_dialog_def split: option.splits)
  moreover have "given (kp_newPlaintextKey ?p) = Some key \<longleftrightarrow> key \<noteq> [] \<and> last_key None evs = Some key"
    using keys_run_key [of keys_page_init evs]
    by (auto simp: keys_page_init_def given_def split: option.splits list.splits)
  ultimately show ?thesis using rows by (simp add: ApiKeysPage_view_def)
qed

lemma late_key_shown:
  "last_key None [Act OpenCreateKey, Act (TypeKeyName ''ci''), Act SubmitKey, Act CloseCreate, Created (Inr ''secret''),
     Act OpenCreateKey] = Some ''secret''"
  by simp

text \<open>the server answers the list of keys with a bare array, in which the page looks for a field: whatever keys
  exist, the page says that there are none and offers no key for revocation.\<close>

theorem api_keys_bare_array:
  "ApiKeysPage_view showDate (JArr ks) False p = ApiKeysPage_view showDate (JObj [(''api_keys'', JArr [])]) False p
   \<and> Txt ''No API keys yet.'' \<in> set (ApiKeysPage_view showDate (JArr ks) False p)
   \<and> Revoke i \<notin> set (presses (ApiKeysPage_view showDate (JArr ks) False p))"
proof -
  have "api_keys (JArr ks) = []" "api_keys (JObj [(''api_keys'', JArr [])]) = []"
    by (simp_all add: api_keys_def opt_prop_def)
  then show ?thesis by (auto simp: ApiKeysPage_view_def key_dialog_def split: option.splits)
qed

section \<open>The audit log\<close>

record AuditEntry =
  ae_id :: int
  ae_timestamp :: string
  ae_actor_name :: "string option"
  ae_event_type :: string
  ae_resource_type :: "string option"
  ae_resource_id :: "string option"
  ae_ip_address :: "string option"

definition EVENT_CATEGORIES :: "(string \<times> string list) list" where
  "EVENT_CATEGORIES =
     [(''All events'', []),
      (''Auth'', [''user.login'', ''user.logout'', ''user.setup'', ''api_key.created'', ''api_key.revoked'']),
      (''Configs'', [''config.created'', ''config.updated'', ''config.deleted'', ''config.pushed'']),
      (''Agents'', [''agent.restarted'']),
      (''Groups'', [''group.created'', ''group.updated'', ''group.deleted'']),
      (''Git Sources'', [''git_source.created'', ''git_source.updated'', ''git_source.deleted'', ''git_source.synced''])]"

definition ALL_EVENT_TYPES :: "string list" where
  "ALL_EVENT_TYPES = concat (map snd EVENT_CATEGORIES)"

definition eventBadgeVariant :: "string \<Rightarrow> string" where
  "eventBadgeVariant event =
     (if ends_with ''.deleted'' event \<or> ends_with ''.revoked'' event then ''destructive''
      else if ends_with ''.created'' event \<or> ends_with ''.setup'' event then ''default''
      else if ends_with ''.pushed'' event \<or> ends_with ''.synced'' event \<or> ends_with ''.restarted'' event then ''secondary''
      else ''outline'')"

definition PAGE_LIMIT :: nat where "PAGE_LIMIT = 50"

record audit_page =
  al_page :: nat
  al_eventFilter :: string
  al_refreshing :: bool

definition audit_page_init :: audit_page where
  "audit_page_init = \<lparr>al_page = 1, al_eventFilter = [], al_refreshing = False\<rparr>"

datatype audit_control = RefreshLog | Filter string | Previous | Next

definition audit_request :: "audit_page \<Rightarrow> api_request" where
  "audit_request p = listAuditLog (int (al_page p)) (int PAGE_LIMIT) (given (Some (al_eventFilter p)))"

text \<open>\<open>Math.max(1, Math.ceil(tot / PAGE_LIMIT))\<close>\<close>

definition totalPages :: "nat \<Rightarrow> nat" where
  "totalPages tot = max 1 ((tot + (PAGE_LIMIT - 1)) div PAGE_LIMIT)"

definition handleFilterChange :: "string \<Rightarrow> audit_page \<Rightarrow> audit_page" where
  "handleFilterChange val p = p\<lparr>al_eventFilter := (if val = ''all'' then [] else val), al_page := 1\<rparr>"

definition audit_refresh_start :: "audit_page \<Rightarrow> audit_page" where
  "audit_refresh_start p = p\<lparr>al_refreshing := True\<rparr>"

definition audit_refresh_finish :: "audit_page \<Rightarrow> audit_page" where
  "audit_refresh_finish p = p\<lparr>al_refreshing := False\<rparr>"

definition audit_action :: "nat \<Rightarrow> audit_control \<Rightarrow> audit_page \<Rightarrow> audit_page" where
  "audit_action tot a p =
     (case a of
        RefreshLog \<Rightarrow> audit_refresh_start p
      | Filter v \<Rightarrow> handleFilterChange v p
      | Previous \<Rightarrow> p\<lparr>al_page := max 1 (al_page p - 1)\<rparr>
      | Next \<Rightarrow> p\<lparr>al_page := min (totalPages tot) (al_page p + 1)\<rparr>)"

definition audit_row :: "(string \<Rightarrow> string) \<Rightarrow> AuditEntry \<Rightarrow> audit_control view" where
  "audit_row formatTimestamp e =
     Tag ''tr''
       [Tag ''td'' [Txt (formatTimestamp (ae_timestamp e))],
        Tag ''td'' [Badge (eventBadgeVariant (ae_event_type e)) (ae_event_type e)],
        Tag ''td'' [Txt (case given (ae_actor_name e) of Some n \<Rightarrow> n | None \<Rightarrow> ''system'')],
        Tag ''td'' (case given (ae_resource_type e) of
                    Some t \<Rightarrow> [Txt (t @ (case given (ae_resource_id e) of
                                         Some i \<Rightarrow> ''/'' @ take 8 i | None \<Rightarrow> []))]
                  | None \<Rightarrow> []),
        Tag ''td'' [Txt (case given (ae_ip_address e) of Some i \<Rightarrow> i | None \<Rightarrow> dash)]]"

definition AuditLogPage_view ::
  "(string \<Rightarrow> string) \<Rightarrow> (nat \<Rightarrow> string) \<Rightarrow> string option \<Rightarrow> AuditEntry list \<Rightarrow> nat \<Rightarrow> audit_page \<Rightarrow> audit_control view list" where
  "AuditLogPage_view formatTimestamp showCount err entries tot p =
     (case err of
        Some m \<Rightarrow> [Txt ''Error Loading Audit Log'', Txt m, Button ''Retry'' False RefreshLog]
      | None \<Rightarrow>
          [Txt ''Audit Log'', Txt ''Track all write operations performed by users and the system'',
           Click (Filter ''all'') [Txt ''All events'']]
          @ map (\<lambda>et. Click (Filter et) [Txt et]) ALL_EVENT_TYPES
          @ [Button ''Refresh'' (al_refreshing p) RefreshLog,
             Txt (''Events ('' @ showCount tot @ '')''),
             Txt (''Newest first - Page '' @ show_nat (al_page p) @ '' of '' @ show_nat (totalPages tot))]
          @ (if entries = []
             then [Txt (if al_eventFilter p \<noteq> [] then ''No events matching \"'' @ al_eventFilter p @ ''\"''
                        else ''No audit events yet'')]
             else [Tag ''thead'' [Txt ''Timestamp'', Txt ''Event'', Txt ''Actor'', Txt ''Resource'', Txt ''IP''],
                   Tag ''tbody'' (map (audit_row formatTimestamp) entries)])
          @ only_if (1 < totalPages tot)
              [Button ''Previous'' (al_page p \<le> 1) Previous,
               Txt (show_nat (al_page p) @ '' / '' @ show_nat (totalPages tot)),
               Button ''Next'' (totalPages tot \<le> al_page p) Next])"

text \<open>The server answers page \<open>k\<close> with the entries from \<open>(k - 1) * limit\<close> on, newest first.\<close>

definition server_page :: "nat \<Rightarrow> 'e list \<Rightarrow> 'e list" where
  "server_page k lg = take PAGE_LIMIT (drop ((k - 1) * PAGE_LIMIT) lg)"

lemma concat_slices:
  "concat (map (\<lambda>k. take n (drop (k * n) xs)) [0..<m]) = take (m * n) xs"
proof (induction m)
  case (Suc m)
  have "take (Suc m * n) xs = take (m * n) xs @ take n (drop (m * n) xs)"
    using take_add [of "m * n" n xs] by (simp add: add.commute)
  then show ?case using Suc by simp
qed simp

lemma next_page: "k < totalPages tot \<Longrightarrow> al_page ((audit_action tot Next ^^ k) audit_page_init) = k + 1"
  by (induction k) (simp_all add: audit_page_init_def audit_action_def)

lemma totalPages_covers: "tot \<le> totalPages tot * PAGE_LIMIT" "1 \<le> totalPages tot"
  by (simp_all add: totalPages_def PAGE_LIMIT_def)


text \<open>as long as the number of entries stays the same, the page number stays between one and the number of
  pages, and the buttons are enabled exactly when they lead to another page.\<close>

theorem audit_page_in_range:
  fixes as :: "audit_control list" and tot :: nat
  defines "p \<equiv> foldl (\<lambda>p a. audit_action tot a p) audit_page_init as"
  shows "1 \<le> al_page p \<and> al_page p \<le> totalPages tot
    \<and> (al_page (audit_action tot Next p) \<noteq> al_page p \<longleftrightarrow> \<not> totalPages tot \<le> al_page p)
    \<and> (al_page (audit_action tot Previous p) \<noteq> al_page p \<longleftrightarrow> \<not> al_page p \<le> 1)"
proof -
  have step: "1 \<le> al_page (audit_action tot a q) \<and> al_page (audit_action tot a q) \<le> totalPages tot"
    if "1 \<le> al_page q" "al_page q \<le> totalPages tot" for a q
    using that totalPages_covers(2) [of tot]
    by (cases a) (auto simp: audit_action_def handleFilterChange_def audit_refresh_start_def)
  have "1 \<le> al_page (foldl (\<lambda>p a. audit_action tot a p) q as) \<and> al_page (foldl (\<lambda>p a. audit_action tot a p) q as) \<le> totalPages tot"
    if "1 \<le> al_page q" "al_page q \<le> totalPages tot" for q
    using that step by (induction as arbitrary: q) simp_all
  then have "1 \<le> al_page p \<and> al_page p \<le> totalPages tot"
    using totalPages_covers(2) [of tot] by (simp add: p_def audit_page_init_def)
  then show ?thesis by (auto simp: audit_action_def)
qed

section \<open>Groups\<close>

record groups_page =
  gg_refreshing :: bool
  gg_createDrawerOpen :: bool
  gg_deleteDialogOpen :: bool
  gg_selectedGroup :: "Group option"
  gg_selectedGroupId :: "string option"
  gg_groupDrawerOpen :: bool
  gg_formName :: string

definition groups_page_init :: groups_page where
  "groups_page_init = \<lparr>gg_refreshing = False, gg_createDrawerOpen = False, gg_deleteDialogOpen = False,
     gg_selectedGroup = None, gg_selectedGroupId = None, gg_groupDrawerOpen = False, gg_formName = []\<rparr>"

datatype groups_control =
    RefreshGroups | OpenCreateGroup | CreateDrawer bool | TypeGroupName string | CreateGroup
  | ClickGroup string | ClickDelete Group | DeleteDialog bool | ConfirmDeleteGroup | GroupDrawerOpen bool

text \<open>The form has no labels, and the request carries an empty object for them.\<close>

definition create_group_request :: "groups_page \<Rightarrow> api_request" where
  "create_group_request p = createGroup (JObj [(''name'', JStr (gg_formName p)), (''labels'', JObj [])])"

definition create_group_finish :: "bool \<Rightarrow> groups_page \<Rightarrow> groups_page" where
  "create_group_finish ok p = (if ok then p\<lparr>gg_createDrawerOpen := False, gg_formName := []\<rparr> else p)"

definition delete_group_request :: "groups_page \<Rightarrow> api_request option" where
  "delete_group_request p = map_option (\<lambda>g. deleteGroup (gr_id g)) (gg_selectedGroup p)"

definition delete_group_finish :: "bool \<Rightarrow> groups_page \<Rightarrow> groups_page" where
  "delete_group_finish ok p = (if ok then p\<lparr>gg_deleteDialogOpen := False, gg_selectedGroup := None\<rparr> else p)"

definition groups_refresh_finish :: "groups_page \<Rightarrow> groups_page" where
  "groups_refresh_finish p = p\<lparr>gg_refreshing := False\<rparr>"

definition groups_action :: "groups_control \<Rightarrow> groups_page \<Rightarrow> groups_page \<times> api_request option" where
  "groups_action a p =
     (case a of
        RefreshGroups \<Rightarrow> (p\<lparr>gg_refreshing := True\<rparr>, Some getGroups)
      | OpenCreateGroup \<Rightarrow> (p\<lparr>gg_createDrawerOpen := True\<rparr>, None)
      | CreateDrawer b \<Rightarrow> (p\<lparr>gg_createDrawerOpen := b\<rparr>, None)
      | TypeGroupName v \<Rightarrow> (p\<lparr>gg_formName := v\<rparr>, None)
      | CreateGroup \<Rightarrow> (p, Some (create_group_request p))
      | ClickGroup i \<Rightarrow> (p\<lparr>gg_selectedGroupId := Some i, gg_groupDrawerOpen := True\<rparr>, None)
      | ClickDelete g \<Rightarrow> (p\<lparr>gg_selectedGroup := Some g, gg_deleteDialogOpen := True\<rparr>, None)
      | DeleteDialog b \<Rightarrow> (p\<lparr>gg_deleteDialogOpen := b\<rparr>, None)
      | ConfirmDeleteGroup \<Rightarrow> (p, delete_group_request p)
      | GroupDrawerOpen b \<Rightarrow> (p\<lparr>gg_groupDrawerOpen := b\<rparr>, None))"

definition group_row :: "(string \<Rightarrow> string) \<Rightarrow> Group \<Rightarrow> groups_control view list" where
  "group_row showDate g =
     [Tag ''td'' [Txt (gr_name g)], Tag ''td'' [Txt (show_int (gr_agent_count g))],
      Tag ''td'' [Txt (case given (gr_config_name g) of Some n \<Rightarrow> n | None \<Rightarrow> ''No config'')],
      Tag ''td'' [Txt (showDate (gr_created_at g))], Tag ''td'' [Txt (showDate (gr_updated_at g))],
      Tag ''td'' (map (\<lambda>(k, v). Txt (k @ ''='' @ v)) (gr_labels g) @ only_if (gr_labels g = []) [Txt ''No labels'']),
      Tag ''td'' [Button ''Delete'' False (ClickDelete g)]]"

definition groups_table :: "(string \<Rightarrow> string) \<Rightarrow> Group list \<Rightarrow> groups_page \<Rightarrow> (Group, groups_control) page_table" where
  "groups_table showDate groups p =
     \<lparr>pt_title = ''Groups'', pt_description = ''Organize agents into groups for easier management'',
      pt_actions = [\<lparr>pa_label = ''Refresh'', pa_onClick = RefreshGroups, pa_disabled = gg_refreshing p\<rparr>,
                    \<lparr>pa_label = ''Create Group'', pa_onClick = OpenCreateGroup, pa_disabled = False\<rparr>],
      pt_cardTitle = ''Groups ('' @ show_nat (length groups) @ '')'', pt_cardDescription = ''All agent groups and their details'',
      pt_extra = [],
      pt_columns = [Txt ''Name'', Txt ''Agents'', Txt ''Config'', Txt ''Created'', Txt ''Updated'', Txt ''Labels'', Txt ''Actions''],
      pt_data = groups, pt_renderRow = group_row showDate,
      pt_empty = \<lparr>es_title = ''No Groups Found'', es_description = ''Create your first group to organize your agents.'',
                  es_action = Some (''Create Group'', OpenCreateGroup)\<rparr>,
      pt_onRowClick = Some (\<lambda>g. ClickGroup (gr_id g))\<rparr>"

definition create_group_sheet :: "groups_page \<Rightarrow> groups_control view list" where
  "create_group_sheet p =
     [Txt ''Create New Group'', Txt ''Create a new group to organize your agents.'', Txt ''Group Name'',
      Input ''name'' (gg_formName p) False TypeGroupName, Button ''Cancel'' False (CreateDrawer False),
      Button ''Create Group'' (gg_formName p = []) CreateGroup]"

definition delete_group_dialog :: "groups_page \<Rightarrow> groups_control view list" where
  "delete_group_dialog p =
     [Txt ''Delete Group'',
      Txt (''Are you sure you want to delete the group \"'' @ (case gg_selectedGroup p of Some g \<Rightarrow> gr_name g | None \<Rightarrow> [])
           @ ''\"? This action cannot be undone.''),
      Button ''Cancel'' False (DeleteDialog False), Button ''Delete Group'' False ConfirmDeleteGroup]"

definition GroupsPage_view ::
  "(string \<Rightarrow> string) \<Rightarrow> string option \<Rightarrow> Group list \<Rightarrow> groups_page \<Rightarrow> groups_control view list" where
  "GroupsPage_view showDate err groups p =
     (case err of
        Some m \<Rightarrow> [Txt ''Error Loading Groups'', Txt m, Button ''Retry'' False RefreshGroups]
      | None \<Rightarrow> PageTable (groups_table showDate groups p)
          @ only_if (gg_createDrawerOpen p) [Tag ''sheet'' (Click (CreateDrawer False) [] # create_group_sheet p)]
          @ only_if (gg_deleteDialogOpen p) [Tag ''dialog'' (Click (DeleteDialog False) [] # delete_group_dialog p)])"

datatype groups_event = GAct groups_control | GCreated bool | GDeleted bool | GRefreshed

definition groups_step :: "groups_event \<Rightarrow> groups_page \<Rightarrow> groups_page" where
  "groups_step ev p =
     (case ev of GAct a \<Rightarrow> fst (groups_action a p) | GCreated ok \<Rightarrow> create_group_finish ok p
      | GDeleted ok \<Rightarrow> delete_group_finish ok p | GRefreshed \<Rightarrow> groups_refresh_finish p)"

text \<open>The dialog has no trigger of its own: only \<open>handleDeleteClick\<close> opens it.\<close>

definition dialog_ok :: "groups_page \<Rightarrow> bool" where
  "dialog_ok p \<longleftrightarrow> (gg_deleteDialogOpen p \<longrightarrow> gg_selectedGroup p \<noteq> None)"

lemma groups_step_dialog:
  "dialog_ok p \<Longrightarrow> ev \<noteq> GAct (DeleteDialog True) \<Longrightarrow> dialog_ok (groups_step ev p)"
  by (cases ev)
    (auto simp: dialog_ok_def groups_step_def groups_action_def create_group_finish_def delete_group_finish_def
      groups_refresh_finish_def split: groups_control.splits)

lemma groups_run_dialog:
  "dialog_ok p \<Longrightarrow> GAct (DeleteDialog True) \<notin> set evs \<Longrightarrow> dialog_ok (foldl (\<lambda>p ev. groups_step ev p) p evs)"
  by (induction evs arbitrary: p) (auto simp: groups_step_dialog)

lemma label_texts_presses: "presses (map (\<lambda>(k, v). Txt (f k v)) ls) = []"
  by (induction ls) auto

text \<open>whatever was pressed and answered before, when the dialog offers to delete a group, the request that the
  button sends deletes the group whose name the dialog shows.\<close>

theorem delete_names_its_group:
  assumes "GAct (DeleteDialog True) \<notin> set evs"
    and "p = foldl (\<lambda>p ev. groups_step ev p) groups_page_init evs"
    and "ConfirmDeleteGroup \<in> set (presses (GroupsPage_view showDate None groups p))"
  shows "\<exists>g :: Group. snd (groups_action ConfirmDeleteGroup p) = Some (deleteGroup (gr_id g))
    \<and> delete_group_dialog p ! 1 = Txt (''Are you sure you want to delete the group \"'' @ gr_name g @ ''\"? This action cannot be undone.'')"
proof -
  have "ConfirmDeleteGroup \<notin> set (presses (PageTable (groups_table showDate groups p)))"
    by (auto simp: groups_table_def PageTable_def presses_actions page_action_view_def empty_view_def presses_map
        row_view_def group_row_def label_texts_presses)
  then have "gg_deleteDialogOpen p"
    using assms(3) by (auto simp: GroupsPage_view_def create_group_sheet_def split: if_splits)
  moreover have "dialog_ok p"
    unfolding assms(2) by (rule groups_run_dialog) (simp_all add: dialog_ok_def groups_page_init_def assms(1))
  ultimately obtain g where "gg_selectedGroup p = Some g" by (auto simp: dialog_ok_def)
  then show ?thesis
    by (intro exI [of _ g]) (simp add: groups_action_def delete_group_request_def delete_group_dialog_def)
qed

lemma delete_names_its_group_witness:
  "snd (groups_action ConfirmDeleteGroup (foldl (\<lambda>p ev. groups_step ev p) groups_page_init
     [GAct (ClickDelete (demo_group ''g'' []))])) \<noteq> None"
proof -
  have d: "ConfirmDeleteGroup \<in> set (presses (GroupsPage_view (\<lambda>s. s) None []
      (foldl (\<lambda>p ev. groups_step ev p) groups_page_init [GAct (ClickDelete (demo_group ''g'' []))])))"
    by (simp add: GroupsPage_view_def groups_step_def groups_action_def delete_group_dialog_def)
  show ?thesis using delete_names_its_group [OF _ refl d] by auto
qed

end
