(* ===== verification/Copy_Button.thy ===== *)
theory Copy_Button
  imports Formatting Ui_View
begin

text \<open>
  Shortened identifiers with their copy button (components/shared/TruncatedId.tsx) and the button that copies
  a new key (CopyButton in pages/ApiKeys.tsx).  Both keep a mark that is set when the clipboard has taken
  the text and cleared by a timer of two seconds; the clipboard's answer is an argument.
\<close>

section \<open>The mark\<close>

record copy_mark =
  cm_copied :: bool
  cm_timers :: nat

definition copy_mark_init :: copy_mark where
  "copy_mark_init = \<lparr>cm_copied = False, cm_timers = 0\<rparr>"

text \<open>\<open>handleCopy\<close> after \<open>writeText\<close>: a refusal changes nothing (TruncatedId logs it, CopyButton leaves it unhandled).\<close>

definition copy_settled :: "bool \<Rightarrow> copy_mark \<Rightarrow> copy_mark" where
  "copy_settled accepted m =
     (if accepted then m\<lparr>cm_copied := True, cm_timers := Suc (cm_timers m)\<rparr> else m)"

text \<open>The oldest timer expires: \<open>setCopied(false)\<close>.\<close>

definition copy_timer :: "copy_mark \<Rightarrow> copy_mark" where
  "copy_timer m =
     (case cm_timers m of 0 \<Rightarrow> m | Suc n \<Rightarrow> m\<lparr>cm_copied := False, cm_timers := n\<rparr>)"

section \<open>What is shown\<close>

definition CopyButton :: "(string \<Rightarrow> 'a) \<Rightarrow> string \<Rightarrow> copy_mark \<Rightarrow> 'a view" where
  "CopyButton handleCopy content m =
     Button (if cm_copied m then ''Copied'' else ''Copy'') False (handleCopy content)"

definition TruncatedId :: "(string \<Rightarrow> 'a) \<Rightarrow> string \<Rightarrow> nat \<Rightarrow> bool \<Rightarrow> copy_mark \<Rightarrow> 'a view list" where
  "TruncatedId handleCopy ident maxLength showCopyButton m =
     (let t = truncated_id_of ident maxLength in
      [Txt (ti_truncated t)]
      @ only_if (ti_shouldTruncate t) [Tag ''tooltip'' [Txt ident]]
      @ only_if showCopyButton [Button (if cm_copied m then ''Check'' else ''Copy'') False (handleCopy ident)])"

section \<open>The mark goes off\<close>

datatype copy_event = Written bool | Expired

definition copy_step :: "copy_event \<Rightarrow> copy_mark \<Rightarrow> copy_mark" where
  "copy_step ev m = (case ev of Written ok \<Rightarrow> copy_settled ok m | Expired \<Rightarrow> copy_timer m)"

definition copy_run :: "copy_event list \<Rightarrow> copy_mark" where
  "copy_run evs = foldl (\<lambda>m ev. copy_step ev m) copy_mark_init evs"

lemma copy_step_mark:
  "cm_copied m \<longrightarrow> 0 < cm_timers m \<Longrightarrow> cm_copied (copy_step ev m) \<longrightarrow> 0 < cm_timers (copy_step ev m)"
  by (auto simp: copy_step_def copy_settled_def copy_timer_def split: copy_event.splits nat.splits)

text \<open>whatever is pressed and however the timers fall, the mark is shown only while a timer that will clear it
  is pending; and a timer does not belong to one press, so the first of two presses clears the mark of the second.\<close>

theorem copied_mark_goes_off:
  "(cm_timers (copy_run evs) = 0 \<longrightarrow> \<not> cm_copied (copy_run evs))
   \<and> \<not> cm_copied (copy_run (evs @ [Written True, Written True, Expired]))
   \<and> cm_timers (copy_run (evs @ [Written True, Written True, Expired])) \<noteq> 0"
proof -
  have "cm_copied m \<longrightarrow> 0 < cm_timers m \<Longrightarrow>
      cm_copied (foldl (\<lambda>m ev. copy_step ev m) m evs) \<longrightarrow> 0 < cm_timers (foldl (\<lambda>m ev. copy_step ev m) m evs)" for m
    by (induction evs arbitrary: m) (simp_all add: copy_step_mark)
  from this [of copy_mark_init] show ?thesis
    by (auto simp: copy_run_def copy_mark_init_def copy_step_def copy_settled_def copy_timer_def)
qed

end
