(* ===== verification/Config_Editor.thy ===== *)
theory Config_Editor
  imports Validation Fleet_View Pipeline_Graph Api_Client Copy_Button
begin

text \<open>
  Configurations: the page that lists and edits them (ui/src/pages/Configs.tsx) with its parts in
  ui/src/components/configs: the list, the header, the history of versions and the target.  Monaco's widget, the
  panes and the tabs are left out; what they are given is modelled.  The editors are in Config_Metrics.
\<close>

section \<open>Data\<close>

record Config =
  cf_id :: string
  cf_name :: string
  cf_agent_id :: "string option"
  cf_group_id :: "string option"
  cf_config_hash :: string
  cf_content :: string
  cf_version :: int
  cf_created_at :: string

definition line :: "string \<Rightarrow> string" where
  "line s = s @ [newline]"

definition DEFAULT_CONFIG :: string where
  "DEFAULT_CONFIG = concat (map line
     [''receivers:'', ''  otlp:'', ''    protocols:'', ''      grpc:'', ''        endpoint: 0.0.0.0:4317'',
      ''      http:'', ''        endpoint: 0.0.0.0:4318'', [],
      ''processors:'', ''  batch:'', ''    timeout: 10s'', ''    send_batch_size: 1024'', [],
      ''exporters:'', ''  otlp:'', ''    endpoint: localhost:4317'', ''    tls:'', ''      insecure: true'', [],
      ''service:'', ''  pipelines:'', ''    traces:'', ''      receivers: [otlp]'', ''      processors: [batch]'',
      ''      exporters: [otlp]'', ''    metrics:'', ''      receivers: [otlp]'', ''      processors: [batch]'',
      ''      exporters: [otlp]'', ''    logs:'', ''      receivers: [otlp]'', ''      processors: [batch]'',
      ''      exporters: [otlp]''])"

section \<open>The page\<close>

datatype PageMode = ListMode | CreateMode | EditMode

text \<open>The mode and the identifier come from the properties or from the parameters of the URL.\<close>

definition page_mode :: "PageMode option \<Rightarrow> string option \<Rightarrow> string option \<Rightarrow> PageMode" where
  "page_mode propMode param_mode param_configId =
     (case propMode of
        Some m \<Rightarrow> m
      | None \<Rightarrow> if param_mode = Some ''new'' then CreateMode
                else if given param_configId \<noteq> None \<or> param_mode = Some ''edit'' then EditMode
                else ListMode)"

record configs_page =
  cp_refreshing :: bool
  cp_editorContent :: string
  cp_configName :: string
  cp_isSaving :: bool
  cp_showVersions :: bool
  cp_selectedGroupId :: string

definition configs_page_init :: configs_page where
  "configs_page_init = \<lparr>cp_refreshing = False, cp_editorContent = DEFAULT_CONFIG, cp_configName = ''New Config'',
     cp_isSaving = False, cp_showVersions = False, cp_selectedGroupId = []\<rparr>"

text \<open>The keys of the cache for the edited configuration and for the versions of the group.\<close>

definition config_key :: "PageMode \<Rightarrow> string option \<Rightarrow> string option" where
  "config_key mode configId =
     (case given configId of Some i \<Rightarrow> if mode = EditMode then Some (''config-'' @ i) else None | None \<Rightarrow> None)"

definition versions_key :: "configs_page \<Rightarrow> string option" where
  "versions_key p = map_option (\<lambda>i. ''config-versions-'' @ i) (given (Some (cp_selectedGroupId p)))"

text \<open>The effect on \<open>[mode, currentConfigData]\<close>.\<close>

definition load_effect :: "PageMode \<Rightarrow> Config option \<Rightarrow> configs_page \<Rightarrow> configs_page" where
  "load_effect mode currentConfigData p =
     (case (mode, currentConfigData) of
        (EditMode, Some c) \<Rightarrow>
          p\<lparr>cp_editorContent := cf_content c,
            cp_configName := (if cf_name c \<noteq> [] then cf_name c else ''New Config''),
            cp_selectedGroupId := (case cf_group_id c of Some g \<Rightarrow> g | None \<Rightarrow> [])\<rparr>
      | (CreateMode, _) \<Rightarrow>
          p\<lparr>cp_editorContent := DEFAULT_CONFIG, cp_configName := ''New Config'', cp_selectedGroupId := []\<rparr>
      | _ \<Rightarrow> p)"

definition configs_refresh_start :: "configs_page \<Rightarrow> configs_page" where
  "configs_refresh_start p = p\<lparr>cp_refreshing := True\<rparr>"

definition configs_refresh_finish :: "configs_page \<Rightarrow> configs_page" where
  "configs_refresh_finish p = p\<lparr>cp_refreshing := False\<rparr>"

text \<open>\<open>handleSave\<close>: the request, the start, and the end with the path it navigates to and the alert it raises.\<close>

definition config_save_request :: "int \<Rightarrow> PageMode \<Rightarrow> Config option \<Rightarrow> configs_page \<Rightarrow> api_request" where
  "config_save_request now mode currentConfigData p =
     (case (mode, currentConfigData) of
        (EditMode, Some c) \<Rightarrow>
          updateConfig (cf_id c)
            (JObj [(''name'', JStr (cp_configName p)), (''content'', JStr (cp_editorContent p)),
                   (''version'', JInt (cf_version c + 1))])
      | _ \<Rightarrow>
          createConfig
            (JObj ([(''name'', JStr (cp_configName p))]
                   @ (case given (Some (cp_selectedGroupId p)) of Some g \<Rightarrow> [(''group_id'', JStr g)] | None \<Rightarrow> [])
                   @ [(''config_hash'', JStr (''hash_'' @ show_int now)), (''content'', JStr (cp_editorContent p)),
                      (''version'', JInt 1)])))"

definition config_save_start :: "configs_page \<Rightarrow> configs_page" where
  "config_save_start p = p\<lparr>cp_isSaving := True\<rparr>"

definition config_save_finish :: "bool \<Rightarrow> configs_page \<Rightarrow> configs_page \<times> string option \<times> string option" where
  "config_save_finish ok p =
     (p\<lparr>cp_isSaving := False\<rparr>,
      if ok then (Some ''/configs'', None) else (None, Some ''Failed to save configuration''))"

definition handleLoadVersion :: "Config \<Rightarrow> configs_page \<Rightarrow> configs_page" where
  "handleLoadVersion c p = p\<lparr>cp_editorContent := cf_content c, cp_showVersions := False\<rparr>"

datatype configs_control =
    RefreshConfigs | EditConfig string | CreateNew | BackToList | ShowVersions bool | LoadVersion Config
  | SaveConfig | RenameConfig string | SelectGroup string | TypeContent string | CopyId string

definition configs_action :: "configs_control \<Rightarrow> configs_page \<Rightarrow> configs_page \<times> string option" where
  "configs_action a p =
     (case a of
        RefreshConfigs \<Rightarrow> (configs_refresh_start p, None)
      | EditConfig i \<Rightarrow> (p, Some (''/configs/'' @ i @ ''/edit''))
      | CreateNew \<Rightarrow> (p, Some ''/configs/new'')
      | BackToList \<Rightarrow> (p, Some ''/configs'')
      | ShowVersions b \<Rightarrow> (p\<lparr>cp_showVersions := b\<rparr>, None)
      | LoadVersion c \<Rightarrow> (handleLoadVersion c p, None)
      | SaveConfig \<Rightarrow> (config_save_start p, None)
      | RenameConfig n \<Rightarrow> (p\<lparr>cp_configName := n\<rparr>, None)
      | SelectGroup g \<Rightarrow> (p\<lparr>cp_selectedGroupId := g\<rparr>, None)
      | TypeContent t \<Rightarrow> (p\<lparr>cp_editorContent := t\<rparr>, None)
      | CopyId i \<Rightarrow> (p, None))"

section \<open>The list, the header and the versions\<close>

text \<open>The identifiers are \<open>TruncatedId\<close>s of eight characters, drawn here before they are copied.\<close>

definition short_id :: "bool \<Rightarrow> string \<Rightarrow> configs_control view" where
  "short_id showCopyButton i = Tag ''id'' (TruncatedId CopyId i 8 showCopyButton copy_mark_init)"

definition config_row :: "(string \<Rightarrow> string) \<Rightarrow> Config \<Rightarrow> configs_control view list" where
  "config_row showDate c =
     [Tag ''td'' [Txt (if js_trim (cf_name c) \<noteq> [] then cf_name c else ''Unnamed Config'')],
      Tag ''td'' [short_id True (cf_id c)],
      Tag ''td'' (case given (cf_agent_id c) of
                  Some a \<Rightarrow> [Txt ''Agent:'', short_id True a]
                | None \<Rightarrow> (case given (cf_group_id c) of
                             Some g \<Rightarrow> [Txt ''Group:'', short_id True g] | None \<Rightarrow> [Txt ''Global''])),
      Tag ''td'' [Txt (''v'' @ show_int (cf_version c))],
      Tag ''td'' [short_id False (cf_config_hash c)],
      Tag ''td'' [Txt (showDate (cf_created_at c))],
      Tag ''td'' [Button ''Edit'' False (EditConfig (cf_id c))]]"

definition ConfigsList :: "(string \<Rightarrow> string) \<Rightarrow> Config list \<Rightarrow> bool \<Rightarrow> (Config, configs_control) page_table" where
  "ConfigsList showDate configs refreshing =
     \<lparr>pt_title = ''Configurations'', pt_description = ''Manage agent and group configurations'',
      pt_actions = [\<lparr>pa_label = ''Refresh'', pa_onClick = RefreshConfigs, pa_disabled = refreshing\<rparr>,
                    \<lparr>pa_label = ''Create Config'', pa_onClick = CreateNew, pa_disabled = False\<rparr>],
      pt_cardTitle = ''Configurations ('' @ show_nat (length configs) @ '')'',
      pt_cardDescription = ''All agent and group configurations'', pt_extra = [],
      pt_columns = [Txt ''Name'', Txt ''ID'', Txt ''Agent/Group'', Txt ''Version'', Txt ''Hash'', Txt ''Created'', Txt ''Actions''],
      pt_data = configs, pt_renderRow = config_row showDate,
      pt_empty = \<lparr>es_title = ''No Configurations Found'',
                  es_description = ''Create your first configuration to manage your agents.'',
                  es_action = Some (''Create Configuration'', CreateNew)\<rparr>,
      pt_onRowClick = None\<rparr>"

definition ConfigEditorHeader :: "Group list \<Rightarrow> configs_page \<Rightarrow> configs_control view list" where
  "ConfigEditorHeader groups p =
     [Button ''Back'' False BackToList, Tag ''EditableConfigTitle'' [Txt (cp_configName p)]]
     @ map (\<lambda>g. Click (SelectGroup (gr_id g)) [Txt (gr_name g)]) groups
     @ [Click (ShowVersions True) [Txt ''Version History''],
        Button ''Save'' (cp_isSaving p \<or> given (Some (cp_selectedGroupId p)) = None) SaveConfig]"

definition ConfigVersionHistory :: "(string \<Rightarrow> string) \<Rightarrow> Config list \<Rightarrow> configs_control view list" where
  "ConfigVersionHistory showTime versions =
     [Txt ''Configuration Versions'', Txt ''View and restore previous configuration versions'']
     @ map (\<lambda>v. Click (LoadVersion v) [Txt (''Version '' @ show_int (cf_version v)), Txt (showTime (cf_created_at v)),
                                    Badge ''outline'' (take 8 (cf_config_hash v))]) versions
     @ only_if (versions = []) [Txt ''No version history available. Select a group to view versions.'']"

definition ConfigsPage_view ::
  "(string \<Rightarrow> string) \<Rightarrow> PageMode \<Rightarrow> string option \<Rightarrow> Config list \<Rightarrow> Group list \<Rightarrow> Config list \<Rightarrow> configs_page \<Rightarrow>
   configs_control view list" where
  "ConfigsPage_view showDate mode err configs groups versions p =
     (if mode = ListMode
      then (case err of
              Some m \<Rightarrow> [Txt ''Error Loading Configs'', Txt m, Button ''Retry'' False RefreshConfigs]
            | None \<Rightarrow> PageTable (ConfigsList showDate configs (cp_refreshing p)))
      else ConfigEditorHeader groups p
           @ [Input ''editor'' (cp_editorContent p) False TypeContent]
           @ only_if (cp_showVersions p)
               [Tag ''sheet'' (Click (ShowVersions False) [] # ConfigVersionHistory showDate versions)])"

text \<open>The target of a configuration as a card and as a drawer.\<close>

definition target_groups :: "Group list \<Rightarrow> configs_control view list" where
  "target_groups groups = map (\<lambda>g. Click (SelectGroup (gr_id g)) [Txt (gr_name g)]) groups"

definition ConfigTarget :: "PageMode \<Rightarrow> Group list \<Rightarrow> int option \<Rightarrow> configs_control view list" where
  "ConfigTarget mode groups currentVersion =
     [Txt ''Configuration Target'', Txt ''Group''] @ target_groups groups
     @ (case currentVersion of
          Some v \<Rightarrow> only_if (mode = EditMode)
            [Alert ''default'' (''Editing config version '' @ show_int v @ '' - Saving will create version '' @ show_int (v + 1))]
        | None \<Rightarrow> [])"

definition ConfigTargetDrawer ::
  "PageMode \<Rightarrow> string \<Rightarrow> Group list \<Rightarrow> int option \<Rightarrow> configs_control view list" where
  "ConfigTargetDrawer mode selectedGroupId groups currentVersion =
     [Txt ''Configuration Target'',
      Txt (if mode = CreateMode then ''Select the group to deploy this configuration to''
           else ''View and change the target group for this configuration''),
      Txt ''Target Group''] @ target_groups groups
     @ (case find (\<lambda>g. gr_id g = selectedGroupId) groups of
          Some g \<Rightarrow> [Txt (''Configuration will be deployed to all agents in the '' @ gr_name g @ '' group'')]
        | None \<Rightarrow> [])
     @ (case currentVersion of
          Some v \<Rightarrow> only_if (mode = EditMode)
            [Alert ''default'' (''Editing version '' @ show_int v @ ''. Saving will create version '' @ show_int (v + 1) @ ''.'')]
        | None \<Rightarrow> [])
     @ only_if (selectedGroupId = [])
         [Alert ''destructive'' ''You must select a target group before saving the configuration.'']"

section \<open>Saving\<close>

lemma save_pressable:
  "SaveConfig \<in> set (presses (ConfigEditorHeader groups p)) \<longleftrightarrow> \<not> cp_isSaving p \<and> cp_selectedGroupId p \<noteq> []"
proof -
  have "presses (map (\<lambda>g. Click (SelectGroup (gr_id g)) [Txt (gr_name g)]) gs) = map (\<lambda>g. SelectGroup (gr_id g)) gs"
    for gs :: "Group list"
    by (induction gs) simp_all
  then show ?thesis by (auto simp: ConfigEditorHeader_def given_def split: list.splits)
qed

text \<open>what saving sends.  For a loaded configuration it updates that one with the name and content on screen and
  the next version, and nothing about the group, so choosing another group while editing has no
  effect; in every other case, also in edit mode before the configuration is loaded, it creates a new
  configuration, of version one, for the chosen group.  The button is enabled only with a group.\<close>

theorem config_save_sends:
  "config_save_request now EditMode (Some c) (fst (configs_action (SelectGroup g) p)) = config_save_request now EditMode (Some c) p
   \<and> config_save_request now EditMode (Some c) p = updateConfig (cf_id c) (JObj [(''name'', JStr (cp_configName p)),
       (''content'', JStr (cp_editorContent p)), (''version'', JInt (cf_version c + 1))])
   \<and> config_save_request now EditMode None p = config_save_request now CreateMode d p
   \<and> (SaveConfig \<in> set (presses (ConfigEditorHeader groups p)) \<longleftrightarrow> \<not> cp_isSaving p \<and> cp_selectedGroupId p \<noteq> [])"
  by (simp add: save_pressable config_save_request_def configs_action_def)

lemma config_save_sends_witness:
  "config_save_request 7 EditMode None configs_page_init = config_save_request 7 CreateMode None configs_page_init"
  using config_save_sends [of 7] by blast

text \<open>restoring a version and saving writes exactly its content as the version after the current one.\<close>

theorem restore_then_save:
  "config_save_request now EditMode (Some c) (handleLoadVersion old (load_effect EditMode (Some c) p))
    = updateConfig (cf_id c)
        (JObj [(''name'', JStr (if cf_name c \<noteq> [] then cf_name c else ''New Config'')), (''content'', JStr (cf_content old)),
               (''version'', JInt (cf_version c + 1))])"
  by (simp add: config_save_request_def handleLoadVersion_def load_effect_def)

text \<open>the data of the edited configuration is fetched again while it is edited, and whenever the answer differs
  the effect replaces what was typed, named and chosen since: nothing of the page's input survives.\<close>

theorem refetch_discards_edits:
  "cp_editorContent (load_effect EditMode (Some newer) p) = cf_content newer
   \<and> load_effect EditMode (Some newer) (foldl (\<lambda>p a. fst (configs_action a p)) p
        [TypeContent t, RenameConfig n, SelectGroup g]) = load_effect EditMode (Some newer) p"
  by (simp add: load_effect_def configs_action_def)

definition config_edit :: "configs_control \<Rightarrow> configs_page \<Rightarrow> configs_page" where
  "config_edit a p = (case a of SaveConfig \<Rightarrow> p | _ \<Rightarrow> fst (configs_action a p))"

definition can_save_config :: "Group list \<Rightarrow> configs_page \<Rightarrow> bool" where
  "can_save_config groups p = (SaveConfig \<in> set (presses (ConfigEditorHeader groups p)))"

lemma config_edit_saving: "cp_isSaving (config_edit a p) = cp_isSaving p"
  by (simp add: config_edit_def configs_action_def configs_refresh_start_def handleLoadVersion_def
      split: configs_control.splits)

interpretation config_save: async_form cp_isSaving "can_save_config groups" config_save_start
  "\<lambda>ok p. fst (config_save_finish ok p)" config_edit
  by unfold_locales
    (simp_all add: can_save_config_def save_pressable config_save_start_def config_save_finish_def config_edit_saving)

text \<open>at most one save of a configuration is in flight, whatever is typed, chosen and restored in between.\<close>

theorem config_save_once:
  assumes "form_run (can_save_config groups) config_save_start (\<lambda>ok p. fst (config_save_finish ok p)) config_edit evs
      configs_page_init = (n, p)"
  shows "n \<le> 1 \<and> (can_save_config groups p \<longleftrightarrow> n = 0 \<and> cp_selectedGroupId p \<noteq> [])"
proof -
  have "n \<le> 1 \<and> (cp_isSaving p \<longleftrightarrow> n = 1)"
    using config_save.one_in_flight [OF _ assms] by (simp add: configs_page_init_def)
  then show ?thesis by (auto simp: can_save_config_def save_pressable)
qed

lemma config_save_once_witness:
  "fst (form_run (can_save_config []) config_save_start (\<lambda>ok p. fst (config_save_finish ok p)) config_edit
     [Edit (SelectGroup ''g''), Press, Press, Answer False] configs_page_init) \<le> 1"
  using config_save_once by (metis prod.collapse)

end
