(* ===== verification/Config_Metrics.thy ===== *)
theory Config_Metrics
  imports Config_Editor Formatting
begin

text \<open>
  The editors of one configuration: its editable title (components/configs/EditableConfigTitle.tsx),
  the editor beside the pipeline with its badges (ConfigEditorSideBySide.tsx), the editor with the
  metrics written behind the components (ConfigYamlEditorWithMetrics.tsx) and the tab of an agent that
  sends a configuration to it (components/agent-details/AgentConfigPipeline.tsx).  Monaco is left out;
  a decoration is its position and its text, the column of a line's end is a parameter.
\<close>

section \<open>The editable title\<close>

record title_state =
  ti_isEditing :: bool
  ti_editValue :: string

definition title_init :: "string \<Rightarrow> title_state" where
  "title_init value = \<lparr>ti_isEditing = False, ti_editValue = value\<rparr>"

datatype title_control = TitleEdit | TitleType string | TitleSave | TitleCancel | TitleKey string

text \<open>The effect on \<open>[value]\<close>.\<close>

definition title_value_effect :: "string \<Rightarrow> title_state \<Rightarrow> title_state" where
  "title_value_effect value t = t\<lparr>ti_editValue := value\<rparr>"

text \<open>The second component is the argument of \<open>onChange\<close> when it is called.\<close>

definition title_save :: "title_state \<Rightarrow> title_state \<times> string option" where
  "title_save t =
     (let trimmedValue = js_trim (ti_editValue t) in
      if trimmedValue \<noteq> [] then (t\<lparr>ti_isEditing := False\<rparr>, Some trimmedValue) else (t, None))"

definition title_cancel :: "string \<Rightarrow> title_state \<Rightarrow> title_state" where
  "title_cancel value t = t\<lparr>ti_editValue := value, ti_isEditing := False\<rparr>"

definition title_keydown :: "string \<Rightarrow> string \<Rightarrow> title_state \<Rightarrow> title_state \<times> string option" where
  "title_keydown value key t =
     (if key = ''Enter'' then title_save t
      else if key = ''Escape'' then (title_cancel value t, None)
      else (t, None))"

definition title_action :: "string \<Rightarrow> title_control \<Rightarrow> title_state \<Rightarrow> title_state \<times> string option" where
  "title_action value a t =
     (case a of
        TitleEdit \<Rightarrow> (t\<lparr>ti_isEditing := True\<rparr>, None)
      | TitleType s \<Rightarrow> (t\<lparr>ti_editValue := s\<rparr>, None)
      | TitleSave \<Rightarrow> title_save t
      | TitleCancel \<Rightarrow> (title_cancel value t, None)
      | TitleKey k \<Rightarrow> title_keydown value k t)"

definition EditableConfigTitle :: "string \<Rightarrow> title_state \<Rightarrow> title_control view list" where
  "EditableConfigTitle value t =
     (if ti_isEditing t
      then [Input ''Config name'' (ti_editValue t) False TitleType,
            Button ''Check'' (js_trim (ti_editValue t) = []) TitleSave,
            Button ''X'' False TitleCancel]
      else [Txt value, Button ''Pencil'' False TitleEdit])"

text \<open>
  The title inside a page that stores the name: \<open>onChange\<close> sets the value, and a new value runs the
  effect.
\<close>

definition title_step :: "title_control \<Rightarrow> string \<times> title_state \<Rightarrow> string \<times> title_state" where
  "title_step a vt =
     (case title_action (fst vt) a (snd vt) of
        (t, None) \<Rightarrow> (fst vt, t)
      | (t, Some v) \<Rightarrow> (v, if v = fst vt then t else title_value_effect v t))"

section \<open>The editor beside the pipeline\<close>

definition hovers :: "nat \<Rightarrow> nat \<Rightarrow> marker \<Rightarrow> bool" where
  "hovers lineNumber column m =
     (mk_startLineNumber m \<le> lineNumber \<and> lineNumber \<le> mk_endLineNumber m
      \<and> mk_startColumn m \<le> column \<and> column \<le> mk_endColumn m)"

definition hover_text :: "marker \<Rightarrow> string" where
  "hover_text m = ''**'' @ (if mk_severity m = 8 then ''Error'' else ''Warning'') @ ''**: '' @ mk_message m"

definition provideHover :: "marker list \<Rightarrow> nat \<Rightarrow> nat \<Rightarrow> string list option" where
  "provideHover markers lineNumber column =
     (case filter (hovers lineNumber column) markers of [] \<Rightarrow> None | ms \<Rightarrow> Some (map hover_text ms))"

definition errors_of :: "severity \<Rightarrow> ValidationResult \<Rightarrow> ValidationError list" where
  "errors_of sev r = filter (\<lambda>e. ve_severity e = sev) (vr_errors r)"

definition plural :: "nat \<Rightarrow> string \<Rightarrow> string" where
  "plural n word = show_nat n @ '' '' @ word @ (if n \<noteq> 1 then ''s'' else [])"

definition count_text :: "ValidationResult \<Rightarrow> string" where
  "count_text r =
     (let ne = length (errors_of SevError r); nw = length (errors_of SevWarning r) in
      (if 0 < ne then plural ne ''error'' else []) @ (if 0 < ne \<and> 0 < nw then '', '' else [])
      @ (if 0 < nw then plural nw ''warning'' else []))"

definition editor_badges :: "YamlParseResult \<Rightarrow> bool \<Rightarrow> ValidationResult \<Rightarrow> bool \<Rightarrow> 'a view list" where
  "editor_badges parseResult isParsing validationResult isValidating =
     only_if (isParsing \<or> isValidating)
       [Badge ''outline'' (if isValidating then ''Validating...'' else ''Updating...'')]
     @ only_if (\<not> isParsing \<and> \<not> isValidating \<and> \<not> yp_valid parseResult \<and> given (yp_error parseResult) \<noteq> None)
       [Badge ''red'' ''Parse Error'']
     @ only_if (\<not> isParsing \<and> \<not> isValidating \<and> yp_valid parseResult \<and> vr_errors validationResult \<noteq> [])
       [Badge (if errors_of SevError validationResult \<noteq> [] then ''red'' else ''yellow'') (count_text validationResult)]"

definition pipeline_badges :: "YamlParseResult \<Rightarrow> ValidationResult \<Rightarrow> 'a view list" where
  "pipeline_badges parseResult validationResult =
     only_if (yp_valid parseResult \<and> vr_valid validationResult) [Badge ''green'' ''Valid'']
     @ only_if (yp_valid parseResult \<and> \<not> vr_valid validationResult \<and> errors_of SevWarning validationResult \<noteq> []
               \<and> errors_of SevError validationResult = [])
         [Badge ''yellow'' ''Warnings'']
     @ only_if (\<not> yp_valid parseResult \<or> (yp_valid parseResult \<and> errors_of SevError validationResult \<noteq> []))
         [Badge ''red'' ''Invalid'']"

text \<open>The right pane: the pipeline of the text, or why there is none.  The text of the editor is the given value;
  the editor passes on what is typed, and the empty text when Monaco has none.\<close>

definition pipeline_pane :: "YamlParseResult \<Rightarrow> string \<Rightarrow> string + string" where
  "pipeline_pane parseResult value =
     (if yp_valid parseResult then Inr value else Inl ''Invalid Configuration'')"

definition editor_change :: "string option \<Rightarrow> string" where
  "editor_change v = (case v of Some t \<Rightarrow> t | None \<Rightarrow> [])"

section \<open>The editor with metrics\<close>

record editor_metrics = ComponentMetrics +
  em_throughput :: dbl
  em_error_rate :: dbl
  em_refused :: "int option"
  em_dropped :: "int option"
  em_send_failed :: "int option"
  em_last_updated :: "string option"

definition mapComponentType :: "string \<Rightarrow> component_type" where
  "mapComponentType apiType =
     (if apiType = ''receiver'' then Receiver
      else if apiType = ''processor'' then Processor
      else if apiType = ''exporter'' then Exporter
      else Receiver)"

definition plus_or :: "int option \<Rightarrow> int option \<Rightarrow> int option" where
  "plus_or a b = Some (num_or a 0 + num_or b 0)"

definition add_metrics :: "editor_metrics \<Rightarrow> editor_metrics \<Rightarrow> editor_metrics" where
  "add_metrics aggregated m =
     aggregated\<lparr>em_throughput := dadd (em_throughput aggregated) (em_throughput m),
       cm_errors := cm_errors aggregated + cm_errors m,
       cm_received := plus_or (cm_received aggregated) (cm_received m),
       cm_accepted := plus_or (cm_accepted aggregated) (cm_accepted m),
       em_refused := plus_or (em_refused aggregated) (em_refused m),
       em_dropped := plus_or (em_dropped aggregated) (em_dropped m),
       cm_sent := plus_or (cm_sent aggregated) (cm_sent m),
       em_send_failed := plus_or (em_send_failed aggregated) (em_send_failed m)\<rparr>"

definition with_error_rate :: "editor_metrics \<Rightarrow> editor_metrics" where
  "with_error_rate aggregated =
     (if dless (0, 0) (em_throughput aggregated)
      then aggregated\<lparr>em_error_rate := dmul (ddiv (dbl_of_int (cm_errors aggregated)) (em_throughput aggregated)) (100, 0)\<rparr>
      else aggregated)"

text \<open>The caller passes a list that is not empty; \<open>metrics[0]\<close> of an empty one raises.\<close>

fun aggregateMetrics :: "editor_metrics list \<Rightarrow> js_error + editor_metrics" where
  "aggregateMetrics [] = Inl TypeError"
| "aggregateMetrics (m # ms) =
     Inr (with_error_rate (foldl add_metrics
       \<lparr>cm_component_type = cm_component_type m, cm_component_name = cm_component_name m, cm_pipeline_type = ''all'',
        cm_errors = 0, cm_received = Some 0, cm_accepted = Some 0, cm_sent = Some 0,
        em_throughput = (0, 0), em_error_rate = (0, 0), em_refused = Some 0, em_dropped = Some 0,
        em_send_failed = Some 0, em_last_updated = em_last_updated m\<rparr> (m # ms)))"

definition bullet :: string where
  "bullet = [CHR '' '', CHR 0xE2, CHR 0x80, CHR 0xA2, CHR '' '']"

definition formatMetricsTextCompact :: "editor_metrics \<Rightarrow> string" where
  "formatMetricsTextCompact metrics =
     join_with bullet
       (formatThroughput (em_throughput metrics)
        # (if dless (0, 0) (em_error_rate metrics) then [''err: '' @ formatErrorRate (em_error_rate metrics)] else []))"

text \<open>The effect on \<open>[value]\<close>: the components of an empty text are not replaced.\<close>

definition components_effect :: "string \<Rightarrow> YamlComponent list \<Rightarrow> YamlComponent list" where
  "components_effect value parsed = (if value \<noteq> [] then parseYamlComponents value else parsed)"

record decoration =
  de_line :: nat
  de_column :: nat
  de_content :: string

definition metrics_of :: "editor_metrics list \<Rightarrow> YamlComponent \<Rightarrow> editor_metrics list" where
  "metrics_of metrics c =
     filter (\<lambda>m. cm_component_name m = yc_name c \<and> mapComponentType (cm_component_type m) = yc_type c) metrics"

definition decorate :: "(nat \<Rightarrow> nat) \<Rightarrow> editor_metrics list \<Rightarrow> YamlComponent \<Rightarrow> decoration list" where
  "decorate getLineMaxColumn metrics c =
     (case aggregateMetrics (metrics_of metrics c) of
        Inl e \<Rightarrow> []
      | Inr aggregated \<Rightarrow> [\<lparr>de_line = yc_lineNumber c, de_column = getLineMaxColumn (yc_lineNumber c),
                          de_content = formatMetricsTextCompact aggregated\<rparr>])"

text \<open>
  The effect on \<open>[metrics, parsedComponents]\<close>: the decorations on the screen before and after it;
  without metrics or before the editor is mounted it leaves them.
\<close>

definition decorations_effect ::
  "(nat \<Rightarrow> nat) \<Rightarrow> bool \<Rightarrow> editor_metrics list \<Rightarrow> YamlComponent list \<Rightarrow> decoration list \<Rightarrow> decoration list" where
  "decorations_effect getLineMaxColumn mounted metrics parsed old =
     (if \<not> mounted \<or> metrics = [] then old else concat (map (decorate getLineMaxColumn metrics) parsed))"

section \<open>The configuration of an agent\<close>

datatype config_view = CodeView | PipelineView

record agent_config =
  ac_editedConfig :: string
  ac_isSending :: bool
  ac_viewMode :: config_view

definition agent_config_init :: agent_config where
  "agent_config_init = \<lparr>ac_editedConfig = [], ac_isSending = False, ac_viewMode = CodeView\<rparr>"

definition supportsRemoteConfig :: "Agent option \<Rightarrow> bool" where
  "supportsRemoteConfig agent =
     (case agent of None \<Rightarrow> False
      | Some a \<Rightarrow> (case ag_capabilities a of None \<Rightarrow> False | Some cs \<Rightarrow> ''accepts_remote_config'' \<in> set cs))"

text \<open>The keys of the two caches: the stored configuration is a fallback, the metrics belong to the code view.\<close>

definition agent_config_key :: "string option \<Rightarrow> string \<Rightarrow> string option" where
  "agent_config_key effectiveConfig agentId =
     (if given effectiveConfig \<noteq> None then None else Some (''agent-config-'' @ agentId))"

definition agent_metrics_key :: "string \<Rightarrow> agent_config \<Rightarrow> string option" where
  "agent_metrics_key agentId p =
     (if ac_viewMode p = CodeView then Some (''agent-component-metrics-'' @ agentId @ ''-5m'') else None)"

definition config_content :: "string option \<Rightarrow> Config list option \<Rightarrow> string option" where
  "config_content effectiveConfig configs =
     (case given effectiveConfig of
        Some c \<Rightarrow> Some c
      | None \<Rightarrow> (case configs of Some (c # cs) \<Rightarrow> Some (cf_content c) | _ \<Rightarrow> None))"

definition current_config :: "string option \<Rightarrow> agent_config \<Rightarrow> string" where
  "current_config configContent p =
     (if ac_editedConfig p \<noteq> [] then ac_editedConfig p
      else (case given configContent of Some c \<Rightarrow> c | None \<Rightarrow> []))"

datatype agent_config_action = SendConfig | EditConfig "string option" | ShowView config_view

definition send_config_start :: "bool \<Rightarrow> string \<Rightarrow> string option \<Rightarrow> agent_config \<Rightarrow> agent_config \<times> api_request option" where
  "send_config_start supports agentId configContent p =
     (if \<not> supports then (p, None)
      else (p\<lparr>ac_isSending := True\<rparr>, Some (sendConfigToAgent agentId (current_config configContent p))))"

definition send_config_finish :: "agent_config \<Rightarrow> agent_config" where
  "send_config_finish p = p\<lparr>ac_isSending := False\<rparr>"

definition agent_config_edit :: "bool \<Rightarrow> agent_config_action \<Rightarrow> agent_config \<Rightarrow> agent_config" where
  "agent_config_edit supports a p =
     (case a of
        EditConfig v \<Rightarrow> if supports then p\<lparr>ac_editedConfig := editor_change v\<rparr> else p
      | ShowView v \<Rightarrow> p\<lparr>ac_viewMode := v\<rparr>
      | SendConfig \<Rightarrow> p)"

definition AgentConfigPipeline_view ::
  "bool \<Rightarrow> bool \<Rightarrow> string option \<Rightarrow> bool \<Rightarrow> editor_metrics list \<Rightarrow> string option \<Rightarrow> agent_config \<Rightarrow> agent_config_action view list" where
  "AgentConfigPipeline_view supports configLoading effectiveConfig metricsLoading metrics configContent p =
     (if given effectiveConfig = None \<and> configLoading then [Tag ''spinner'' []]
      else if given configContent = None
      then [Txt ''No Configuration'', Txt ''This agent does not have a configuration assigned yet.'']
      else [Click (ShowView CodeView) [Txt ''YAML''], Click (ShowView PipelineView) [Txt ''Pipeline'']]
        @ only_if (ac_viewMode p = CodeView)
            (if supports
             then [Badge ''outline'' ''Remote Config'',
                   Button (if ac_isSending p then ''Sending...'' else ''Send to Agent'') (ac_isSending p) SendConfig]
             else [Badge ''outline'' ''Read-only''])
        @ only_if (ac_viewMode p = CodeView)
            (only_if (metricsLoading \<and> metrics = []) [Txt ''Loading metrics...'']
             @ [Input ''editor'' (current_config configContent p) (\<not> supports) (\<lambda>t. EditConfig (Some t))])
        @ only_if (ac_viewMode p = PipelineView)
            [Tag ''pipeline'' [Txt (case configContent of Some c \<Rightarrow> c | None \<Rightarrow> [])]])"

section \<open>The title\<close>

lemma title_step_name:
  "fst (title_step a vt) = fst vt \<or> trimmed (fst (title_step a vt))"
  by (simp add: title_step_def title_action_def title_keydown_def title_save_def Let_def trimmed_js_trim
      split: title_control.splits prod.splits option.splits)

text \<open>whatever is typed, saved, cancelled and pressed in the title, the name of the configuration is the one it
  had or a text that is not blank and has no space around it, and only a save replaces it.\<close>

theorem title_never_blank:
  "fst (foldl (\<lambda>vt a. title_step a vt) (v, t) actions) = v
   \<or> trimmed (fst (foldl (\<lambda>vt a. title_step a vt) (v, t) actions))"
proof (induction actions rule: rev_induct)
  case (snoc a actions)
  then show ?case using title_step_name [of a "foldl (\<lambda>vt a. title_step a vt) (v, t) actions"] by auto
qed simp

section \<open>The badges\<close>

text \<open>A result whose verdict is the absence of errors.\<close>

definition verdict_ok :: "ValidationResult \<Rightarrow> bool" where
  "verdict_ok r = (vr_valid r \<longleftrightarrow> errors_of SevError r = [])"

lemma validateYamlConfig_verdict [simp]: "verdict_ok (validateYamlConfig c d vs)"
  by (simp add: verdict_ok_def errors_of_def validateYamlConfig_def Let_def)

lemma validation_of_verdict [simp]: "verdict_ok (validation_of load vs c)"
  by (simp add: validation_of_def split: sum.splits)
    (simp add: verdict_ok_def errors_of_def parse_failure_def)

lemma parse_failure_invalid: "\<not> yp_valid (parse_of load c) \<Longrightarrow> \<not> vr_valid (validation_of load vs c)"
  by (simp add: parse_of_def validation_of_def parse_failure_def split: sum.splits if_splits)

text \<open>once both hooks have settled on a text, the badge over the pipeline is exactly one of \<open>Valid\<close> and
  \<open>Invalid\<close>, it is the verdict of the validation of that text, and the badge for warnings, whose
  condition needs an invalid result without an error, is never shown.\<close>

theorem pipeline_badge_is_verdict:
  "shown (pipeline_badges (parse_of load c) (validation_of load vs c))
    = [if vr_valid (validation_of load vs c) then ''Valid'' else ''Invalid'']"
  using parse_failure_invalid [of load c vs] validation_of_verdict [of load vs c]
  by (auto simp: pipeline_badges_def verdict_ok_def)

section \<open>The decorations\<close>

definition measured :: "editor_metrics list \<Rightarrow> YamlComponent \<Rightarrow> bool" where
  "measured metrics c = (metrics_of metrics c \<noteq> [])"

lemma decorate_lines: "map de_line (decorate col metrics c) = (if measured metrics c then [yc_lineNumber c] else [])"
  by (cases "metrics_of metrics c") (simp_all add: decorate_def measured_def)

lemma decorations_lines:
  "map de_line (concat (map (decorate col metrics) cs)) = map yc_lineNumber (filter (measured metrics) cs)"
  by (induction cs) (simp_all add: decorate_lines)

lemma sorted_filter_map: "sorted_wrt (<) (map f xs) \<Longrightarrow> sorted_wrt (<) (map f (filter P xs))"
  by (induction xs) auto


definition demo_metrics :: "string \<Rightarrow> string \<Rightarrow> int \<Rightarrow> editor_metrics" where
  "demo_metrics ty name errors =
     \<lparr>cm_component_type = ty, cm_component_name = name, cm_pipeline_type = ''traces'', cm_errors = errors,
      cm_received = None, cm_accepted = None, cm_sent = None, em_throughput = (10, 0), em_error_rate = (0, 0),
      em_refused = None, em_dropped = None, em_send_failed = None, em_last_updated = None\<rparr>"


definition opt_sum :: "('m \<Rightarrow> int option) \<Rightarrow> 'm list \<Rightarrow> int" where
  "opt_sum f ms = (\<Sum>m\<leftarrow>ms. num_or (f m) 0)"

lemma num_or_zero: "num_or x 0 = (case x of None \<Rightarrow> 0 | Some n \<Rightarrow> n)"
  by (simp add: num_or_def split: option.split)

lemma foldl_plus_or:
  assumes "\<And>a m. g (add_metrics a m) = plus_or (g a) (g m)"
  shows "num_or (g (foldl add_metrics a ms)) 0 = num_or (g a) 0 + opt_sum g ms"
  by (induction ms arbitrary: a) (simp_all add: assms opt_sum_def plus_or_def num_or_zero)

lemma foldl_errors: "cm_errors (foldl add_metrics a ms) = cm_errors a + (\<Sum>m\<leftarrow>ms. cm_errors m)"
  by (induction ms arbitrary: a) (simp_all add: add_metrics_def)

lemma with_error_rate_counts [simp]:
  "cm_errors (with_error_rate a) = cm_errors a" "cm_received (with_error_rate a) = cm_received a"
  "cm_sent (with_error_rate a) = cm_sent a" "em_send_failed (with_error_rate a) = em_send_failed a"
  by (simp_all add: with_error_rate_def)

lemma aggregateMetrics_fold:
  "aggregateMetrics ms = Inr a \<Longrightarrow>
   \<exists>z. a = with_error_rate (foldl add_metrics z ms) \<and> cm_errors z = 0 \<and> cm_received z = Some 0
       \<and> cm_sent z = Some 0 \<and> em_send_failed z = Some 0"
  by (cases ms) (auto simp del: foldl_Cons)

lemma aggregateMetrics_counts:
  assumes "aggregateMetrics ms = Inr a"
  shows "cm_errors a = (\<Sum>m\<leftarrow>ms. cm_errors m)" "num_or (cm_received a) 0 = opt_sum cm_received ms"
    "num_or (cm_sent a) 0 = opt_sum cm_sent ms" "num_or (em_send_failed a) 0 = opt_sum em_send_failed ms"
proof -
  obtain z where z: "a = with_error_rate (foldl add_metrics z ms)" "cm_errors z = 0" "cm_received z = Some 0"
      "cm_sent z = Some 0" "em_send_failed z = Some 0"
    using aggregateMetrics_fold [OF assms] by blast
  have p: "\<And>a m. cm_received (add_metrics a m) = plus_or (cm_received a) (cm_received m)"
    "\<And>a m. cm_sent (add_metrics a m) = plus_or (cm_sent a) (cm_sent m)"
    "\<And>a m. em_send_failed (add_metrics a m) = plus_or (em_send_failed a) (em_send_failed m)"
    by (simp_all add: add_metrics_def)
  show "cm_errors a = (\<Sum>m\<leftarrow>ms. cm_errors m)" using z by (simp add: foldl_errors)
  show "num_or (cm_received a) 0 = opt_sum cm_received ms"
    using z foldl_plus_or [of cm_received, OF p(1)] by (simp add: num_or_zero)
  show "num_or (cm_sent a) 0 = opt_sum cm_sent ms"
    using z foldl_plus_or [of cm_sent, OF p(2)] by (simp add: num_or_zero)
  show "num_or (em_send_failed a) 0 = opt_sum em_send_failed ms"
    using z foldl_plus_or [of em_send_failed, OF p(3)] by (simp add: num_or_zero)
qed

section \<open>Sending a configuration to an agent\<close>

definition can_send_config :: "bool \<Rightarrow> bool \<Rightarrow> string option \<Rightarrow> string option \<Rightarrow> agent_config \<Rightarrow> bool" where
  "can_send_config supports configLoading effectiveConfig configContent p =
     (SendConfig \<in> set (presses (AgentConfigPipeline_view supports configLoading effectiveConfig False [] configContent p)))"

lemma send_pressable:
  "can_send_config supports ld ec cc p \<longleftrightarrow>
    supports \<and> \<not> ac_isSending p \<and> ac_viewMode p = CodeView \<and> given cc \<noteq> None \<and> (given ec \<noteq> None \<or> \<not> ld)"
  by (cases "ac_viewMode p") (auto simp: can_send_config_def AgentConfigPipeline_view_def)

lemma agent_config_edit_sending: "ac_isSending (agent_config_edit s a p) = ac_isSending p"
  by (simp add: agent_config_edit_def split: agent_config_action.splits)

interpretation agent_send: async_form ac_isSending "can_send_config supports ld ec cc"
  "\<lambda>p. fst (send_config_start supports agentId cc p)" "\<lambda>(r :: unit) p. send_config_finish p" "agent_config_edit supports"
  for supports ld ec cc agentId
  by unfold_locales (simp_all add: send_pressable send_config_start_def send_config_finish_def agent_config_edit_sending)

text \<open>An agent that does not accept a configuration: no step sends one or changes the text.\<close>

lemma read_only_step:
  "ac_editedConfig p = [] \<Longrightarrow>
   form_step (can_send_config False ld ec cc) start (\<lambda>(r :: unit) p. send_config_finish p) (agent_config_edit False)
     ev (0, p) = (n', p') \<Longrightarrow> n' = 0 \<and> ac_editedConfig p' = []"
  by (auto simp: form_step_def send_pressable agent_config_edit_def
      split: form_event.splits agent_config_action.splits)

lemma read_only_run:
  "ac_editedConfig p = [] \<Longrightarrow>
   form_run (can_send_config False ld ec cc) start (\<lambda>(r :: unit) p. send_config_finish p) (agent_config_edit False) evs p = (n, p')
    \<Longrightarrow> n = 0 \<and> ac_editedConfig p' = []"
proof (induction evs arbitrary: p)
  case (Cons ev evs)
  obtain n1 p1 where s: "form_step (can_send_config False ld ec cc) start (\<lambda>(r :: unit) p. send_config_finish p)
      (agent_config_edit False) ev (0, p) = (n1, p1)" by (cases "form_step (can_send_config False ld ec cc) start
      (\<lambda>(r :: unit) p. send_config_finish p) (agent_config_edit False) ev (0, p)")
  then show ?case using Cons.IH [of p1] Cons.prems(2) read_only_step [OF Cons.prems(1) s]
    by (simp add: form_run_def)
qed (simp add: form_run_def)

text \<open>in every run of the tab at most one configuration is being sent; an agent without the capability is
  never sent one, and what its editor shows stays the configuration it was given.\<close>

theorem agent_config_sends:
  assumes "form_run (can_send_config supports ld ec cc) (\<lambda>p. fst (send_config_start supports agentId cc p))
      (\<lambda>(r :: unit) p. send_config_finish p) (agent_config_edit supports) evs agent_config_init = (n, p)"
  shows "n \<le> 1 \<and> (\<not> supports \<longrightarrow> n = 0 \<and> current_config cc p = current_config cc agent_config_init)"
proof -
  have "n \<le> 1 \<and> (ac_isSending p \<longleftrightarrow> n = 1)"
    using agent_send.one_in_flight [OF _ assms] by (simp add: agent_config_init_def)
  moreover have "n = 0 \<and> ac_editedConfig p = []" if "\<not> supports"
    using read_only_run [of agent_config_init] assms that by (auto simp: agent_config_init_def)
  ultimately show ?thesis by (auto simp: current_config_def agent_config_init_def)
qed

lemma agent_config_sends_witness:
  "fst (form_run (can_send_config True False (Some ''x'') (Some ''x'')) (\<lambda>p. fst (send_config_start True ''a'' (Some ''x'') p))
      (\<lambda>(r :: unit) p. send_config_finish p) (agent_config_edit True) [Press, Press, Edit (EditConfig None), Answer ()] agent_config_init) \<le> 1"
  using agent_config_sends by (metis prod.collapse)

text \<open>an editor that was cleared shows and sends the configuration it started with: the empty text cannot be
  sent, and the request always carries a text that is not empty.\<close>

theorem cleared_editor_restores:
  "current_config cc (agent_config_edit True (EditConfig (Some [])) p) = current_config cc agent_config_init
   \<and> (can_send_config True ld ec cc p \<longrightarrow>
        snd (send_config_start True agentId cc p) = Some (sendConfigToAgent agentId (current_config cc p))
        \<and> current_config cc p \<noteq> [])"
  by (auto simp: current_config_def agent_config_edit_def editor_change_def agent_config_init_def send_pressable
      send_config_start_def dest: given_ne)

lemma cleared_editor_restores_witness:
  "current_config (Some ''x'') (agent_config_init\<lparr>ac_editedConfig := ''y''\<rparr>) \<noteq> []"
  using cleared_editor_restores [of "Some ''x''" "agent_config_init\<lparr>ac_editedConfig := ''y''\<rparr>" False None]
  by (simp add: send_pressable agent_config_init_def)

end
