(* ===== verification/Live_Editor.thy ===== *)
theory Live_Editor
  imports Config_Metrics
begin

text \<open>
  The editor beside the pipeline as a whole (components/configs/ConfigEditorSideBySide.tsx): its text, the two
  debounced hooks that run on it (hooks/useYamlParser.ts, hooks/useYamlValidation.ts), Monaco's mounting, and what
  the two panes show, down to the graph on the canvas.  Config_Metrics holds the badges and the hover, Pipeline_Graph the
  canvas; here they are composed.  Also the card with the server's verdict (ConfigValidation.tsx) and the plain
  editor (ConfigYamlEditor.tsx).
\<close>

section \<open>State and events\<close>

record live_editor =
  le_value :: string
  le_mounted :: bool
  le_parser :: "yaml_parser debounced"
  le_validation :: "yaml_validation debounced"

text \<open>The effects of both hooks run once for the text the editor is given.\<close>

definition live_editor_init :: "string \<Rightarrow> live_editor" where
  "live_editor_init v =
     \<lparr>le_value = v, le_mounted = False,
      le_parser = \<lparr>db_timer = Some v, db_state = parser_start yaml_parser_init\<rparr>,
      le_validation = \<lparr>db_timer = Some v, db_state = validation_start yaml_validation_init\<rparr>\<rparr>"

text \<open>\<open>Typed\<close> is Monaco's \<open>onChange\<close>, also used when the page replaces the text; an equal text changes nothing.
  \<open>editorRef\<close> is set when Monaco has mounted, and no validation runs then.\<close>

datatype live_event = Typed "string option" | ParserFires | ValidatorFires | Mounted

definition live_step :: "yaml_load \<Rightarrow> Validator list \<Rightarrow> live_event \<Rightarrow> live_editor \<Rightarrow> live_editor" where
  "live_step load vs ev s =
     (case ev of
        Typed v \<Rightarrow>
          if editor_change v = le_value s then s
          else s\<lparr>le_value := editor_change v,
                 le_parser := debounce_step parser_start (parseYaml load) (Change (editor_change v)) (le_parser s),
                 le_validation := debounce_step validation_start (performValidation load vs (le_mounted s))
                                    (Change (editor_change v)) (le_validation s)\<rparr>
      | ParserFires \<Rightarrow> s\<lparr>le_parser := debounce_step parser_start (parseYaml load) Fire (le_parser s)\<rparr>
      | ValidatorFires \<Rightarrow>
          s\<lparr>le_validation := debounce_step validation_start (performValidation load vs (le_mounted s)) Fire (le_validation s)\<rparr>
      | Mounted \<Rightarrow> s\<lparr>le_mounted := True\<rparr>)"

definition live_run :: "yaml_load \<Rightarrow> Validator list \<Rightarrow> live_event list \<Rightarrow> live_editor \<Rightarrow> live_editor" where
  "live_run load vs evs s = foldl (\<lambda>s ev. live_step load vs ev s) s evs"

section \<open>The screen\<close>

definition preview_of :: "string \<Rightarrow> pipeline_view" where
  "preview_of v =
     \<lparr>pv_agentId = None, pv_propConfig = Some v, pv_previewMode = True, pv_metricsData = None, pv_configs = None,
      pv_configLoading = False, pv_configError = False\<rparr>"

record live_screen =
  ls_badges :: "unit view list"
  ls_verdict :: "unit view list"
  ls_canvas :: "(js_error + flow_graph) option"

text \<open>The canvas is drawn for the text itself, the decision to draw it comes from the parser's last result.\<close>

definition live_screen_of :: "yaml_load \<Rightarrow> live_editor \<Rightarrow> live_screen" where
  "live_screen_of load s =
     (let p = db_state (le_parser s); v = db_state (le_validation s) in
      \<lparr>ls_badges = editor_badges (yp_result p) (yp_isParsing p) (yv_result v) (yv_isValidating v),
       ls_verdict = pipeline_badges (yp_result p) (yv_result v),
       ls_canvas = (case pipeline_pane (yp_result p) (le_value s) of
                      Inl m \<Rightarrow> None
                    | Inr t \<Rightarrow> Some (pipeline_effect load (preview_of t)))\<rparr>)"

definition live_hover :: "live_editor \<Rightarrow> nat \<Rightarrow> nat \<Rightarrow> string list option" where
  "live_hover s = provideHover (yv_markers (db_state (le_validation s)))"

text \<open>The server's verdict (\<open>ValidateConfigResponse\<close>), and the plain editor, which only passes the text on.\<close>

record config_verdict =
  va_valid :: bool
  va_errors :: "string list option"
  va_warnings :: "string list option"

definition ConfigValidation :: "config_verdict \<Rightarrow> 'a view list" where
  "ConfigValidation v =
     (if va_valid v then
        [Alert ''default'' ''Configuration is valid!'']
        @ (case va_warnings v of
             Some (w # ws) \<Rightarrow> Txt ''Warnings:'' # map Txt (w # ws)
           | _ \<Rightarrow> [])
      else Alert ''destructive'' ''Configuration has errors:''
        # (case va_errors v of Some es \<Rightarrow> map Txt es | None \<Rightarrow> []))"

definition ConfigYamlEditor :: "string \<Rightarrow> string view list" where
  "ConfigYamlEditor v =
     [Txt ''YAML Configuration'', Txt ''Edit your OpenTelemetry collector configuration in YAML format'',
      Input ''editor'' v False (\<lambda>t. editor_change (Some t))]"

section \<open>What the screen settles to\<close>

text \<open>The specification: the screen of a text.\<close>

definition settled_screen :: "yaml_load \<Rightarrow> Validator list \<Rightarrow> string \<Rightarrow> live_screen" where
  "settled_screen load vs c =
     \<lparr>ls_badges = editor_badges (parse_of load c) (js_trim c = []) (validation_of load vs c) False,
      ls_verdict = pipeline_badges (parse_of load c) (validation_of load vs c),
      ls_canvas = (if yp_valid (parse_of load c) then Some (pipeline_effect load (preview_of c)) else None)\<rparr>"

definition live_ok :: "yaml_load \<Rightarrow> Validator list \<Rightarrow> live_editor \<Rightarrow> bool" where
  "live_ok load vs s =
     ((case db_timer (le_parser s) of
         Some d \<Rightarrow> d = le_value s \<and> yp_isParsing (db_state (le_parser s))
       | None \<Rightarrow> yp_result (db_state (le_parser s)) = parse_of load (le_value s)
                 \<and> yp_isParsing (db_state (le_parser s)) = (js_trim (le_value s) = []))
      \<and> (case db_timer (le_validation s) of
           Some d \<Rightarrow> d = le_value s \<and> yv_isValidating (db_state (le_validation s))
         | None \<Rightarrow> yv_result (db_state (le_validation s)) = validation_of load vs (le_value s)
                   \<and> \<not> yv_isValidating (db_state (le_validation s))))"

lemma live_ok_init: "live_ok load vs (live_editor_init v)"
  by (simp add: live_ok_def live_editor_init_def parser_start_def validation_start_def)

lemma parse_keeps_busy: "yp_isParsing p \<Longrightarrow> yp_isParsing (parseYaml load c p) = (js_trim c = [])"
  by (simp add: parseYaml_def)

lemma validation_idle: "\<not> yv_isValidating (performValidation load vs ready c v)"
  by (simp add: performValidation_def Let_def split: sum.splits)

lemma live_ok_step: "live_ok load vs s \<Longrightarrow> live_ok load vs (live_step load vs ev s)"
  by (cases ev) (auto simp: live_ok_def live_step_def parser_start_def validation_start_def parse_keeps_busy validation_idle
      parser_hook.out_perform validation_hook.out_perform split: option.splits)

lemma live_ok_run: "live_ok load vs s \<Longrightarrow> live_ok load vs (live_run load vs evs s)"
proof (induction evs arbitrary: s)
  case (Cons ev evs)
  then show ?case using live_ok_step [of load vs s ev] by (simp add: live_run_def)
qed (simp add: live_run_def)

lemma screen_settled:
  assumes "s = live_run load vs evs (live_editor_init v)"
    and "db_timer (le_parser s) = None" and "db_timer (le_validation s) = None"
  shows "live_screen_of load s = settled_screen load vs (le_value s)"
proof -
  have "live_ok load vs s" using assms(1) live_ok_run live_ok_init by simp
  then have "yp_result (db_state (le_parser s)) = parse_of load (le_value s)"
    "yp_isParsing (db_state (le_parser s)) = (js_trim (le_value s) = [])"
    "yv_result (db_state (le_validation s)) = validation_of load vs (le_value s)"
    "\<not> yv_isValidating (db_state (le_validation s))"
    using assms(2,3) by (simp_all add: live_ok_def)
  then show ?thesis by (simp add: live_screen_of_def settled_screen_def pipeline_pane_def Let_def)
qed



section \<open>Markers of a text that is gone\<close>

text \<open>C38: when the text becomes blank or can no longer be parsed, the verdict changes with the next validation but the markers stay:
  hovering shows the messages about the text before, while the list of errors is empty or says something else.\<close>

theorem markers_outlive_their_text:
  assumes "js_trim c = [] \<or> load c = Inl m" and "c \<noteq> le_value s"
    and "s' = live_step load vs ValidatorFires (live_step load vs (Typed (Some c)) s)"
  shows "live_hover s' = live_hover s
    \<and> yv_result (db_state (le_validation s'))
        = (if js_trim c = [] then \<lparr>vr_valid = True, vr_errors = []\<rparr> else parse_failure m)"
  using assms by (auto simp: live_step_def live_hover_def editor_change_def performValidation_def validation_start_def
      split: sum.splits)

definition unclosed :: string where "unclosed = ''a: [''"

lemma markers_outlive_their_text_witness:
  "live_hover (live_step (\<lambda>_. Inl None) [] ValidatorFires (live_step (\<lambda>_. Inl None) [] (Typed (Some unclosed))
      (live_editor_init []))) 1 1 = None"
  using markers_outlive_their_text [of unclosed "\<lambda>_. Inl None" None "live_editor_init []" _ "[]"]
  by (simp add: unclosed_def live_editor_init_def live_hover_def provideHover_def yaml_validation_init_def validation_start_def)

section \<open>The verdict and the canvas\<close>

definition drawn_of :: "flow_node \<Rightarrow> (string \<times> jval) list" where
  "drawn_of n = (case fn_data n of ComponentData name t m \<Rightarrow> [(fn_type n, name)] | _ \<Rightarrow> [])"

text \<open>The components the canvas draws: kind and name of each node that is neither a frame nor a message.\<close>

definition drawn_components :: "flow_graph \<Rightarrow> (string \<times> jval) list" where
  "drawn_components g = concat (map drawn_of (fg_nodes g))"

definition drawn_refs :: "pipeline_spec \<Rightarrow> (string \<times> jval) list" where
  "drawn_refs p =
     map (\<lambda>r. (''receiver'', JStr r)) (refs_of (pl_receivers p)) @ map (\<lambda>r. (''processor'', JStr r)) (refs_of (pl_processors p))
     @ map (\<lambda>r. (''exporter'', JStr r)) (refs_of (pl_exporters p))"

lemma drawn_component_nodes:
  "concat (map drawn_of (component_nodes k t met pos names)) = map (Pair k) names"
proof -
  have "concat (map drawn_of (map (\<lambda>(i, name). \<lparr>fn_id = node_id k t name, fn_type = k, fn_x = fst (pos i), fn_y = snd (pos i),
        fn_data = ComponentData name t (met name)\<rparr>) ps)) = map (Pair k) (map snd ps)" for ps :: "(nat \<times> jval) list"
    by (induction ps) (auto simp: drawn_of_def)
  then show ?thesis by (simp add: component_nodes_def del: map_map)
qed

lemma drawn_pipeline_nodes:
  "concat (map drawn_of (pipeline_nodes m y pn rs ps es))
    = map (Pair ''receiver'') rs @ map (Pair ''processor'') ps @ map (Pair ''exporter'') es"
  by (simp add: pipeline_nodes_def Let_def drawn_component_nodes drawn_of_def section_node_def)

lemma component_list_encoded:
  "component_list (encode_pipeline p) ''receivers'' = Inr (map JStr (refs_of (pl_receivers p)))"
  "component_list (encode_pipeline p) ''processors'' = Inr (map JStr (refs_of (pl_processors p)))"
  "component_list (encode_pipeline p) ''exporters'' = Inr (map JStr (refs_of (pl_exporters p)))"
  by (simp_all add: component_list_def opt_prop_def encode_pipeline_def encode_read encode_list_def js_or_def refs_of_def
      split: option.splits)

lemma drawn_layout:
  "layout_pipelines m y (map (\<lambda>(n, p). (n, encode_pipeline p)) ps) = Inr g \<Longrightarrow>
   drawn_components g = concat (map (\<lambda>np. drawn_refs (snd np)) ps)"
proof (induction ps arbitrary: y g)
  case (Cons np ps)
  then show ?case
    by (cases np) (auto simp: component_list_encoded bindE_Inr_iff drawn_components_def drawn_pipeline_nodes drawn_refs_def)
qed (simp add: drawn_components_def)

lemma drawn_generated:
  assumes "load c = Inr (encode_config cfg)" and "c \<noteq> []" and "generatePipelineNodes load c metrics = Inr g"
  shows "drawn_components g = concat (map (\<lambda>np. drawn_refs (snd np)) (refs_of (oc_pipelines cfg)))"
proof -
  have m: "drawn_components (message_graph i l) = []" for i l
    by (simp add: message_graph_def drawn_components_def drawn_of_def)
  let ?ps = "map (\<lambda>(n, p). (n, encode_pipeline p)) (refs_of (oc_pipelines cfg))"
  have "(refs_of (oc_pipelines cfg) = [] \<and> drawn_components g = []) \<or> layout_pipelines metrics 0 ?ps = Inr g"
    using assms m by (auto simp: generatePipelineNodes_def encode_config_def encode_read refs_of_def bindE_Inr_iff js_keys_def
        split: option.splits if_splits)
  then show ?thesis using drawn_layout by auto
qed

definition defined_names :: "otel_config \<Rightarrow> string \<Rightarrow> string set" where
  "defined_names cfg kind =
     (if kind = ''receiver'' then names_of (oc_receivers cfg) \<union> names_of (oc_connectors cfg)
      else if kind = ''processor'' then names_of (oc_processors cfg)
      else names_of (oc_exporters cfg) \<union> names_of (oc_connectors cfg))"

definition drawn_defined :: "otel_config \<Rightarrow> flow_graph \<Rightarrow> bool" where
  "drawn_defined cfg g = (\<forall>(k, n) \<in> set (drawn_components g). \<exists>r \<in> defined_names cfg k. n = JStr r)"

lemma refs_defined:
  "(\<forall>(k, n) \<in> set (drawn_refs p). \<exists>r \<in> defined_names cfg k. n = JStr r)
    \<longleftrightarrow> set (refs_of (pl_receivers p)) \<subseteq> names_of (oc_receivers cfg) \<union> names_of (oc_connectors cfg)
      \<and> set (refs_of (pl_processors p)) \<subseteq> names_of (oc_processors cfg)
      \<and> set (refs_of (pl_exporters p)) \<subseteq> names_of (oc_exporters cfg) \<union> names_of (oc_connectors cfg)"
  by (simp add: drawn_refs_def defined_names_def ball_Un subset_eq)

lemma settled_verdict:
  assumes "load c = Inr (encode_config cfg)" and "plain_refs cfg" and "js_trim c \<noteq> []"
    and "ls_canvas (settled_screen load (defaultValidators rx) c) = Some (Inr g)"
  shows "shown (ls_verdict (settled_screen load (defaultValidators rx) c))
    = [if drawn_defined cfg g \<and> set (refs_of (oc_service_extensions cfg)) \<subseteq> names_of (oc_extensions cfg)
       then ''Valid'' else ''Invalid'']"
proof -
  have c: "c \<noteq> []" using assms(3) by (auto simp: js_trim_def trim_start_def)
  have "generatePipelineNodes load c [] = Inr g"
    using assms(4) c by (auto simp: settled_screen_def pipeline_effect_def preview_of_def effective_config_def nonempty_def
        split: if_splits list.splits)
  then have d: "drawn_components g = concat (map (\<lambda>np. drawn_refs (snd np)) (refs_of (oc_pipelines cfg)))"
    using drawn_generated assms(1) c by blast
  have "drawn_defined cfg g \<longleftrightarrow>
      (\<forall>p \<in> set (refs_of (oc_pipelines cfg)). \<forall>(k, n) \<in> set (drawn_refs (snd p)). \<exists>r \<in> defined_names cfg k. n = JStr r)"
    unfolding drawn_defined_def d by simp
  then have "config_ok cfg \<longleftrightarrow> drawn_defined cfg g \<and> set (refs_of (oc_service_extensions cfg)) \<subseteq> names_of (oc_extensions cfg)"
    unfolding config_ok_def refs_defined by simp
  moreover have "vr_valid (validation_of load (defaultValidators rx) c) \<longleftrightarrow> config_ok cfg"
    using default_valid_iff [OF assms(2)] assms(1,3) by (simp add: validation_of_def)
  ultimately show ?thesis by (simp add: settled_screen_def pipeline_badge_is_verdict)
qed


definition demo_spec :: otel_config where
  "demo_spec =
     \<lparr>oc_receivers = Some [(''otlp'', JNull)], oc_processors = None, oc_exporters = None, oc_extensions = None,
      oc_connectors = None,
      oc_pipelines = Some [(''traces'', \<lparr>pl_receivers = Some [''otlp''], pl_processors = None, pl_exporters = Some [''debug'']\<rparr>)],
      oc_service_extensions = None\<rparr>"

definition demo_drawn :: flow_graph where
  "demo_drawn = \<lparr>fg_nodes = pipeline_nodes [] 0 ''traces'' [JStr ''otlp''] [] [JStr ''debug''],
     fg_edges = pipeline_edges ''traces'' [JStr ''otlp''] [] [JStr ''debug'']\<rparr>"


end
