(* ===== verification/Metrics_View.thy ===== *)
theory Metrics_View
  imports Formatting Ui_View
begin

text \<open>
  The metrics of an agent (components/agent-details/AgentMetrics.tsx) and of an agent or group
  (components/shared/TelemetryMetricsView.tsx).  The points are what the telemetry interface
  (api/telemetry.ts, a stub in this version) declares.  \<open>getTime\<close> reads a timestamp, \<open>showTime\<close> is its
  local form; both are parameters.  Values are doubles as in \<open>Js_Number\<close>.  A chart is its data.
\<close>

section \<open>Data\<close>

record MetricData =
  md_metric_name :: string
  md_value :: dbl
  md_timestamp :: string
  md_agent_id :: "string option"
  md_metric_attributes :: "(string \<times> jval) list option"

definition dsub :: "dbl \<Rightarrow> dbl \<Rightarrow> dbl" where
  "dsub x y = dadd x (- fst y, snd y)"

section \<open>Grouping by component\<close>

datatype component_kind = MReceiver | MProcessor | MExporter

fun kind_name :: "component_kind \<Rightarrow> string" where
  "kind_name MReceiver = ''receiver''"
| "kind_name MProcessor = ''processor''"
| "kind_name MExporter = ''exporter''"

definition attribute_or :: "MetricData \<Rightarrow> string \<Rightarrow> jval \<Rightarrow> jval" where
  "attribute_or m k d =
     (case md_metric_attributes m of None \<Rightarrow> d | Some kvs \<Rightarrow> js_or (own_prop kvs k) d)"

text \<open>The component of a metric; the name is the attribute as it is converted in the key.\<close>

definition metric_component :: "MetricData \<Rightarrow> (component_kind \<times> string) option" where
  "metric_component m =
     (if js_includes ''receiver'' (md_metric_name m)
      then Some (MReceiver, to_str (attribute_or m ''receiver'' (JStr ''unknown_receiver'')))
      else if js_includes ''processor'' (md_metric_name m)
      then Some (MProcessor, to_str (attribute_or m ''processor'' (JStr ''unknown_processor'')))
      else if js_includes ''exporter'' (md_metric_name m)
      then Some (MExporter, to_str (attribute_or m ''exporter'' (JStr ''unknown_exporter'')))
      else None)"

definition metric_key :: "component_kind \<times> string \<Rightarrow> string" where
  "metric_key c = kind_name (fst c) @ '':'' @ snd c"

definition componentMap :: "MetricData list \<Rightarrow> (string \<times> component_kind \<times> MetricData list) list" where
  "componentMap metricsData =
     accumulate obj_get obj_set (\<lambda>(c, m). metric_key c) (\<lambda>(c, m). (fst c, [])) (\<lambda>(c, m) (k, ms). (k, ms @ [m]))
       [] (concat (map (\<lambda>m. case metric_component m of None \<Rightarrow> [] | Some c \<Rightarrow> [(c, m)]) metricsData))"

record agent_component =
  ac_name :: string
  ac_metrics :: "MetricData list"

text \<open>\<open>key.split(":")[1]\<close>; a key has a colon.\<close>

definition key_component :: "string \<Rightarrow> string" where
  "key_component key = (case split_on CHR '':'' key of _ # n # _ \<Rightarrow> n | _ \<Rightarrow> ''undefined'')"

definition components_of :: "component_kind \<Rightarrow> MetricData list \<Rightarrow> agent_component list" where
  "components_of kind metricsData =
     concat (map (\<lambda>(key, k, ms). if k = kind then [\<lparr>ac_name = key_component key, ac_metrics = ms\<rparr>] else [])
       (componentMap metricsData))"

section \<open>The health figures\<close>

definition metricsByName :: "MetricData list \<Rightarrow> (string \<times> MetricData list) list" where
  "metricsByName ms = group_into md_metric_name ms"

definition by_name :: "MetricData list \<Rightarrow> string \<Rightarrow> MetricData list" where
  "by_name ms n = (case obj_get (metricsByName ms) n of Some xs \<Rightarrow> xs | None \<Rightarrow> [])"

definition cpu_percent :: "(string \<Rightarrow> int) \<Rightarrow> MetricData list \<Rightarrow> dbl" where
  "cpu_percent getTime xs =
     (let sorted = sort_key (\<lambda>m. getTime (md_timestamp m)) xs; first = hd sorted; latest = last sorted;
          cpuDelta = dsub (md_value latest) (md_value first);
          timeDelta = ddiv (dbl_of_int (getTime (md_timestamp latest) - getTime (md_timestamp first))) (1000, 0) in
      if dless (0, 0) timeDelta then dmul (ddiv cpuDelta timeDelta) (100, 0) else (0, 0))"

definition add_first :: "MetricData list \<Rightarrow> dbl \<Rightarrow> dbl" where
  "add_first xs t = (case xs of [] \<Rightarrow> t | m # _ \<Rightarrow> dadd t (md_value m))"

definition total_received :: "MetricData list \<Rightarrow> dbl" where
  "total_received ms =
     add_first (by_name ms ''otelcol_receiver_accepted_log_records'')
       (add_first (by_name ms ''otelcol_receiver_accepted_spans'') (0, 0))"

definition total_sent :: "MetricData list \<Rightarrow> dbl" where
  "total_sent ms =
     add_first (by_name ms ''otelcol_exporter_sent_log_records'')
       (add_first (by_name ms ''otelcol_exporter_sent_spans'') (0, 0))"

definition memory_mb :: "MetricData list \<Rightarrow> string option" where
  "memory_mb ms =
     (case by_name ms ''otelcol_process_memory_rss'' of
        [] \<Rightarrow> None
      | xs \<Rightarrow> Some (to_fixed 0 (ddiv (md_value (last xs)) (1048576, 0))))"

definition healthMetrics :: "(string \<Rightarrow> int) \<Rightarrow> MetricData list \<Rightarrow> (string \<times> string) list" where
  "healthMetrics getTime ms =
     (let cpu = by_name ms ''otelcol_process_cpu_seconds'' in
      (if 2 \<le> length cpu then [(''CPU Usage'', to_fixed 1 (cpu_percent getTime cpu) @ ''%'')] else [])
      @ (case memory_mb ms of Some t \<Rightarrow> [(''Memory Usage'', t @ '' MB'')] | None \<Rightarrow> [])
      @ (if dless (0, 0) (total_received ms) then [(''Data Received'', formatNumber (total_received ms))] else [])
      @ (if dless (0, 0) (total_sent ms) then [(''Data Sent'', formatNumber (total_sent ms))] else []))"

section \<open>The card of a component\<close>

record time_point =
  tp_time :: string
  tp_value :: dbl
  tp_timestamp :: int

text \<open>\<open>xs.slice(-n)\<close> for a positive \<open>n\<close>\<close>

definition last_n :: "nat \<Rightarrow> 'a list \<Rightarrow> 'a list" where
  "last_n n xs = drop (length xs - n) xs"

definition time_series :: "(string \<Rightarrow> int) \<Rightarrow> (string \<Rightarrow> string) \<Rightarrow> MetricData list \<Rightarrow> time_point list" where
  "time_series getTime showTime ms =
     last_n 20 (sort_key tp_timestamp
       (map (\<lambda>m. \<lparr>tp_time = showTime (md_timestamp m), tp_value = md_value m, tp_timestamp = getTime (md_timestamp m)\<rparr>) ms))"

definition latest_metric :: "(string \<Rightarrow> int) \<Rightarrow> MetricData list \<Rightarrow> MetricData" where
  "latest_metric getTime ms = hd (sort_key (\<lambda>m. - getTime (md_timestamp m)) ms)"

definition getLatestValue :: "(string \<Rightarrow> int) \<Rightarrow> (string \<Rightarrow> bool) \<Rightarrow> (string \<times> MetricData list) list \<Rightarrow> dbl" where
  "getLatestValue getTime pick byName =
     foldl (\<lambda>t (name, ms). if pick name \<and> ms \<noteq> [] then dadd t (md_value (latest_metric getTime ms)) else t) (0, 0) byName"

definition name_has :: "string \<Rightarrow> string \<Rightarrow> string \<Rightarrow> bool" where
  "name_has a b n = (js_includes a n \<or> js_includes b n)"

definition stat_view :: "string \<Rightarrow> dbl \<Rightarrow> 'a view list" where
  "stat_view label v = only_if (dless (0, 0) v) [Txt label, Txt (formatNumber v)]"

definition metric_label :: "string \<Rightarrow> string" where
  "metric_label n = map (\<lambda>c. if c = CHR ''_'' then CHR '' '' else c) (replace_first ''otelcol_'' [] n)"

definition chart_of :: "time_point list \<Rightarrow> 'a view" where
  "chart_of ps = Tag ''chart'' (map (\<lambda>p. Txt (tp_time p)) ps)"

definition ComponentMetricCard ::
  "(string \<Rightarrow> int) \<Rightarrow> (string \<Rightarrow> string) \<Rightarrow> agent_component \<Rightarrow> 'a view list" where
  "ComponentMetricCard getTime showTime component =
     (let byName = metricsByName (ac_metrics component) in
      [Txt (ac_name component), Txt (show_nat (length (ac_metrics component)) @ '' data points''),
       Txt (show_nat (length byName) @ '' unique metrics'')]
      @ stat_view ''Accepted'' (getLatestValue getTime (name_has ''accepted'' ''received'') byName)
      @ stat_view ''Refused'' (getLatestValue getTime (js_includes ''refused'') byName)
      @ stat_view ''Sent'' (getLatestValue getTime (name_has ''sent'' ''exported'') byName)
      @ map (\<lambda>(n, ms). Tag ''series'' [Txt (metric_label n), chart_of (time_series getTime showTime ms)]) (take 3 byName)
      @ only_if (3 < length byName)
          [Tag ''details'' (Txt (''Show all '' @ show_nat (length byName) @ '' metrics'') # map (\<lambda>(n, ms). Txt n) byName)])"

section \<open>The page\<close>

datatype metrics_range = M1h | M6h | M24h

definition range_text :: "metrics_range \<Rightarrow> string" where
  "range_text r = (case r of M1h \<Rightarrow> ''1h'' | M6h \<Rightarrow> ''6h'' | M24h \<Rightarrow> ''24h'')"

definition range_hours :: "metrics_range \<Rightarrow> int" where
  "range_hours r = (case r of M1h \<Rightarrow> 1 | M6h \<Rightarrow> 6 | M24h \<Rightarrow> 24)"

text \<open>The window of a query: from that many hours before the clock up to the clock, in milliseconds.\<close>

definition metrics_window :: "metrics_range \<Rightarrow> int \<Rightarrow> int \<times> int" where
  "metrics_window r now = (now - range_hours r * 60 * 60 * 1000, now)"

definition component_tab ::
  "(string \<Rightarrow> int) \<Rightarrow> (string \<Rightarrow> string) \<Rightarrow> string \<Rightarrow> agent_component list \<Rightarrow> metrics_range view" where
  "component_tab getTime showTime what cs =
     Tag (what @ ''s'')
       (if cs \<noteq> [] then map (\<lambda>c. Tag (ac_name c) (ComponentMetricCard getTime showTime c)) cs
        else [Txt (''No '' @ what @ '' metrics available'')])"

definition tab_label :: "string \<Rightarrow> agent_component list \<Rightarrow> metrics_range view" where
  "tab_label what cs = Txt (what @ '' ('' @ show_nat (length cs) @ '')'')"

definition AgentMetrics_view ::
  "(string \<Rightarrow> int) \<Rightarrow> (string \<Rightarrow> string) \<Rightarrow> bool \<Rightarrow> MetricData list option \<Rightarrow> metrics_range view list" where
  "AgentMetrics_view getTime showTime isLoading metricsData =
     (if isLoading then [Tag ''spinner'' []]
      else let ms = (case metricsData of Some xs \<Rightarrow> xs | None \<Rightarrow> []);
               rs = components_of MReceiver ms; ps = components_of MProcessor ms; es = components_of MExporter ms in
           map (\<lambda>(l, v). Tag ''card'' [Txt l, Txt v]) (healthMetrics getTime ms)
           @ map (\<lambda>r. Button (range_text r) False r) [M1h, M6h, M24h]
           @ [tab_label ''Receivers'' rs, tab_label ''Processors'' ps, tab_label ''Exporters'' es,
              component_tab getTime showTime ''receiver'' rs, component_tab getTime showTime ''processor'' ps,
              component_tab getTime showTime ''exporter'' es])"

section \<open>The timeline of an agent or group\<close>

record chart_point =
  ct_time :: string
  ct_count :: nat
  ct_totalValue :: dbl

definition chart_groups :: "(string \<Rightarrow> string) \<Rightarrow> MetricData list \<Rightarrow> (string \<times> chart_point) list" where
  "chart_groups showTime ms =
     accumulate obj_get obj_set (\<lambda>m. showTime (md_timestamp m))
       (\<lambda>m. \<lparr>ct_time = showTime (md_timestamp m), ct_count = 0, ct_totalValue = (0, 0)\<rparr>)
       (\<lambda>m p. p\<lparr>ct_count := ct_count p + 1, ct_totalValue := dadd (ct_totalValue p) (md_value m)\<rparr>) [] ms"

definition chartData :: "(string \<Rightarrow> string) \<Rightarrow> MetricData list \<Rightarrow> chart_point list" where
  "chartData showTime ms = last_n 20 (map snd (chart_groups showTime ms))"

definition telemetry_key :: "string \<Rightarrow> string option \<Rightarrow> string option \<Rightarrow> string" where
  "telemetry_key what agentId groupId =
     (case given agentId of
        Some a \<Rightarrow> ''agent-'' @ what @ ''-'' @ a
      | None \<Rightarrow> ''group-'' @ what @ ''-'' @ (case groupId of Some g \<Rightarrow> g | None \<Rightarrow> ''undefined''))"

definition metric_row :: "(string \<Rightarrow> string) \<Rightarrow> (dbl \<Rightarrow> string) \<Rightarrow> bool \<Rightarrow> MetricData \<Rightarrow> 'a view" where
  "metric_row showTime showNum showAgentId m =
     Tag ''row'' ([Txt (md_metric_name m), Txt (showNum (md_value m))]
       @ only_if showAgentId [Txt (''Agent: '' @ (case md_agent_id m of Some a \<Rightarrow> a | None \<Rightarrow> ''undefined''))]
       @ [Txt (showTime (md_timestamp m))])"

definition TelemetryMetricsView ::
  "(string \<Rightarrow> string) \<Rightarrow> (dbl \<Rightarrow> string) \<Rightarrow> bool \<Rightarrow> bool \<Rightarrow> MetricData list \<Rightarrow> 'a view list" where
  "TelemetryMetricsView showTime showNum showAgentId isLoading ms =
     (if isLoading then [Tag ''spinner'' []]
      else [Txt ''Metrics Timeline'', Txt ''Last hour of metric activity'']
        @ (if chartData showTime ms \<noteq> []
           then [Tag ''chart'' (map (\<lambda>p. Tag (ct_time p) [Txt (show_nat (ct_count p))]) (chartData showTime ms))]
           else [Txt ''No metrics data available''])
        @ [Txt ''Recent Metrics'', Txt (show_nat (length ms) @ '' metrics in last hour'')]
        @ map (metric_row showTime showNum showAgentId) (take 20 ms)
        @ only_if (ms = []) [Txt ''No metrics available''])"

section \<open>Sums over the groups\<close>

lemma sum_obj_set:
  fixes f :: "'v \<Rightarrow> 'b :: comm_monoid_add"
  shows "(\<Sum>kv\<leftarrow>obj_set k v m. f (snd kv)) + (case obj_get m k of None \<Rightarrow> 0 | Some w \<Rightarrow> f w)
          = (\<Sum>kv\<leftarrow>m. f (snd kv)) + f v"
proof (induction m)
  case (Cons kv m)
  obtain k' w where [simp]: "kv = (k', w)" by (cases kv)
  show ?case
  proof (cases "k' = k")
    case True
    then show ?thesis by (simp add: obj_get_def add_ac)
  next
    case False
    then show ?thesis using Cons by (simp add: obj_get_def add_ac)
  qed
qed (simp add: obj_get_def)

text \<open>A measure that starts at zero and grows by the weight of each element sums up to all weights.\<close>

lemma sum_accumulate:
  fixes f :: "'v \<Rightarrow> 'b :: cancel_comm_monoid_add"
  assumes "\<And>x. f (init x) = 0" and "\<And>x v. f (upd x v) = f v + w x"
  shows "(\<Sum>kv\<leftarrow>accumulate obj_get obj_set key init upd m xs. f (snd kv))
          = (\<Sum>kv\<leftarrow>m. f (snd kv)) + (\<Sum>x\<leftarrow>xs. w x)"
proof (induction xs arbitrary: m)
  case (Cons x xs)
  let ?old = "case obj_get m (key x) of None \<Rightarrow> init x | Some v \<Rightarrow> v"
  have "(\<Sum>kv\<leftarrow>obj_set (key x) (upd x ?old) m. f (snd kv)) + f ?old = (\<Sum>kv\<leftarrow>m. f (snd kv)) + w x + f ?old"
    using sum_obj_set [of f "key x" "upd x ?old" m] assms by (auto simp: add_ac split: option.splits)
  then have "(\<Sum>kv\<leftarrow>obj_set (key x) (upd x ?old) m. f (snd kv)) = (\<Sum>kv\<leftarrow>m. f (snd kv)) + w x"
    by simp
  then show ?case using Cons.IH by (simp add: add_ac)
qed simp

section \<open>The components of the metrics\<close>

definition with_component :: "MetricData list \<Rightarrow> ((component_kind \<times> string) \<times> MetricData) list" where
  "with_component ms = concat (map (\<lambda>m. case metric_component m of None \<Rightarrow> [] | Some c \<Rightarrow> [(c, m)]) ms)"

lemma map_snd_with_component: "map snd (with_component ms) = filter (\<lambda>m. metric_component m \<noteq> None) ms"
  by (induction ms) (auto simp: with_component_def split: option.splits)

lemma filter_with_component:
  "map snd (filter (\<lambda>x. fst x = c) (with_component ms)) = filter (\<lambda>m. metric_component m = Some c) ms"
  by (induction ms) (auto simp: with_component_def split: option.splits)

lemma metric_key_inj [simp]: "metric_key c = metric_key d \<longleftrightarrow> c = d"
  by (cases c; cases d; cases "fst c"; cases "fst d") (simp_all add: metric_key_def)

lemma metric_key_name: "key_component (metric_key c) = takeWhile (\<lambda>x. x \<noteq> CHR '':'') (snd c)"
proof -
  have "\<exists>r. split_on CHR '':'' s = takeWhile (\<lambda>x. x \<noteq> CHR '':'') s # r" for s
    by (induction s) auto
  then obtain r where "split_on CHR '':'' (snd c) = takeWhile (\<lambda>x. x \<noteq> CHR '':'') (snd c) # r" by blast
  moreover have "CHR '':'' \<notin> set (kind_name (fst c))" by (cases "fst c") auto
  ultimately show ?thesis
    using split_on_append_sep [of "CHR '':''" "kind_name (fst c)" "snd c"]
    by (simp add: key_component_def metric_key_def)
qed

lemma fold_component: "foldl (\<lambda>v x. (\<lambda>(c, m) (k, ms). (k, ms @ [m])) x v) (k, b) xs = (k, b @ map snd xs)"
  by (induction xs arbitrary: b) auto

lemma componentMap_get:
  "obj_get (componentMap ms) (metric_key c) =
     (if Some c \<in> metric_component ` set ms then Some (fst c, filter (\<lambda>m. metric_component m = Some c) ms) else None)"
proof -
  let ?f = "filter (\<lambda>x. fst x = c) (with_component ms)"
  have get: "obj_get (componentMap ms) (metric_key c) =
      (case ?f of [] \<Rightarrow> None | y # ys \<Rightarrow> Some (fst (fst y), map snd (y # ys)))"
    unfolding componentMap_def with_component_def [symmetric] assoc.get_accumulate
    by (simp add: case_prod_unfold fold_component [unfolded case_prod_unfold] split: list.splits)
  have mem: "Some c \<in> metric_component ` set ms \<longleftrightarrow> map snd ?f \<noteq> []"
    unfolding filter_with_component filter_empty_conv image_iff by (metis)
  show ?thesis
  proof (cases ?f)
    case Nil
    then show ?thesis using get mem by simp
  next
    case (Cons y ys)
    then have "y \<in> set ?f" by simp
    then have "fst y = c" by simp
    then show ?thesis using get mem Cons filter_with_component [of c ms] by simp
  qed
qed

lemma componentMap_keys: "set (map fst (componentMap ms)) = metric_key ` {c. Some c \<in> metric_component ` set ms}"
  unfolding componentMap_def keys_accumulate with_component_def [symmetric]
  by (force simp: with_component_def image_iff split: option.splits)

lemma componentMap_distinct: "distinct (map fst (componentMap ms))"
  by (simp add: componentMap_def distinct_accumulate)

lemma componentMap_mem:
  "(key, k, xs) \<in> set (componentMap ms) \<longleftrightarrow>
    (\<exists>n. key = metric_key (k, n) \<and> Some (k, n) \<in> metric_component ` set ms
         \<and> xs = filter (\<lambda>m. metric_component m = Some (k, n)) ms)"
proof -
  have g: "(key, k, xs) \<in> set (componentMap ms) \<longleftrightarrow> obj_get (componentMap ms) key = Some (k, xs)"
    using map_of_eq_Some_iff [OF componentMap_distinct] by (fastforce simp: obj_get_def)
  show ?thesis
  proof
    assume a: "(key, k, xs) \<in> set (componentMap ms)"
    then have "key \<in> set (map fst (componentMap ms))" by force
    then obtain c where "key = metric_key c" unfolding componentMap_keys by blast
    then show "\<exists>n. key = metric_key (k, n) \<and> Some (k, n) \<in> metric_component ` set ms
         \<and> xs = filter (\<lambda>m. metric_component m = Some (k, n)) ms"
      using a g componentMap_get [of ms c] by (cases c) (auto split: if_splits)
  next
    assume "\<exists>n. key = metric_key (k, n) \<and> Some (k, n) \<in> metric_component ` set ms
         \<and> xs = filter (\<lambda>m. metric_component m = Some (k, n)) ms"
    then show "(key, k, xs) \<in> set (componentMap ms)" using g componentMap_get by auto
  qed
qed

text \<open>The tabs hold one card per component of the kind; its title is the name up to the first colon.\<close>

lemma components_of_mem:
  "c \<in> set (components_of k ms) \<longleftrightarrow>
    (\<exists>n. Some (k, n) \<in> metric_component ` set ms \<and> ac_name c = takeWhile (\<lambda>x. x \<noteq> CHR '':'') n
         \<and> ac_metrics c = filter (\<lambda>m. metric_component m = Some (k, n)) ms)"
  proof -
  have "c \<in> set (components_of k ms) \<longleftrightarrow>
      (\<exists>key xs. (key, k, xs) \<in> set (componentMap ms) \<and> c = \<lparr>ac_name = key_component key, ac_metrics = xs\<rparr>)"
    unfolding components_of_def by (force split: if_splits)
  also have "\<dots> \<longleftrightarrow> (\<exists>n. Some (k, n) \<in> metric_component ` set ms
      \<and> c = \<lparr>ac_name = key_component (metric_key (k, n)), ac_metrics = filter (\<lambda>m. metric_component m = Some (k, n)) ms\<rparr>)"
    unfolding componentMap_mem by blast
  also have "\<dots> \<longleftrightarrow> (\<exists>n. Some (k, n) \<in> metric_component ` set ms \<and> ac_name c = takeWhile (\<lambda>x. x \<noteq> CHR '':'') n
         \<and> ac_metrics c = filter (\<lambda>m. metric_component m = Some (k, n)) ms)"
    by (cases c) (simp add: metric_key_name)
  finally show ?thesis .
qed

definition of_kind :: "component_kind \<Rightarrow> (string \<times> component_kind \<times> MetricData list) list \<Rightarrow> agent_component list" where
  "of_kind kind es = concat (map (\<lambda>(key, k, ms). if k = kind then [\<lparr>ac_name = key_component key, ac_metrics = ms\<rparr>] else []) es)"

lemma of_kind_all:
  "mset (concat (map ac_metrics (of_kind MReceiver es @ of_kind MProcessor es @ of_kind MExporter es)))
    = (\<Sum>kv\<leftarrow>es. mset (snd (snd kv)))"
proof (induction es)
  case (Cons e es)
  obtain key k ms where [simp]: "e = (key, k, ms)" by (cases e) auto
  show ?case using Cons by (cases k) (simp_all add: of_kind_def)
qed (simp add: of_kind_def)

lemma sum_singletons: "(\<Sum>x\<leftarrow>xs. {#g x#}) = mset (map g xs)"
  by (induction xs) simp_all

text \<open>the three tabs together show every point whose name mentions a receiver, a processor or an exporter
  exactly once, and no other.\<close>

theorem metrics_grouped_once:
  "mset (concat (map ac_metrics (components_of MReceiver ms @ components_of MProcessor ms @ components_of MExporter ms)))
    = mset (filter (\<lambda>m. metric_component m \<noteq> None) ms)"
proof -
  have "(\<Sum>kv\<leftarrow>componentMap ms. mset (snd (snd kv))) = (\<Sum>x\<leftarrow>with_component ms. {#snd x#})"
    unfolding componentMap_def with_component_def [symmetric]
    by (subst sum_accumulate [where f = "\<lambda>v. mset (snd v)" and w = "\<lambda>x. {#snd x#}"]) auto
  then show ?thesis
    using of_kind_all [of "componentMap ms"] sum_singletons [of snd "with_component ms"]
    by (simp add: components_of_def of_kind_def map_snd_with_component)
qed

text \<open>two components of a kind whose names agree up to a colon are two cards with the same title.\<close>

theorem colon_names_collide:
  fixes a b :: MetricData
  assumes "metric_component a = Some (k, n @ '':'' @ u)" and "metric_component b = Some (k, n @ '':'' @ v)"
    and "u \<noteq> v" and "CHR '':'' \<notin> set n"
  shows "\<lparr>ac_name = n, ac_metrics = [a]\<rparr> \<in> set (components_of k [a, b])
         \<and> \<lparr>ac_name = n, ac_metrics = [b]\<rparr> \<in> set (components_of k [a, b])"
proof -
  have "takeWhile (\<lambda>x. x \<noteq> CHR '':'') (n @ '':'' @ w) = n" for w
    using assms(4) by (induction n) auto
  then have t: "takeWhile (\<lambda>x. x \<noteq> CHR '':'') (n @ '':'' @ u) = n" "takeWhile (\<lambda>x. x \<noteq> CHR '':'') (n @ '':'' @ v) = n"
    by blast+
  have "\<lparr>ac_name = n, ac_metrics = [a]\<rparr> \<in> set (components_of k [a, b])"
    unfolding components_of_mem by (rule exI [of _ "n @ '':'' @ u"]) (use assms(1-3) t in simp)
  moreover have "\<lparr>ac_name = n, ac_metrics = [b]\<rparr> \<in> set (components_of k [a, b])"
    unfolding components_of_mem by (rule exI [of _ "n @ '':'' @ v"]) (use assms(1-3) t in simp)
  ultimately show ?thesis by blast
qed

definition demo_metric :: "string \<Rightarrow> (string \<times> jval) list \<Rightarrow> dbl \<Rightarrow> string \<Rightarrow> MetricData" where
  "demo_metric n attrs v t = \<lparr>md_metric_name = n, md_value = v, md_timestamp = t, md_agent_id = None, md_metric_attributes = Some attrs\<rparr>"

lemma receiver_point: "v \<noteq> [] \<Longrightarrow> metric_component (demo_metric ''receiver'' [(''receiver'', JStr v)] x t) = Some (MReceiver, v)"
proof -
  have "js_includes ''receiver'' ''receiver''" unfolding js_includes_iff by (metis append_Nil append_Nil2)
  then show "v \<noteq> [] \<Longrightarrow> metric_component (demo_metric ''receiver'' [(''receiver'', JStr v)] x t) = Some (MReceiver, v)"
    by (simp add: metric_component_def demo_metric_def attribute_or_def js_or_def)
qed

lemma colon_names_collide_witness:
  "\<lparr>ac_name = ''otlp'', ac_metrics = [demo_metric ''receiver'' [(''receiver'', JStr ''otlp:1'')] (1, 0) ''t'']\<rparr>
    \<in> set (components_of MReceiver [demo_metric ''receiver'' [(''receiver'', JStr ''otlp:1'')] (1, 0) ''t'',
        demo_metric ''receiver'' [(''receiver'', JStr ''otlp:2'')] (1, 0) ''t''])"
  by (rule conjunct1, rule colon_names_collide [of _ MReceiver "''otlp''" "''1''" _ "''2''"])
    (simp_all add: receiver_point)

section \<open>The figures\<close>

lemma by_name_filter: "by_name ms n = filter (\<lambda>m. md_metric_name m = n) ms"
  proof -
  have "filter (\<lambda>m. md_metric_name m = n) ms = []" if "n \<notin> md_metric_name ` set ms"
    using that by (auto simp: filter_empty_conv)
  then show ?thesis by (simp add: by_name_def metricsByName_def group_into_get)
qed

lemma memory_mb_last:
  "memory_mb ms = (let xs = filter (\<lambda>m. md_metric_name m = ''otelcol_process_memory_rss'') ms in
     if xs = [] then None else Some (to_fixed 0 (ddiv (md_value (last xs)) (1048576, 0))))"
  by (simp add: memory_mb_def by_name_filter Let_def split: list.splits)

text \<open>a newer point appended to the answer never changes the data received, which stays at the first point of its
  name, while the memory figure is the one of the last point: for an answer in the order of time the one is the oldest and
  the other the newest value.\<close>

theorem received_ignores_newer:
  "total_received (a # ms @ [a\<lparr>md_value := v, md_timestamp := t\<rparr>]) = total_received (a # ms)
   \<and> memory_mb (ms @ [demo_metric ''otelcol_process_memory_rss'' kvs v t]) = Some (to_fixed 0 (ddiv v (1048576, 0)))"
  by (simp add: total_received_def memory_mb_last Let_def by_name_filter add_first_def demo_metric_def)
    (auto split: list.splits)

section \<open>The time series\<close>

lemma last_n_suffix: "\<exists>u. xs = u @ last_n n xs"
  unfolding last_n_def by (metis append_take_drop_id)

lemma length_last_n [simp]: "length (last_n n xs) = min n (length xs)"
  by (simp add: last_n_def min_def)

text \<open>the chart of a metric shows at most twenty points, in the order of time, and the points it leaves out are not
  newer than any it shows.\<close>

theorem time_series_newest:
  fixes ms :: "MetricData list" and getTime :: "string \<Rightarrow> int" and showTime :: "string \<Rightarrow> string"
  defines "ts \<equiv> time_series getTime showTime ms"
  shows "length ts = min 20 (length ms)
         \<and> (\<exists>older. sorted (map tp_timestamp (older @ ts))
              \<and> mset (map tp_value (older @ ts)) = mset (map md_value ms))"
proof -
  let ?f = "\<lambda>m. \<lparr>tp_time = showTime (md_timestamp m), tp_value = md_value m, tp_timestamp = getTime (md_timestamp m)\<rparr>"
  let ?s = "sort_key tp_timestamp (map ?f ms)"
  obtain older where o: "?s = older @ ts"
    using last_n_suffix [of ?s 20] by (auto simp: ts_def time_series_def)
  have "sorted (map tp_timestamp (older @ ts))" by (simp add: o [symmetric])
  moreover have "mset (map tp_value (older @ ts)) = mset (map md_value ms)"
  proof -
    have "mset (map tp_value ?s) = image_mset tp_value (mset (map ?f ms))" by simp
    also have "\<dots> = mset (map md_value ms)" by (simp add: multiset.map_comp comp_def)
    finally show ?thesis by (simp only: o)
  qed
  moreover have "length ts = min 20 (length ms)" by (simp add: ts_def time_series_def)
  ultimately show ?thesis by blast
qed

lemma latest_metric_max:
  assumes "ms \<noteq> []"
  shows "latest_metric getTime ms \<in> set ms"
    "m \<in> set ms \<Longrightarrow> getTime (md_timestamp m) \<le> getTime (md_timestamp (latest_metric getTime ms))"
proof -
  let ?k = "\<lambda>m. - getTime (md_timestamp m)"
  obtain y ys where y: "sort_key ?k ms = y # ys" using assms by (metis neq_Nil_conv set_empty set_sort)
  have s: "sorted (map ?k (y # ys))" unfolding y [symmetric] by simp
  have mem: "set (y # ys) = set ms" unfolding y [symmetric] by simp
  show "latest_metric getTime ms \<in> set ms" using y mem by (auto simp: latest_metric_def)
  show "getTime (md_timestamp m) \<le> getTime (md_timestamp (latest_metric getTime ms))" if "m \<in> set ms"
    using that s y mem by (auto simp: latest_metric_def)
qed

section \<open>The timeline\<close>

lemma chart_groups_length: "length (chart_groups showTime ms) = card ((\<lambda>m. showTime (md_timestamp m)) ` set ms)"
proof -
  have "distinct (map fst (chart_groups showTime ms))" by (simp add: chart_groups_def distinct_accumulate)
  then have "length (chart_groups showTime ms) = card (set (map fst (chart_groups showTime ms)))"
    using distinct_card by fastforce
  also have "set (map fst (chart_groups showTime ms)) = (\<lambda>m. showTime (md_timestamp m)) ` set ms"
    unfolding chart_groups_def keys_accumulate by simp
  finally show ?thesis .
qed

lemma chart_groups_sum: "(\<Sum>kv\<leftarrow>chart_groups showTime ms. ct_count (snd kv)) = length ms"
  unfolding chart_groups_def
  by (subst sum_accumulate [where f = ct_count and w = "\<lambda>_. 1"]) (simp_all add: sum_list_triv)

text \<open>the timeline has one point per time of day, at most twenty of them; its counts add up to the number of
  points in the answer minus those of the times that were dropped, so to all of them when there are at most twenty times.\<close>

theorem timeline_counts:
  "length (chartData showTime ms) = min 20 (card ((\<lambda>m. showTime (md_timestamp m)) ` set ms))
   \<and> (\<exists>dropped. (\<Sum>p\<leftarrow>dropped @ chartData showTime ms. ct_count p) = length ms
        \<and> length dropped = card ((\<lambda>m. showTime (md_timestamp m)) ` set ms) - 20)"
proof -
  let ?g = "map snd (chart_groups showTime ms)"
  obtain u where u: "?g = u @ chartData showTime ms"
    using last_n_suffix [of ?g 20] by (auto simp: chartData_def)
  have l: "length ?g = card ((\<lambda>m. showTime (md_timestamp m)) ` set ms)" by (simp add: chart_groups_length)
  have c: "length (chartData showTime ms) = min 20 (length ?g)" by (simp add: chartData_def)
  have "length u = length ?g - 20" using arg_cong [OF u, of length] c by simp
  moreover have "(\<Sum>p\<leftarrow>?g. ct_count p) = length ms" using chart_groups_sum [of showTime ms] by (simp add: comp_def)
  ultimately show ?thesis using c l u by metis
qed

end
