(* ===== verification/Telemetry_Logs.thy ===== *)
theory Telemetry_Logs
  imports Metrics_View
begin

text \<open>
  The logs of an agent or group (components/shared/TelemetryLogsView.tsx): the filters, the key of
  the cache and the query they make, and the list.  The fetcher of the cache writes the answer into
  the state of the component itself.  Dates and times are shown by parameters.
\<close>

section \<open>State and query\<close>

record LogData =
  lg_timestamp :: string
  lg_body :: string
  lg_severity_text :: "string option"
  lg_agent_id :: "string option"
  lg_log_attributes :: "(string \<times> jval) list option"

record logs_view =
  lv_logsData :: "LogData list"
  lv_severityFilter :: string
  lv_searchFilter :: string

definition logs_view_init :: logs_view where
  "logs_view_init = \<lparr>lv_logsData = [], lv_severityFilter = ''all'', lv_searchFilter = []\<rparr>"

definition logs_key :: "string option \<Rightarrow> string option \<Rightarrow> logs_view \<Rightarrow> string" where
  "logs_key agentId groupId p =
     telemetry_key ''logs'' agentId groupId @ ''-'' @ lv_severityFilter p @ ''-'' @ lv_searchFilter p"

definition logs_window :: "int \<Rightarrow> int \<times> int" where
  "logs_window now = (now - 60 * 60 * 1000, now)"

definition logs_query :: "(int \<Rightarrow> string) \<Rightarrow> int \<Rightarrow> string option \<Rightarrow> string option \<Rightarrow> logs_view \<Rightarrow> (string \<times> jval) list" where
  "logs_query toISOString now agentId groupId p =
     (case given agentId of Some a \<Rightarrow> [(''agent_id'', JStr a)] | None \<Rightarrow> [])
     @ (case given groupId of Some g \<Rightarrow> [(''group_id'', JStr g)] | None \<Rightarrow> [])
     @ (if lv_severityFilter p \<noteq> ''all'' then [(''severity'', JStr (lv_severityFilter p))] else [])
     @ (if lv_searchFilter p \<noteq> [] then [(''search'', JStr (lv_searchFilter p))] else [])
     @ [(''start_time'', JStr (toISOString (fst (logs_window now)))), (''end_time'', JStr (toISOString (snd (logs_window now)))),
        (''limit'', JNum ''100'')]"

text \<open>The fetcher stores what the query it was called for answered.\<close>

definition logs_answer :: "LogData list option \<Rightarrow> logs_view \<Rightarrow> logs_view" where
  "logs_answer result p = p\<lparr>lv_logsData := (case result of Some ls \<Rightarrow> ls | None \<Rightarrow> [])\<rparr>"

datatype logs_control = SetSeverity string | SetSearch string | ClearFilters

definition handleClearFilters :: "logs_view \<Rightarrow> logs_view" where
  "handleClearFilters p = p\<lparr>lv_severityFilter := ''all'', lv_searchFilter := []\<rparr>"

definition logs_action :: "logs_control \<Rightarrow> logs_view \<Rightarrow> logs_view" where
  "logs_action a p =
     (case a of
        SetSeverity s \<Rightarrow> p\<lparr>lv_severityFilter := s\<rparr>
      | SetSearch s \<Rightarrow> p\<lparr>lv_searchFilter := s\<rparr>
      | ClearFilters \<Rightarrow> handleClearFilters p)"

section \<open>The list\<close>

datatype severity_color = Gray | Red | Yellow | Blue

definition getSeverityColor :: "string option \<Rightarrow> severity_color" where
  "getSeverityColor sev =
     (case given sev of
        None \<Rightarrow> Gray
      | Some s \<Rightarrow>
          let u = to_upper s in
          if u = ''ERROR'' \<or> u = ''FATAL'' then Red
          else if u = ''WARN'' then Yellow
          else if u = ''INFO'' then Blue
          else Gray)"

definition color_name :: "severity_color \<Rightarrow> string" where
  "color_name c = (case c of Gray \<Rightarrow> ''gray'' | Red \<Rightarrow> ''red'' | Yellow \<Rightarrow> ''yellow'' | Blue \<Rightarrow> ''blue'')"

definition severity_badge :: "string \<Rightarrow> string \<Rightarrow> 'a view" where
  "severity_badge value label = Badge (color_name (getSeverityColor (Some value))) label"

definition getSeverityOption :: "string \<Rightarrow> string \<Rightarrow> 'a view" where
  "getSeverityOption value label = (if value = ''all'' then Txt label else severity_badge value label)"

definition hasActiveFilters :: "logs_view \<Rightarrow> bool" where
  "hasActiveFilters p = (lv_severityFilter p \<noteq> ''all'' \<or> lv_searchFilter p \<noteq> [])"

definition severity_options :: "string list" where
  "severity_options = [''all'', ''error'', ''warn'', ''info'', ''debug'']"

definition severity_select :: "logs_view \<Rightarrow> logs_control view list" where
  "severity_select p =
     [if lv_severityFilter p = ''all'' then Txt ''All Severities''
      else severity_badge (lv_severityFilter p) (lv_severityFilter p)]
     @ map (\<lambda>v. Click (SetSeverity v) [getSeverityOption v (if v = ''all'' then ''All Severities'' else v)]) severity_options"

definition log_row :: "(string \<Rightarrow> string) \<Rightarrow> bool \<Rightarrow> LogData \<Rightarrow> 'a view" where
  "log_row showStamp showAgentId lg =
     Tag ''log''
       ([Badge (color_name (getSeverityColor (lg_severity_text lg)))
           (case given (lg_severity_text lg) of Some s \<Rightarrow> s | None \<Rightarrow> ''UNKNOWN''),
         Txt (showStamp (lg_timestamp lg)), Txt (lg_body lg)]
        @ (case given (lg_agent_id lg) of Some a \<Rightarrow> only_if showAgentId [Txt (''Agent: '' @ a)] | None \<Rightarrow> [])
        @ (case lg_log_attributes lg of
             Some kvs \<Rightarrow> map (\<lambda>(k, v). Txt (k @ ''='' @ to_str v)) kvs
           | None \<Rightarrow> []))"

definition logCountText :: "logs_view \<Rightarrow> string" where
  "logCountText p =
     (if lv_logsData p \<noteq> [] then show_nat (length (lv_logsData p)) @ '' logs in last hour'' else ''No logs available'')"

definition TelemetryLogsView ::
  "(string \<Rightarrow> string) \<Rightarrow> bool \<Rightarrow> string option \<Rightarrow> string option \<Rightarrow> bool \<Rightarrow> logs_view \<Rightarrow> logs_control view list" where
  "TelemetryLogsView showStamp showAgentId agentId title isLoading p =
     (if isLoading then [Tag ''spinner'' []]
      else [Txt (case given title of Some t \<Rightarrow> t
                 | None \<Rightarrow> (if given agentId \<noteq> None then ''Agent'' else ''Group'') @ '' Logs''),
            Txt (logCountText p)]
        @ severity_select p
        @ [Input ''Search logs...'' (lv_searchFilter p) False SetSearch]
        @ only_if (hasActiveFilters p) [Button ''Clear'' False ClearFilters]
        @ map (log_row showStamp showAgentId) (lv_logsData p)
        @ only_if (lv_logsData p = []) [Txt ''No logs available''])"

section \<open>Filters, keys and answers\<close>

lemma logs_presses:
  "presses (TelemetryLogsView showStamp showAgentId agentId title False p) =
     map SetSeverity severity_options @ (if hasActiveFilters p then [ClearFilters] else [])"
proof -
  have "presses (map (log_row showStamp showAgentId) ls) = ([] :: logs_control list)" for ls
  proof -
    have "presses (map (\<lambda>(k, v). Txt (k @ ''='' @ to_str v)) kvs) = ([] :: logs_control list)" for kvs
      by (induction kvs) auto
    then have "pressable (log_row showStamp showAgentId l) = ([] :: logs_control list)" for l
      by (auto simp: log_row_def split: option.splits)
    then show ?thesis by (induction ls) simp_all
  qed
  then show ?thesis
    by (simp add: TelemetryLogsView_def severity_select_def severity_options_def severity_badge_def getSeverityOption_def)
qed

definition selectable :: "logs_view \<Rightarrow> bool" where
  "selectable p = (lv_severityFilter p \<in> set severity_options)"

lemma selectable_step:
  "selectable p \<Longrightarrow> a \<in> set (presses (TelemetryLogsView st sa ag ti False p)) \<or> (\<exists>s. a = SetSearch s)
    \<Longrightarrow> selectable (logs_action a p)"
  by (auto simp: logs_presses selectable_def logs_action_def handleClearFilters_def severity_options_def
      split: if_splits)

lemma severity_no_dash: "selectable p \<Longrightarrow> CHR ''-'' \<notin> set (lv_severityFilter p)"
  by (auto simp: selectable_def severity_options_def)

text \<open>for one agent or group two filters share a key of the cache only when they are the same filter, so no
  answer is stored under the key of another filter.\<close>

theorem logs_key_injective:
  assumes "selectable p" and "selectable q"
  shows "logs_key agentId groupId p = logs_key agentId groupId q
    \<longleftrightarrow> lv_severityFilter p = lv_severityFilter q \<and> lv_searchFilter p = lv_searchFilter q"
  using append_sep_inj [OF severity_no_dash [OF assms(1)] severity_no_dash [OF assms(2)]] by (simp add: logs_key_def)

lemma logs_key_injective_witness:
  "logs_key (Some ''a'') None logs_view_init \<noteq> logs_key (Some ''a'') None (logs_view_init\<lparr>lv_severityFilter := ''error''\<rparr>)"
  using logs_key_injective [of logs_view_init "logs_view_init\<lparr>lv_severityFilter := ''error''\<rparr>"]
  by (simp add: selectable_def severity_options_def logs_view_init_def)

text \<open>the button that clears the filters is there exactly when the query is filtered, and the query after pressing
  it is the one of the component's first request.\<close>

theorem clear_restores_query:
  "(ClearFilters \<in> set (presses (TelemetryLogsView st sa agentId ti False p))
      \<longleftrightarrow> logs_query toISO now agentId groupId p \<noteq> logs_query toISO now agentId groupId logs_view_init)
   \<and> logs_query toISO now agentId groupId (logs_action ClearFilters p) = logs_query toISO now agentId groupId logs_view_init"
  by (auto simp: logs_presses hasActiveFilters_def logs_query_def logs_view_init_def logs_action_def handleClearFilters_def
      severity_options_def split: option.splits)

text \<open>The list is the last answer that came, whatever filter it was asked for.\<close>

datatype logs_event = Act logs_control | LogsAnswer "LogData list option"

definition logs_step :: "logs_view \<Rightarrow> logs_event \<Rightarrow> logs_view" where
  "logs_step p ev = (case ev of Act a \<Rightarrow> logs_action a p | LogsAnswer r \<Rightarrow> logs_answer r p)"

lemma logs_action_keeps [simp]: "lv_logsData (logs_action a p) = lv_logsData p"
  by (simp add: logs_action_def handleClearFilters_def split: logs_control.splits)

fun log_answers :: "logs_event list \<Rightarrow> LogData list list" where
  "log_answers [] = []"
| "log_answers (Act a # evs) = log_answers evs"
| "log_answers (LogsAnswer r # evs) = (case r of Some ls \<Rightarrow> ls | None \<Rightarrow> []) # log_answers evs"

lemma logs_step_simps [simp]:
  "logs_step p (Act a) = logs_action a p" "logs_step p (LogsAnswer r) = logs_answer r p"
  by (simp_all add: logs_step_def)

lemma logs_last_answer: "lv_logsData (foldl logs_step p evs) = last (lv_logsData p # log_answers evs)"
  by (induction evs arbitrary: p rule: log_answers.induct) (simp_all add: logs_answer_def)

text \<open>whatever was pressed and answered before, the list shows the answer that came last and no other: an answer to the
  filter that was left stays on the screen beside the new filter when it arrives after the answer to that one.\<close>

theorem late_logs_stay:
  fixes evs p s new late
  defines "q \<equiv> foldl logs_step p (evs @ [Act (SetSeverity s), LogsAnswer (Some new), LogsAnswer (Some late)])"
  shows "lv_severityFilter q = s \<and> lv_logsData q = late"
  unfolding q_def by (simp add: logs_answer_def logs_action_def)

end
