(* ===== verification/Query_Lab.thy ===== *)
theory Query_Lab
  imports Metrics_View Api_Client
begin

text \<open>
  The query page: the hooks of hooks/useLawrenceQL.ts and the components in components/lawrence-ql.
  The interface they call (api/lawrence-ql.ts) is a stub in this version; its answers are arguments.
  \<open>showTime\<close>, \<open>showStamp\<close>, \<open>showNumber\<close> (the local forms), \<open>parseFloat\<close> (None is NaN, otherwise the text
  of the number) and \<open>stringify\<close> are parameters.  JSON in the local storage is kept as its value.
  Categories named like a property of \<open>Object.prototype\<close> or like an array index are outside the model.
\<close>

section \<open>Queries\<close>

record QueryResult =
  qr_type :: string
  qr_labels :: "(string \<times> string) list option"
  qr_data :: jval
  qr_value :: jval
  qr_timestamp :: string

record LawrenceQLResponse =
  lr_results :: "QueryResult list"
  lr_execution_time :: int
  lr_row_count :: int
  lr_query_type :: string

record QueryHistoryItem =
  qh_query :: string
  qh_timestamp :: int
  qh_executionTime :: "int option"
  qh_rowCount :: "int option"

record lawrence_ql =
  ql_query :: string
  ql_isExecuting :: bool
  ql_results :: "LawrenceQLResponse option"
  ql_error :: "string option"
  ql_history :: "QueryHistoryItem list"

definition lawrence_ql_init :: lawrence_ql where
  "lawrence_ql_init = \<lparr>ql_query = [], ql_isExecuting = False, ql_results = None, ql_error = None, ql_history = []\<rparr>"

text \<open>\<open>execute\<close> up to its await: the query that is sent, if one is.\<close>

definition execute_start :: "string option \<Rightarrow> lawrence_ql \<Rightarrow> lawrence_ql \<times> string option" where
  "execute_start customQuery st =
     (let queryToExecute = (case given customQuery of Some q \<Rightarrow> q | None \<Rightarrow> ql_query st) in
      if js_trim queryToExecute = [] then (st\<lparr>ql_error := Some ''Query cannot be empty''\<rparr>, None)
      else (st\<lparr>ql_isExecuting := True, ql_error := None\<rparr>, Some queryToExecute))"

text \<open>After the await; a rejection carries the message of its \<open>Error\<close>, if it is one.\<close>

definition execute_finish ::
  "int \<Rightarrow> string \<Rightarrow> string option + LawrenceQLResponse \<Rightarrow> lawrence_ql \<Rightarrow> lawrence_ql" where
  "execute_finish now q answer st =
     (case answer of
        Inr response \<Rightarrow>
          st\<lparr>ql_results := Some response,
             ql_history := \<lparr>qh_query = q, qh_timestamp = now, qh_executionTime = Some (lr_execution_time response),
                            qh_rowCount = Some (lr_row_count response)\<rparr> # take 49 (ql_history st),
             ql_isExecuting := False\<rparr>
      | Inl err \<Rightarrow>
          st\<lparr>ql_error := Some (case err of Some m \<Rightarrow> m | None \<Rightarrow> ''Failed to execute query''),
             ql_results := None, ql_isExecuting := False\<rparr>)"

record query_check =
  qc_valid :: bool
  qc_error :: "string option"

definition validate :: "(string \<Rightarrow> string option + query_check) \<Rightarrow> string option \<Rightarrow> lawrence_ql \<Rightarrow> query_check" where
  "validate validateQuery queryToValidate st =
     (let q = (case given queryToValidate of Some q \<Rightarrow> q | None \<Rightarrow> ql_query st) in
      if js_trim q = [] then \<lparr>qc_valid = False, qc_error = Some ''Query cannot be empty''\<rparr>
      else (case validateQuery q of
              Inr r \<Rightarrow> r
            | Inl err \<Rightarrow> \<lparr>qc_valid = False, qc_error = Some (case err of Some m \<Rightarrow> m | None \<Rightarrow> ''Validation failed'')\<rparr>))"

definition getSuggestions ::
  "(string \<Rightarrow> int \<Rightarrow> string option + string list) \<Rightarrow> int \<Rightarrow> string option \<Rightarrow> lawrence_ql \<Rightarrow> string list" where
  "getSuggestions getQuerySuggestions cursorPos customQuery st =
     (case getQuerySuggestions (case given customQuery of Some q \<Rightarrow> q | None \<Rightarrow> ql_query st) cursorPos of
        Inr ss \<Rightarrow> ss | Inl e \<Rightarrow> [])"

definition clearResults :: "lawrence_ql \<Rightarrow> lawrence_ql" where
  "clearResults st = st\<lparr>ql_results := None, ql_error := None\<rparr>"

definition clearHistory :: "lawrence_ql \<Rightarrow> lawrence_ql" where
  "clearHistory st = st\<lparr>ql_history := []\<rparr>"

section \<open>Saved queries\<close>

record QueryTemplate =
  qt_id :: string
  qt_name :: string
  qt_description :: string
  qt_query :: string
  qt_category :: "string option"

definition encode_template :: "QueryTemplate \<Rightarrow> jval" where
  "encode_template t =
     JObj ([(''id'', JStr (qt_id t)), (''name'', JStr (qt_name t)), (''description'', JStr (qt_description t)),
            (''query'', JStr (qt_query t))] @ (case qt_category t of Some c \<Rightarrow> [(''category'', JStr c)] | None \<Rightarrow> []))"

record saved_queries =
  sq_savedQueries :: "jval list"
  sq_storage :: "jval option"

text \<open>The initial state reads the storage, an array this hook wrote.\<close>

definition saved_queries_init :: "jval option \<Rightarrow> saved_queries" where
  "saved_queries_init storage =
     \<lparr>sq_savedQueries = (case storage of Some (JArr qs) \<Rightarrow> qs | _ \<Rightarrow> []), sq_storage = storage\<rparr>"

definition store_queries :: "jval list \<Rightarrow> saved_queries \<Rightarrow> saved_queries" where
  "store_queries updated s = s\<lparr>sq_savedQueries := updated, sq_storage := Some (JArr updated)\<rparr>"

definition saveQuery :: "int \<Rightarrow> string \<Rightarrow> string \<Rightarrow> string option \<Rightarrow> saved_queries \<Rightarrow> saved_queries" where
  "saveQuery now q name description s =
     store_queries
       (sq_savedQueries s
        @ [encode_template \<lparr>qt_id = show_int now, qt_name = name,
             qt_description = (case description of Some d \<Rightarrow> d | None \<Rightarrow> []), qt_query = q, qt_category = Some ''saved''\<rparr>]) s"

definition deleteQuery :: "string \<Rightarrow> saved_queries \<Rightarrow> saved_queries" where
  "deleteQuery ident s =
     store_queries (filter (\<lambda>q. own_prop (js_entries q) ''id'' \<noteq> JStr ident) (sq_savedQueries s)) s"

section \<open>The page\<close>

datatype lab_tab = QueryTab | TemplatesTab | HistoryTab

datatype lab_action =
    ShowTab lab_tab | TypeQuery string | Execute | ClearResults | SelectQuery string

text \<open>\<open>handleTemplateSelect\<close> and \<open>handleHistorySelect\<close>\<close>

definition select_query :: "string \<Rightarrow> lab_tab \<times> lawrence_ql \<Rightarrow> lab_tab \<times> lawrence_ql" where
  "select_query q ts = (QueryTab, (snd ts)\<lparr>ql_query := q\<rparr>)"

text \<open>The key handler of the text area; the button has its own condition.\<close>

definition query_shortcut :: "bool \<Rightarrow> string \<Rightarrow> lab_action option" where
  "query_shortcut metaOrCtrl key = (if metaOrCtrl \<and> key = ''Enter'' then Some Execute else None)"

definition query_category :: "QueryTemplate \<Rightarrow> string" where
  "query_category t = (case given (qt_category t) of Some c \<Rightarrow> c | None \<Rightarrow> ''general'')"

definition template_card :: "QueryTemplate \<Rightarrow> lab_action view" where
  "template_card t =
     Tag ''card'' [Txt (qt_name t), Badge ''outline'' (case qt_category t of Some c \<Rightarrow> c | None \<Rightarrow> []), Txt (qt_description t),
       Txt (qt_query t), Button ''Play'' False (SelectQuery (qt_query t))]"

definition QueryTemplates :: "QueryTemplate list \<Rightarrow> lab_action view list" where
  "QueryTemplates templates =
     map (\<lambda>(category, ts). Tag ''category'' (Txt category # map template_card ts)) (group_into query_category templates)"

definition millis :: "int \<Rightarrow> string" where
  "millis t = to_fixed 2 (ddiv (dbl_of_int t) (1000000, 0)) @ ''ms''"

definition history_card :: "(int \<Rightarrow> string) \<Rightarrow> QueryHistoryItem \<Rightarrow> lab_action view" where
  "history_card showStamp h =
     Tag ''card''
       ([Txt (showStamp (qh_timestamp h))]
        @ (case qh_executionTime h of Some t \<Rightarrow> [Badge ''outline'' (millis t)] | None \<Rightarrow> [])
        @ (case qh_rowCount h of Some n \<Rightarrow> [Badge ''outline'' (show_int n @ '' results'')] | None \<Rightarrow> [])
        @ [Txt (qh_query h), Button ''Play'' False (SelectQuery (qh_query h))])"

definition QueryHistory :: "(int \<Rightarrow> string) \<Rightarrow> QueryHistoryItem list \<Rightarrow> lab_action view list" where
  "QueryHistory showStamp hist =
     (if hist = [] then [Txt ''No query history yet'', Txt ''Execute queries to see them here'']
      else map (history_card showStamp) hist)"

definition LawrenceQLInterface ::
  "(int \<Rightarrow> string) \<Rightarrow> QueryTemplate list \<Rightarrow> lab_tab \<Rightarrow> lawrence_ql \<Rightarrow> lab_action view list" where
  "LawrenceQLInterface showStamp templates activeTab st =
     [Click (ShowTab QueryTab) [Txt ''Query''], Click (ShowTab TemplatesTab) [Txt ''Templates''],
      Click (ShowTab HistoryTab) [Txt ''History'']]
     @ (case activeTab of
          QueryTab \<Rightarrow>
            [Input ''Lawrence QL Query'' (ql_query st) False TypeQuery,
             Button (if ql_isExecuting st then ''Executing...'' else ''Execute Query'')
               (ql_isExecuting st \<or> js_trim (ql_query st) = []) Execute,
             Button ''Clear Results'' (ql_results st = None \<and> given (ql_error st) = None) ClearResults]
            @ (case given (ql_error st) of Some e \<Rightarrow> [Alert ''destructive'' e] | None \<Rightarrow> [])
            @ (case ql_results st of Some r \<Rightarrow> [Tag ''results'' []] | None \<Rightarrow> [])
        | TemplatesTab \<Rightarrow> QueryTemplates templates
        | HistoryTab \<Rightarrow> QueryHistory showStamp (ql_history st))"

section \<open>Runs of the page\<close>

text \<open>
  The queries that are sent and not answered yet are part of the state; answers come in any order.
  The button is pressed only when it is enabled, the shortcut at any time.
\<close>

record lab =
  lab_ql :: lawrence_ql
  lab_tab :: lab_tab
  lab_pending :: "string list"

definition lab_init :: lab where
  "lab_init = \<lparr>lab_ql = lawrence_ql_init, lab_tab = QueryTab, lab_pending = []\<rparr>"

datatype lab_event =
    PressExecute
  | Shortcut
  | QueryAnswer nat int "string option + LawrenceQLResponse"
  | PressClear
  | Type string
  | Select string
  | Show lab_tab

definition start_query :: "lab \<Rightarrow> lab" where
  "start_query s =
     (case execute_start None (lab_ql s) of
        (st, None) \<Rightarrow> s\<lparr>lab_ql := st\<rparr>
      | (st, Some q) \<Rightarrow> s\<lparr>lab_ql := st, lab_pending := lab_pending s @ [q]\<rparr>)"

definition can_execute :: "lab \<Rightarrow> bool" where
  "can_execute s = (Execute \<in> set (presses (LawrenceQLInterface (\<lambda>_. []) [] (lab_tab s) (lab_ql s))))"

definition lab_step :: "lab_event \<Rightarrow> lab \<Rightarrow> lab" where
  "lab_step ev s =
     (case ev of
        PressExecute \<Rightarrow> if can_execute s then start_query s else s
      | Shortcut \<Rightarrow> if lab_tab s = QueryTab then start_query s else s
      | QueryAnswer i now answer \<Rightarrow>
          if i < length (lab_pending s)
          then s\<lparr>lab_ql := execute_finish now (lab_pending s ! i) answer (lab_ql s),
                 lab_pending := take i (lab_pending s) @ drop (Suc i) (lab_pending s)\<rparr>
          else s
      | PressClear \<Rightarrow> s\<lparr>lab_ql := clearResults (lab_ql s)\<rparr>
      | Type q \<Rightarrow> s\<lparr>lab_ql := (lab_ql s)\<lparr>ql_query := q\<rparr>\<rparr>
      | Select q \<Rightarrow> s\<lparr>lab_tab := fst (select_query q (lab_tab s, lab_ql s)), lab_ql := snd (select_query q (lab_tab s, lab_ql s))\<rparr>
      | Show t \<Rightarrow> s\<lparr>lab_tab := t\<rparr>)"

definition lab_run :: "lab_event list \<Rightarrow> lab" where
  "lab_run evs = foldl (\<lambda>s ev. lab_step ev s) lab_init evs"

lemma presses_history: "presses (map (history_card showStamp) hs) = map (\<lambda>h. SelectQuery (qh_query h)) hs"
  by (induction hs) (auto simp: history_card_def split: option.splits)

lemma can_execute_iff:
  "can_execute s \<longleftrightarrow> lab_tab s = QueryTab \<and> \<not> ql_isExecuting (lab_ql s) \<and> js_trim (ql_query (lab_ql s)) \<noteq> []"
  by (cases "lab_tab s")
    (auto simp: can_execute_def LawrenceQLInterface_def QueryTemplates_def QueryHistory_def group_into_def presses_history
      split: option.splits)

section \<open>The history\<close>

definition asked :: "string \<Rightarrow> bool" where
  "asked q = (js_trim q \<noteq> [])"

definition history_ok :: "lab \<Rightarrow> bool" where
  "history_ok s =
     (length (ql_history (lab_ql s)) \<le> 50 \<and> list_all (\<lambda>h. asked (qh_query h)) (ql_history (lab_ql s))
      \<and> list_all asked (lab_pending s))"

lemma start_query_ok: "history_ok s \<Longrightarrow> history_ok (start_query s)"
  by (simp add: history_ok_def start_query_def execute_start_def Let_def asked_def split: option.splits)

lemma finish_ok:
  assumes "history_ok s" and "i < length (lab_pending s)"
  shows "history_ok (s\<lparr>lab_ql := execute_finish now (lab_pending s ! i) answer (lab_ql s),
                 lab_pending := take i (lab_pending s) @ drop (Suc i) (lab_pending s)\<rparr>)"
proof -
  have p: "list_all asked (take i (lab_pending s) @ drop (Suc i) (lab_pending s))" "asked (lab_pending s ! i)"
    using assms by (auto simp: history_ok_def list_all_iff dest: in_set_takeD in_set_dropD)
  show ?thesis using assms(1) p
    by (auto simp: history_ok_def execute_finish_def list_all_iff split: sum.splits dest: in_set_takeD)
qed

lemma lab_step_ok: "history_ok s \<Longrightarrow> history_ok (lab_step ev s)"
  using start_query_ok [of s] finish_ok [of s]
  by (cases ev) (auto simp: lab_step_def history_ok_def clearResults_def select_query_def)

text \<open>in every run of the page the history holds at most fifty entries and no blank query, and no blank query is
  ever sent.\<close>

theorem history_bounded: "history_ok (lab_run evs)"
proof -
  have "history_ok s \<Longrightarrow> history_ok (foldl (\<lambda>s ev. lab_step ev s) s evs)" for s
    by (induction evs arbitrary: s) (simp_all add: lab_step_ok)
  then show ?thesis by (simp add: lab_run_def history_ok_def lab_init_def lawrence_ql_init_def)
qed

section \<open>Overlapping queries\<close>

text \<open>The pending queries that the button alone can start.\<close>

definition one_query :: "lab \<Rightarrow> bool" where
  "one_query s \<longleftrightarrow> length (lab_pending s) \<le> 1 \<and> (ql_isExecuting (lab_ql s) \<longleftrightarrow> lab_pending s \<noteq> [])"

lemma one_query_step: "one_query s \<Longrightarrow> ev \<noteq> Shortcut \<Longrightarrow> one_query (lab_step ev s)"
  by (cases ev)
    (auto simp: lab_step_def one_query_def can_execute_iff start_query_def execute_start_def Let_def execute_finish_def
      clearResults_def select_query_def given_def split: option.splits sum.splits list.splits)

text \<open>C22: without the shortcut at most one query is in flight and the page knows whether one is; with it, while a query
  is in flight the button is disabled but the shortcut sends the query once more, and the answer to one of
  the two makes the page idle while the other is still on its way.\<close>

theorem shortcut_overlaps:
  assumes "asked q"
  shows "(Shortcut \<notin> set evs \<longrightarrow> one_query (lab_run evs))
   \<and> \<not> can_execute (lab_run [Type q, PressExecute])
   \<and> lab_pending (lab_run [Type q, PressExecute, Shortcut]) = [q, q]
   \<and> \<not> one_query (lab_run [Type q, PressExecute, Shortcut, QueryAnswer 0 now answer])"
proof -
  have "one_query s \<Longrightarrow> Shortcut \<notin> set evs \<Longrightarrow> one_query (foldl (\<lambda>s ev. lab_step ev s) s evs)" for s
    by (induction evs arbitrary: s) (auto simp: one_query_step)
  then have "Shortcut \<notin> set evs \<longrightarrow> one_query (lab_run evs)"
    by (simp add: lab_run_def one_query_def lab_init_def lawrence_ql_init_def)
  moreover have "\<not> can_execute (lab_run [Type q, PressExecute])"
    "lab_pending (lab_run [Type q, PressExecute, Shortcut]) = [q, q]"
    "\<not> one_query (lab_run [Type q, PressExecute, Shortcut, QueryAnswer 0 now answer])"
    using assms
    by (simp_all add: lab_run_def lab_step_def can_execute_iff lab_init_def lawrence_ql_init_def start_query_def
        execute_start_def Let_def asked_def one_query_def execute_finish_def split: sum.splits)
  ultimately show ?thesis by blast
qed

lemma shortcut_overlaps_witness:
  "lab_pending (lab_run [Type ''m'', PressExecute, Shortcut]) = [''m'', ''m'']"
  using shortcut_overlaps [of "''m''"] by (simp add: asked_def js_trim_Nil_iff js_ws_def)

section \<open>Saved queries\<close>

definition saved_step :: "(int \<times> string \<times> string \<times> string option) + string \<Rightarrow> saved_queries \<Rightarrow> saved_queries" where
  "saved_step op1 s =
     (case op1 of Inl (now, q, name, d) \<Rightarrow> saveQuery now q name d s | Inr ident \<Rightarrow> deleteQuery ident s)"

text \<open>after any saves and deletions a page that is opened on the same storage starts with exactly the queries this
  one shows.\<close>

theorem saved_queries_reload:
  "sq_savedQueries (saved_queries_init (sq_storage (foldl (\<lambda>s op1. saved_step op1 s) (saved_queries_init stored) ops)))
    = sq_savedQueries (foldl (\<lambda>s op1. saved_step op1 s) (saved_queries_init stored) ops)"
proof (induction ops rule: rev_induct)
  case (snoc op1 ops)
  then show ?case
    by (simp add: saved_step_def saveQuery_def deleteQuery_def store_queries_def saved_queries_init_def split: sum.splits)
qed (simp add: saved_queries_init_def)

text \<open>Deleting removes the query that was saved, and with it every other one that was saved in the same millisecond.\<close>

lemma delete_after_save:
  "sq_savedQueries (deleteQuery (show_int now) (saveQuery now q n d s)) = sq_savedQueries (deleteQuery (show_int now) s)"
  by (simp add: deleteQuery_def saveQuery_def store_queries_def encode_template_def)

end
