(* ===== verification/Query_Results.thy ===== *)
theory Query_Results
  imports Query_Lab
begin

text \<open>
  The answer of a query: the table (components/lawrence-ql/QueryResults.tsx) and the chart
  (QueryResultsChart.tsx).  A chart is its data, its series and their colours.
\<close>

section \<open>The chart\<close>

definition label_text :: "string \<times> string \<Rightarrow> string" where
  "label_text kv = fst kv @ ''='' @ snd kv"

definition series_key :: "QueryResult \<Rightarrow> string" where
  "series_key r =
     (case qr_labels r of
        None \<Rightarrow> ''value''
      | Some labels \<Rightarrow> (case join_with '','' (map label_text labels) of [] \<Rightarrow> ''value'' | t \<Rightarrow> t))"

definition numeric_value :: "(string \<Rightarrow> string option) \<Rightarrow> jval \<Rightarrow> jval" where
  "numeric_value parseFloat v =
     (case v of
        JNum n \<Rightarrow> JNum n
      | _ \<Rightarrow> (case parseFloat (to_str v) of Some n \<Rightarrow> js_or (JNum n) (JNum ''0'') | None \<Rightarrow> JNum ''0''))"

definition query_chart_map ::
  "(string \<Rightarrow> string) \<Rightarrow> (string \<Rightarrow> string option) \<Rightarrow> QueryResult list \<Rightarrow> (string \<times> jval obj) list" where
  "query_chart_map showTime parseFloat results =
     accumulate obj_get obj_set (\<lambda>r. showTime (qr_timestamp r))
       (\<lambda>r. [(''timestamp'', JStr (showTime (qr_timestamp r)))])
       (\<lambda>r p. obj_set (series_key r) (numeric_value parseFloat (qr_value r)) p) [] results"

definition query_chart_data ::
  "(string \<Rightarrow> string) \<Rightarrow> (string \<Rightarrow> string option) \<Rightarrow> QueryResult list \<Rightarrow> jval obj list" where
  "query_chart_data showTime parseFloat results = map snd (query_chart_map showTime parseFloat results)"

datatype chart_type = LineType | BarType | AreaType

definition resolvedChartType :: "chart_type option \<Rightarrow> 'v list \<Rightarrow> chart_type" where
  "resolvedChartType chartType chart =
     (case chartType of Some t \<Rightarrow> t | None \<Rightarrow> if 1 < length chart then LineType else BarType)"

definition seriesKeys :: "jval obj list \<Rightarrow> string list" where
  "seriesKeys chart = (case chart of [] \<Rightarrow> [] | p # _ \<Rightarrow> filter (\<lambda>k. k \<noteq> ''timestamp'') (map fst p))"

definition chart_colors :: "string list" where
  "chart_colors = [''#3b82f6'', ''#10b981'', ''#f59e0b'', ''#ef4444'', ''#8b5cf6'', ''#ec4899'', ''#06b6d4'', ''#84cc16'']"

definition chart_series :: "jval obj list \<Rightarrow> (string \<times> string) list" where
  "chart_series chart =
     map (\<lambda>(idx, key). (key, chart_colors ! (idx mod length chart_colors)))
       (zip [0..<length (seriesKeys chart)] (seriesKeys chart))"

definition type_name :: "chart_type \<Rightarrow> string" where
  "type_name t = (case t of LineType \<Rightarrow> ''line'' | BarType \<Rightarrow> ''bar'' | AreaType \<Rightarrow> ''area'')"

definition renderChart :: "chart_type \<Rightarrow> jval obj list \<Rightarrow> 'a view" where
  "renderChart t chart =
     Tag (type_name t)
       (map (\<lambda>p. Tag ''point'' (map (\<lambda>(k, v). Txt (k @ '': '' @ to_str v)) p)) chart
        @ map (\<lambda>(k, c). Badge c k) (chart_series chart))"

definition QueryResultsChart ::
  "(string \<Rightarrow> string) \<Rightarrow> (string \<Rightarrow> string option) \<Rightarrow> chart_type option \<Rightarrow> QueryResult list \<Rightarrow> 'a view list" where
  "QueryResultsChart showTime parseFloat chartType results =
     (let chart = query_chart_data showTime parseFloat results; t = resolvedChartType chartType chart in
      if chart = [] \<or> seriesKeys chart = [] then []
      else [Tag (type_name t) [], Txt ''Visualization'',
            Badge ''outline'' (show_nat (length (seriesKeys chart)) @ '' series''),
            Badge ''outline'' (type_name t @ '' chart''), renderChart t chart])"

section \<open>The table\<close>

datatype results_view = ChartView | TableView

datatype results_control = ShowResults results_view | ToggleRow nat

record results_state =
  rs_activeView :: results_view
  rs_expandedRows :: "nat list"

definition results_init :: results_state where
  "results_init = \<lparr>rs_activeView = ChartView, rs_expandedRows = []\<rparr>"

definition toggleRowExpansion :: "nat \<Rightarrow> results_state \<Rightarrow> results_state" where
  "toggleRowExpansion idx p =
     p\<lparr>rs_expandedRows := (if idx \<in> set (rs_expandedRows p) then filter (\<lambda>i. i \<noteq> idx) (rs_expandedRows p)
                           else rs_expandedRows p @ [idx])\<rparr>"

definition results_action :: "results_control \<Rightarrow> results_state \<Rightarrow> results_state" where
  "results_action a p = (case a of ShowResults v \<Rightarrow> p\<lparr>rs_activeView := v\<rparr> | ToggleRow i \<Rightarrow> toggleRowExpansion i p)"

definition canShowChart :: "QueryResult list \<Rightarrow> bool" where
  "canShowChart rs = (case rs of [] \<Rightarrow> False | r # _ \<Rightarrow> qr_type r = ''metrics'')"

definition typeBadgeVariant :: "string \<Rightarrow> string" where
  "typeBadgeVariant ty =
     (if ty = ''metrics'' then ''default'' else if ty = ''logs'' then ''secondary'' else ''outline'')"

definition formatValue :: "(string \<Rightarrow> string) \<Rightarrow> (jval \<Rightarrow> string) \<Rightarrow> jval \<Rightarrow> string" where
  "formatValue showNumber stringify v =
     (case v of
        JNum n \<Rightarrow> showNumber n
      | _ \<Rightarrow> if typeof_object v then stringify v else to_str v)"

definition label_of :: "QueryResult \<Rightarrow> string \<Rightarrow> jval" where
  "label_of r k = (case qr_labels r of None \<Rightarrow> JUndef | Some kvs \<Rightarrow> (case map_of kvs k of Some v \<Rightarrow> JStr v | None \<Rightarrow> JUndef))"

definition result_name :: "QueryResult \<Rightarrow> string" where
  "result_name r =
     to_str (js_or (label_of r ''__name__'') (js_or (label_of r ''name'')
       (js_or (case opt_prop (qr_data r) ''name'' of Inr v \<Rightarrow> v | Inl e \<Rightarrow> JUndef)
          (JStr (if qr_type r = ''metrics'' then ''metric'' else if qr_type r = ''logs'' then ''log'' else ''trace'')))))"

definition otherLabels :: "QueryResult \<Rightarrow> (string \<times> string) list" where
  "otherLabels r =
     filter (\<lambda>(k, v). k \<noteq> ''__name__'' \<and> k \<noteq> ''name'') (case qr_labels r of Some kvs \<Rightarrow> kvs | None \<Rightarrow> [])"

definition short_value :: "string \<Rightarrow> string" where
  "short_value v = (if 20 < length v then take 20 v @ ''...'' else v)"

definition shown_labels :: "bool \<Rightarrow> QueryResult \<Rightarrow> (string \<times> string) list" where
  "shown_labels isExpanded r = (if isExpanded then otherLabels r else take 3 (otherLabels r))"

definition result_row ::
  "(string \<Rightarrow> string) \<Rightarrow> (string \<Rightarrow> string) \<Rightarrow> (jval \<Rightarrow> string) \<Rightarrow> results_state \<Rightarrow> nat \<times> QueryResult \<Rightarrow> results_control view list" where
  "result_row showStamp showNumber stringify p ir =
     (let (idx, r) = ir; others = otherLabels r; isExpanded = (idx \<in> set (rs_expandedRows p));
          valueStr = formatValue showNumber stringify (qr_value r); hasLongValue = (50 < length valueStr);
          shouldShowExpand = (hasLongValue \<or> 3 < length others \<or> truthy (qr_data r)) in
      [Tag ''tr''
         (only_if shouldShowExpand [Button (if isExpanded then ''ChevronDown'' else ''ChevronRight'') False (ToggleRow idx)]
          @ [Badge (typeBadgeVariant (qr_type r)) (qr_type r), Txt (result_name r), Txt (showStamp (qr_timestamp r)), Txt valueStr]
          @ map (\<lambda>(k, v). Badge ''secondary'' (k @ ''='' @ short_value v)) (shown_labels isExpanded r)
          @ only_if (\<not> isExpanded \<and> 3 < length others)
              [Badge ''outline'' (''+'' @ show_nat (length others - 3) @ '' more'')])]
      @ only_if isExpanded
          [Tag ''tr''
            (only_if hasLongValue [Txt ''Full Value'', Txt valueStr]
             @ only_if (others \<noteq> [])
                 (Txt (''All Labels ('' @ show_nat (length others) @ '')'')
                  # map (\<lambda>(k, v). Badge ''secondary'' (k @ ''='' @ v)) others)
             @ only_if (truthy (qr_data r)) [Txt ''Additional Data'', Txt (stringify (qr_data r))])])"

definition QueryResults_view ::
  "(string \<Rightarrow> string) \<Rightarrow> (string \<Rightarrow> string) \<Rightarrow> (string \<Rightarrow> string) \<Rightarrow> (string \<Rightarrow> string option) \<Rightarrow> (jval \<Rightarrow> string) \<Rightarrow>
   LawrenceQLResponse \<Rightarrow> results_state \<Rightarrow> results_control view list" where
  "QueryResults_view showTime showStamp showNumber parseFloat stringify res p =
     (let rs = lr_results res in
      [Txt (show_int (lr_row_count res)), Txt ''results'', Txt (millis (lr_execution_time res)), Txt ''execution time'',
       Badge ''outline'' (lr_query_type res)]
      @ only_if (canShowChart rs) [Button ''LineChart'' False (ShowResults ChartView), Button ''TableIcon'' False (ShowResults TableView)]
      @ only_if (canShowChart rs \<and> rs_activeView p = ChartView) (QueryResultsChart showTime parseFloat None rs)
      @ only_if (\<not> canShowChart rs \<or> rs_activeView p = TableView)
          [Tag ''table'' (map Txt [[], ''Type'', ''Name'', ''Timestamp'', ''Value'', ''Labels'']
             @ concat (map (result_row showStamp showNumber stringify p) (zip [0..<length rs] rs)))])"

section \<open>What the chart draws\<close>

lemma obj_set_hd: "m \<noteq> [] \<Longrightarrow> obj_set k v m \<noteq> [] \<and> fst (hd (obj_set k v m)) = fst (hd m)"
  by (cases m) (auto split: if_splits)

lemma accumulate_hd:
  "m \<noteq> [] \<Longrightarrow> accumulate obj_get obj_set key init upd m xs \<noteq> []
     \<and> fst (hd (accumulate obj_get obj_set key init upd m xs)) = fst (hd m)"
  by (induction xs arbitrary: m) (auto simp: obj_set_hd)

lemma keys_fold_point:
  "set (map fst (foldl (\<lambda>p r. obj_set (series_key r) (g r) p) p rs)) = set (map fst p) \<union> series_key ` set rs"
  by (induction rs arbitrary: p) (auto simp: keys_obj_set simp del: set_map)

lemma series_key_not_timestamp: "series_key r \<noteq> ''timestamp''"
proof -
  have "CHR ''='' \<in> set (join_with '','' (map label_text kvs))" if "kvs \<noteq> []" for kvs
    using that by (cases kvs; cases "tl kvs") (auto simp: label_text_def)
  then have "qr_labels r = Some kvs \<Longrightarrow> kvs \<noteq> [] \<Longrightarrow> CHR ''='' \<in> set (series_key r)" for kvs
    by (fastforce simp: series_key_def split: list.splits)
  then show ?thesis by (cases "qr_labels r"; cases "the (qr_labels r)") (force simp: series_key_def)+
qed

text \<open>the chart draws the series that have a value at the time of the first result, and no other: a series that
  starts later has no line although its values are in the data.\<close>

theorem series_of_first_time:
  "set (seriesKeys (query_chart_data showTime parseFloat rs))
    = series_key ` {r \<in> set rs. showTime (qr_timestamp r) = showTime (qr_timestamp (hd rs))}"
proof (cases rs)
  case Nil
  then show ?thesis by (simp add: query_chart_data_def query_chart_map_def seriesKeys_def)
next
  case (Cons r0 rest)
  let ?key = "\<lambda>r. showTime (qr_timestamp r)"
  let ?m = "query_chart_map showTime parseFloat rs"
  let ?same = "filter (\<lambda>r. ?key r = ?key r0) rs"
  let ?init = "[(''timestamp'', JStr (?key r0))]"
  let ?upd = "\<lambda>p r. obj_set (series_key r) (numeric_value parseFloat (qr_value r)) p"
  have "?m \<noteq> [] \<and> fst (hd ?m) = ?key r0"
    unfolding query_chart_map_def Cons accumulate_simps using accumulate_hd by force
  then obtain p tl where m: "?m = (?key r0, p) # tl" by (cases ?m) auto
  have "Some p = obj_get ?m (?key r0)" by (simp add: m obj_get_def)
  also have "\<dots> = Some (foldl ?upd ?init ?same)"
    unfolding query_chart_map_def assoc.get_accumulate by (simp add: Cons)
  finally have "p = foldl ?upd ?init ?same" by simp
  then have "set (map fst p) = insert ''timestamp'' (series_key ` set ?same)" by (simp only: keys_fold_point) simp
  moreover have "set (seriesKeys (query_chart_data showTime parseFloat rs)) = set (map fst p) - {''timestamp''}"
    unfolding query_chart_data_def m seriesKeys_def by auto
  moreover have "set ?same = {r \<in> set rs. ?key r = ?key (hd rs)}" by (auto simp: Cons)
  moreover have "''timestamp'' \<notin> series_key ` A" for A using series_key_not_timestamp by (metis imageE)
  ultimately show ?thesis by (simp only: Diff_insert_absorb not_False_eq_True)
qed

lemma row_toggle_step:
  "i \<in> set (rs_expandedRows (results_action a p)) \<longleftrightarrow> (a = ToggleRow i) \<noteq> (i \<in> set (rs_expandedRows p))"
  by (cases a) (auto simp: results_action_def toggleRowExpansion_def)

text \<open>however often rows are expanded and collapsed, a row is expanded exactly when it was toggled an odd number of
  times, and every other row is as it was.\<close>

theorem row_toggles:
  "i \<in> set (rs_expandedRows (foldl (\<lambda>p a. results_action a p) results_init acts))
    \<longleftrightarrow> odd (count_list acts (ToggleRow i))"
proof (induction acts rule: rev_induct)
  case (snoc a acts)
  then show ?case by (simp add: row_toggle_step)
qed (simp add: results_init_def)

text \<open>The labels of a row: the shown ones and the counted rest are all of them.\<close>

lemma labels_complete:
  "length (shown_labels False r) + (length (otherLabels r) - 3) = length (otherLabels r)
   \<and> shown_labels True r = otherLabels r"
  by (simp add: shown_labels_def)

end
