(* ===== verification/Canvas_Nodes.thy ===== *)
theory Canvas_Nodes
  imports Pipeline_Graph Formatting Ui_View
begin

text \<open>
  The nodes on the pipeline canvas: the components CollectorPipelineView.tsx registers
  (components/collector-pipeline/nodes) and the second set of components in PipelineNode.tsx, what
  they show for the data of the generator and the handles edges can be attached to.  The generator
  passes no \<open>config\<close> to a node, so the endpoint line is never shown.  \<open>showNumber\<close> is \<open>toLocaleString\<close>.
\<close>

section \<open>The registered components\<close>

definition nodeTypes :: "string list" where
  "nodeTypes = [''section'', ''receiver'', ''processor'', ''exporter'']"

definition count_line :: "(int \<Rightarrow> string) \<Rightarrow> string \<Rightarrow> int option \<Rightarrow> 'a view list" where
  "count_line showNumber label n = (case n of Some k \<Rightarrow> [Txt (label @ '': '' @ showNumber k)] | None \<Rightarrow> [])"

text \<open>\<open>data.metrics?.received\<close> and its like: the fields a node reads.\<close>

definition received_of :: "node_data \<Rightarrow> int option" where
  "received_of d = (case d of ComponentData n t (Some (Received k)) \<Rightarrow> Some k | _ \<Rightarrow> None)"

definition processed_of :: "node_data \<Rightarrow> int option" where
  "processed_of d = (case d of ComponentData n t (Some (Processed k)) \<Rightarrow> Some k | _ \<Rightarrow> None)"

definition exported_of :: "node_data \<Rightarrow> int option" where
  "exported_of d = (case d of ComponentData n t (Some (Exported k)) \<Rightarrow> Some k | _ \<Rightarrow> None)"

definition node_label :: "node_data \<Rightarrow> string" where
  "node_label d = (case d of Message t \<Rightarrow> t | SectionData ty l w h m \<Rightarrow> l | ComponentData n t m \<Rightarrow> to_str n)"

definition ReceiverNode :: "(int \<Rightarrow> string) \<Rightarrow> node_data \<Rightarrow> 'a view list" where
  "ReceiverNode showNumber d =
     [Badge ''blue'' ''Receiver'', Txt (node_label d)] @ count_line showNumber ''Received'' (received_of d)"

definition ProcessorNode :: "(int \<Rightarrow> string) \<Rightarrow> node_data \<Rightarrow> 'a view list" where
  "ProcessorNode showNumber d =
     [Badge ''green'' ''Processor'', Txt (node_label d)] @ count_line showNumber ''Processed'' (processed_of d)"

definition ExporterNode :: "(int \<Rightarrow> string) \<Rightarrow> node_data \<Rightarrow> 'a view list" where
  "ExporterNode showNumber d =
     [Badge ''purple'' ''Exporter'', Txt (node_label d)] @ count_line showNumber ''Exported'' (exported_of d)"

fun section_color_name :: "section_colors \<Rightarrow> string" where
  "section_color_name BlueSection = ''blue''"
| "section_color_name GreenSection = ''green''"
| "section_color_name PurpleSection = ''purple''"
| "section_color_name GraySection = ''gray''"

text \<open>The frame of a pipeline with its size; a size of zero falls back.\<close>

definition section_extent :: "int \<Rightarrow> int \<Rightarrow> int \<times> int" where
  "section_extent w h = (if w = 0 then 900 else w, if h = 0 then 400 else h)"

definition SectionNode :: "(int \<Rightarrow> string) \<Rightarrow> node_data \<Rightarrow> 'a view list" where
  "SectionNode showNumber d =
     (case d of
        SectionData ty label w h met \<Rightarrow>
          [Badge (section_color_name (section_colors_for ty)) (section_badge ty (Some label))]
          @ (case met of
               Some (received, errors) \<Rightarrow>
                 Txt (''Received: '' @ showNumber received)
                 # only_if (0 < errors) [Txt (''Errors: '' @ showNumber errors)]
             | None \<Rightarrow> [])
      | _ \<Rightarrow> [])"

text \<open>What a node of the graph shows; \<open>default\<close> is the node of the canvas library, which shows its label.\<close>

definition canvas_node :: "(int \<Rightarrow> string) \<Rightarrow> flow_node \<Rightarrow> 'a view list" where
  "canvas_node showNumber n =
     (if fn_type n = ''section'' then SectionNode showNumber (fn_data n)
      else if fn_type n = ''receiver'' then ReceiverNode showNumber (fn_data n)
      else if fn_type n = ''processor'' then ProcessorNode showNumber (fn_data n)
      else if fn_type n = ''exporter'' then ExporterNode showNumber (fn_data n)
      else [Txt (node_label (fn_data n))])"

text \<open>The handles of the components.\<close>

definition source_handle :: "string \<Rightarrow> bool" where
  "source_handle ty = (ty = ''receiver'' \<or> ty = ''processor'')"

definition target_handle :: "string \<Rightarrow> bool" where
  "target_handle ty = (ty = ''processor'' \<or> ty = ''exporter'')"

section \<open>The second set of components\<close>

definition BaseComponentNode :: "string \<Rightarrow> string \<Rightarrow> string \<Rightarrow> node_metrics option \<Rightarrow> 'a view list \<Rightarrow> 'a view list" where
  "BaseComponentNode componentType label pipelineType met children =
     [Tag componentType [], Txt label, Badge ''outline'' pipelineType] @ only_if (met \<noteq> None) children"

definition data_metrics :: "node_data \<Rightarrow> node_metrics option" where
  "data_metrics d = (case d of ComponentData n t m \<Rightarrow> m | _ \<Rightarrow> None)"

definition data_pipeline :: "string \<Rightarrow> node_data \<Rightarrow> string" where
  "data_pipeline fallback d = (case d of ComponentData n t m \<Rightarrow> if t = [] then fallback else t | _ \<Rightarrow> fallback)"

definition PipelineNode_receiver :: "node_data \<Rightarrow> 'a view list" where
  "PipelineNode_receiver d =
     BaseComponentNode ''receiver'' (node_label d) (data_pipeline ''receiver'' d) (data_metrics d)
       (count_line formatCount ''Received'' (received_of d))"

text \<open>The generator always passes zero batches with the processed count.\<close>

definition PipelineNode_processor :: "node_data \<Rightarrow> 'a view list" where
  "PipelineNode_processor d =
     BaseComponentNode ''processor'' (node_label d) (data_pipeline ''processor'' d) (data_metrics d)
       (count_line formatCount ''Processed'' (processed_of d)
        @ count_line formatCount ''Batches'' (map_option (\<lambda>_. 0) (processed_of d)))"

definition PipelineNode_exporter :: "node_data \<Rightarrow> 'a view list" where
  "PipelineNode_exporter d =
     BaseComponentNode ''exporter'' (node_label d) (data_pipeline ''exporter'' d) (data_metrics d)
       (count_line formatCount ''Exported'' (exported_of d))"

definition PipelineNode_section :: "node_data \<Rightarrow> 'a view list" where
  "PipelineNode_section d =
     (case d of
        SectionData ty label w h met \<Rightarrow>
          Txt label
          # (case met of
               Some (received, errors) \<Rightarrow>
                 Txt (''Received: '' @ formatCount received)
                 # only_if (0 < errors) [Txt (''Errors: '' @ formatCount errors)]
             | None \<Rightarrow> [])
      | _ \<Rightarrow> [Txt (node_label d)])"

section \<open>Types of nodes and ends of edges\<close>

text \<open>A node carries the data the component of its type reads.\<close>

definition typed_node :: "flow_node \<Rightarrow> bool" where
  "typed_node n =
     (case fn_data n of
        Message t \<Rightarrow> fn_type n = ''default''
      | SectionData ty l w h m \<Rightarrow> fn_type n = ''section'' \<and> 0 < w \<and> 0 < h
      | ComponentData nm t m \<Rightarrow>
          (case m of
             None \<Rightarrow> fn_type n \<in> {''receiver'', ''processor'', ''exporter''}
           | Some (Received k) \<Rightarrow> fn_type n = ''receiver''
           | Some (Processed k) \<Rightarrow> fn_type n = ''processor''
           | Some (Exported k) \<Rightarrow> fn_type n = ''exporter''))"

definition typed_edge :: "flow_node list \<Rightarrow> flow_edge \<Rightarrow> bool" where
  "typed_edge ns e =
     (list_ex (\<lambda>n. fn_id n = fe_source e \<and> source_handle (fn_type n)) ns
      \<and> list_ex (\<lambda>n. fn_id n = fe_target e \<and> target_handle (fn_type n)) ns)"

definition typed_graph :: "flow_graph \<Rightarrow> bool" where
  "typed_graph g = (list_all typed_node (fg_nodes g) \<and> list_all (typed_edge (fg_nodes g)) (fg_edges g))"

lemma component_nodes_typed:
  assumes "\<And>v k. met v = Some k \<Longrightarrow>
      (case k of Received j \<Rightarrow> kind = ''receiver'' | Processed j \<Rightarrow> kind = ''processor'' | Exported j \<Rightarrow> kind = ''exporter'')"
    and "kind \<in> {''receiver'', ''processor'', ''exporter''}"
  shows "list_all typed_node (component_nodes kind pt met pos names)"
proof -
  have "typed_node \<lparr>fn_id = i, fn_type = kind, fn_x = x, fn_y = y, fn_data = ComponentData v pt (met v)\<rparr>" for i x y v
    using assms(1) [of v] assms(2) by (auto simp: typed_node_def split: option.splits node_metrics.splits)
  then show ?thesis by (auto simp: component_nodes_def list_all_iff)
qed

lemma pipeline_nodes_typed: "list_all typed_node (pipeline_nodes m y pn rs ps es)"
proof -
  have "typed_node (section_node m pn y k (section_height a b))" for k a b
    by (auto simp: section_node_def Let_def typed_node_def section_width_def section_height_def)
  then show ?thesis
    unfolding pipeline_nodes_def Let_def list.pred_inject list_all_append
    by (intro conjI component_nodes_typed) (auto simp: map_option_case split: option.splits)
qed

lemma component_node_mem:
  "v \<in> set names \<Longrightarrow> list_ex (\<lambda>n. fn_id n = node_id kind pt v \<and> fn_type n = kind) (component_nodes kind pt met pos names)"
proof -
  assume "v \<in> set names"
  then obtain i where "i < length names" "names ! i = v" by (metis in_set_conv_nth)
  then have "(i, v) \<in> set (zip [0..<length names] names)" by (force simp: set_zip)
  then show ?thesis by (force simp: component_nodes_def list_ex_iff)
qed

lemma list_ex_mono: "list_ex P xs \<Longrightarrow> (\<And>x. P x \<Longrightarrow> Q x) \<Longrightarrow> list_ex Q xs"
  by (auto simp: list_ex_iff)

definition sources_of :: "string \<Rightarrow> jval list \<Rightarrow> jval list \<Rightarrow> string set" where
  "sources_of pt rs ps = node_id ''receiver'' pt ` set rs \<union> node_id ''processor'' pt ` set ps"

definition targets_of :: "string \<Rightarrow> jval list \<Rightarrow> jval list \<Rightarrow> string set" where
  "targets_of pt ps es = node_id ''processor'' pt ` set ps \<union> node_id ''exporter'' pt ` set es"

lemma pipeline_edges_ends:
  "e \<in> set (pipeline_edges pt rs ps es) \<Longrightarrow> fe_source e \<in> sources_of pt rs ps \<and> fe_target e \<in> targets_of pt ps es"
  by (auto simp: pipeline_edges_def edge_between_def sources_of_def targets_of_def split: if_splits dest: chain_edges_ends)

lemma pipeline_edge_typed:
  assumes "e \<in> set (pipeline_edges (to_lower pn) rs ps es)"
  shows "typed_edge (pipeline_nodes m y pn rs ps es) e"
proof -
  let ?pt = "to_lower pn"
  have r: "\<And>r. r \<in> set rs \<Longrightarrow> list_ex (\<lambda>n. fn_id n = node_id ''receiver'' ?pt r \<and> fn_type n = ''receiver'') (pipeline_nodes m y pn rs ps es)"
    and p: "\<And>p. p \<in> set ps \<Longrightarrow> list_ex (\<lambda>n. fn_id n = node_id ''processor'' ?pt p \<and> fn_type n = ''processor'') (pipeline_nodes m y pn rs ps es)"
    and x: "\<And>x. x \<in> set es \<Longrightarrow> list_ex (\<lambda>n. fn_id n = node_id ''exporter'' ?pt x \<and> fn_type n = ''exporter'') (pipeline_nodes m y pn rs ps es)"
    by (simp_all add: pipeline_nodes_def Let_def component_node_mem)
  have e: "fe_source e \<in> sources_of ?pt rs ps" "fe_target e \<in> targets_of ?pt ps es"
    using pipeline_edges_ends [OF assms] by auto
  have "list_ex (\<lambda>n. fn_id n = fe_source e \<and> source_handle (fn_type n)) (pipeline_nodes m y pn rs ps es)"
    using e(1) unfolding sources_of_def
    by (auto dest!: r p elim!: list_ex_mono simp: source_handle_def)
  moreover have "list_ex (\<lambda>n. fn_id n = fe_target e \<and> target_handle (fn_type n)) (pipeline_nodes m y pn rs ps es)"
    using e(2) unfolding targets_of_def
    by (auto dest!: p x elim!: list_ex_mono simp: target_handle_def)
  ultimately show ?thesis by (simp add: typed_edge_def)
qed

lemma typed_edge_append: "typed_edge ns e \<Longrightarrow> typed_edge (us @ ns @ vs) e"
  by (auto simp: typed_edge_def)

lemma layout_typed: "layout_pipelines m y ps = Inr g \<Longrightarrow> typed_graph g"
proof (induction ps arbitrary: y g)
  case Nil
  then show ?case by (auto simp: typed_graph_def)
next
  case (Cons p rest)
  obtain pn pc where p: "p = (pn, pc)" by (cases p)
  from Cons.prems [unfolded p] obtain rs qs es h where
    h: "layout_pipelines m (y + section_height (length rs) (length es) + 40) rest = Inr h"
    and g: "fg_nodes g = pipeline_nodes m y pn rs qs es @ fg_nodes h"
      "fg_edges g = pipeline_edges (to_lower pn) rs qs es @ fg_edges h"
    by (rule layout_Cons)
  have "typed_graph h" using Cons.IH h by blast
  then show ?case
    using pipeline_nodes_typed [of m y pn rs qs es] pipeline_edge_typed [of _ pn rs qs es m y]
      typed_edge_append [where us = "[]"] typed_edge_append [where vs = "[]"]
    unfolding typed_graph_def g by (fastforce simp: list_all_iff)
qed

text \<open>C15: in every graph the generator returns each node has a type the canvas knows and the data that type shows,
  frames have a positive size, and each edge leaves a node with an outgoing handle and enters one with an
  incoming handle.\<close>

theorem canvas_well_typed:
  assumes "generatePipelineNodes load c metrics = Inr g"
  shows "typed_graph g \<and> list_all (\<lambda>n. fn_type n \<in> insert ''default'' (set nodeTypes)) (fg_nodes g)"
proof -
  have t: "typed_graph g"
    using assms
  proof (cases rule: generate_cases)
    case 1
    then show ?thesis by (simp add: message_graph_def typed_graph_def typed_node_def)
  next
    case 2
    then show ?thesis using layout_typed by blast
  qed
  moreover have "typed_node n \<Longrightarrow> fn_type n \<in> insert ''default'' (set nodeTypes)" for n
    by (auto simp: typed_node_def nodeTypes_def split: node_data.splits option.splits node_metrics.splits)
  ultimately show ?thesis unfolding typed_graph_def by (auto simp: list_all_iff)
qed

lemma canvas_well_typed_witness: "typed_graph demo_graph"
  using canvas_well_typed [OF demo_generate] by blast

end
