(* ===== verification/Shell.thy ===== *)
theory Shell
  imports Routing Formatting
begin

text \<open>
  The frame around the pages: cookies (lib/utils.ts), the state of the sidebar (SidebarProvider in
  components/ui/sidebar.tsx with layout.tsx and hooks/useMobile.ts) and its frame, trigger and menu
  buttons, the navigation (layout/sidebar.tsx),
  the theme (components/ThemeProvider.tsx, layout/mode-toggle.tsx) and the retries that
  lib/swr-config.ts asks for.  \<open>document.cookie\<close> is the text of a jar of names and values; path and age of a
  cookie are not kept.  The preference of the system and the width of the window are arguments.
\<close>

section \<open>Cookies\<close>

text \<open>\<open>s.split(sep)\<close> for a separator that is not empty.\<close>

function split_str :: "string \<Rightarrow> string \<Rightarrow> string list" where
  "split_str sep s =
     (case (sep, index_of sep s) of
        ([], _) \<Rightarrow> map (\<lambda>c. [c]) s
      | (_, None) \<Rightarrow> [s]
      | (_, Some i) \<Rightarrow> take i s # split_str sep (drop (i + length sep) s))"
  by pat_completeness auto

termination
  by (relation "measure (\<lambda>(sep, s). length s)") (auto dest!: index_of_Some [OF sym])

declare split_str.simps [simp del]

type_synonym cookie_jar = "(string \<times> string) list"

definition document_cookie :: "cookie_jar \<Rightarrow> string" where
  "document_cookie jar = join_with ''; '' (map (\<lambda>(k, v). k @ ''='' @ v) jar)"

definition getCookie :: "string \<Rightarrow> string \<Rightarrow> string option" where
  "getCookie cookie name =
     (let parts = split_str (''; '' @ name @ ''='') (''; '' @ cookie) in
      if length parts = 2 then given (Some (hd (split_on CHR '';'' (last parts)))) else None)"

section \<open>The sidebar\<close>

record sidebar_state =
  sb_open :: bool
  sb_openMobile :: bool
  sb_cookies :: cookie_jar

definition show_bool :: "bool \<Rightarrow> string" where
  "show_bool b = (if b then ''true'' else ''false'')"

text \<open>\<open>Layout\<close> reads the state from the cookie.\<close>

definition default_open :: "cookie_jar \<Rightarrow> bool" where
  "default_open jar =
     (case getCookie (document_cookie jar) ''sidebar_state'' of None \<Rightarrow> True | Some v \<Rightarrow> v = ''true'')"

definition sidebar_init :: "cookie_jar \<Rightarrow> sidebar_state" where
  "sidebar_init jar = \<lparr>sb_open = default_open jar, sb_openMobile = False, sb_cookies = jar\<rparr>"

definition setOpen :: "bool \<Rightarrow> sidebar_state \<Rightarrow> sidebar_state" where
  "setOpen openState s = s\<lparr>sb_open := openState, sb_cookies := obj_set ''sidebar_state'' (show_bool openState) (sb_cookies s)\<rparr>"

definition isMobile :: "int \<Rightarrow> bool" where
  "isMobile innerWidth = (innerWidth < 768)"

definition toggleSidebar :: "int \<Rightarrow> sidebar_state \<Rightarrow> sidebar_state" where
  "toggleSidebar innerWidth s =
     (if isMobile innerWidth then s\<lparr>sb_openMobile := \<not> sb_openMobile s\<rparr> else setOpen (\<not> sb_open s) s)"

definition sidebar_keydown :: "int \<Rightarrow> bool \<Rightarrow> string \<Rightarrow> sidebar_state \<Rightarrow> sidebar_state" where
  "sidebar_keydown innerWidth metaOrCtrl key s =
     (if key = ''b'' \<and> metaOrCtrl then toggleSidebar innerWidth s else s)"

section \<open>The frame of the sidebar\<close>

text \<open>On a narrow window the children are the content of a sheet, which renders them only while it is open; otherwise they
  stand in a frame that carries the state.  The tooltip of a button of the menu is hidden while its label is shown.\<close>

datatype sidebar_collapsible = Offcanvas | IconOnly | NoCollapse

fun collapsible_name :: "sidebar_collapsible \<Rightarrow> string" where
  "collapsible_name Offcanvas = ''offcanvas''"
| "collapsible_name IconOnly = ''icon''"
| "collapsible_name NoCollapse = ''none''"

definition Sidebar :: "sidebar_collapsible \<Rightarrow> int \<Rightarrow> sidebar_state \<Rightarrow> 'a view list \<Rightarrow> 'a view list" where
  "Sidebar collapsible innerWidth s children =
     (if collapsible = NoCollapse then children
      else if isMobile innerWidth then
        only_if (sb_openMobile s) [Tag ''sheet'' ([Txt ''Sidebar'', Txt ''Displays the mobile sidebar.''] @ children)]
      else [Tag (if sb_open s then ''expanded'' else ''collapsed'')
              (Tag (if sb_open s then [] else collapsible_name collapsible) [] # children)])"

definition SidebarTrigger :: "'a \<Rightarrow> 'a view" where
  "SidebarTrigger toggle = Button ''Toggle Sidebar'' False toggle"

definition SidebarMenuButton :: "int \<Rightarrow> sidebar_state \<Rightarrow> string option \<Rightarrow> 'a view \<Rightarrow> 'a view list" where
  "SidebarMenuButton innerWidth s tooltip button =
     button # (case given tooltip of
                 None \<Rightarrow> []
               | Some t \<Rightarrow> only_if (\<not> sb_open s \<and> \<not> isMobile innerWidth) [Tag ''tooltip'' [Txt t]])"

section \<open>The navigation\<close>

definition mainItems :: "(string \<times> string) list" where
  "mainItems =
     [(''Agents'', ''/agents''), (''Topology'', ''/topology''), (''Groups'', ''/groups''), (''Configs'', ''/configs''),
      (''Git Sources'', ''/git-sources''), (''Audit Log'', ''/audit-log'')]"

definition ROLE_VARIANT :: "string \<Rightarrow> string" where
  "ROLE_VARIANT role =
     (if role = ''admin'' then ''default'' else if role = ''operator'' then ''secondary'' else ''outline'')"

datatype shell_action = GoTo string | ToggleSidebar | CycleTheme | SignOut

definition nav_item :: "string \<Rightarrow> int \<Rightarrow> sidebar_state \<Rightarrow> string \<times> string \<Rightarrow> shell_action view list" where
  "nav_item path w s item =
     SidebarMenuButton w s (Some (fst item))
       (Click (GoTo (snd item))
         ([Tag (if path = snd item then ''active'' else ''item'') []] @ only_if (sb_open s) [Txt (fst item)]))"

definition user_menu :: "int \<Rightarrow> sidebar_state \<Rightarrow> string \<Rightarrow> string \<Rightarrow> shell_action view list" where
  "user_menu w s username role =
     SidebarMenuButton w s (Some username)
       (Tag ''menu'' ([Txt (take 1 username)] @ only_if (sb_open s) [Txt username, Badge (ROLE_VARIANT role) role]))
     @ [Click (GoTo ''/api-keys'') [Txt ''API Keys''], Click SignOut [Txt ''Sign out'']]"

definition AppSidebar :: "string \<Rightarrow> int \<Rightarrow> sidebar_state \<Rightarrow> (string \<times> string) option \<Rightarrow> shell_action view list" where
  "AppSidebar path w s user =
     Sidebar IconOnly w s
       ((if sb_open s then [Click (GoTo ''/'') [Txt ''OTel Hive'']] else [])
        @ [SidebarTrigger ToggleSidebar]
        @ [Txt ''Navigation''] @ concat (map (nav_item path w s) mainItems)
        @ [Click CycleTheme (only_if (sb_open s) [Txt ''Toggle theme''])]
        @ (case user of Some (n, r) \<Rightarrow> user_menu w s n r | None \<Rightarrow> []))"

text \<open>Signing out: the session operation, then a navigation that replaces the location; a logout whose request never
  settles does not navigate.\<close>

definition handleLogout ::
  "'s server \<Rightarrow> ('s \<Rightarrow> int) \<Rightarrow> string \<Rightarrow> location \<Rightarrow> 's auth \<Rightarrow> 's auth \<times> location" where
  "handleLogout srv clock base loc st =
     (case logout srv clock base st of
        (st1, Resolved u) \<Rightarrow> (st1, \<lparr>pathname = ''/login'', from_state = None\<rparr>)
      | (st1, _) \<Rightarrow> (st1, loc))"

section \<open>The theme\<close>

datatype theme = Dark | Light | System

fun theme_name :: "theme \<Rightarrow> string" where
  "theme_name Dark = ''dark''"
| "theme_name Light = ''light''"
| "theme_name System = ''system''"

record theme_state =
  th_theme :: string
  th_classes :: "string list"
  th_storage :: "string \<Rightarrow> string option"

text \<open>The stored text is taken as a theme without a check.\<close>

definition stored_theme :: "string \<Rightarrow> theme \<Rightarrow> (string \<Rightarrow> string option) \<Rightarrow> string" where
  "stored_theme storageKey defaultTheme storage =
     (case given (storage storageKey) of Some t \<Rightarrow> t | None \<Rightarrow> theme_name defaultTheme)"

text \<open>The effect on \<open>[theme]\<close>; \<open>classList.add\<close> does not repeat a class.\<close>

definition theme_effect :: "bool \<Rightarrow> theme_state \<Rightarrow> theme_state" where
  "theme_effect prefersDark s =
     (let base = filter (\<lambda>c. c \<noteq> ''light'' \<and> c \<noteq> ''dark'') (th_classes s);
          cls = (if th_theme s = ''system'' then (if prefersDark then ''dark'' else ''light'') else th_theme s) in
      s\<lparr>th_classes := (if cls \<in> set base then base else base @ [cls])\<rparr>)"

definition theme_init :: "string \<Rightarrow> bool \<Rightarrow> string list \<Rightarrow> (string \<Rightarrow> string option) \<Rightarrow> theme_state" where
  "theme_init storageKey prefersDark classes storage =
     theme_effect prefersDark
       \<lparr>th_theme = stored_theme storageKey System storage, th_classes = classes, th_storage = storage\<rparr>"

definition setTheme :: "string \<Rightarrow> bool \<Rightarrow> string \<Rightarrow> theme_state \<Rightarrow> theme_state" where
  "setTheme storageKey prefersDark t s =
     theme_effect prefersDark (s\<lparr>th_theme := t, th_storage := (th_storage s)(storageKey := Some t)\<rparr>)"

definition cycleTheme :: "string \<Rightarrow> bool \<Rightarrow> theme_state \<Rightarrow> theme_state" where
  "cycleTheme storageKey prefersDark s =
     setTheme storageKey prefersDark
       (if th_theme s = ''light'' then ''dark'' else if th_theme s = ''dark'' then ''system'' else ''light'') s"

section \<open>The choice of a time range\<close>

definition TimeRangeSelect :: "bool \<Rightarrow> TimeRange option \<Rightarrow> TimeRange view list" where
  "TimeRangeSelect useShortLabels maxRange =
     map (\<lambda>o1. Click (tr_value o1) [Txt (if useShortLabels then tr_shortLabel o1 else tr_label o1)])
       (time_range_options maxRange)"

section \<open>Retries in the configuration of the cache\<close>

text \<open>
  \<open>shouldRetryOnError\<close>; an error without a status is retried.  It is part of \<open>swrConfig\<close>, which the provider of
  lib/swr-provider.tsx does not pass on: with the provider's own options the cache also repeats a client error.
\<close>

definition shouldRetryOnError :: "nat option \<Rightarrow> bool" where
  "shouldRetryOnError status = (case status of Some s \<Rightarrow> \<not> (400 \<le> s \<and> s < 500) | None \<Rightarrow> True)"

definition retried :: "'a settled \<Rightarrow> bool" where
  "retried r = (case r of Rejected_with m status \<Rightarrow> shouldRetryOnError status | _ \<Rightarrow> False)"

section \<open>A cookie is found\<close>

definition cookie_items :: "cookie_jar \<Rightarrow> string" where
  "cookie_items jar = concat (map (\<lambda>(k, v). ''; '' @ k @ ''='' @ v) jar)"

text \<open>Names and values without the separators of the format.\<close>

definition plain_jar :: "cookie_jar \<Rightarrow> bool" where
  "plain_jar jar =
     (distinct (map fst jar)
      \<and> list_all (\<lambda>(k, v). CHR '';'' \<notin> set k \<and> CHR ''='' \<notin> set k \<and> CHR '';'' \<notin> set v) jar)"

lemma document_cookie_items: "jar \<noteq> [] \<Longrightarrow> ''; '' @ document_cookie jar = cookie_items jar"
proof (induction jar)
  case (Cons a jar)
  then show ?case by (cases a; cases jar) (auto simp: document_cookie_def cookie_items_def)
qed simp

lemma index_of_skip:
  "c \<notin> set u \<Longrightarrow> index_of (c # p) (u @ s) = map_option (\<lambda>i. i + length u) (index_of (c # p) s)"
proof (induction u)
  case (Cons x u)
  then have "\<not> starts_with (c # p) (x # u @ s)" by (auto simp: starts_with_def)
  then show ?case using Cons by (simp add: option.map_comp comp_def)
qed (simp add: option.map_ident)

lemma starts_with_key:
  assumes "c \<notin> set k" and "c \<notin> set n"
  shows "starts_with (n @ [c]) (k @ c # s) \<longleftrightarrow> n = k"
  using append_sep_inj [OF assms] by (auto simp: starts_with_iff)

lemma index_of_item:
  assumes "CHR '';'' \<notin> set k" "CHR ''='' \<notin> set k" "CHR '';'' \<notin> set v" "CHR ''='' \<notin> set n"
  shows "index_of (''; '' @ n @ ''='') (''; '' @ k @ ''='' @ v @ s) =
     (if k = n then Some 0
      else map_option (\<lambda>i. i + length (''; '' @ k @ ''='' @ v)) (index_of (''; '' @ n @ ''='') s))"
proof (cases "k = n")
  case True
  have "''; '' @ k @ ''='' @ v @ s = (''; '' @ n @ ''='') @ (v @ s)" using True by simp
  then show ?thesis using True index_of_self by metis
next
  case False
  then have "\<not> starts_with (''; '' @ n @ ''='') (''; '' @ k @ ''='' @ v @ s)"
    using starts_with_key [OF assms(2,4), of "v @ s"] by (simp add: starts_with_def)
  moreover have "index_of (''; '' @ n @ ''='') ('' '' @ k @ ''='' @ v @ s)
      = map_option (\<lambda>i. i + length ('' '' @ k @ ''='' @ v)) (index_of (''; '' @ n @ ''='') s)"
    using index_of_skip [of "CHR '';''" "'' '' @ k @ ''='' @ v" "'' '' @ n @ ''=''" s] assms by simp
  ultimately show ?thesis using False by (simp add: option.map_comp comp_def)
qed

lemma index_of_jar:
  assumes "list_all (\<lambda>(k, v). CHR '';'' \<notin> set k \<and> CHR ''='' \<notin> set k \<and> CHR '';'' \<notin> set v) jar" and "CHR ''='' \<notin> set n"
  shows "n \<notin> set (map fst jar) \<Longrightarrow> index_of (''; '' @ n @ ''='') (cookie_items jar @ s)
           = map_option (\<lambda>i. i + length (cookie_items jar)) (index_of (''; '' @ n @ ''='') s)"
  using assms(1)
proof (induction jar)
  case Nil
  then show ?case by (simp add: cookie_items_def option.map_ident)
next
  case (Cons kv jar)
  obtain k v where kv: "kv = (k, v)" by (cases kv)
  have c: "cookie_items (kv # jar) @ s = ''; '' @ k @ ''='' @ v @ (cookie_items jar @ s)"
    by (simp add: cookie_items_def kv)
  have l: "length (cookie_items (kv # jar)) = length (''; '' @ k @ ''='' @ v) + length (cookie_items jar)"
    by (simp add: cookie_items_def kv)
  have ih: "index_of (''; '' @ n @ ''='') (cookie_items jar @ s)
      = map_option (\<lambda>i. i + length (cookie_items jar)) (index_of (''; '' @ n @ ''='') s)"
    using Cons by simp
  show ?case
    unfolding c l using Cons.prems kv assms(2) index_of_item [of k v n "cookie_items jar @ s"]
    by (simp only: ih) (auto simp: option.map_comp comp_def add_ac)
qed

lemma split_none: "p \<noteq> [] \<Longrightarrow> index_of p s = None \<Longrightarrow> split_str p s = [s]"
  by (subst split_str.simps) (auto split: list.splits)

lemma split_some:
  "p \<noteq> [] \<Longrightarrow> index_of p s = Some i \<Longrightarrow> split_str p s = take i s # split_str p (drop (i + length p) s)"
  by (subst split_str.simps) (auto split: list.splits)

lemma split_on_items: "CHR '';'' \<notin> set v \<Longrightarrow> hd (split_on CHR '';'' (v @ cookie_items jar)) = v"
proof (cases jar)
  case Nil
  then show "CHR '';'' \<notin> set v \<Longrightarrow> ?thesis" by (simp add: cookie_items_def split_on_no_sep)
next
  case (Cons a l)
  then obtain r where "cookie_items jar = CHR '';'' # r" by (cases a) (simp add: cookie_items_def)
  then show "CHR '';'' \<notin> set v \<Longrightarrow> ?thesis" by (simp add: split_on_append_sep)
qed

lemma getCookie_absent:
  assumes "plain_jar jar" and "CHR ''='' \<notin> set n" and "n \<notin> set (map fst jar)"
  shows "getCookie (document_cookie jar) n = None"
proof -
  have e: "index_of (''; '' @ n @ ''='') [] = None" by simp
  have "index_of (''; '' @ n @ ''='') (''; '' @ document_cookie jar) = None"
  proof (cases "jar = []")
    case True
    then show ?thesis by (auto simp: document_cookie_def starts_with_def)
  next
    case False
    have "index_of (''; '' @ n @ ''='') (cookie_items jar) = None"
      using index_of_jar [of jar n "[]"] assms e by (simp add: plain_jar_def)
    then show ?thesis unfolding document_cookie_items [OF False] .
  qed
  then show ?thesis using split_none [of "''; '' @ n @ ''=''"] by (simp add: getCookie_def Let_def)
qed

lemma getCookie_present:
  assumes "plain_jar (A @ (n, v) # B)"
  shows "getCookie (document_cookie (A @ (n, v) # B)) n = given (Some v)"
proof -
  let ?p = "''; '' @ n @ ''=''" and ?A = "cookie_items A" and ?B = "cookie_items B"
  have pa: "list_all (\<lambda>(k, v). CHR '';'' \<notin> set k \<and> CHR ''='' \<notin> set k \<and> CHR '';'' \<notin> set v) A"
    "list_all (\<lambda>(k, v). CHR '';'' \<notin> set k \<and> CHR ''='' \<notin> set k \<and> CHR '';'' \<notin> set v) B"
    and n: "CHR '';'' \<notin> set n" "CHR ''='' \<notin> set n" "CHR '';'' \<notin> set v" "n \<notin> set (map fst A)" "n \<notin> set (map fst B)"
    using assms by (auto simp: plain_jar_def)
  have s: "''; '' @ document_cookie (A @ (n, v) # B) = ?A @ (?p @ v @ ?B)"
    using document_cookie_items [of "A @ (n, v) # B"] by (simp add: cookie_items_def)
  have i: "index_of ?p (?A @ (?p @ v @ ?B)) = Some (length ?A)"
    using index_of_jar [OF pa(1) n(2,4), of "?p @ v @ ?B"] index_of_self [of ?p "v @ ?B"] by simp
  have "index_of ?p ?B = None" using index_of_jar [OF pa(2) n(2,5), of "[]"] by simp
  then have "index_of ?p (v @ ?B) = None"
    using index_of_skip [OF n(3), of "'' '' @ n @ ''=''" ?B] by simp
  then have "split_str ?p (v @ ?B) = [v @ ?B]" by (rule split_none [rotated]) simp
  moreover have "drop (length ?A + length ?p) (?A @ (?p @ v @ ?B)) = v @ ?B"
    by (metis append.assoc append_eq_conv_conj length_append)
  moreover have "take (length ?A) (?A @ (?p @ v @ ?B)) = ?A" by (rule append_eq_conv_conj [THEN iffD1, THEN conjunct1, symmetric, OF refl])
  moreover have "?p \<noteq> []" by simp
  ultimately have "split_str ?p (?A @ (?p @ v @ ?B)) = [?A, v @ ?B]"
    using split_some [OF _ i] by (simp only: not_False_eq_True simp_thms)
  then show ?thesis unfolding getCookie_def s using split_on_items [OF n(3)] by (simp add: Let_def)
qed

lemma getCookie_jar:
  assumes "plain_jar jar" and "CHR ''='' \<notin> set n"
  shows "getCookie (document_cookie jar) n = given (map_of jar n)"
proof (cases "map_of jar n")
  case None
  then have "n \<notin> set (map fst jar)" by (simp add: map_of_eq_None_iff)
  then show ?thesis using getCookie_absent [OF assms] None by simp
next
  case (Some v)
  then obtain A B where j: "jar = A @ (n, v) # B" by (meson map_of_SomeD split_list)
  then show ?thesis using getCookie_present assms(1) Some by metis
qed

text \<open>on the text of a jar of cookies whose names and values avoid the separators of the format, \<open>getCookie\<close> is the
  lookup in the jar; an empty value counts as absent.\<close>

theorem getCookie_lookup:
  assumes "plain_jar jar" and "CHR ''='' \<notin> set n"
  shows "getCookie (document_cookie jar) n = given (map_of jar n)"
  using assms by (rule getCookie_jar)

lemma getCookie_lookup_witness: "getCookie (document_cookie [(''a'', ''1''), (''sidebar_state'', ''false'')]) ''sidebar_state'' = Some ''false''"
  using getCookie_lookup [of "[(''a'', ''1''), (''sidebar_state'', ''false'')]" "''sidebar_state''"]
  by (simp add: plain_jar_def)

section \<open>The sidebar comes back\<close>

lemma plain_obj_set:
  assumes "plain_jar jar" and "CHR '';'' \<notin> set k" "CHR ''='' \<notin> set k" "CHR '';'' \<notin> set v"
  shows "plain_jar (obj_set k v jar)"
proof -
  have "list_all P jar \<Longrightarrow> P (k, v) \<Longrightarrow> list_all P (obj_set k v jar)" for P :: "string \<times> string \<Rightarrow> bool"
    by (induction jar) auto
  then show ?thesis using assms by (auto simp: plain_jar_def distinct_obj_set)
qed

definition kept :: "sidebar_state \<Rightarrow> bool" where
  "kept s = (plain_jar (sb_cookies s) \<and> default_open (sb_cookies s) = sb_open s)"

lemma kept_setOpen: "kept s \<Longrightarrow> kept (setOpen b s)"
proof -
  assume "kept s"
  then have p: "plain_jar (sb_cookies (setOpen b s))"
    by (auto simp: kept_def setOpen_def show_bool_def intro!: plain_obj_set)
  have "map_of (sb_cookies (setOpen b s)) ''sidebar_state'' = Some (show_bool b)"
    using obj_get_set [of "''sidebar_state''" "show_bool b" "sb_cookies s" "''sidebar_state''"]
    by (simp add: setOpen_def obj_get_def)
  then have "default_open (sb_cookies (setOpen b s)) = b"
    using getCookie_jar [OF p, of "''sidebar_state''"] by (simp add: default_open_def show_bool_def)
  then show ?thesis using p by (simp add: kept_def) (simp add: setOpen_def)
qed

datatype sidebar_event = Toggle int | Key int bool string | OpenMobile bool

definition sidebar_step :: "sidebar_event \<Rightarrow> sidebar_state \<Rightarrow> sidebar_state" where
  "sidebar_step ev s =
     (case ev of
        Toggle w \<Rightarrow> toggleSidebar w s
      | Key w m k \<Rightarrow> sidebar_keydown w m k s
      | OpenMobile b \<Rightarrow> s\<lparr>sb_openMobile := b\<rparr>)"

lemma kept_step: "kept s \<Longrightarrow> kept (sidebar_step ev s)"
proof -
  assume k: "kept s"
  then have "kept (s\<lparr>sb_openMobile := b\<rparr>)" for b by (simp add: kept_def)
  then have "kept (toggleSidebar w s)" for w using kept_setOpen [OF k] by (simp add: toggleSidebar_def)
  then show ?thesis using k by (cases ev) (auto simp: sidebar_step_def sidebar_keydown_def kept_def)
qed

text \<open>C28: whatever is toggled, by the buttons or the shortcut, on a wide or a narrow window, a page that is loaded later
  with the cookies of this one opens the sidebar as it was left.\<close>

theorem sidebar_restored:
  assumes "plain_jar jar"
  shows "sb_open (sidebar_init (sb_cookies (foldl (\<lambda>s ev. sidebar_step ev s) (sidebar_init jar) evs)))
    = sb_open (foldl (\<lambda>s ev. sidebar_step ev s) (sidebar_init jar) evs)"
proof -
  have "kept s \<Longrightarrow> kept (foldl (\<lambda>s ev. sidebar_step ev s) s evs)" for s
    by (induction evs arbitrary: s) (simp_all add: kept_step)
  then have "kept (foldl (\<lambda>s ev. sidebar_step ev s) (sidebar_init jar) evs)"
    using assms by (simp add: kept_def sidebar_init_def)
  then show ?thesis by (simp add: kept_def sidebar_init_def)
qed

lemma sidebar_restored_witness:
  "sb_open (sidebar_init (sb_cookies (foldl (\<lambda>s ev. sidebar_step ev s) (sidebar_init []) [Toggle 1000])))
    = sb_open (foldl (\<lambda>s ev. sidebar_step ev s) (sidebar_init []) [Toggle 1000])"
  by (rule sidebar_restored) (simp add: plain_jar_def)

section \<open>A narrow window\<close>

text \<open>What the user can do with the pointer: press the trigger where it is shown, close an open sheet, and change the
  width of the window.\<close>

inductive pointer_step :: "int \<times> sidebar_state \<Rightarrow> int \<times> sidebar_state \<Rightarrow> bool" where
  press_trigger: "ToggleSidebar \<in> set (presses (AppSidebar path w s user)) \<Longrightarrow> pointer_step (w, s) (w, toggleSidebar w s)"
| close_sheet: "isMobile w \<Longrightarrow> sb_openMobile s \<Longrightarrow> pointer_step (w, s) (w, s\<lparr>sb_openMobile := False\<rparr>)"
| resize: "pointer_step (w, s) (w', s)"

inductive_cases pointer_stepE: "pointer_step ws ws'"

lemma trigger_when_open:
  "ToggleSidebar \<in> set (presses (AppSidebar path w s user)) \<longleftrightarrow> \<not> isMobile w \<or> sb_openMobile s"
  by (simp add: AppSidebar_def Sidebar_def SidebarTrigger_def)

lemma setOpen_mobile [simp]: "sb_openMobile (setOpen b s) = sb_openMobile s"
  by (simp add: setOpen_def)

text \<open>C40: on a narrow window the trigger is inside the sheet it opens: whatever is pressed, and however the window is resized,
  the sidebar never shows a control on a narrow window without the keyboard, and with it the trigger is there.\<close>

theorem narrow_sidebar_needs_keyboard:
  assumes "pointer_step\<^sup>*\<^sup>* (w0, sidebar_init jar) (w, s)" and "isMobile w"
  shows "presses (AppSidebar path w s user) = []
         \<and> ToggleSidebar \<in> set (presses (AppSidebar path w (sidebar_keydown w True ''b'' s) user))"
proof -
  have "pointer_step\<^sup>*\<^sup>* ws ws' \<Longrightarrow> \<not> sb_openMobile (snd ws) \<Longrightarrow> \<not> sb_openMobile (snd ws')" for ws ws'
    by (induction rule: rtranclp_induct) (auto elim!: pointer_stepE simp: trigger_when_open toggleSidebar_def)
  from this [OF assms(1)] have "\<not> sb_openMobile s" by (simp add: sidebar_init_def)
  then show ?thesis
    using assms(2) by (simp add: trigger_when_open sidebar_keydown_def toggleSidebar_def) (simp add: AppSidebar_def Sidebar_def)
qed

lemma narrow_sidebar_needs_keyboard_witness:
  "presses (AppSidebar ''/agents'' 375 (sidebar_init []) None) = []"
  using narrow_sidebar_needs_keyboard [OF rtranclp.rtrancl_refl [of pointer_step "(375, sidebar_init [])"],
      of "''/agents''" None] by (simp add: isMobile_def)

section \<open>Signing out\<close>

text \<open>C27: when signing out settles, whatever the server answered, no access token is left and the location it leads to shows
  the login page and issues no further navigation.\<close>

theorem signed_out_at_login:
  assumes "snd (logout srv clock base st) \<noteq> Never" and "matches_literals m"
    and "handleLogout srv clock base loc st = (st1, loc1)"
  shows "getAccessToken st1 = None \<and> au_user st1 = None
         \<and> App m (au_status st1) loc1 = (Some LoginPage, None)"
proof -
  obtain s1 r where c: "call srv clock base authApi_logout st = (s1, r)" by (cases "call srv clock base authApi_logout st")
  then have r: "r \<noteq> Never" using assms(1) by (auto simp: logout_def)
  then have "logout srv clock base st = (drop_session s1, Resolved ())"
    using c by (cases r) (simp_all add: logout_def)
  then have "st1 = drop_session s1" "loc1 = \<lparr>pathname = ''/login'', from_state = None\<rparr>"
    using assms(3) by (simp_all add: handleLogout_def)
  then show ?thesis
    by (simp add: App_public [OF assms(2)] RedirectIfAuthed_def drop_session_def clearTokens_def getAccessToken_def)
qed

lemma signed_out_at_login_witness:
  "fst (App exact_match (au_status (fst (handleLogout kind_server (\<lambda>_. 0) ''h'' \<lparr>pathname = ''/groups'', from_state = None\<rparr>
      (auth_init (\<lambda>_. None) ()))))
     (snd (handleLogout kind_server (\<lambda>_. 0) ''h'' \<lparr>pathname = ''/groups'', from_state = None\<rparr> (auth_init (\<lambda>_. None) ()))))
    = Some LoginPage"
proof -
  have n: "snd (logout kind_server (\<lambda>_. 0) ''h'' (auth_init (\<lambda>_. None) ())) \<noteq> Never" by (simp add: logout_def kind_call)
  show ?thesis
    using signed_out_at_login [OF n matches_literals_exact, of "\<lparr>pathname = ''/groups'', from_state = None\<rparr>"]
    by (metis fst_conv prod.collapse)
qed

section \<open>The theme comes back\<close>

lemma theme_effect_theme [simp]:
  "th_theme (theme_effect d s) = th_theme s" "th_storage (theme_effect d s) = th_storage s"
  by (simp_all add: theme_effect_def Let_def)

definition theme_run :: "string \<Rightarrow> bool list \<Rightarrow> theme_state \<Rightarrow> theme_state" where
  "theme_run key ds s = foldl (\<lambda>s d. cycleTheme key d s) s ds"

definition known_theme :: "string \<Rightarrow> bool" where
  "known_theme t = (t \<in> {''light'', ''dark'', ''system''})"

definition one_class :: "theme_state \<Rightarrow> bool" where
  "one_class s = (count_list (th_classes s) ''light'' + count_list (th_classes s) ''dark'' = 1)"

lemma one_class_effect: "known_theme (th_theme s) \<Longrightarrow> one_class (theme_effect d s)"
proof -
  have z: "count_list (filter (\<lambda>c. c \<noteq> ''light'' \<and> c \<noteq> ''dark'') cs) ''light'' = 0"
    "count_list (filter (\<lambda>c. c \<noteq> ''light'' \<and> c \<noteq> ''dark'') cs) ''dark'' = 0" for cs
    by (simp_all add: count_list_0_iff)
  show "known_theme (th_theme s) \<Longrightarrow> ?thesis"
    by (auto simp: one_class_def theme_effect_def Let_def known_theme_def z)
qed

definition theme_ok :: "string \<Rightarrow> theme_state \<Rightarrow> bool" where
  "theme_ok key s = (known_theme (th_theme s) \<and> one_class s \<and> stored_theme key System (th_storage s) = th_theme s)"

lemma theme_ok_cycle: "theme_ok key (cycleTheme key d s)"
proof -
  have "known_theme (th_theme (cycleTheme key d s))" by (simp add: cycleTheme_def setTheme_def known_theme_def)
  moreover have "one_class (cycleTheme key d s)"
    unfolding cycleTheme_def setTheme_def by (rule one_class_effect) (simp add: known_theme_def)
  ultimately show ?thesis by (simp add: theme_ok_def cycleTheme_def setTheme_def stored_theme_def)
qed

text \<open>however often the theme is cycled and whatever the system prefers, the document carries exactly one of the classes
  \<open>light\<close> and \<open>dark\<close>, a later load of the page starts with the same theme, and three presses come back to it.\<close>

theorem theme_kept:
  "one_class (theme_run key (d # ds) s)
   \<and> th_theme (theme_init key d' cls (th_storage (theme_run key (d # ds) s))) = th_theme (theme_run key (d # ds) s)
   \<and> th_theme (theme_run key [d1, d2, d3] (theme_run key (d # ds) s)) = th_theme (theme_run key (d # ds) s)"
proof -
  have "theme_ok key s' \<Longrightarrow> theme_ok key (foldl (\<lambda>s d. cycleTheme key d s) s' ds)" for s'
    by (induction ds arbitrary: s') (simp_all add: theme_ok_cycle)
  then have ok: "theme_ok key (theme_run key (d # ds) s)" by (simp add: theme_run_def theme_ok_cycle)
  have "known_theme (th_theme s') \<Longrightarrow> th_theme (theme_run key [d1, d2, d3] s') = th_theme s'" for s'
    by (auto simp: theme_run_def cycleTheme_def setTheme_def known_theme_def)
  then show ?thesis using ok by (simp add: theme_ok_def theme_init_def)
qed

section \<open>Retries\<close>

text \<open>Under \<open>swrConfig\<close> a request that was answered with a client error is not repeated; a network failure and every other
  answer that is an error are.\<close>

theorem retry_after_answer:
  "retried (snd (finish_fetch fr st)) =
    (case fr of
       NetworkFailure m \<Rightarrow> True
     | Response r \<Rightarrow>
         if snd (finish_response r st) = Never \<or> rs_status r \<in> {400..<500} then False
         else if response_ok r then rs_status r \<noteq> 204 \<and> rs_body r = None
         else True)"
  by (auto simp: finish_fetch_def retried_def finish_response_def shouldRetryOnError_def response_ok_def
      split: fetch_result.splits option.splits)

end
