(* ===== verification/Data_Cache.thy ===== *)
theory Data_Cache
  imports Config_Metrics Detail_Drawers Telemetry_Logs Admin_Pages Git_Sources Query_Lab
begin

text \<open>
  What the components ask of the shared cache (the library swr): the keys under which they share data, the
  options they fetch with (lib/swr-provider.tsx, lib/swr-config.ts and the calls of \<open>useSWR\<close>), and the
  page of the configurations (pages/Configs.tsx) run over it.  Of the library itself the model takes what its
  documentation states: there is one entry per key, a component that asks for a key is given the entry at once, an answer
  replaces the entry, options of a call override those of the provider and these the defaults.
\<close>

section \<open>Keys\<close>

text \<open>One constructor per call of \<open>useSWR\<close>; the last argument of the entity queries tells an agent from a group.\<close>

datatype query =
    AllAgents | AllGroups | AllConfigs | WholeTopology | AllGitSources | AllApiKeys | AuditPage nat string
  | ConfigOf string | VersionsOf string | AgentTopologyOf string | GroupOf string | GroupTopologyOf string
  | GroupAgentsOf string | AgentConfigOf string | PreviewConfigOf string | ComponentMetricsOf string
  | PreviewMetricsOf string | AgentMetricsOf string metrics_range | EntityMetricsOf string bool
  | EntityLogsOf string string string bool | Templates | Functions

text \<open>A key is a text, or for the audit log an array.\<close>

datatype cache_key = TextKey string | ArrayKey "jval list"

definition entity_type :: "bool \<Rightarrow> string" where
  "entity_type is_agent = (if is_agent then ''agent'' else ''group'')"

fun query_key :: "query \<Rightarrow> cache_key" where
  "query_key AllAgents = TextKey ''agents''"
| "query_key AllGroups = TextKey ''groups''"
| "query_key AllConfigs = TextKey ''configs''"
| "query_key WholeTopology = TextKey ''topology''"
| "query_key AllGitSources = TextKey ''git-sources''"
| "query_key AllApiKeys = TextKey ''auth-api-keys''"
| "query_key (AuditPage k f) = ArrayKey [JStr ''audit-log'', JInt (int k), JStr f]"
| "query_key (ConfigOf i) = TextKey (''config-'' @ i)"
| "query_key (VersionsOf i) = TextKey (''config-versions-'' @ i)"
| "query_key (AgentTopologyOf i) = TextKey (''agent-topology-'' @ i)"
| "query_key (GroupOf i) = TextKey (''group-'' @ i)"
| "query_key (GroupTopologyOf i) = TextKey (''group-topology-'' @ i)"
| "query_key (GroupAgentsOf i) = TextKey (''group-agents-'' @ i)"
| "query_key (AgentConfigOf i) = TextKey (''agent-config-'' @ i)"
| "query_key (PreviewConfigOf i) = TextKey (''agent-config-pipeline-'' @ i)"
| "query_key (ComponentMetricsOf i) = TextKey (''agent-component-metrics-'' @ i @ ''-5m'')"
| "query_key (PreviewMetricsOf i) = TextKey (''agent-component-metrics-pipeline-'' @ i)"
| "query_key (AgentMetricsOf i r) = TextKey (''agent-metrics-'' @ i @ ''-'' @ range_text r)"
| "query_key (EntityMetricsOf i a) = TextKey (entity_type a @ ''-metrics-'' @ i)"
| "query_key (EntityLogsOf i s q a) = TextKey (entity_type a @ ''-logs-'' @ i @ ''-'' @ s @ ''-'' @ q)"
| "query_key Templates = TextKey ''/telemetry/query/templates''"
| "query_key Functions = TextKey ''/telemetry/query/functions''"

text \<open>The keys the components compute are these.\<close>

lemma component_keys:
  "i \<noteq> [] \<Longrightarrow> map_option TextKey (config_key EditMode (Some i)) = Some (query_key (ConfigOf i))"
  "cp_selectedGroupId p \<noteq> [] \<Longrightarrow> map_option TextKey (versions_key p) = Some (query_key (VersionsOf (cp_selectedGroupId p)))"
  "i \<noteq> [] \<Longrightarrow> map_option TextKey (agent_topology_key (Some i) True) = Some (query_key (AgentTopologyOf i))"
  "i \<noteq> [] \<Longrightarrow> map_option (map_prod TextKey TextKey) (group_keys (Some i) True)
     = Some (query_key (GroupOf i), query_key (GroupTopologyOf i))"
  "map_option TextKey (agent_config_key None i) = Some (query_key (AgentConfigOf i))"
  "ac_viewMode q = CodeView \<Longrightarrow> map_option TextKey (agent_metrics_key i q) = Some (query_key (ComponentMetricsOf i))"
  by (simp_all add: config_key_def versions_key_def agent_topology_key_def group_keys_def agent_config_key_def
      agent_metrics_key_def)

section \<open>Keys tell queries apart\<close>

definition hex_dash :: "char set" where "hex_dash = set ''0123456789abcdef-''"

text \<open>Identifiers are the server's UUIDs.\<close>

definition uuid :: "string \<Rightarrow> bool" where
  "uuid i = (length i = 36 \<and> set i \<subseteq> hex_dash)"

fun query_ok :: "query \<Rightarrow> bool" where
  "query_ok (ConfigOf i) = uuid i"
| "query_ok (VersionsOf i) = uuid i"
| "query_ok (AgentTopologyOf i) = uuid i"
| "query_ok (GroupOf i) = uuid i"
| "query_ok (GroupTopologyOf i) = uuid i"
| "query_ok (GroupAgentsOf i) = uuid i"
| "query_ok (AgentConfigOf i) = uuid i"
| "query_ok (PreviewConfigOf i) = uuid i"
| "query_ok (ComponentMetricsOf i) = uuid i"
| "query_ok (PreviewMetricsOf i) = uuid i"
| "query_ok (AgentMetricsOf i r) = uuid i"
| "query_ok (EntityMetricsOf i a) = uuid i"
| "query_ok (EntityLogsOf i s q a) = (uuid i \<and> s \<in> set severity_options)"
| "query_ok q = True"

text \<open>The parts of a text key: what stands before the identifier, the identifier, and what follows it.\<close>

fun key_parts :: "query \<Rightarrow> (string \<times> string \<times> string) option" where
  "key_parts (ConfigOf i) = Some (''config-'', i, [])"
| "key_parts (VersionsOf i) = Some (''config-versions-'', i, [])"
| "key_parts (AgentTopologyOf i) = Some (''agent-topology-'', i, [])"
| "key_parts (GroupOf i) = Some (''group-'', i, [])"
| "key_parts (GroupTopologyOf i) = Some (''group-topology-'', i, [])"
| "key_parts (GroupAgentsOf i) = Some (''group-agents-'', i, [])"
| "key_parts (AgentConfigOf i) = Some (''agent-config-'', i, [])"
| "key_parts (PreviewConfigOf i) = Some (''agent-config-pipeline-'', i, [])"
| "key_parts (ComponentMetricsOf i) = Some (''agent-component-metrics-'', i, ''-5m'')"
| "key_parts (PreviewMetricsOf i) = Some (''agent-component-metrics-pipeline-'', i, [])"
| "key_parts (AgentMetricsOf i r) = Some (''agent-metrics-'', i, ''-'' @ range_text r)"
| "key_parts (EntityMetricsOf i a) = Some (entity_type a @ ''-metrics-'', i, [])"
| "key_parts (EntityLogsOf i s q a) = Some (entity_type a @ ''-logs-'', i, ''-'' @ s @ ''-'' @ q)"
| "key_parts q = None"

definition key_prefixes :: "string list" where
  "key_prefixes =
     [''config-'', ''config-versions-'', ''agent-topology-'', ''group-'', ''group-topology-'', ''group-agents-'',
      ''agent-config-'', ''agent-config-pipeline-'', ''agent-component-metrics-'', ''agent-component-metrics-pipeline-'',
      ''agent-metrics-'', ''group-metrics-'', ''agent-logs-'', ''group-logs-'']"

lemma key_parts_text:
  "key_parts q = Some (p, i, s) \<Longrightarrow> query_key q = TextKey (p @ i @ s) \<and> p \<in> set key_prefixes \<and> (query_ok q \<longrightarrow> uuid i)"
  by (cases q) (auto simp: key_prefixes_def entity_type_def split: if_splits)

text \<open>Where one of these prefixes begins another, what is left of the other contains a character no identifier has, and is
  shorter than an identifier.\<close>

definition prefixes_apart :: bool where
  "prefixes_apart =
     list_all (\<lambda>p. list_all (\<lambda>p'.
         p' = p \<or> \<not> starts_with p p' \<or> (length (drop (length p) p') \<le> 36 \<and> \<not> set (drop (length p) p') \<subseteq> hex_dash))
       key_prefixes) key_prefixes"

lemma prefixes_apart_holds: "prefixes_apart"
  by code_simp

lemma same_prefix:
  assumes "p @ i @ s = p' @ j @ s'" and "p \<in> set key_prefixes" and "p' \<in> set key_prefixes" and "uuid i" and "uuid j"
  shows "p = p'"
proof -
  have longer: "p = p'" if e: "p @ i @ s = p' @ t" and ps: "p \<in> set key_prefixes" "p' \<in> set key_prefixes"
    and i: "uuid i" and le: "length p \<le> length p'" for p i s p' t
  proof (rule ccontr)
    assume ne: "p \<noteq> p'"
    obtain r where r: "p' = p @ r" using e le by (metis append_eq_append_conv_if append_take_drop_id)
    then have "i @ s = r @ t" using e by simp
    moreover have "length r \<le> 36" and n: "\<not> set r \<subseteq> hex_dash"
      using prefixes_apart_holds [unfolded prefixes_apart_def list_all_iff, rule_format, OF ps] ne r by auto
    ultimately have "r = take (length r) i" using i by (metis append_eq_append_conv_if uuid_def)
    then have "set r \<subseteq> set i" by (metis set_take_subset)
    then show False using n i by (auto simp: uuid_def)
  qed
  show ?thesis
    using longer [of p i s p' "j @ s'"] longer [of p' j s' p "i @ s"] assms by (metis nat_le_linear)
qed

definition fixed_texts :: "string list" where
  "fixed_texts =
     [''agents'', ''groups'', ''configs'', ''topology'', ''git-sources'', ''auth-api-keys'',
      ''/telemetry/query/templates'', ''/telemetry/query/functions'']"

lemma fixed_text_short: "t \<in> set fixed_texts \<Longrightarrow> length t < 36"
  by (auto simp: fixed_texts_def)

lemma fixed_key: "key_parts q = None \<Longrightarrow> query_key q = TextKey t \<Longrightarrow> t \<in> set fixed_texts"
  by (cases q) (auto simp: fixed_texts_def)

text \<open>Queries with the same parts are the same, and so are two without an identifier and with the same key.\<close>

lemma range_text_inj: "range_text r = range_text r' \<Longrightarrow> r = r'"
  by (cases r; cases r') (auto simp: range_text_def)

lemma severity_text_no_dash: "s \<in> set severity_options \<Longrightarrow> CHR ''-'' \<notin> set s"
  by (auto simp: severity_options_def)

lemma entity_type_inj: "entity_type a = entity_type b \<Longrightarrow> a = b"
  by (cases a; cases b) (auto simp: entity_type_def)

lemma key_parts_inj:
  assumes "key_parts q = Some x" and "key_parts q' = Some x" and "query_ok q" and "query_ok q'"
  shows "q = q'"
proof (cases "\<exists>i s t a. q = EntityLogsOf i s t a")
  case True
  then obtain i s t a where q: "q = EntityLogsOf i s t a" by blast
  with assms(1,2) obtain s' t' a' where q': "q' = EntityLogsOf i s' t' a'"
    by (cases q') (auto simp: entity_type_def split: if_splits)
  have "s @ CHR ''-'' # t = s' @ CHR ''-'' # t'" and "a = a'"
    using assms(1,2) q q' by (auto simp: entity_type_def split: if_splits)
  moreover have "CHR ''-'' \<notin> set s" "CHR ''-'' \<notin> set s'" using assms(3,4) q q' severity_text_no_dash by auto
  ultimately show ?thesis using q q' append_sep_inj by metis
next
  case False
  then show ?thesis using assms
    by (cases q; cases q') (auto simp: entity_type_def range_text_inj split: if_splits)
qed

lemma show_int_eq: "show_int a = show_int b \<longleftrightarrow> a = b"
  by (metis js_Number_show_int option.inject)

lemma audit_key_inj: "query_key (AuditPage k f) = query_key (AuditPage k' f') \<Longrightarrow> k = k' \<and> f = f'"
  by (simp add: show_int_eq)

definition plain_query :: "query \<Rightarrow> bool" where
  "plain_query q = (q \<in> {AllAgents, AllGroups, AllConfigs, WholeTopology, AllGitSources, AllApiKeys, Templates, Functions})"

lemma audit_or_fixed:
  "key_parts q = None \<Longrightarrow>
     (\<exists>k f. q = AuditPage k f)
     \<or> plain_query q"
  by (cases q) (simp_all add: plain_query_def)

lemma fixed_query_inj:
  "plain_query q \<Longrightarrow>
   plain_query q' \<Longrightarrow>
   query_key q = query_key q' \<Longrightarrow> q = q'"
  unfolding plain_query_def by (elim insertE emptyE; simp)

lemma audit_not_fixed:
  "plain_query q \<Longrightarrow>
   query_key q \<noteq> query_key (AuditPage k f)"
  unfolding plain_query_def by (elim insertE emptyE; simp)

lemma fixed_key_inj:
  assumes "key_parts q = None" and "key_parts q' = None" and "query_key q = query_key q'"
  shows "q = q'"
proof (cases "\<exists>k f. q = AuditPage k f"; cases "\<exists>k f. q' = AuditPage k f")
  assume "\<exists>k f. q = AuditPage k f" and "\<exists>k f. q' = AuditPage k f"
  then obtain k f k' f' where "q = AuditPage k f" "q' = AuditPage k' f'" by blast
  then show ?thesis using audit_key_inj [of k f k' f'] assms(3) by simp
next
  assume "\<exists>k f. q = AuditPage k f" and n: "\<not> (\<exists>k f. q' = AuditPage k f)"
  then obtain k f where "q = AuditPage k f" by blast
  then show ?thesis using audit_not_fixed [of q' k f] audit_or_fixed [OF assms(2)] n assms(3) by metis
next
  assume n: "\<not> (\<exists>k f. q = AuditPage k f)" and "\<exists>k f. q' = AuditPage k f"
  then obtain k f where "q' = AuditPage k f" by blast
  then show ?thesis using audit_not_fixed [of q k f] audit_or_fixed [OF assms(1)] n assms(3) by metis
next
  assume n: "\<not> (\<exists>k f. q = AuditPage k f)" "\<not> (\<exists>k f. q' = AuditPage k f)"
  have "plain_query q"
    using audit_or_fixed [OF assms(1)] n(1) by blast
  moreover have "plain_query q'"
    using audit_or_fixed [OF assms(2)] n(2) by blast
  ultimately show ?thesis using assms(3) by (rule fixed_query_inj)
qed

lemma long_key: "key_parts q = Some x \<Longrightarrow> query_ok q \<Longrightarrow> \<exists>t. query_key q = TextKey t \<and> 36 \<le> length t"
  using key_parts_text [of q "fst x" "fst (snd x)" "snd (snd x)"] by (simp add: uuid_def)


definition demo_uuid :: string where "demo_uuid = ''01234567-89ab-cdef-0123-456789abcdef''"


section \<open>Options\<close>

text \<open>\<open>None\<close> is an option that is not given; the times are milliseconds.\<close>

record swr_options =
  so_refreshInterval :: "nat option"
  so_revalidateOnFocus :: "bool option"
  so_revalidateOnReconnect :: "bool option"
  so_revalidateIfStale :: "bool option"
  so_errorRetryCount :: "nat option"
  so_errorRetryInterval :: "nat option"
  so_dedupingInterval :: "nat option"
  so_focusThrottleInterval :: "nat option"

definition no_options :: swr_options where
  "no_options = \<lparr>so_refreshInterval = None, so_revalidateOnFocus = None, so_revalidateOnReconnect = None,
     so_revalidateIfStale = None, so_errorRetryCount = None, so_errorRetryInterval = None, so_dedupingInterval = None,
     so_focusThrottleInterval = None\<rparr>"

definition provider_options :: swr_options where
  "provider_options = no_options\<lparr>so_refreshInterval := Some 30000, so_revalidateOnFocus := Some True,
     so_revalidateOnReconnect := Some True, so_errorRetryCount := Some 3, so_errorRetryInterval := Some 5000\<rparr>"

text \<open>The configurations of lib/swr-config.ts, which the provider does not use.\<close>

definition swrConfig :: swr_options where
  "swrConfig = \<lparr>so_refreshInterval = None, so_revalidateOnFocus = Some False, so_revalidateOnReconnect = Some True,
     so_revalidateIfStale = Some False, so_errorRetryCount = Some 3, so_errorRetryInterval = Some 5000,
     so_dedupingInterval = Some 2000, so_focusThrottleInterval = Some 5000\<rparr>"

definition swrConfigs :: "(string \<times> swr_options) list" where
  "swrConfigs =
     [(''realtime'', swrConfig\<lparr>so_revalidateOnFocus := Some True\<rparr>),
      (''user'', swrConfig\<lparr>so_refreshInterval := Some 0, so_revalidateOnFocus := Some True\<rparr>),
      (''static'', swrConfig\<lparr>so_refreshInterval := Some 0, so_revalidateOnFocus := Some False, so_revalidateOnReconnect := Some False\<rparr>),
      (''settings'', swrConfig\<lparr>so_refreshInterval := Some 0, so_revalidateOnFocus := Some True, so_revalidateOnReconnect := Some True\<rparr>)]"

text \<open>What the calls pass themselves.\<close>

fun call_options :: "query \<Rightarrow> swr_options" where
  "call_options (AuditPage k f) = no_options\<lparr>so_refreshInterval := Some 60000\<rparr>"
| "call_options (ComponentMetricsOf i) = no_options\<lparr>so_refreshInterval := Some 5000\<rparr>"
| "call_options (PreviewMetricsOf i) = no_options\<lparr>so_refreshInterval := Some 5000\<rparr>"
| "call_options (AgentMetricsOf i r) = no_options\<lparr>so_refreshInterval := Some 30000\<rparr>"
| "call_options (GroupAgentsOf i) = no_options\<lparr>so_revalidateOnFocus := Some False, so_revalidateOnReconnect := Some False\<rparr>"
| "call_options (EntityMetricsOf i a) = no_options\<lparr>so_revalidateOnFocus := Some False, so_revalidateOnReconnect := Some False\<rparr>"
| "call_options (EntityLogsOf i s q a) = no_options\<lparr>so_revalidateOnFocus := Some False, so_revalidateOnReconnect := Some False\<rparr>"
| "call_options q = (if q \<in> {AllAgents, AllGroups, AllConfigs, WholeTopology, AllGitSources}
     then no_options\<lparr>so_refreshInterval := Some 30000\<rparr> else no_options)"

definition or_else :: "'a option \<Rightarrow> 'a option \<Rightarrow> 'a option" where
  "or_else a b = (case a of Some x \<Rightarrow> Some x | None \<Rightarrow> b)"

definition poll_interval :: "query \<Rightarrow> nat option" where
  "poll_interval q = or_else (so_refreshInterval (call_options q)) (so_refreshInterval provider_options)"

definition refetch_on_focus :: "query \<Rightarrow> bool option" where
  "refetch_on_focus q = or_else (so_revalidateOnFocus (call_options q)) (so_revalidateOnFocus provider_options)"

text \<open>Every query is fetched again at least once a minute while a component that uses it is mounted.\<close>

lemma polled: "poll_interval q \<in> {Some 5000, Some 30000, Some 60000}"
  by (cases q) (simp_all add: poll_interval_def or_else_def no_options_def provider_options_def)

section \<open>Configurations over the cache\<close>

record configs_run =
  cr_mode :: PageMode
  cr_id :: "string option"
  cr_page :: configs_page
  cr_cache :: "cache_key \<Rightarrow> Config option"
  cr_sent :: "api_request list"

definition configs_run_init :: configs_run where
  "configs_run_init = \<lparr>cr_mode = ListMode, cr_id = None, cr_page = configs_page_init, cr_cache = (\<lambda>_. None), cr_sent = []\<rparr>"

text \<open>\<open>currentConfigData\<close>: what the cache holds for the key of the page, which is none outside the editor.\<close>

definition current_config_data :: "configs_run \<Rightarrow> Config option" where
  "current_config_data r =
     (case config_key (cr_mode r) (cr_id r) of None \<Rightarrow> None | Some k \<Rightarrow> cr_cache r (TextKey k))"

text \<open>The effect runs when the mode or the data changed.\<close>

definition with_effect :: "configs_run \<Rightarrow> configs_run \<Rightarrow> configs_run" where
  "with_effect r r' =
     (if cr_mode r = cr_mode r' \<and> current_config_data r = current_config_data r' then r'
      else r'\<lparr>cr_page := load_effect (cr_mode r') (current_config_data r') (cr_page r')\<rparr>)"

definition open_page :: "PageMode \<Rightarrow> string option \<Rightarrow> configs_run \<Rightarrow> configs_run" where
  "open_page m i r = with_effect r (r\<lparr>cr_mode := m, cr_id := i\<rparr>)"

definition press_save :: "Group list \<Rightarrow> int \<Rightarrow> configs_run \<Rightarrow> configs_run" where
  "press_save groups now r =
     (if cr_mode r \<noteq> ListMode \<and> can_save_config groups (cr_page r) then
        r\<lparr>cr_page := config_save_start (cr_page r),
          cr_sent := cr_sent r @ [config_save_request now (cr_mode r) (current_config_data r) (cr_page r)]\<rparr>
      else r)"

definition press_control :: "configs_control \<Rightarrow> configs_run \<Rightarrow> configs_run" where
  "press_control a r =
     (case a of
        SaveConfig \<Rightarrow> r
      | configs_control.EditConfig i \<Rightarrow> open_page EditMode (Some i) r
      | CreateNew \<Rightarrow> open_page CreateMode None r
      | BackToList \<Rightarrow> open_page ListMode None r
      | _ \<Rightarrow> r\<lparr>cr_page := fst (configs_action a (cr_page r))\<rparr>)"

text \<open>The answer to a save; \<open>mutateConfigs\<close> and \<open>mutateVersions\<close> fetch the list and the versions again, not the edited entry.\<close>

definition save_answered :: "bool \<Rightarrow> configs_run \<Rightarrow> configs_run" where
  "save_answered ok r =
     (let r' = r\<lparr>cr_page := fst (config_save_finish ok (cr_page r))\<rparr> in
      if ok then open_page ListMode None r' else r')"

definition config_answered :: "string \<Rightarrow> Config \<Rightarrow> configs_run \<Rightarrow> configs_run" where
  "config_answered i c r = with_effect r (r\<lparr>cr_cache := (cr_cache r)(query_key (ConfigOf i) \<mapsto> c)\<rparr>)"

text \<open>Signing out leaves the page; nothing clears the cache (hooks/useAuth.tsx).\<close>

definition signed_out_of_page :: "configs_run \<Rightarrow> configs_run" where
  "signed_out_of_page r = r\<lparr>cr_mode := ListMode, cr_id := None, cr_page := configs_page_init\<rparr>"

datatype configs_run_event =
    Pressed configs_control | SavePressed int | SaveAnswered bool | ConfigAnswered string Config | SignedOut

definition configs_run_step :: "Group list \<Rightarrow> configs_run_event \<Rightarrow> configs_run \<Rightarrow> configs_run" where
  "configs_run_step groups ev r =
     (case ev of
        Pressed a \<Rightarrow> press_control a r
      | SavePressed now \<Rightarrow> press_save groups now r
      | SaveAnswered ok \<Rightarrow> save_answered ok r
      | ConfigAnswered i c \<Rightarrow> config_answered i c r
      | SignedOut \<Rightarrow> signed_out_of_page r)"

definition configs_run_of :: "Group list \<Rightarrow> configs_run_event list \<Rightarrow> configs_run \<Rightarrow> configs_run" where
  "configs_run_of groups evs r = foldl (\<lambda>r ev. configs_run_step groups ev r) r evs"

lemma cache_with_effect [simp]: "cr_cache (with_effect r r') = cr_cache r'" "cr_sent (with_effect r r') = cr_sent r'"
  "cr_mode (with_effect r r') = cr_mode r'" "cr_id (with_effect r r') = cr_id r'"
  by (simp_all add: with_effect_def)

lemma cache_run:
  "(\<And>c. ConfigAnswered i c \<notin> set evs) \<Longrightarrow>
   cr_cache (configs_run_of groups evs r) (query_key (ConfigOf i)) = cr_cache r (query_key (ConfigOf i))"
proof (induction evs arbitrary: r)
  case (Cons ev evs)
  have "cr_cache (configs_run_step groups ev r) (query_key (ConfigOf i)) = cr_cache r (query_key (ConfigOf i))"
    using Cons.prems by (cases ev) (auto simp: configs_run_step_def press_control_def press_save_def save_answered_def
        config_answered_def signed_out_of_page_def open_page_def Let_def split: configs_control.splits)
  then show ?case using Cons by (simp add: configs_run_of_def)
qed (simp add: configs_run_of_def)

text \<open>C21: between two answers for a configuration every save from its editor sends the version after the answered one, whatever was
  edited, saved, left and signed out of in between; and opening the editor again shows the answered text, not the one that was
  saved.\<close>

theorem saves_share_a_version:
  assumes "\<And>c'. ConfigAnswered i c' \<notin> set evs" and "cr_cache r (query_key (ConfigOf i)) = Some c" and "i \<noteq> []"
    and "r' = configs_run_of groups evs r"
  shows "(cr_mode r' = EditMode \<and> cr_id r' = Some i \<and> can_save_config groups (cr_page r') \<longrightarrow>
           (\<exists>n t. last (cr_sent (configs_run_step groups (SavePressed now) r'))
              = updateConfig (cf_id c) (JObj [(''name'', JStr n), (''content'', JStr t), (''version'', JInt (cf_version c + 1))])))
    \<and> (cr_mode r' = ListMode \<longrightarrow>
           cp_editorContent (cr_page (configs_run_step groups (Pressed (configs_control.EditConfig i)) r')) = cf_content c)"
proof -
  have c: "cr_cache r' (query_key (ConfigOf i)) = Some c" using cache_run [OF assms(1)] assms(2,4) by simp
  then have k: "cr_mode r' = EditMode \<Longrightarrow> cr_id r' = Some i \<Longrightarrow> current_config_data r' = Some c"
    using assms(3) by (simp add: current_config_data_def config_key_def)
  have n: "cr_mode r' = ListMode \<Longrightarrow> current_config_data r' = None"
    by (simp add: current_config_data_def config_key_def split: option.splits)
  have o: "current_config_data (r'\<lparr>cr_mode := EditMode, cr_id := Some i\<rparr>) = Some c"
    using c assms(3) by (simp add: current_config_data_def config_key_def)
  show ?thesis
    using k n o by (auto simp: configs_run_step_def press_save_def config_save_request_def press_control_def open_page_def
        with_effect_def load_effect_def)
qed

definition demo_stored :: Config where
  "demo_stored = \<lparr>cf_id = ''c1'', cf_name = ''Edge'', cf_agent_id = None, cf_group_id = Some ''g1'', cf_config_hash = [],
     cf_content = ''receivers:'', cf_version = 3, cf_created_at = []\<rparr>"

definition demo_opened :: configs_run where
  "demo_opened = configs_run_of [] [Pressed (configs_control.EditConfig ''c1''), ConfigAnswered ''c1'' demo_stored] configs_run_init"

definition demo_saved :: "configs_run_event list" where
  "demo_saved = [Pressed (TypeContent ''exporters:''), SavePressed 0, SaveAnswered True]"

lemma saves_share_a_version_witness:
  "cp_editorContent (cr_page (configs_run_of [] (demo_saved @ [Pressed (configs_control.EditConfig ''c1'')]) demo_opened)) = ''receivers:''"
proof -
  have "ConfigAnswered ''c1'' c' \<notin> set demo_saved" for c' by (simp add: demo_saved_def)
  moreover have "cr_cache demo_opened (query_key (ConfigOf ''c1'')) = Some demo_stored"
    by (simp add: demo_opened_def configs_run_of_def configs_run_step_def config_answered_def)
  moreover have "cr_mode (configs_run_of [] demo_saved demo_opened) = ListMode"
    by (simp add: demo_saved_def configs_run_of_def configs_run_step_def save_answered_def open_page_def Let_def)
  ultimately show ?thesis
    using saves_share_a_version [of "''c1''" demo_saved demo_opened demo_stored] 
    by (simp add: configs_run_of_def demo_stored_def)
qed

end
