(* ===== verification/Phase_One.thy ===== *)
theory Phase_One
  imports Config_Metrics Telemetry_Logs Query_Lab
begin

text \<open>
  The interfaces of the telemetry that this version leaves empty (api/telemetry.ts, api/collector-metrics.ts and
  api/lawrence-ql.ts), the fetchers of the components that call them, and what the components show because of them: the
  comment in the three files, that they compile but return empty data, holds on every screen.
\<close>

section \<open>The interfaces\<close>

definition queryMetrics :: "(string \<times> jval) list \<Rightarrow> MetricData list" where
  "queryMetrics query = []"

definition queryLogs :: "(string \<times> jval) list \<Rightarrow> LogData list" where
  "queryLogs query = []"

definition fetchAgentComponentMetrics :: "string \<Rightarrow> nat option \<Rightarrow> editor_metrics list" where
  "fetchAgentComponentMetrics agentId minutes = []"

definition executeLawrenceQL :: "string \<Rightarrow> LawrenceQLResponse" where
  "executeLawrenceQL query = \<lparr>lr_results = [], lr_execution_time = 0, lr_row_count = 0, lr_query_type = ''unknown''\<rparr>"

definition validateQuery :: "string \<Rightarrow> query_check" where
  "validateQuery query = \<lparr>qc_valid = True, qc_error = None\<rparr>"

definition getQuerySuggestions :: "string \<Rightarrow> int \<Rightarrow> string list" where
  "getQuerySuggestions query cursorPos = []"

definition getQueryTemplates :: "QueryTemplate list" where
  "getQueryTemplates = []"

record FunctionInfo =
  fi_name :: string
  fi_description :: string
  fi_args :: "string list option"

definition getQueryFunctions :: "FunctionInfo list" where
  "getQueryFunctions = []"

text \<open>\<open>data?.templates || []\<close> and \<open>data?.functions || []\<close>, given what the cache holds.\<close>

definition useQueryTemplates :: "QueryTemplate list option \<Rightarrow> QueryTemplate list" where
  "useQueryTemplates data = (case data of Some ts \<Rightarrow> ts | None \<Rightarrow> [])"

definition useQueryFunctions :: "FunctionInfo list option \<Rightarrow> FunctionInfo list" where
  "useQueryFunctions data = (case data of Some fs \<Rightarrow> fs | None \<Rightarrow> [])"

section \<open>The fetchers\<close>

text \<open>What the metrics of an agent ask for, what the shared timeline asks for, and what they keep.\<close>

definition agent_metrics_query :: "(int \<Rightarrow> string) \<Rightarrow> int \<Rightarrow> string \<Rightarrow> metrics_range \<Rightarrow> (string \<times> jval) list" where
  "agent_metrics_query toISOString now agentId r =
     [(''agent_id'', JStr agentId), (''start_time'', JStr (toISOString (fst (metrics_window r now)))),
      (''end_time'', JStr (toISOString (snd (metrics_window r now)))), (''limit'', JNum ''10000'')]"

definition agent_metrics_fetch :: "(int \<Rightarrow> string) \<Rightarrow> int \<Rightarrow> string \<Rightarrow> metrics_range \<Rightarrow> MetricData list" where
  "agent_metrics_fetch toISOString now agentId r = queryMetrics (agent_metrics_query toISOString now agentId r)"

definition timeline_query :: "(int \<Rightarrow> string) \<Rightarrow> int \<Rightarrow> string option \<Rightarrow> string option \<Rightarrow> (string \<times> jval) list" where
  "timeline_query toISOString now agentId groupId =
     (case given agentId of Some a \<Rightarrow> [(''agent_id'', JStr a)] | None \<Rightarrow> [])
     @ (case given groupId of Some g \<Rightarrow> [(''group_id'', JStr g)] | None \<Rightarrow> [])
     @ [(''start_time'', JStr (toISOString (fst (metrics_window M1h now)))),
        (''end_time'', JStr (toISOString (snd (metrics_window M1h now)))), (''limit'', JNum ''100'')]"

text \<open>The state of the timeline: \<open>metricsData\<close>, set by the fetcher.\<close>

definition timeline_fetch ::
  "(int \<Rightarrow> string) \<Rightarrow> int \<Rightarrow> string option \<Rightarrow> string option \<Rightarrow> MetricData list \<Rightarrow> MetricData list" where
  "timeline_fetch toISOString now agentId groupId metricsData = queryMetrics (timeline_query toISOString now agentId groupId)"

definition logs_fetch ::
  "(int \<Rightarrow> string) \<Rightarrow> int \<Rightarrow> string option \<Rightarrow> string option \<Rightarrow> logs_view \<Rightarrow> logs_view" where
  "logs_fetch toISOString now agentId groupId p = logs_answer (Some (queryLogs (logs_query toISOString now agentId groupId p))) p"

text \<open>The metrics of the canvas and of the editor, for five minutes and for the range of the editor.\<close>

definition canvas_metrics_fetch :: "string \<Rightarrow> ComponentMetrics list" where
  "canvas_metrics_fetch agentId = map ComponentMetrics.truncate (fetchAgentComponentMetrics agentId (Some 5))"

definition editor_metrics_fetch :: "string \<Rightarrow> TimeRange \<Rightarrow> editor_metrics list" where
  "editor_metrics_fetch agentId timeRange = fetchAgentComponentMetrics agentId (Some (nat (timeRangeToMinutes timeRange)))"

section \<open>What is shown\<close>

text \<open>The steps of the logs and of the query page with answers of these interfaces only.\<close>

inductive logs_live :: "(int \<Rightarrow> string) \<Rightarrow> string option \<Rightarrow> string option \<Rightarrow> logs_view \<Rightarrow> bool"
  for toISOString agentId groupId where
  logs_live_init: "logs_live toISOString agentId groupId logs_view_init"
| logs_live_act: "logs_live toISOString agentId groupId p \<Longrightarrow> logs_live toISOString agentId groupId (logs_action a p)"
| logs_live_fetch: "logs_live toISOString agentId groupId p \<Longrightarrow>
    logs_live toISOString agentId groupId (logs_fetch toISOString now agentId groupId p)"

lemma logs_live_empty: "logs_live toISOString agentId groupId p \<Longrightarrow> lv_logsData p = []"
  by (induction rule: logs_live.induct) (simp_all add: logs_view_init_def logs_fetch_def logs_answer_def queryLogs_def)

fun stub_answers :: "lab_event \<Rightarrow> bool" where
  "stub_answers (QueryAnswer i now r) = (\<exists>q. r = Inr (executeLawrenceQL q))"
| "stub_answers ev = True"

definition lab_empty :: "lab \<Rightarrow> bool" where
  "lab_empty s \<longleftrightarrow>
     (case ql_results (lab_ql s) of Some r \<Rightarrow> lr_results r = [] | None \<Rightarrow> True)
     \<and> ql_error (lab_ql s) \<in> {None, Some ''Query cannot be empty''}
     \<and> list_all (\<lambda>h. qh_rowCount h = Some 0) (ql_history (lab_ql s))"

lemma list_all_take: "list_all P xs \<Longrightarrow> list_all P (take n xs)"
  by (auto simp: list_all_iff dest: in_set_takeD)

lemma lab_empty_start: "lab_empty s \<Longrightarrow> lab_empty (start_query s)"
  by (auto simp: lab_empty_def start_query_def execute_start_def Let_def split: option.splits if_splits)

lemma lab_empty_step: "lab_empty s \<Longrightarrow> stub_answers ev \<Longrightarrow> lab_empty (lab_step ev s)"
proof (cases ev)
  case (QueryAnswer i now r)
  assume s: "lab_empty s" and "stub_answers ev"
  then obtain q where "r = Inr (executeLawrenceQL q)" using QueryAnswer by auto
  then show ?thesis using s QueryAnswer
    by (auto simp: lab_empty_def lab_step_def execute_finish_def executeLawrenceQL_def list_all_take split: option.splits)
qed (auto simp: lab_empty_start lab_step_def, auto simp: lab_empty_def clearResults_def select_query_def)

lemma lab_empty_run: "list_all stub_answers evs \<Longrightarrow> lab_empty s \<Longrightarrow> lab_empty (foldl (\<lambda>s ev. lab_step ev s) s evs)"
  by (induction evs arbitrary: s) (auto simp: lab_empty_step)

definition without_metrics :: "flow_node \<Rightarrow> bool" where
  "without_metrics n = (case fn_data n of Message t \<Rightarrow> True | SectionData ty l w h m \<Rightarrow> m = None | ComponentData v t m \<Rightarrow> m = None)"

lemma component_nodes_without: "list_all without_metrics (component_nodes kind ty (\<lambda>_. None) pos names)"
  by (auto simp: component_nodes_def without_metrics_def list_all_iff)

lemma pipeline_nodes_without: "list_all without_metrics (pipeline_nodes [] y name rs ps es)"
proof -
  have "without_metrics (section_node [] name y k h)" for k h by (simp add: section_node_def without_metrics_def Let_def)
  then show ?thesis by (simp add: pipeline_nodes_def Let_def findComponentMetrics_def component_nodes_without)
qed

lemma layout_without: "layout_pipelines [] y ps = Inr g \<Longrightarrow> list_all without_metrics (fg_nodes g)"
proof (induction ps arbitrary: y g)
  case (Cons p ps)
  then show ?case by (cases p) (auto simp: bindE_Inr_iff pipeline_nodes_without)
qed simp

lemma generated_without: "generatePipelineNodes load c [] = Inr g \<Longrightarrow> list_all without_metrics (fg_nodes g)"
  by (auto simp: generatePipelineNodes_def message_graph_def bindE_Inr_iff without_metrics_def layout_without
      split: if_splits sum.splits)

text \<open>as the comments say, this version returns empty data everywhere: whatever is pressed, typed and fetched, the logs stay
  empty, the metrics tabs of an agent have no component, no node of a canvas carries a figure, and no query
  finds a row or fails.\<close>

theorem phase_one_is_empty:
  shows "logs_live toISOString agentId groupId p \<Longrightarrow> lv_logsData p = []"
    and "components_of k (agent_metrics_fetch toISOString now i r) = []"
    and "pv_metricsData v = Some (canvas_metrics_fetch i) \<Longrightarrow> pipeline_effect load v = Inr g \<Longrightarrow>
      list_all without_metrics (fg_nodes g)"
    and "list_all stub_answers evs \<Longrightarrow> lab_empty (lab_run evs)"
proof -
  show "logs_live toISOString agentId groupId p \<Longrightarrow> lv_logsData p = []" by (rule logs_live_empty)
  show "components_of k (agent_metrics_fetch toISOString now i r) = []"
    by (simp add: agent_metrics_fetch_def queryMetrics_def components_of_def componentMap_def accumulate_def)
  show "pv_metricsData v = Some (canvas_metrics_fetch i) \<Longrightarrow> pipeline_effect load v = Inr g \<Longrightarrow>
      list_all without_metrics (fg_nodes g)"
    by (auto simp: pipeline_effect_def canvas_metrics_fetch_def fetchAgentComponentMetrics_def intro: generated_without split: if_splits)
  have "lab_empty lab_init" by (simp add: lab_empty_def lab_init_def lawrence_ql_init_def)
  then show "list_all stub_answers evs \<Longrightarrow> lab_empty (lab_run evs)" unfolding lab_run_def using lab_empty_run by blast
qed

end
