(* ===== verification/Charts.thy ===== *)
theory Charts
  imports Ui_View
begin

text \<open>
  The chart wrapper (components/ui/chart.tsx): the style sheet with one colour variable per series and theme, how a tooltip and a
  legend find the configuration of a series, and what they show; and the stepper (components/ui/stepper.tsx).  No page
  uses either yet.  Recharts passes the items as values, to the legend as objects; a formatter is an argument; a label is a text.  A
  configuration is listed in the order of its keys, each once, and no name is one of \<open>Object.prototype\<close>.
\<close>

section \<open>Configuration\<close>

record chart_item =
  ci_label :: "string option"
  ci_icon :: "string option"
  ci_color :: "string option"
  ci_theme :: "(string \<times> string) list option"

type_synonym ChartConfig = "(string \<times> chart_item) list"

definition THEMES :: "(string \<times> string) list" where
  "THEMES = [(''light'', []), (''dark'', ''.dark'')]"

text \<open>\<open>useChart\<close> outside a container raises.\<close>

definition useChart :: "ChartConfig option \<Rightarrow> string + ChartConfig" where
  "useChart context =
     (case context of None \<Rightarrow> Inl ''useChart must be used within a <ChartContainer />'' | Some c \<Rightarrow> Inr c)"

definition chart_id :: "string option \<Rightarrow> string \<Rightarrow> string" where
  "chart_id ident uniqueId =
     ''chart-'' @ (case given ident of Some i \<Rightarrow> i | None \<Rightarrow> filter (\<lambda>c. c \<noteq> CHR '':'') uniqueId)"

section \<open>The style sheet\<close>

definition item_color :: "string \<Rightarrow> chart_item \<Rightarrow> string option" where
  "item_color theme i =
     (case given (case ci_theme i of Some t \<Rightarrow> map_of t theme | None \<Rightarrow> None) of
        Some c \<Rightarrow> Some c
      | None \<Rightarrow> given (ci_color i))"

definition colorConfig :: "ChartConfig \<Rightarrow> ChartConfig" where
  "colorConfig config = filter (\<lambda>(k, i). ci_theme i \<noteq> None \<or> given (ci_color i) \<noteq> None) config"

definition color_line :: "string \<Rightarrow> string \<times> chart_item \<Rightarrow> string" where
  "color_line theme ki =
     (case item_color theme (snd ki) of Some c \<Rightarrow> ''  --color-'' @ fst ki @ '': '' @ c @ '';'' | None \<Rightarrow> [])"

definition theme_block :: "string \<Rightarrow> ChartConfig \<Rightarrow> string \<times> string \<Rightarrow> string" where
  "theme_block ident cs tp =
     newline # snd tp @ '' [data-chart='' @ ident @ ''] {'' @ newline
       # join_with [newline] (map (color_line (fst tp)) cs) @ newline # ''}'' @ [newline]"

definition ChartStyle :: "string \<Rightarrow> ChartConfig \<Rightarrow> string option" where
  "ChartStyle ident config =
     (let cs = colorConfig config in
      if cs = [] then None else Some (join_with [newline] (map (theme_block ident cs) THEMES)))"

section \<open>The configuration of a series\<close>

text \<open>The text under a name of an object, if there is one.\<close>

definition string_field :: "jval \<Rightarrow> string \<Rightarrow> string option" where
  "string_field v k = (case map_of (js_entries v) k of Some (JStr s) \<Rightarrow> Some s | _ \<Rightarrow> None)"

definition is_object :: "jval \<Rightarrow> bool" where
  "is_object v = (typeof_object v \<and> v \<noteq> JNull)"

definition object_field :: "jval \<Rightarrow> string \<Rightarrow> jval option" where
  "object_field v k = (case map_of (js_entries v) k of Some w \<Rightarrow> if is_object w then Some w else None | None \<Rightarrow> None)"

definition getPayloadConfigFromPayload :: "ChartConfig \<Rightarrow> jval \<Rightarrow> string \<Rightarrow> chart_item option" where
  "getPayloadConfigFromPayload config payload key =
     (if \<not> is_object payload then None
      else
        let configLabelKey =
              (case string_field payload key of
                 Some s \<Rightarrow> s
               | None \<Rightarrow> (case object_field payload ''payload'' of
                            Some pp \<Rightarrow> (case string_field pp key of Some s \<Rightarrow> s | None \<Rightarrow> key)
                          | None \<Rightarrow> key)) in
        case map_of config configLabelKey of Some i \<Rightarrow> Some i | None \<Rightarrow> map_of config key)"

section \<open>Tooltip and legend\<close>

definition read_field :: "jval \<Rightarrow> string \<Rightarrow> jval" where
  "read_field v k = (case opt_prop v k of Inr w \<Rightarrow> w | Inl e \<Rightarrow> JUndef)"

record tooltip_options =
  to_active :: bool
  to_indicator :: string
  to_hideLabel :: bool
  to_hideIndicator :: bool
  to_label :: jval
  to_labelFormatter :: "(jval \<Rightarrow> jval list \<Rightarrow> string) option"
  to_formatter :: "(jval \<Rightarrow> jval \<Rightarrow> jval \<Rightarrow> nat \<Rightarrow> jval \<Rightarrow> string) option"
  to_color :: "string option"
  to_nameKey :: "string option"
  to_labelKey :: "string option"

definition label_value :: "chart_item option \<Rightarrow> jval" where
  "label_value i = (case i of Some x \<Rightarrow> (case ci_label x of Some l \<Rightarrow> JStr l | None \<Rightarrow> JUndef) | None \<Rightarrow> JUndef)"

definition js_key :: "string option \<Rightarrow> jval \<Rightarrow> string" where
  "js_key given_key rest = (case given given_key of Some k \<Rightarrow> k | None \<Rightarrow> to_str (js_or rest (JStr ''value'')))"

definition tooltip_label :: "ChartConfig \<Rightarrow> tooltip_options \<Rightarrow> jval list \<Rightarrow> 'a view list" where
  "tooltip_label config o1 payload =
     (case payload of
        [] \<Rightarrow> []
      | item # _ \<Rightarrow>
          if to_hideLabel o1 then []
          else
            let key = js_key (to_labelKey o1) (js_or (read_field item ''dataKey'') (read_field item ''name''));
                itemConfig = getPayloadConfigFromPayload config item key;
                v = (case (given (to_labelKey o1), to_label o1) of
                       (None, JStr l) \<Rightarrow> js_or (label_value (map_of config l)) (JStr l)
                     | _ \<Rightarrow> label_value itemConfig) in
            (case to_labelFormatter o1 of
               Some f \<Rightarrow> [Txt (f v payload)]
             | None \<Rightarrow> only_if (truthy v) [Txt (to_str v)]))"

definition nestLabel :: "tooltip_options \<Rightarrow> jval list \<Rightarrow> bool" where
  "nestLabel o1 payload = (length payload = 1 \<and> to_indicator o1 \<noteq> ''dot'')"

text \<open>What React renders for a value: nothing for undefined and null.  \<open>{item.value && \<dots>}\<close> renders a zero as it is.\<close>

definition rendered :: "jval \<Rightarrow> 'a view list" where
  "rendered v = only_if (\<not> nullish v) [Txt (to_str v)]"

definition rendered_value :: "(jval \<Rightarrow> string) \<Rightarrow> jval \<Rightarrow> 'a view list" where
  "rendered_value showNumber v =
     (if truthy v then [Txt (showNumber v)] else (case v of JNum t \<Rightarrow> [Txt t] | _ \<Rightarrow> []))"

definition item_icon :: "chart_item option \<Rightarrow> string option" where
  "item_icon i = (case i of Some x \<Rightarrow> ci_icon x | None \<Rightarrow> None)"

text \<open>\<open>showNumber\<close> is \<open>toLocaleString\<close>.\<close>

definition tooltip_default ::
  "(jval \<Rightarrow> string) \<Rightarrow> ChartConfig \<Rightarrow> tooltip_options \<Rightarrow> jval list \<Rightarrow> chart_item option \<Rightarrow> jval \<Rightarrow> jval \<Rightarrow> jval \<Rightarrow> 'a view list" where
  "tooltip_default showNumber config o1 payload itemConfig indicatorColor name v =
     (case item_icon itemConfig of
        Some ic \<Rightarrow> [Tag ic []]
      | None \<Rightarrow> only_if (\<not> to_hideIndicator o1) [Tag (to_indicator o1) (rendered indicatorColor)])
     @ only_if (nestLabel o1 payload) (tooltip_label config o1 payload)
     @ rendered (js_or (label_value itemConfig) name)
     @ rendered_value showNumber v"

text \<open>\<open>color || item.payload.fill || item.color\<close>: without a colour of the tooltip an item needs a payload.\<close>

definition indicator_color :: "string option \<Rightarrow> jval \<Rightarrow> js_error + jval" where
  "indicator_color color item =
     (case given color of
        Some c \<Rightarrow> Inr (JStr c)
      | None \<Rightarrow> (case get_prop item ''payload'' of
                   Inl e \<Rightarrow> Inl e
                 | Inr p \<Rightarrow> (case get_prop p ''fill'' of
                              Inl e \<Rightarrow> Inl e
                            | Inr f \<Rightarrow> Inr (js_or f (read_field item ''color'')))))"

definition tooltip_row ::
  "(jval \<Rightarrow> string) \<Rightarrow> ChartConfig \<Rightarrow> tooltip_options \<Rightarrow> jval list \<Rightarrow> nat \<times> jval \<Rightarrow> js_error + 'a view" where
  "tooltip_row showNumber config o1 payload ii =
     (let (index, item) = ii in
      if nullish item then Inl TypeError
      else
        let name = read_field item ''name''; v = read_field item ''value'';
            itemConfig = getPayloadConfigFromPayload config item
                           (js_key (to_nameKey o1) (js_or name (read_field item ''dataKey''))) in
        case indicator_color (to_color o1) item of
          Inl e \<Rightarrow> Inl e
        | Inr indicatorColor \<Rightarrow> Inr (Tag ''row''
            (case to_formatter o1 of
               Some f \<Rightarrow>
                 if v \<noteq> JUndef \<and> truthy name then [Txt (f v name item index (read_field item ''payload''))]
                 else tooltip_default showNumber config o1 payload itemConfig indicatorColor name v
             | None \<Rightarrow> tooltip_default showNumber config o1 payload itemConfig indicatorColor name v)))"

fun each_row :: "('b \<Rightarrow> js_error + 'c) \<Rightarrow> 'b list \<Rightarrow> js_error + 'c list" where
  "each_row f [] = Inr []"
| "each_row f (x # xs) =
     (case f x of
        Inl e \<Rightarrow> Inl e
      | Inr y \<Rightarrow> (case each_row f xs of Inl e \<Rightarrow> Inl e | Inr ys \<Rightarrow> Inr (y # ys)))"

definition ChartTooltipContent ::
  "(jval \<Rightarrow> string) \<Rightarrow> ChartConfig \<Rightarrow> tooltip_options \<Rightarrow> jval list \<Rightarrow> js_error + 'a view list" where
  "ChartTooltipContent showNumber config o1 payload =
     (if \<not> to_active o1 \<or> payload = [] then Inr []
      else
        case each_row (tooltip_row showNumber config o1 payload) (zip [0..<length payload] payload) of
          Inl e \<Rightarrow> Inl e
        | Inr rows \<Rightarrow> Inr (only_if (\<not> nestLabel o1 payload) (tooltip_label config o1 payload) @ rows))"

definition legend_item :: "ChartConfig \<Rightarrow> bool \<Rightarrow> string option \<Rightarrow> jval \<Rightarrow> 'a view" where
  "legend_item config hideIcon nameKey item =
     (let itemConfig = getPayloadConfigFromPayload config item (js_key nameKey (read_field item ''dataKey'')) in
      Tag ''item''
        ((case (item_icon itemConfig, hideIcon) of
            (Some ic, False) \<Rightarrow> [Tag ic []]
          | _ \<Rightarrow> [Tag (to_str (read_field item ''color'')) []])
         @ rendered (label_value itemConfig)))"

definition ChartLegendContent :: "ChartConfig \<Rightarrow> bool \<Rightarrow> string option \<Rightarrow> jval list \<Rightarrow> 'a view list" where
  "ChartLegendContent config hideIcon nameKey payload = map (legend_item config hideIcon nameKey) payload"

section \<open>The stepper\<close>

record Step =
  st_title :: string
  st_description :: "string option"

datatype step_state = Completed | Current | Upcoming

definition step_state_of :: "int \<Rightarrow> int \<Rightarrow> step_state" where
  "step_state_of currentStep stepNumber =
     (if stepNumber < currentStep then Completed else if stepNumber = currentStep then Current else Upcoming)"

definition step_view :: "int \<Rightarrow> nat \<Rightarrow> nat \<times> Step \<Rightarrow> 'a view list" where
  "step_view currentStep n ist =
     (let (index, s) = ist; state = step_state_of currentStep (int index + 1) in
      [Tag (if state = Upcoming then ''muted'' else ''primary'')
         ([if state = Completed then Tag ''Check'' [] else Txt (show_nat (index + 1)), Txt (st_title s)]
          @ (case given (st_description s) of Some d \<Rightarrow> [Txt d] | None \<Rightarrow> []))]
      @ only_if (index + 1 < n) [Tag (if state = Completed then ''line-primary'' else ''line-muted'') []])"

definition Stepper :: "Step list \<Rightarrow> int \<Rightarrow> 'a view list" where
  "Stepper steps currentStep = concat (map (step_view currentStep (length steps)) (zip [0..<length steps] steps))"

section \<open>The style sheet is read back\<close>

definition block_header :: "string \<Rightarrow> string \<Rightarrow> string" where
  "block_header prefix ident = prefix @ '' [data-chart='' @ ident @ ''] {''"

fun block_lines :: "string \<Rightarrow> string list \<Rightarrow> string list" where
  "block_lines h [] = []"
| "block_lines h (l # ls) = (if l = h then takeWhile (\<lambda>x. x \<noteq> ''}'') ls else block_lines h ls)"

definition read_color_line :: "string \<Rightarrow> (string \<times> string) list" where
  "read_color_line l =
     (if starts_with ''  --color-'' l then
        let r = drop 10 l; k = takeWhile (\<lambda>c. c \<noteq> CHR '':'') r in [(k, butlast (drop (length k + 2) r))]
      else [])"

text \<open>What a browser finds in the block of a theme: the variables and their values.\<close>

definition read_colors :: "string \<Rightarrow> string \<Rightarrow> string \<Rightarrow> (string \<times> string) list" where
  "read_colors prefix ident sheet =
     concat (map read_color_line (block_lines (block_header prefix ident) (split_on newline sheet)))"

definition clean_item :: "string \<times> chart_item \<Rightarrow> bool" where
  "clean_item ki =
     (newline \<notin> set (fst ki) \<and> CHR '':'' \<notin> set (fst ki)
      \<and> list_all (\<lambda>(t, p). case item_color t (snd ki) of Some c \<Rightarrow> newline \<notin> set c | None \<Rightarrow> True) THEMES)"

definition block_of :: "string \<Rightarrow> ChartConfig \<Rightarrow> string \<times> string \<Rightarrow> string list" where
  "block_of ident cs tp = [[], block_header (snd tp) ident] @ map (color_line (fst tp)) cs @ [''}'', []]"

lemma join_with_append:
  "xs \<noteq> [] \<Longrightarrow> ys \<noteq> [] \<Longrightarrow> join_with s (xs @ ys) = join_with s xs @ s @ join_with s ys"
  by (induction s xs rule: join_with.induct) (auto simp: neq_Nil_conv)

lemma join_framed:
  assumes "ls \<noteq> []"
  shows "join_with s ([[], h] @ ls @ [e, []]) = s @ h @ s @ join_with s ls @ s @ e @ s"
proof -
  have "join_with s (ls @ [e, []]) = join_with s ls @ s @ e @ s" using assms by (simp add: join_with_append)
  moreover have "ls @ [e, []] \<noteq> []" by simp
  ultimately show ?thesis by (metis append.assoc append_Nil join_with.simps(2) join_with_append list.distinct(1) append_Cons)
qed

lemma theme_block_frame:
  "theme_block ident cs tp =
   [newline] @ block_header (snd tp) ident @ [newline] @ join_with [newline] (map (color_line (fst tp)) cs) @ [newline] @ ''}'' @ [newline]"
  by (simp add: theme_block_def block_header_def)

lemma theme_block_lines:
  assumes "cs \<noteq> []"
  shows "theme_block ident cs tp = join_with [newline] (block_of ident cs tp)"
  unfolding theme_block_frame block_of_def using assms by (subst join_framed) simp_all

definition color_prefix :: string where
  "color_prefix = ''  --color-''"

lemma color_line_cases:
  "color_line t ki = (case item_color t (snd ki) of Some c \<Rightarrow> color_prefix @ fst ki @ [CHR '':'', CHR '' ''] @ c @ '';'' | None \<Rightarrow> [])"
  by (simp add: color_line_def color_prefix_def split: option.splits)

lemma read_prefixed:
  assumes "CHR '':'' \<notin> set k"
  shows "read_color_line (color_prefix @ k @ [CHR '':'', CHR '' ''] @ c @ '';'') = [(k, c)]"
proof -
  have "takeWhile (\<lambda>c. c \<noteq> CHR '':'') (k @ [CHR '':'', CHR '' ''] @ c @ '';'') = k"
    using assms by (subst takeWhile_append2) auto
  then show ?thesis by (simp add: read_color_line_def starts_with_def Let_def color_prefix_def)
qed

lemma read_color_line_of:
  assumes "CHR '':'' \<notin> set (fst ki)"
  shows "read_color_line (color_line t ki) = (case item_color t (snd ki) of Some c \<Rightarrow> [(fst ki, c)] | None \<Rightarrow> [])"
proof (cases "item_color t (snd ki)")
  case None
  then show ?thesis by (simp add: color_line_def read_color_line_def starts_with_def)
next
  case (Some c)
  then show ?thesis using read_prefixed [OF assms] by (simp only: color_line_cases option.case)
qed

text \<open>The lines of a sheet, and where a block begins and ends.\<close>

lemma color_line_head: "color_line t ki = [] \<or> hd (color_line t ki) = CHR '' ''"
  by (simp add: color_line_def split: option.splits)

lemma color_line_second: "color_line t ki = [] \<or> color_line t ki ! 1 = CHR '' ''"
  by (simp add: color_line_def split: option.splits)

lemma color_line_not_brace: "color_line t ki \<noteq> ''}''"
  using color_line_head [of t ki] by auto

lemma light_header: "block_header [] ident \<noteq> [] \<and> hd (block_header [] ident) = CHR '' '' \<and> block_header [] ident ! 1 = CHR ''[''"
  by (simp add: block_header_def)

lemma dark_header: "block_header ''.dark'' ident \<noteq> [] \<and> hd (block_header ''.dark'' ident) = CHR ''.''"
  by (simp add: block_header_def)

lemma block_lines_skip: "h \<notin> set pre \<Longrightarrow> block_lines h (pre @ ls) = block_lines h ls"
  by (induction pre) auto

lemma block_lines_found: "\<forall>x \<in> set ls. x \<noteq> ''}'' \<Longrightarrow> block_lines h (h # ls @ ''}'' # rest) = ls"
  by (simp add: takeWhile_append2)

lemma read_block:
  assumes "list_all (\<lambda>ki. CHR '':'' \<notin> set (fst ki)) cs"
  shows "concat (map read_color_line (map (color_line t) cs))
         = concat (map (\<lambda>(k, i). case item_color t i of Some c \<Rightarrow> [(k, c)] | None \<Rightarrow> []) cs)"
  using assms by (induction cs) (auto simp: read_color_line_of split: option.split)

lemma clean_color_line:
  assumes "clean_item ki" and "t \<in> {''light'', ''dark''}"
  shows "newline \<notin> set (color_line t ki)"
proof (cases "item_color t (snd ki)")
  case None
  then show ?thesis by (simp add: color_line_def)
next
  case (Some c)
  then have "newline \<notin> set c" "newline \<notin> set (fst ki)" using assms by (auto simp: clean_item_def THEMES_def)
  then show ?thesis using Some by (simp add: color_line_def)
qed

lemma clean_header: "newline \<notin> set ident \<Longrightarrow> newline \<notin> set (block_header [] ident) \<and> newline \<notin> set (block_header ''.dark'' ident)"
  by (simp add: block_header_def)

definition sheet_lines :: "string \<Rightarrow> ChartConfig \<Rightarrow> string list" where
  "sheet_lines ident cs = block_of ident cs (''light'', []) @ block_of ident cs (''dark'', ''.dark'')"

lemma sheet_joined:
  assumes "cs \<noteq> []"
  shows "join_with [newline] (map (theme_block ident cs) THEMES) = join_with [newline] (sheet_lines ident cs)"
proof -
  have "block_of ident cs tp \<noteq> []" for tp by (simp add: block_of_def)
  then show ?thesis
    unfolding sheet_lines_def THEMES_def using assms by (simp add: join_with_append theme_block_lines)
qed

lemma sheet_clean:
  assumes "list_all clean_item cs" and "newline \<notin> set ident"
  shows "\<forall>l \<in> set (sheet_lines ident cs). newline \<notin> set l"
  using assms clean_color_line clean_header [OF assms(2)]
  by (auto simp: sheet_lines_def block_of_def list_all_iff)

lemma colorConfig_loses_nothing:
  "concat (map (\<lambda>(k, i). case item_color t i of Some c \<Rightarrow> [(k, c)] | None \<Rightarrow> []) (colorConfig config))
   = concat (map (\<lambda>(k, i). case item_color t i of Some c \<Rightarrow> [(k, c)] | None \<Rightarrow> []) config)"
  by (induction config) (auto simp: colorConfig_def item_color_def given_def split: option.splits if_splits)

lemma block_of_light:
  "block_lines (block_header [] ident) (sheet_lines ident cs) = map (color_line ''light'') cs"
proof -
  let ?h = "block_header [] ident"
  have lines: "sheet_lines ident cs = [[]] @ (?h # map (color_line ''light'') cs @ ''}'' # [] # block_of ident cs (''dark'', ''.dark''))"
    by (simp add: sheet_lines_def block_of_def)
  have skip: "?h \<notin> set [[]]" using light_header [of ident] by simp
  have colors: "\<forall>x \<in> set (map (color_line ''light'') cs). x \<noteq> ''}''" using color_line_not_brace by auto
  show ?thesis unfolding lines block_lines_skip [OF skip] by (rule block_lines_found [OF colors])
qed

lemma dark_header_new: "block_header ''.dark'' ident \<notin> set (block_of ident cs (''light'', []) @ [[]])"
proof -
  have "block_header ''.dark'' ident \<noteq> color_line ''light'' ki" for ki
    using dark_header [of ident] color_line_head [of "''light''" ki] by auto
  moreover have "block_header ''.dark'' ident \<noteq> block_header [] ident" and "block_header ''.dark'' ident \<noteq> ''}''"
    using dark_header [of ident] light_header [of ident] by auto
  ultimately show ?thesis using dark_header [of ident] by (auto simp: block_of_def)
qed

lemma block_of_dark:
  "block_lines (block_header ''.dark'' ident) (sheet_lines ident cs) = map (color_line ''dark'') cs"
proof -
  let ?h = "block_header ''.dark'' ident"
  have lines: "sheet_lines ident cs
        = (block_of ident cs (''light'', []) @ [[]]) @ (?h # map (color_line ''dark'') cs @ ''}'' # [[]])"
    by (simp add: sheet_lines_def block_of_def)
  have colors: "\<forall>x \<in> set (map (color_line ''dark'') cs). x \<noteq> ''}''" using color_line_not_brace by auto
  show ?thesis unfolding lines block_lines_skip [OF dark_header_new] by (rule block_lines_found [OF colors])
qed

text \<open>the style sheet of a chart gives each theme exactly the colours the configuration asks for: what a browser reads
  back in the block of a theme is, for each series in order, the colour of that theme, or the plain colour where the theme
  has none, and nothing for a series without a colour.
\<close>
theorem chart_style_read_back:
  assumes "ChartStyle ident config = Some sheet"
    and "list_all clean_item config" and "newline \<notin> set ident" and "tp \<in> set THEMES"
  shows "read_colors (snd tp) ident sheet
         = concat (map (\<lambda>(k, i). case item_color (fst tp) i of Some c \<Rightarrow> [(k, c)] | None \<Rightarrow> []) config)"
proof -
  let ?cs = "colorConfig config"
  have ne: "?cs \<noteq> []" and sheet: "sheet = join_with [newline] (sheet_lines ident ?cs)"
    using assms(1) by (auto simp: ChartStyle_def Let_def sheet_joined split: if_splits)
  have clean: "list_all clean_item ?cs" using assms(2) by (auto simp: colorConfig_def list_all_iff)
  have "sheet_lines ident ?cs \<noteq> []" by (simp add: sheet_lines_def block_of_def)
  then have "split_on newline sheet = sheet_lines ident ?cs"
    unfolding sheet by (rule split_on_join) (rule sheet_clean [OF clean assms(3)])
  then have "read_colors (snd tp) ident sheet = concat (map read_color_line (map (color_line (fst tp)) ?cs))"
    using assms(4) block_of_light block_of_dark by (auto simp: read_colors_def THEMES_def)
  also have "\<dots> = concat (map (\<lambda>(k, i). case item_color (fst tp) i of Some c \<Rightarrow> [(k, c)] | None \<Rightarrow> []) ?cs)"
    using clean by (intro read_block) (auto simp: list_all_iff clean_item_def)
  also have "\<dots> = concat (map (\<lambda>(k, i). case item_color (fst tp) i of Some c \<Rightarrow> [(k, c)] | None \<Rightarrow> []) config)"
    by (rule colorConfig_loses_nothing)
  finally show ?thesis .
qed

theorem chart_style_read_back_witness:
  "(let config = [(''cpu'', \<lparr>ci_label = None, ci_icon = None, ci_color = Some ''red'', ci_theme = None\<rparr>),
                  (''mem'', \<lparr>ci_label = None, ci_icon = None, ci_color = None, ci_theme = Some [(''dark'', ''#fff'')]\<rparr>)] in
    read_colors ''.dark'' ''c1'' (the (ChartStyle ''c1'' config)) = [(''cpu'', ''red''), (''mem'', ''#fff'')])"
proof -
  define config where "config =
     [(''cpu'', \<lparr>ci_label = None, ci_icon = None, ci_color = Some ''red'', ci_theme = None\<rparr>),
      (''mem'', \<lparr>ci_label = None, ci_icon = None, ci_color = None, ci_theme = Some [(''dark'', ''#fff'')]\<rparr>)]"
  have drawn: "ChartStyle ''c1'' config = Some (the (ChartStyle ''c1'' config))"
    by (simp add: config_def ChartStyle_def Let_def colorConfig_def given_def)
  have clean: "list_all clean_item config"
    by (simp add: config_def clean_item_def THEMES_def item_color_def given_def)
  have "read_colors (snd (''dark'', ''.dark'')) ''c1'' (the (ChartStyle ''c1'' config)) = [(''cpu'', ''red''), (''mem'', ''#fff'')]"
    by (subst chart_style_read_back [OF drawn clean])
       (simp_all add: THEMES_def config_def item_color_def given_def)
  then show ?thesis by (simp only: Let_def config_def snd_conv)
qed

end
