(* ===== verification/Unit_Tests.thy ===== *)
theory Unit_Tests
  imports Validation
begin

text \<open>
  The unit tests of the program (ui/src/lib/validation/yaml-position.test.ts, index.test.ts and
  validators/otel-pipeline-validator.test.ts), restated as data and checked on the model by evaluation.
  Each test gives the text, what js-yaml returns for it where the test parses it, and what the test
  expects.  No test uses a name with regular expression operators, so the engine is never asked.
\<close>

definition no_engine :: regex_engine where
  "no_engine p s = Inl SyntaxError"

section \<open>Positions\<close>

record position_test =
  pt_yaml :: string
  pt_path :: "string list"
  pt_component :: jval
  pt_expected :: "yaml_pos option"

definition position_test_passes :: "position_test \<Rightarrow> bool" where
  "position_test_passes t =
     (findYamlPosition no_engine (pt_yaml t) (pt_path t) (pt_component t) = Inr (pt_expected t))"

definition paths_tests :: "position_test list" where
  "paths_tests = [
   \<lparr>pt_yaml = ''receivers:\<newline>  otlp:\<newline>    protocols:\<newline>      grpc:'',
     pt_path = [''receivers''], pt_component = JUndef,
     pt_expected = Some \<lparr>yp_line = 1, yp_column = 1, yp_endLine = 1, yp_endColumn = Num 10\<rparr>\<rparr>,
   \<lparr>pt_yaml = ''receivers:\<newline>  otlp:\<newline>    protocols:\<newline>      grpc:'',
     pt_path = [''receivers'', ''otlp'', ''protocols''], pt_component = JUndef,
     pt_expected = Some \<lparr>yp_line = 3, yp_column = 5, yp_endLine = 3, yp_endColumn = Num 14\<rparr>\<rparr>,
   \<lparr>pt_yaml = ''service:\<newline>  pipelines:\<newline>    traces:\<newline>      receivers:\<newline>        - otlp'',
     pt_path = [''service'', ''pipelines'', ''traces'', ''receivers''], pt_component = JUndef,
     pt_expected = Some \<lparr>yp_line = 4, yp_column = 7, yp_endLine = 4, yp_endColumn = Num 16\<rparr>\<rparr>]"

definition multiline_tests :: "position_test list" where
  "multiline_tests = [
   \<lparr>pt_yaml = ''service:\<newline>  pipelines:\<newline>    traces:\<newline>      receivers:\<newline>        - otlp\<newline>        - jaeger\<newline>        - zipkin'',
     pt_path = [''service'', ''pipelines'', ''traces'', ''receivers''], pt_component = JStr ''jaeger'',
     pt_expected = Some \<lparr>yp_line = 6, yp_column = 11, yp_endLine = 6, yp_endColumn = Num 17\<rparr>\<rparr>,
   \<lparr>pt_yaml = ''service:\<newline>  pipelines:\<newline>    traces:\<newline>      receivers:\<newline>        - otlp\<newline>        - jaeger'',
     pt_path = [''service'', ''pipelines'', ''traces'', ''receivers''], pt_component = JStr ''otlp'',
     pt_expected = Some \<lparr>yp_line = 5, yp_column = 11, yp_endLine = 5, yp_endColumn = Num 15\<rparr>\<rparr>,
   \<lparr>pt_yaml = ''service:\<newline>  pipelines:\<newline>    traces:\<newline>      receivers:\<newline>        - otlp\<newline>        - jaeger\<newline>        - zipkin'',
     pt_path = [''service'', ''pipelines'', ''traces'', ''receivers''], pt_component = JStr ''zipkin'',
     pt_expected = Some \<lparr>yp_line = 7, yp_column = 11, yp_endLine = 7, yp_endColumn = Num 17\<rparr>\<rparr>,
   \<lparr>pt_yaml = ''service:\<newline>  pipelines:\<newline>    traces:\<newline>      receivers:\<newline>        -   otlp\<newline>        -  jaeger'',
     pt_path = [''service'', ''pipelines'', ''traces'', ''receivers''], pt_component = JStr ''jaeger'',
     pt_expected = Some \<lparr>yp_line = 6, yp_column = 12, yp_endLine = 6, yp_endColumn = Num 18\<rparr>\<rparr>]"

definition inline_tests :: "position_test list" where
  "inline_tests = [
   \<lparr>pt_yaml = ''service:\<newline>  pipelines:\<newline>    traces:\<newline>      receivers: [otlp, jaeger, zipkin]'',
     pt_path = [''service'', ''pipelines'', ''traces'', ''receivers''], pt_component = JStr ''jaeger'',
     pt_expected = Some \<lparr>yp_line = 4, yp_column = 25, yp_endLine = 4, yp_endColumn = Num 31\<rparr>\<rparr>,
   \<lparr>pt_yaml = ''service:\<newline>  pipelines:\<newline>    traces:\<newline>      receivers: [otlp, jaeger]'',
     pt_path = [''service'', ''pipelines'', ''traces'', ''receivers''], pt_component = JStr ''otlp'',
     pt_expected = Some \<lparr>yp_line = 4, yp_column = 19, yp_endLine = 4, yp_endColumn = Num 23\<rparr>\<rparr>,
   \<lparr>pt_yaml = ''service:\<newline>  pipelines:\<newline>    traces:\<newline>      receivers: [otlp, jaeger, zipkin]'',
     pt_path = [''service'', ''pipelines'', ''traces'', ''receivers''], pt_component = JStr ''zipkin'',
     pt_expected = Some \<lparr>yp_line = 4, yp_column = 33, yp_endLine = 4, yp_endColumn = Num 39\<rparr>\<rparr>,
   \<lparr>pt_yaml = ''service:\<newline>  pipelines:\<newline>    traces:\<newline>      receivers: [ otlp , jaeger , zipkin ]'',
     pt_path = [''service'', ''pipelines'', ''traces'', ''receivers''], pt_component = JStr ''jaeger'',
     pt_expected = Some \<lparr>yp_line = 4, yp_column = 27, yp_endLine = 4, yp_endColumn = Num 33\<rparr>\<rparr>]"

definition edges_tests :: "position_test list" where
  "edges_tests = [
   \<lparr>pt_yaml = ''receivers:\<newline>  otlp:'',
     pt_path = [''service'', ''pipelines''], pt_component = JUndef,
     pt_expected = None\<rparr>,
   \<lparr>pt_yaml = ''service:\<newline>  pipelines:\<newline>    traces:\<newline>      receivers:\<newline>        - otlp\<newline>        - jaeger'',
     pt_path = [''service'', ''pipelines'', ''traces'', ''receivers''], pt_component = JStr ''nonexistent'',
     pt_expected = Some \<lparr>yp_line = 4, yp_column = 7, yp_endLine = 4, yp_endColumn = Num 16\<rparr>\<rparr>,
   \<lparr>pt_yaml = ''service:\<newline>  pipelines:\<newline>    # This is a comment\<newline>    traces:\<newline>      receivers:\<newline>        # Another comment\<newline>        - otlp\<newline>\<newline>        - jaeger'',
     pt_path = [''service'', ''pipelines'', ''traces'', ''receivers''], pt_component = JStr ''jaeger'',
     pt_expected = Some \<lparr>yp_line = 9, yp_column = 11, yp_endLine = 9, yp_endColumn = Num 17\<rparr>\<rparr>,
   \<lparr>pt_yaml = ''service:\<newline>  pipelines:\<newline>    traces:\<newline>      receivers:\<newline>        - otlp\<newline>      exporters:\<newline>        - otlp\<newline>    metrics:\<newline>      receivers:\<newline>        - prometheus'',
     pt_path = [''service'', ''pipelines'', ''metrics'', ''receivers''], pt_component = JStr ''prometheus'',
     pt_expected = Some \<lparr>yp_line = 10, yp_column = 11, yp_endLine = 10, yp_endColumn = Num 21\<rparr>\<rparr>,
   \<lparr>pt_yaml = ''service:\<newline>  pipelines:\<newline>    traces:\<newline>      receivers:\<newline>        - otlp\<newline>        - otlp/2'',
     pt_path = [''service'', ''pipelines'', ''traces'', ''receivers''], pt_component = JStr ''otlp/2'',
     pt_expected = Some \<lparr>yp_line = 6, yp_column = 11, yp_endLine = 6, yp_endColumn = Num 17\<rparr>\<rparr>]"

definition sections_tests :: "position_test list" where
  "sections_tests = [
   \<lparr>pt_yaml = ''service:\<newline>  pipelines:\<newline>    traces:\<newline>      processors:\<newline>        - batch\<newline>        - memory_limiter'',
     pt_path = [''service'', ''pipelines'', ''traces'', ''processors''], pt_component = JStr ''memory_limiter'',
     pt_expected = Some \<lparr>yp_line = 6, yp_column = 11, yp_endLine = 6, yp_endColumn = Num 25\<rparr>\<rparr>,
   \<lparr>pt_yaml = ''service:\<newline>  pipelines:\<newline>    traces:\<newline>      exporters:\<newline>        - otlp\<newline>        - logging'',
     pt_path = [''service'', ''pipelines'', ''traces'', ''exporters''], pt_component = JStr ''logging'',
     pt_expected = Some \<lparr>yp_line = 6, yp_column = 11, yp_endLine = 6, yp_endColumn = Num 18\<rparr>\<rparr>]"

section \<open>References of pipelines\<close>

text \<open>What a test expects of one error: parts of its message and, where it says so, its position.\<close>

record expected_error =
  ex_parts :: "string list"
  ex_line :: "nat option"
  ex_column :: "nat option"
  ex_endColumn :: "nat option"

definition agrees :: "'a option \<Rightarrow> 'a \<Rightarrow> bool" where
  "agrees e x = (case e of None \<Rightarrow> True | Some y \<Rightarrow> x = y)"

definition as_expected :: "expected_error \<Rightarrow> ValidationError \<Rightarrow> bool" where
  "as_expected x e =
     (list_all (\<lambda>p. js_includes p (ve_message e)) (ex_parts x) \<and> ve_severity e = SevError
      \<and> agrees (ex_line x) (ve_line e) \<and> agrees (ex_column x) (ve_column e)
      \<and> (case ex_endColumn x of None \<Rightarrow> True | Some c \<Rightarrow> ve_endColumn e = Some (Num c)))"

record pipeline_test =
  pp_yaml :: string
  pp_parsed :: jval
  pp_expected :: "expected_error list"

definition pipeline_test_passes :: "pipeline_test \<Rightarrow> bool" where
  "pipeline_test_passes t =
     (case OTelPipelineValidator_validate no_engine (pp_yaml t) (pp_parsed t) of
        Inl e \<Rightarrow> False
      | Inr es \<Rightarrow> list_all2 as_expected (pp_expected t) es)"

definition valid_pipeline_tests :: "pipeline_test list" where
  "valid_pipeline_tests = [
   \<lparr>pp_yaml = ''receivers:\<newline>  otlp:\<newline>    protocols:\<newline>      grpc:\<newline>service:\<newline>  pipelines:\<newline>    traces:\<newline>      receivers: [otlp]'',
     pp_parsed = JObj [(''receivers'', JObj [(''otlp'', JObj [(''protocols'', JObj [(''grpc'', JNull)])])]), (''service'', JObj [(''pipelines'', JObj [(''traces'', JObj [(''receivers'', JArr [JStr ''otlp''])])])])],
     pp_expected = []\<rparr>,
   \<lparr>pp_yaml = ''receivers:\<newline>  otlp:\<newline>processors:\<newline>  batch:\<newline>service:\<newline>  pipelines:\<newline>    traces:\<newline>      receivers: [otlp]\<newline>      processors: [batch]'',
     pp_parsed = JObj [(''receivers'', JObj [(''otlp'', JNull)]), (''processors'', JObj [(''batch'', JNull)]), (''service'', JObj [(''pipelines'', JObj [(''traces'', JObj [(''receivers'', JArr [JStr ''otlp'']), (''processors'', JArr [JStr ''batch''])])])])],
     pp_expected = []\<rparr>,
   \<lparr>pp_yaml = ''receivers:\<newline>  otlp:\<newline>exporters:\<newline>  logging:\<newline>service:\<newline>  pipelines:\<newline>    traces:\<newline>      receivers: [otlp]\<newline>      exporters: [logging]'',
     pp_parsed = JObj [(''receivers'', JObj [(''otlp'', JNull)]), (''exporters'', JObj [(''logging'', JNull)]), (''service'', JObj [(''pipelines'', JObj [(''traces'', JObj [(''receivers'', JArr [JStr ''otlp'']), (''exporters'', JArr [JStr ''logging''])])])])],
     pp_expected = []\<rparr>,
   \<lparr>pp_yaml = ''receivers:\<newline>  otlp:\<newline>  jaeger:\<newline>processors:\<newline>  batch:\<newline>  memory_limiter:\<newline>exporters:\<newline>  otlp:\<newline>  logging:\<newline>service:\<newline>  pipelines:\<newline>    traces:\<newline>      receivers: [otlp, jaeger]\<newline>      processors: [batch, memory_limiter]\<newline>      exporters: [otlp, logging]'',
     pp_parsed = JObj [(''receivers'', JObj [(''otlp'', JNull), (''jaeger'', JNull)]), (''processors'', JObj [(''batch'', JNull), (''memory_limiter'', JNull)]), (''exporters'', JObj [(''otlp'', JNull), (''logging'', JNull)]), (''service'', JObj [(''pipelines'', JObj [(''traces'', JObj [(''receivers'', JArr [JStr ''otlp'', JStr ''jaeger'']), (''processors'', JArr [JStr ''batch'', JStr ''memory_limiter'']), (''exporters'', JArr [JStr ''otlp'', JStr ''logging''])])])])],
     pp_expected = []\<rparr>,
   \<lparr>pp_yaml = ''receivers:\<newline>  otlp:\<newline>connectors:\<newline>  spanmetrics:\<newline>exporters:\<newline>  logging:\<newline>service:\<newline>  pipelines:\<newline>    traces:\<newline>      receivers: [otlp]\<newline>      exporters: [spanmetrics]\<newline>    metrics:\<newline>      receivers: [spanmetrics]\<newline>      exporters: [logging]'',
     pp_parsed = JObj [(''receivers'', JObj [(''otlp'', JNull)]), (''connectors'', JObj [(''spanmetrics'', JNull)]), (''exporters'', JObj [(''logging'', JNull)]), (''service'', JObj [(''pipelines'', JObj [(''traces'', JObj [(''receivers'', JArr [JStr ''otlp'']), (''exporters'', JArr [JStr ''spanmetrics''])]), (''metrics'', JObj [(''receivers'', JArr [JStr ''spanmetrics'']), (''exporters'', JArr [JStr ''logging''])])])])],
     pp_expected = []\<rparr>]"

definition invalid_pipeline_tests :: "pipeline_test list" where
  "invalid_pipeline_tests = [
   \<lparr>pp_yaml = ''receivers:\<newline>  otlp:\<newline>service:\<newline>  pipelines:\<newline>    traces:\<newline>      receivers:\<newline>        - otlp\<newline>        - undefined_receiver'',
     pp_parsed = JObj [(''receivers'', JObj [(''otlp'', JNull)]), (''service'', JObj [(''pipelines'', JObj [(''traces'', JObj [(''receivers'', JArr [JStr ''otlp'', JStr ''undefined_receiver''])])])])],
     pp_expected = [\<lparr>ex_parts = [''Receiver '' @ [CHR 0x27] @ ''undefined_receiver'' @ [CHR 0x27] @ '' is used in pipeline '' @ [CHR 0x27] @ ''traces'' @ [CHR 0x27] @ '' but not defined in receivers section''], ex_line = Some 8, ex_column = Some 11, ex_endColumn = None\<rparr>]\<rparr>,
   \<lparr>pp_yaml = ''receivers:\<newline>  otlp:\<newline>processors:\<newline>  batch:\<newline>service:\<newline>  pipelines:\<newline>    traces:\<newline>      receivers: [otlp]\<newline>      processors: [batch, undefined_processor]'',
     pp_parsed = JObj [(''receivers'', JObj [(''otlp'', JNull)]), (''processors'', JObj [(''batch'', JNull)]), (''service'', JObj [(''pipelines'', JObj [(''traces'', JObj [(''receivers'', JArr [JStr ''otlp'']), (''processors'', JArr [JStr ''batch'', JStr ''undefined_processor''])])])])],
     pp_expected = [\<lparr>ex_parts = [''Processor '' @ [CHR 0x27] @ ''undefined_processor'' @ [CHR 0x27] @ '' is used in pipeline '' @ [CHR 0x27] @ ''traces'' @ [CHR 0x27] @ '' but not defined in processors section''], ex_line = None, ex_column = None, ex_endColumn = None\<rparr>]\<rparr>,
   \<lparr>pp_yaml = ''receivers:\<newline>  otlp:\<newline>exporters:\<newline>  logging:\<newline>service:\<newline>  pipelines:\<newline>    traces:\<newline>      receivers: [otlp]\<newline>      exporters: [logging, undefined_exporter]'',
     pp_parsed = JObj [(''receivers'', JObj [(''otlp'', JNull)]), (''exporters'', JObj [(''logging'', JNull)]), (''service'', JObj [(''pipelines'', JObj [(''traces'', JObj [(''receivers'', JArr [JStr ''otlp'']), (''exporters'', JArr [JStr ''logging'', JStr ''undefined_exporter''])])])])],
     pp_expected = [\<lparr>ex_parts = [''Exporter '' @ [CHR 0x27] @ ''undefined_exporter'' @ [CHR 0x27] @ '' is used in pipeline '' @ [CHR 0x27] @ ''traces'' @ [CHR 0x27] @ '' but not defined in exporters section''], ex_line = None, ex_column = None, ex_endColumn = None\<rparr>]\<rparr>,
   \<lparr>pp_yaml = ''receivers:\<newline>  otlp:\<newline>service:\<newline>  pipelines:\<newline>    traces:\<newline>      receivers: [otlp, data]\<newline>      processors: [batch]\<newline>      exporters: [logging]'',
     pp_parsed = JObj [(''receivers'', JObj [(''otlp'', JNull)]), (''service'', JObj [(''pipelines'', JObj [(''traces'', JObj [(''receivers'', JArr [JStr ''otlp'', JStr ''data'']), (''processors'', JArr [JStr ''batch'']), (''exporters'', JArr [JStr ''logging''])])])])],
     pp_expected = [\<lparr>ex_parts = [''Receiver '' @ [CHR 0x27] @ ''data'' @ [CHR 0x27]], ex_line = None, ex_column = None, ex_endColumn = None\<rparr>,
       \<lparr>ex_parts = [''Processor '' @ [CHR 0x27] @ ''batch'' @ [CHR 0x27]], ex_line = None, ex_column = None, ex_endColumn = None\<rparr>,
       \<lparr>ex_parts = [''Exporter '' @ [CHR 0x27] @ ''logging'' @ [CHR 0x27]], ex_line = None, ex_column = None, ex_endColumn = None\<rparr>]\<rparr>,
   \<lparr>pp_yaml = ''receivers:\<newline>  otlp:\<newline>exporters:\<newline>  logging:\<newline>service:\<newline>  pipelines:\<newline>    traces:\<newline>      receivers: [otlp, jaeger]\<newline>      exporters: [logging]\<newline>    metrics:\<newline>      receivers: [prometheus]\<newline>      exporters: [logging]'',
     pp_parsed = JObj [(''receivers'', JObj [(''otlp'', JNull)]), (''exporters'', JObj [(''logging'', JNull)]), (''service'', JObj [(''pipelines'', JObj [(''traces'', JObj [(''receivers'', JArr [JStr ''otlp'', JStr ''jaeger'']), (''exporters'', JArr [JStr ''logging''])]), (''metrics'', JObj [(''receivers'', JArr [JStr ''prometheus'']), (''exporters'', JArr [JStr ''logging''])])])])],
     pp_expected = [\<lparr>ex_parts = [''Receiver '' @ [CHR 0x27] @ ''jaeger'' @ [CHR 0x27], ''pipeline '' @ [CHR 0x27] @ ''traces'' @ [CHR 0x27]], ex_line = None, ex_column = None, ex_endColumn = None\<rparr>,
       \<lparr>ex_parts = [''Receiver '' @ [CHR 0x27] @ ''prometheus'' @ [CHR 0x27], ''pipeline '' @ [CHR 0x27] @ ''metrics'' @ [CHR 0x27]], ex_line = None, ex_column = None, ex_endColumn = None\<rparr>]\<rparr>]"

definition edge_pipeline_tests :: "pipeline_test list" where
  "edge_pipeline_tests = [
   \<lparr>pp_yaml = '''',
     pp_parsed = JUndef,
     pp_expected = []\<rparr>,
   \<lparr>pp_yaml = ''receivers:\<newline>  otlp:'',
     pp_parsed = JObj [(''receivers'', JObj [(''otlp'', JNull)])],
     pp_expected = []\<rparr>,
   \<lparr>pp_yaml = ''receivers:\<newline>  otlp:\<newline>service:\<newline>  extensions: [health_check]'',
     pp_parsed = JObj [(''receivers'', JObj [(''otlp'', JNull)]), (''service'', JObj [(''extensions'', JArr [JStr ''health_check''])])],
     pp_expected = []\<rparr>,
   \<lparr>pp_yaml = ''exporters:\<newline>  logging:\<newline>service:\<newline>  pipelines:\<newline>    traces:\<newline>      exporters: [logging]'',
     pp_parsed = JObj [(''exporters'', JObj [(''logging'', JNull)]), (''service'', JObj [(''pipelines'', JObj [(''traces'', JObj [(''exporters'', JArr [JStr ''logging''])])])])],
     pp_expected = []\<rparr>,
   \<lparr>pp_yaml = ''receivers:\<newline>  otlp:\<newline>exporters:\<newline>  logging:\<newline>service:\<newline>  pipelines:\<newline>    traces:\<newline>      receivers: [otlp]\<newline>      exporters: [logging]'',
     pp_parsed = JObj [(''receivers'', JObj [(''otlp'', JNull)]), (''exporters'', JObj [(''logging'', JNull)]), (''service'', JObj [(''pipelines'', JObj [(''traces'', JObj [(''receivers'', JArr [JStr ''otlp'']), (''exporters'', JArr [JStr ''logging''])])])])],
     pp_expected = []\<rparr>,
   \<lparr>pp_yaml = ''receivers:\<newline>  otlp:\<newline>service:\<newline>  pipelines:\<newline>    traces:\<newline>      receivers: [otlp]'',
     pp_parsed = JObj [(''receivers'', JObj [(''otlp'', JNull)]), (''service'', JObj [(''pipelines'', JObj [(''traces'', JObj [(''receivers'', JArr [JStr ''otlp''])])])])],
     pp_expected = []\<rparr>,
   \<lparr>pp_yaml = ''receivers:\<newline>  otlp:\<newline>  otlp/2:\<newline>  otlp/custom:\<newline>exporters:\<newline>  logging:\<newline>service:\<newline>  pipelines:\<newline>    traces:\<newline>      receivers: [otlp, otlp/2, otlp/custom]\<newline>      exporters: [logging]'',
     pp_parsed = JObj [(''receivers'', JObj [(''otlp'', JNull), (''otlp/2'', JNull), (''otlp/custom'', JNull)]), (''exporters'', JObj [(''logging'', JNull)]), (''service'', JObj [(''pipelines'', JObj [(''traces'', JObj [(''receivers'', JArr [JStr ''otlp'', JStr ''otlp/2'', JStr ''otlp/custom'']), (''exporters'', JArr [JStr ''logging''])])])])],
     pp_expected = []\<rparr>,
   \<lparr>pp_yaml = ''just a string'',
     pp_parsed = JStr ''just a string'',
     pp_expected = []\<rparr>]"

definition marked_pipeline_tests :: "pipeline_test list" where
  "marked_pipeline_tests = [
   \<lparr>pp_yaml = ''receivers:\<newline>  otlp:\<newline>service:\<newline>  pipelines:\<newline>    traces:\<newline>      receivers:\<newline>        - otlp\<newline>        - data'',
     pp_parsed = JObj [(''receivers'', JObj [(''otlp'', JNull)]), (''service'', JObj [(''pipelines'', JObj [(''traces'', JObj [(''receivers'', JArr [JStr ''otlp'', JStr ''data''])])])])],
     pp_expected = [\<lparr>ex_parts = [], ex_line = Some 8, ex_column = Some 11, ex_endColumn = Some 15\<rparr>]\<rparr>,
   \<lparr>pp_yaml = ''receivers:\<newline>  otlp:\<newline>service:\<newline>  pipelines:\<newline>    traces:\<newline>      receivers: [otlp, data, jaeger]'',
     pp_parsed = JObj [(''receivers'', JObj [(''otlp'', JNull)]), (''service'', JObj [(''pipelines'', JObj [(''traces'', JObj [(''receivers'', JArr [JStr ''otlp'', JStr ''data'', JStr ''jaeger''])])])])],
     pp_expected = [\<lparr>ex_parts = [[CHR 0x27] @ ''data'' @ [CHR 0x27]], ex_line = Some 6, ex_column = Some 25, ex_endColumn = None\<rparr>,
       \<lparr>ex_parts = [[CHR 0x27] @ ''jaeger'' @ [CHR 0x27]], ex_line = Some 6, ex_column = Some 31, ex_endColumn = None\<rparr>]\<rparr>]"

section \<open>Errors with a position\<close>

definition otlp_data_text :: string where
  "otlp_data_text = ''service:\<newline>  pipelines:\<newline>    traces:\<newline>      receivers:\<newline>        - otlp\<newline>        - data''"

definition inline_data_text :: string where
  "inline_data_text = ''service:\<newline>  pipelines:\<newline>    traces:\<newline>      receivers: [otlp, data]''"

definition receivers_path :: "string list" where
  "receivers_path = [''service'', ''pipelines'', ''traces'', ''receivers'']"

definition undefined_data :: string where
  "undefined_data = ''Receiver '' @ quoted ''data'' @ '' is not defined''"

definition created_as_expected :: bool where
  "created_as_expected =
     (createValidationError no_engine undefined_data otlp_data_text receivers_path (JStr ''data'') SevError
        = Inr \<lparr>ve_message = undefined_data, ve_severity = SevError, ve_line = 6, ve_column = 11, ve_endLine = Some 6,
               ve_endColumn = Some (Num 15), ve_path = Some receivers_path\<rparr>
      \<and> createValidationError no_engine undefined_data inline_data_text receivers_path (JStr ''data'') SevError
        = Inr \<lparr>ve_message = undefined_data, ve_severity = SevError, ve_line = 4, ve_column = 25, ve_endLine = Some 4,
               ve_endColumn = Some (Num 29), ve_path = Some receivers_path\<rparr>
      \<and> createValidationError no_engine ''Something is wrong'' ''receivers:\<newline>  otlp:'' [''nonexistent'', ''path''] JUndef SevWarning
        = Inr \<lparr>ve_message = ''Something is wrong'', ve_severity = SevWarning, ve_line = 1, ve_column = 1, ve_endLine = None,
               ve_endColumn = None, ve_path = Some [''nonexistent'', ''path'']\<rparr>)"

section \<open>Running validators\<close>

text \<open>The validators the tests make up: one that gives fixed errors, one that throws, and one that wants a field.\<close>

definition test_error :: "string \<Rightarrow> severity \<Rightarrow> nat \<Rightarrow> nat \<Rightarrow> ValidationError" where
  "test_error m sev l c =
     \<lparr>ve_message = m, ve_severity = sev, ve_line = l, ve_column = c, ve_endLine = None, ve_endColumn = None, ve_path = None\<rparr>"

definition answering :: "ValidationError list \<Rightarrow> Validator" where
  "answering es = \<lparr>v_name = ''test-validator'', v_validate = (\<lambda>c d. Inr es)\<rparr>"

definition throws :: Validator where
  "throws = \<lparr>v_name = ''throwing-validator'', v_validate = (\<lambda>c d. Inl TypeError)\<rparr>"

definition wants_test_field :: Validator where
  "wants_test_field =
     \<lparr>v_name = ''test-validator'',
      v_validate = (\<lambda>c d. if truthy d \<and> typeof_object d then
          bindE (get_prop d ''test'') (\<lambda>v. Inr (if truthy v then [] else [test_error ''test field is required'' SevError 1 1]))
        else Inr [])\<rparr>"

definition small_text :: string where "small_text = ''receivers:\<newline>  otlp:''"
definition small_parsed :: jval where "small_parsed = JObj [(''receivers'', JObj [(''otlp'', JNull)])]"

definition run_tests :: "(Validator list \<times> bool \<times> nat) list" where
  "run_tests =
     [([wants_test_field], False, 1),
      ([answering [test_error ''Duplicate error'' SevError 5 10, test_error ''Duplicate error'' SevError 5 10,
                 test_error ''Duplicate error'' SevError 5 10]], False, 1),
      ([answering [test_error ''Same error'' SevError 5 10, test_error ''Same error'' SevError 6 10,
                 test_error ''Same error'' SevError 5 15]], False, 3),
      ([answering [test_error ''Error at position'' SevError 3 5], answering [test_error ''Error at position'' SevError 3 5]], False, 1),
      ([throws], True, 0),
      ([throws, answering [test_error ''Working error'' SevError 1 1]], False, 1),
      ([answering [test_error ''This is a warning'' SevWarning 1 1]], True, 1),
      ([answering [test_error ''This is an error'' SevError 1 1, test_error ''This is a warning'' SevWarning 2 1]], False, 2)]"

definition run_test_passes :: "Validator list \<times> bool \<times> nat \<Rightarrow> bool" where
  "run_test_passes t =
     (case t of (vs, ok, n) \<Rightarrow>
       let r = validateYamlConfig small_text small_parsed vs in vr_valid r = ok \<and> length (vr_errors r) = n)"

text \<open>A pipeline without an exporter: a warning, so the configuration is valid.\<close>

definition receiver_only_text :: string where
  "receiver_only_text = ''receivers:\<newline>  otlp:\<newline>service:\<newline>  pipelines:\<newline>    traces:\<newline>      receivers: [otlp]''"

definition receiver_only_parsed :: jval where
  "receiver_only_parsed =
     JObj [(''receivers'', JObj [(''otlp'', JNull)]),
           (''service'', JObj [(''pipelines'', JObj [(''traces'', JObj [(''receivers'', JArr [JStr ''otlp''])])])])]"

text \<open>The configurations of the tests that use the default validators, with the verdict they expect.\<close>

definition default_tests :: "(string \<times> jval \<times> bool) list" where
  "default_tests =
     [(''receivers:\<newline>  otlp:\<newline>exporters:\<newline>  logging:\<newline>service:\<newline>  pipelines:\<newline>    traces:\<newline>      receivers: [otlp]\<newline>      exporters: [logging]'',
       JObj [(''receivers'', JObj [(''otlp'', JNull)]), (''exporters'', JObj [(''logging'', JNull)]),
             (''service'', JObj [(''pipelines'', JObj [(''traces'', JObj [(''receivers'', JArr [JStr ''otlp'']),
                (''exporters'', JArr [JStr ''logging''])])])])], True),
      (''receivers:\<newline>  otlp:\<newline>service:\<newline>  pipelines:\<newline>    traces:\<newline>      receivers: [otlp, undefined_receiver]'',
       JObj [(''receivers'', JObj [(''otlp'', JNull)]),
             (''service'', JObj [(''pipelines'', JObj [(''traces'', JObj [(''receivers'', JArr [JStr ''otlp'', JStr ''undefined_receiver''])])])])],
       False),
      (''service:\<newline>  pipelines:\<newline>    traces:\<newline>      receivers: [undefined]'',
       JObj [(''service'', JObj [(''pipelines'', JObj [(''traces'', JObj [(''receivers'', JArr [JStr ''undefined''])])])])], False),
      (''receivers:\<newline>  otlp:\<newline>extensions:\<newline>  health_check:\<newline>service:\<newline>  pipelines:\<newline>    traces:\<newline>      receivers: [otlp]'',
       JObj [(''receivers'', JObj [(''otlp'', JNull)]), (''extensions'', JObj [(''health_check'', JNull)]),
             (''service'', JObj [(''pipelines'', JObj [(''traces'', JObj [(''receivers'', JArr [JStr ''otlp''])])])])], True),
      (receiver_only_text, receiver_only_parsed, True)]"

definition default_test_passes :: "string \<times> jval \<times> bool \<Rightarrow> bool" where
  "default_test_passes t =
     (case t of (c, d, ok) \<Rightarrow> vr_valid (validateYamlConfig c d (defaultValidators no_engine)) = ok)"

section \<open>The tests on the model\<close>

lemma position_tests_pass:
  "list_all position_test_passes paths_tests" "list_all position_test_passes multiline_tests"
  "list_all position_test_passes inline_tests" "list_all position_test_passes edges_tests"
  "list_all position_test_passes sections_tests"
  by code_simp+

lemma pipeline_tests_pass:
  "list_all pipeline_test_passes valid_pipeline_tests" "list_all pipeline_test_passes invalid_pipeline_tests"
  "list_all pipeline_test_passes edge_pipeline_tests" "list_all pipeline_test_passes marked_pipeline_tests"
  by code_simp+

lemma created_tests_pass: "created_as_expected"
  by code_simp

lemma run_tests_pass: "list_all run_test_passes run_tests" "list_all default_test_passes default_tests"
  by code_simp+

text \<open>the model meets every expectation of the unit tests of the scanner, of the validator of references, and every verdict and
  number of errors in those of the run over validators; the pipeline with a receiver and nothing else is valid with one warning.\<close>

theorem unit_tests_pass:
  "list_all position_test_passes (paths_tests @ multiline_tests @ inline_tests @ edges_tests @ sections_tests)
   \<and> list_all pipeline_test_passes
        (valid_pipeline_tests @ invalid_pipeline_tests @ edge_pipeline_tests @ marked_pipeline_tests)
   \<and> created_as_expected \<and> list_all run_test_passes run_tests \<and> list_all default_test_passes default_tests
   \<and> map ve_severity (vr_errors (validateYamlConfig receiver_only_text receiver_only_parsed (defaultValidators no_engine)))
       = [SevWarning]"
proof -
  have "map ve_severity (vr_errors (validateYamlConfig receiver_only_text receiver_only_parsed (defaultValidators no_engine)))
       = [SevWarning]"
    by code_simp
  then show ?thesis
    using position_tests_pass pipeline_tests_pass created_tests_pass run_tests_pass by simp
qed

end
