(* ===== verification/Session_Protocol.thy ===== *)
theory Session_Protocol
  imports Refresh_Protocol Ui_View "HOL-Library.Countable"
begin

text \<open>
  The session (Auth_Session) runs the protocol (Refresh_Protocol): every operation of the provider, run to its end or left
  pending, is a run of the steps of the protocol.  The abstraction numbers tokens by an injective \<open>tok\<close>; an empty text in the
  storage counts as no token, as it does for the code.  Assumed of the server (\<open>issues_fresh\<close>): what it answers to a login,
  a setup or a refresh is a pair of tokens that are not empty, and it never issues a refresh token twice.  \<open>issued\<close> reads the
  refresh tokens issued so far off the server's state.  The phase of the protocol is not related to the status of the provider.
\<close>

section \<open>The contract of the server\<close>

definition token_pair :: "jval \<Rightarrow> string \<Rightarrow> string \<Rightarrow> bool" where
  "token_pair body a r \<longleftrightarrow> get_prop body ''access_token'' = Inr (JStr a) \<and> get_prop body ''refresh_token'' = Inr (JStr r)
     \<and> (\<exists>e. get_prop body ''expires_in'' = Inr e) \<and> a \<noteq> [] \<and> r \<noteq> []"

definition token_urls :: "string \<Rightarrow> string set" where
  "token_urls base = {base @ ''/api/auth/login'', base @ ''/api/auth/setup'', base @ ''/api/auth/refresh''}"

definition issues_fresh :: "'s server \<Rightarrow> string \<Rightarrow> ('s \<Rightarrow> string set) \<Rightarrow> bool" where
  "issues_fresh srv base issued \<longleftrightarrow>
     (\<forall>s rq. issued s \<subseteq> issued (fst (srv s rq)))
     \<and> (\<forall>s rq resp body. rq_url rq \<in> token_urls base \<longrightarrow> snd (srv s rq) = Response resp \<longrightarrow> response_ok resp
          \<longrightarrow> rs_body resp = Some body
          \<longrightarrow> (\<exists>a r. token_pair body a r \<and> r \<notin> issued s \<and> r \<in> issued (fst (srv s rq))))"

section \<open>The abstraction\<close>

fun ref_matches :: "(string \<Rightarrow> nat) \<Rightarrow> refresh_ref \<Rightarrow> proto \<Rightarrow> bool" where
  "ref_matches tok RefNone p = (pr_ref p = None)"
| "ref_matches tok RefPending p = (\<exists>n. pr_ref p = Some n \<and> n < length (pr_promises p) \<and> pr_promises p ! n = Pending)"
| "ref_matches tok (RefResolved v) p =
     (\<exists>n. pr_ref p = Some n \<and> n < length (pr_promises p) \<and> pr_promises p ! n = Settled (map_option tok v))"

definition matches :: "(string \<Rightarrow> nat) \<Rightarrow> ('s \<Rightarrow> string set) \<Rightarrow> 's auth \<Rightarrow> proto \<Rightarrow> bool" where
  "matches tok issued st p \<longleftrightarrow>
     reach proto_init proto_step p
     \<and> pr_access p = map_option tok (given (cl_storage st ACCESS_TOKEN_KEY))
     \<and> pr_refresh p = map_option tok (given (cl_storage st REFRESH_TOKEN_KEY))
     \<and> ref_matches tok (au_ref st) p
     \<and> pr_issued p \<subseteq> tok ` issued (cl_server st)"

text \<open>An answer whose tokens are new to the protocol.\<close>

definition fresh_answer :: "(string \<Rightarrow> nat) \<Rightarrow> ('s \<Rightarrow> string set) \<Rightarrow> 's auth \<Rightarrow> proto \<Rightarrow> jval \<Rightarrow> bool" where
  "fresh_answer tok issued st p body \<longleftrightarrow>
     body = JUndef \<or> (\<exists>a r. token_pair body a r \<and> tok r \<notin> pr_issued p \<and> r \<in> issued (cl_server st))"

lemma matches_updates [simp]:
  "matches tok issued (st\<lparr>cl_location := l\<rparr>) p = matches tok issued st p"
  "matches tok issued (st\<lparr>au_status := a\<rparr>) p = matches tok issued st p"
  "matches tok issued (st\<lparr>au_user := u\<rparr>) p = matches tok issued st p"
  by (simp_all add: matches_def)

lemma fresh_answer_location [simp]: "fresh_answer tok issued (st\<lparr>cl_location := l\<rparr>) p body = fresh_answer tok issued st p body"
  by (simp add: fresh_answer_def)

section \<open>A call of the API layer\<close>

lemma matches_fetch:
  assumes srv: "issues_fresh srv base issued" and m: "matches tok issued st p" and f: "doFetch srv url opts token st = (st', fr)"
  shows "matches tok issued st' p"
proof -
  have "issued (cl_server st) \<subseteq> issued (cl_server st')"
    using srv f by (auto simp: issues_fresh_def doFetch_def Let_def split: prod.splits) (metis fst_conv subsetD)
  then show ?thesis using m doFetch_authD [OF f] unfolding matches_def by (metis image_mono subset_trans)
qed

lemma finish_matches:
  assumes "finish_fetch fr st = (st', r)" and "matches tok issued st p"
  shows "matches tok issued st' p"
  using assms by (auto simp: finish_fetch_def finish_response_def split: fetch_result.splits if_splits option.splits)

lemma fetch_fresh:
  assumes srv: "issues_fresh srv base issued" and m: "matches tok issued st p" and inj: "inj tok" and url: "url \<in> token_urls base"
    and f: "doFetch srv url opts token st = (st1, fr)" and r: "finish_fetch fr st1 = (st2, Resolved body)"
  shows "fresh_answer tok issued st2 p body"
proof -
  obtain resp where resp: "fr = Response resp" using r by (cases fr) (simp_all add: finish_fetch_def)
  have st2: "st2 = st1" and ok: "response_ok resp" and b: "body = JUndef \<or> rs_body resp = Some body"
    using r resp by (auto simp: finish_fetch_def finish_response_def split: if_splits option.splits)
  let ?rq = "\<lparr>rq_url = url, rq_init = opts\<lparr>ri_headers := buildHeaders (ri_headers opts) (getAccessToken st) token\<rparr>\<rparr>"
  have s: "srv (cl_server st) ?rq = (cl_server st1, Response resp)"
    using f resp by (auto simp: doFetch_def Let_def split: prod.splits)
  show ?thesis
  proof (cases "rs_body resp = Some body")
    case True
    then obtain a t where t: "token_pair body a t" "t \<notin> issued (cl_server st)" "t \<in> issued (cl_server st1)"
      using srv url ok s unfolding issues_fresh_def by (metis fst_conv snd_conv http_request.select_convs(1))
    have "tok t \<notin> pr_issued p"
    proof
      assume "tok t \<in> pr_issued p"
      then have "tok t \<in> tok ` issued (cl_server st)" using m by (auto simp: matches_def)
      then show False using t(2) by (simp add: inj_image_mem_iff [OF inj])
    qed
    then show ?thesis using t st2 by (auto simp: fresh_answer_def)
  qed (use b in \<open>simp add: fresh_answer_def\<close>)
qed

text \<open>A call is a run when the refresh it is given is one.\<close>

lemma simpleRequest_matches:
  assumes srv: "issues_fresh srv base issued" and inj: "inj tok" and m: "matches tok issued st p"
    and refl: "R p" and ref: "\<And>st1 st2 tk. matches tok issued st1 p \<Longrightarrow> refresh st1 = (st2, tk) \<Longrightarrow> \<exists>p'. R p' \<and> matches tok issued st2 p'"
    and r: "simpleRequest srv (Some refresh) base endpoint opts st = (st', res)"
  shows "\<exists>p'. R p' \<and> matches tok issued st' p'
    \<and> (\<forall>body. res = Resolved body \<longrightarrow> base @ endpoint \<in> token_urls base \<longrightarrow> fresh_answer tok issued st' p' body)"
proof -
  obtain st1 fr where f: "doFetch srv (base @ endpoint) opts None st = (st1, fr)"
    by (cases "doFetch srv (base @ endpoint) opts None st")
  have m1: "matches tok issued st1 p" by (rule matches_fetch [OF srv m f])
  show ?thesis
  proof (cases "\<exists>resp. fr = Response resp \<and> rs_status resp = 401")
    case False
    then have fin: "finish_fetch fr st1 = (st', res)"
      using r by (auto simp: simpleRequest_def f finish_fetch_def split: fetch_result.splits)
    have "fresh_answer tok issued st' p body" if "res = Resolved body" "base @ endpoint \<in> token_urls base" for body
      using fetch_fresh [OF srv m inj that(2) f] fin that(1) by blast
    then show ?thesis using refl finish_matches [OF fin m1] by blast
  next
    case True
    then obtain resp where resp: "fr = Response resp" "rs_status resp = 401" by blast
    obtain st2 tk where tk: "refresh st1 = (st2, tk)" by (cases "refresh st1")
    obtain p' where p': "R p'" "matches tok issued st2 p'" using ref [OF m1 tk] by blast
    show ?thesis
    proof (cases "\<exists>c cs. tk = Resolved (Some (c # cs))")
      case True
      then obtain c cs where t: "tk = Resolved (Some (c # cs))" by blast
      obtain st3 fr2 where f2: "doFetch srv (base @ endpoint) opts (Some (c # cs)) st2 = (st3, fr2)"
        by (cases "doFetch srv (base @ endpoint) opts (Some (c # cs)) st2")
      have fin: "finish_fetch fr2 st3 = (st', res)" using r by (simp add: simpleRequest_def f resp tk t f2)
      have "fresh_answer tok issued st' p' body" if "res = Resolved body" "base @ endpoint \<in> token_urls base" for body
        using fetch_fresh [OF srv p'(2) inj that(2) f2] fin that(1) by blast
      then show ?thesis using p' finish_matches [OF fin matches_fetch [OF srv p'(2) f2]] by blast
    next
      case False
      have "\<not> response_ok resp" "rs_status resp \<noteq> 503" using resp by (simp_all add: response_ok_def)
      then have "st' = st2" and "\<And>body. res \<noteq> Resolved body"
        using r False by (auto simp: simpleRequest_def f resp tk finish_response_def split: settled.splits option.splits list.splits)
      then show ?thesis using p' by blast
    qed
  qed
qed

section \<open>Storing tokens\<close>

lemma given_pair [simp]: "a \<noteq> [] \<Longrightarrow> given (Some a) = Some a"
  by simp

lemma store_fresh:
  assumes s: "storeTokens now body st = Inr st'" and t: "fresh_answer tok issued st p body"
  obtains a r where "token_pair body a r" "tok r \<notin> pr_issued p" "r \<in> issued (cl_server st')"
    "given (cl_storage st' ACCESS_TOKEN_KEY) = Some a" "given (cl_storage st' REFRESH_TOKEN_KEY) = Some r"
    "au_ref st' = au_ref st" "cl_server st' = cl_server st"
proof -
  have "body \<noteq> JUndef" using s by (auto simp: storeTokens_def)
  then obtain a r where p: "token_pair body a r" "tok r \<notin> pr_issued p" "r \<in> issued (cl_server st)"
    using t by (auto simp: fresh_answer_def)
  then show ?thesis
    using s by (intro that [of a r]) (auto simp: token_pair_def storeTokens_def)
qed

lemma matches_stored:
  assumes "reach proto_init proto_step q" and "ref_matches tok (au_ref st) q" and "pr_issued q \<subseteq> tok ` issued (cl_server st)"
    and "pr_access q = map_option tok (given (cl_storage st ACCESS_TOKEN_KEY))"
    and "pr_refresh q = map_option tok (given (cl_storage st REFRESH_TOKEN_KEY))"
  shows "matches tok issued st q"
  using assms by (simp add: matches_def)

lemma ref_matches_cong:
  "pr_ref q = pr_ref p \<Longrightarrow> pr_promises q = pr_promises p \<Longrightarrow> ref_matches tok v q = ref_matches tok v p"
  by (cases v) simp_all

lemma login_matches:
  assumes m: "matches tok issued st p" and s: "storeTokens now body st = Inr st'" and t: "fresh_answer tok issued st p body"
  shows "\<exists>p'. matches tok issued st' p'"
proof -
  obtain a r where st': "tok r \<notin> pr_issued p" "r \<in> issued (cl_server st')"
    "given (cl_storage st' ACCESS_TOKEN_KEY) = Some a" "given (cl_storage st' REFRESH_TOKEN_KEY) = Some r"
    "au_ref st' = au_ref st" "cl_server st' = cl_server st"
    using store_fresh [OF s t] by metis
  have "reach proto_init proto_step (signed_in (tok a) (tok r) p)"
    using m st'(1) unfolding matches_def by (blast intro: reach_step step_login)
  moreover have "ref_matches tok (au_ref st') (signed_in (tok a) (tok r) p)"
    using m st'(5) ref_matches_cong [of "signed_in (tok a) (tok r) p" p] by (simp add: matches_def signed_in_def)
  moreover have "pr_issued (signed_in (tok a) (tok r) p) \<subseteq> tok ` issued (cl_server st')"
    using m st' by (auto simp: matches_def signed_in_def)
  ultimately have "matches tok issued st' (signed_in (tok a) (tok r) p)"
    by (rule matches_stored) (simp_all add: st' signed_in_def)
  then show ?thesis by blast
qed

lemma logout_matches:
  assumes m: "matches tok issued st p"
  shows "\<exists>p'. matches tok issued (drop_session st) p'"
proof -
  have "reach proto_init proto_step (signed_out p)" using m unfolding matches_def by (blast intro: reach_step step_logout)
  moreover have "ref_matches tok (au_ref st) (signed_out p)"
    using m ref_matches_cong [of "signed_out p" p] by (simp add: matches_def signed_out_def)
  ultimately have "matches tok issued (drop_session st) (signed_out p)"
    using m by (simp add: matches_def drop_session_def clearTokens_def signed_out_def)
  then show ?thesis by blast
qed

section \<open>The refresh\<close>

definition answered_with :: "(string \<Rightarrow> nat) \<Rightarrow> string option settled \<Rightarrow> nat \<Rightarrow> proto \<Rightarrow> bool" where
  "answered_with tok out i p \<longleftrightarrow> (case out of
       Resolved v \<Rightarrow> pr_callers p ! i = (case v of Some a \<Rightarrow> Retried (tok a) | None \<Rightarrow> Failed)
     | Never \<Rightarrow> (\<exists>n. pr_callers p ! i = Waiting n \<and> pr_promises p ! n = Pending)
     | Rejected_with m c \<Rightarrow> False)"

lemma matches_step:
  assumes "reach proto_init proto_step p" and "proto_step p q" and "ref_matches tok (au_ref st) q"
    and "pr_issued q \<subseteq> tok ` issued (cl_server st)"
    and "pr_access q = map_option tok (given (cl_storage st ACCESS_TOKEN_KEY))"
    and "pr_refresh q = map_option tok (given (cl_storage st REFRESH_TOKEN_KEY))"
  shows "matches tok issued st q"
  using assms by (auto intro!: matches_stored intro: reach_step)

lemma resume_matches:
  assumes m: "matches tok issued st q" and i: "i < length (pr_callers q)" and w: "pr_callers q ! i = Waiting n"
    and n: "n < length (pr_promises q)" and v: "pr_promises q ! n = Settled (map_option tok v)"
  shows "\<exists>q'. proto_step q q' \<and> matches tok issued st q' \<and> answered_with tok (Resolved v) i q'"
proof (intro exI conjI)
  show st: "proto_step q (resume i (map_option tok v) q)" by (rule step_resume [OF i w n v])
  show "matches tok issued st (resume i (map_option tok v) q)"
    using m st ref_matches_cong [of "resume i (map_option tok v) q" q]
    by (intro matches_step [OF _ st]) (simp_all add: matches_def resume_def)
  show "answered_with tok (Resolved v) i (resume i (map_option tok v) q)"
    using i by (simp add: answered_with_def resume_def split: option.splits)
qed

lemma on_unauthorized_keeps [simp]:
  "pr_access (on_unauthorized i s) = pr_access s" "pr_refresh (on_unauthorized i s) = pr_refresh s"
  "pr_issued (on_unauthorized i s) = pr_issued s"
  by (simp_all add: on_unauthorized_def Let_def split: option.splits)

text \<open>A refresh that was started and is answered.\<close>

lemma refreshed_matches:
  assumes m: "matches tok issued st u" and ref: "au_ref st = RefPending" and pn: "pr_ref u = Some n" "n < length (pr_promises u)"
    and fl: "(n, r0) \<in> set (pr_flights u)" and w: "i < length (pr_callers u)" "pr_callers u ! i = Waiting n"
    and s: "storeTokens now body st = Inr st'" and t: "fresh_answer tok issued st u body"
    and v: "v = (case get_prop body ''access_token'' of Inr v \<Rightarrow> if truthy v then Some (to_str v) else None | Inl _ \<Rightarrow> None)"
  shows "\<exists>q. proto_step\<^sup>*\<^sup>* u q \<and> matches tok issued (st'\<lparr>au_ref := RefNone\<rparr>) q \<and> answered_with tok (Resolved v) i q"
proof -
  obtain a r where st': "token_pair body a r" "tok r \<notin> pr_issued u" "r \<in> issued (cl_server st')"
    "given (cl_storage st' ACCESS_TOKEN_KEY) = Some a" "given (cl_storage st' REFRESH_TOKEN_KEY) = Some r" "cl_server st' = cl_server st"
    using store_fresh [OF s t] by metis
  have va: "v = Some a" using st'(1) by (simp add: v token_pair_def)
  let ?q = "on_refreshed n r0 (tok a) (tok r) u"
  have step: "proto_step u ?q" by (rule step_refreshed [OF fl st'(2)])
  have mq: "matches tok issued (st'\<lparr>au_ref := RefNone\<rparr>) ?q"
    using m st' by (intro matches_step [OF _ step]) (auto simp: matches_def on_refreshed_def)
  have "\<exists>q'. proto_step ?q q' \<and> matches tok issued (st'\<lparr>au_ref := RefNone\<rparr>) q' \<and> answered_with tok (Resolved v) i q'"
    using w pn by (intro resume_matches [OF mq, of i n]) (simp_all add: on_refreshed_def va)
  then show ?thesis using step by (meson converse_rtranclp_into_rtranclp r_into_rtranclp)
qed

lemma refresh_failed_matches:
  assumes m: "matches tok issued st u" and pn: "n < length (pr_promises u)"
    and fl: "(n, r0) \<in> set (pr_flights u)" and w: "i < length (pr_callers u)" "pr_callers u ! i = Waiting n"
  shows "\<exists>q. proto_step\<^sup>*\<^sup>* u q \<and> matches tok issued ((drop_session st)\<lparr>au_ref := RefNone\<rparr>) q \<and> answered_with tok (Resolved None) i q"
proof -
  let ?q = "on_refresh_failed n r0 u"
  have step: "proto_step u ?q" by (rule step_refresh_failed [OF fl])
  have mq: "matches tok issued ((drop_session st)\<lparr>au_ref := RefNone\<rparr>) ?q"
    using m by (intro matches_step [OF _ step]) (auto simp: matches_def on_refresh_failed_def drop_session_def clearTokens_def)
  have "\<exists>q'. proto_step ?q q' \<and> matches tok issued ((drop_session st)\<lparr>au_ref := RefNone\<rparr>) q' \<and> answered_with tok (Resolved None) i q'"
    using w pn by (intro resume_matches [OF mq, of i n]) (simp_all add: on_refresh_failed_def)
  then show ?thesis using step by (meson converse_rtranclp_into_rtranclp r_into_rtranclp)
qed

lemma given_cases: "(\<exists>c cs. v = Some (c # cs) \<and> given v = Some (c # cs)) \<or> given v = None \<and> (v = None \<or> v = Some [])"
  by (auto simp: given_def split: option.splits list.splits)

lemma doRefresh_runs:
  assumes srv: "issues_fresh srv base issued" and inj: "inj tok" and m: "matches tok issued st p" and none: "au_ref st = RefNone"
    and i: "i < length (pr_callers p)" "pr_callers p ! i = Sent t" and r: "doRefresh srv clock base st = (st', out)"
  shows "\<exists>p'. proto_step\<^sup>*\<^sup>* p p' \<and> matches tok issued st' p' \<and> answered_with tok out i p'"
proof -
  let ?u = "on_unauthorized i p" and ?n = "length (pr_promises p)"
  have ref: "pr_ref p = None" using m none by (simp add: matches_def)
  have rp: "reach proto_init proto_step p" using m by (simp add: matches_def)
  have step: "proto_step p ?u" by (rule step_unauthorized [OF i])
  have comp: "\<exists>p'. proto_step\<^sup>*\<^sup>* p p' \<and> matches tok issued s p' \<and> answered_with tok o1 i p'"
    if "\<exists>q. proto_step\<^sup>*\<^sup>* ?u q \<and> matches tok issued s q \<and> answered_with tok o1 i q" for s o1
    using that step by (meson converse_rtranclp_into_rtranclp)
  consider (token) c cs where "cl_storage st REFRESH_TOKEN_KEY = Some (c # cs)"
    | (no_token) "given (cl_storage st REFRESH_TOKEN_KEY) = None" "doRefresh srv clock base st = (st\<lparr>au_status := Unauthenticated, au_ref := RefResolved None\<rparr>, Resolved None)"
    using given_cases [of "cl_storage st REFRESH_TOKEN_KEY"] by (auto simp: doRefresh_def)
  then show ?thesis
  proof cases
    case no_token
    have none_p: "pr_refresh p = None" using m no_token(1) by (simp add: matches_def)
    have mu: "matches tok issued (st\<lparr>au_status := Unauthenticated, au_ref := RefResolved None\<rparr>) ?u"
      using m by (intro matches_step [OF rp step]) (simp_all add: matches_def, simp add: on_unauthorized_def ref none_p Let_def)
    have "\<exists>q'. proto_step ?u q' \<and> matches tok issued (st\<lparr>au_status := Unauthenticated, au_ref := RefResolved None\<rparr>) q' \<and> answered_with tok (Resolved None) i q'"
      using i by (intro resume_matches [OF mu, of i ?n]) (simp_all add: on_unauthorized_def ref none_p Let_def)
    then show ?thesis using comp r no_token(2) by (metis fst_conv snd_conv r_into_rtranclp)
  next
    case token
    have some_p: "pr_refresh p = Some (tok (c # cs))" using m token by (simp add: matches_def given_def)
    have u: "pr_ref ?u = Some ?n" "?n < length (pr_promises ?u)" "pr_promises ?u ! ?n = Pending" "(?n, tok (c # cs)) \<in> set (pr_flights ?u)"
      "i < length (pr_callers ?u)" "pr_callers ?u ! i = Waiting ?n"
      using i by (simp_all add: on_unauthorized_def ref some_p Let_def)
    have mu: "matches tok issued (st\<lparr>au_ref := RefPending\<rparr>) ?u"
      using m u(1-3) by (intro matches_step [OF rp step]) (simp_all add: matches_def)
    obtain st1 res where snd_r: "send srv (Some joinRefresh) base (authApi_refresh (c # cs)) (st\<lparr>au_ref := RefPending\<rparr>) = (st1, res)"
      by (cases "send srv (Some joinRefresh) base (authApi_refresh (c # cs)) (st\<lparr>au_ref := RefPending\<rparr>)")
    have url: "base @ ar_endpoint (authApi_refresh (c # cs)) \<in> token_urls base"
      by (simp add: token_urls_def authApi_refresh_def auth_request_def)
    have "\<exists>p'. p' = ?u \<and> matches tok issued st1 p'
        \<and> (\<forall>body. res = Resolved body \<longrightarrow> base @ ar_endpoint (authApi_refresh (c # cs)) \<in> token_urls base \<longrightarrow> fresh_answer tok issued st1 p' body)"
      by (rule simpleRequest_matches [OF srv inj mu _ _ snd_r [unfolded send_def]]) (auto simp: joinRefresh_def)
    then have m1: "matches tok issued st1 ?u" and fr: "\<And>body. res = Resolved body \<Longrightarrow> fresh_answer tok issued st1 ?u body"
      using url by auto
    have pend: "au_ref st1 = RefPending"
    proof -
      have "au_ref (fst (send srv (Some joinRefresh) base (authApi_refresh (c # cs)) (st\<lparr>au_ref := RefPending\<rparr>))) = RefPending"
        unfolding send_def by (rule simpleRequest_preserves [where P = "\<lambda>s. au_ref s = RefPending"]) simp_all
      then show ?thesis using snd_r by simp
    qed
    show ?thesis
    proof (cases res)
      case (Rejected_with msg c')
      then have "st' = (drop_session st1)\<lparr>au_ref := RefNone\<rparr>" "out = Resolved None" using r by (simp_all add: doRefresh_def token snd_r)
      then show ?thesis using comp refresh_failed_matches [OF m1 u(2,4,5,6)] by simp
    next
      case Never
      then have "st' = st1" "out = Never" using r by (simp_all add: doRefresh_def token snd_r)
      moreover have "answered_with tok Never i ?u" using u by (simp add: answered_with_def)
      ultimately show ?thesis using m1 step by blast
    next
      case (Resolved body)
      show ?thesis
      proof (cases "storeTokens (clock (cl_server st1)) body st1")
        case (Inl e)
        then have "st' = (drop_session st1)\<lparr>au_ref := RefNone\<rparr>" "out = Resolved None"
          using r by (simp_all add: doRefresh_def token snd_r Resolved)
        then show ?thesis using comp refresh_failed_matches [OF m1 u(2,4,5,6)] by simp
      next
        case (Inr st2)
        then have "st' = st2\<lparr>au_ref := RefNone\<rparr>"
          "out = Resolved (case get_prop body ''access_token'' of Inr v \<Rightarrow> if truthy v then Some (to_str v) else None | Inl _ \<Rightarrow> None)"
          using r by (simp_all add: doRefresh_def token snd_r Resolved)
        then show ?thesis
          using comp refreshed_matches [OF m1 pend u(1,2,4,5,6) Inr fr [OF Resolved] refl] by simp
      qed
    qed
  qed
qed

lemma refreshTokens_runs:
  assumes srv: "issues_fresh srv base issued" and inj: "inj tok" and m: "matches tok issued st p"
    and i: "i < length (pr_callers p)" "pr_callers p ! i = Sent t" and r: "refreshTokens srv clock base st = (st', out)"
  shows "\<exists>p'. proto_step\<^sup>*\<^sup>* p p' \<and> matches tok issued st' p' \<and> answered_with tok out i p'"
proof (cases "au_ref st")
  case RefNone
  then show ?thesis using doRefresh_runs [OF srv inj m RefNone i] r by (simp add: refreshTokens_def)
next
  case RefPending
  let ?u = "on_unauthorized i p"
  obtain n where n: "pr_ref p = Some n" "n < length (pr_promises p)" "pr_promises p ! n = Pending"
    using m RefPending by (auto simp: matches_def)
  have step: "proto_step p ?u" by (rule step_unauthorized [OF i])
  have "matches tok issued st ?u"
    using m ref_matches_cong [of ?u p] n by (intro matches_step [OF _ step]) (simp_all add: matches_def on_unauthorized_def)
  moreover have "answered_with tok Never i ?u" using n i by (simp add: answered_with_def on_unauthorized_def)
  ultimately show ?thesis using r RefPending step by (auto simp: refreshTokens_def joinRefresh_def)
next
  case (RefResolved v)
  let ?u = "on_unauthorized i p"
  obtain n where n: "pr_ref p = Some n" "n < length (pr_promises p)" "pr_promises p ! n = Settled (map_option tok v)"
    using m RefResolved by (auto simp: matches_def)
  have step: "proto_step p ?u" by (rule step_unauthorized [OF i])
  have mu: "matches tok issued st ?u"
    using m ref_matches_cong [of ?u p] n by (intro matches_step [OF _ step]) (simp_all add: matches_def on_unauthorized_def)
  have "\<exists>q'. proto_step ?u q' \<and> matches tok issued st q' \<and> answered_with tok (Resolved v) i q'"
    using i n by (intro resume_matches [OF mu, of i n]) (simp_all add: on_unauthorized_def)
  moreover have "st' = st" "out = Resolved v" using r RefResolved by (simp_all add: refreshTokens_def joinRefresh_def)
  ultimately show ?thesis using step by (meson converse_rtranclp_into_rtranclp r_into_rtranclp)
qed

section \<open>The operations of the provider\<close>

definition follows :: "(string \<Rightarrow> nat) \<Rightarrow> ('s \<Rightarrow> string set) \<Rightarrow> 's auth \<Rightarrow> bool" where
  "follows tok issued st \<longleftrightarrow> (\<exists>p. matches tok issued st p)"

lemma follows_updates [simp]:
  "follows tok issued (st\<lparr>cl_location := l\<rparr>) = follows tok issued st"
  "follows tok issued (st\<lparr>au_status := a\<rparr>) = follows tok issued st"
  "follows tok issued (st\<lparr>au_user := u\<rparr>) = follows tok issued st"
  by (simp_all add: follows_def)

lemma follows_drop: "follows tok issued st \<Longrightarrow> follows tok issued (drop_session st)"
  using logout_matches by (auto simp: follows_def)

lemma refresh_matches:
  assumes srv: "issues_fresh srv base issued" and inj: "inj tok" and m: "matches tok issued st p" and r: "refreshTokens srv clock base st = (st', out)"
  shows "\<exists>p'. matches tok issued st' p'"
proof -
  have st: "proto_step p (issue p)" by (rule step_issue)
  have mi: "matches tok issued st (issue p)"
    using m ref_matches_cong [of "issue p" p] by (intro matches_step [OF _ st]) (simp_all add: matches_def issue_def)
  have "length (pr_callers p) < length (pr_callers (issue p))" "pr_callers (issue p) ! length (pr_callers p) = Sent (pr_access p)"
    by (simp_all add: issue_def)
  then show ?thesis using refreshTokens_runs [OF srv inj mi _ _ r] by blast
qed

lemma call_follows:
  assumes srv: "issues_fresh srv base issued" and inj: "inj tok" and f: "follows tok issued st" and r: "call srv clock base rq st = (st', res)"
  shows "follows tok issued st'"
    and "res = Resolved body \<Longrightarrow> base @ ar_endpoint rq \<in> token_urls base \<Longrightarrow> storeTokens now body st' = Inr st2 \<Longrightarrow> follows tok issued st2"
proof -
  obtain p where m: "matches tok issued st p" using f by (auto simp: follows_def)
  have "\<exists>p'. True \<and> matches tok issued st' p'
      \<and> (\<forall>body. res = Resolved body \<longrightarrow> base @ ar_endpoint rq \<in> token_urls base \<longrightarrow> fresh_answer tok issued st' p' body)"
    by (rule simpleRequest_matches [OF srv inj m _ _ r [unfolded call_def send_def]]) (use refresh_matches [OF srv inj] in auto)
  then obtain p' where p': "matches tok issued st' p'"
    "\<And>body. res = Resolved body \<Longrightarrow> base @ ar_endpoint rq \<in> token_urls base \<Longrightarrow> fresh_answer tok issued st' p' body" by blast
  show "follows tok issued st'" using p'(1) by (auto simp: follows_def)
  show "follows tok issued st2" if "res = Resolved body" "base @ ar_endpoint rq \<in> token_urls base" "storeTokens now body st' = Inr st2"
    using login_matches [OF p'(1) that(3) p'(2) [OF that(1,2)]] by (simp add: follows_def)
qed

lemma fetchMe_follows:
  assumes srv: "issues_fresh srv base issued" and inj: "inj tok" and f: "follows tok issued st"
  shows "follows tok issued (fst (fetchMe srv clock base st))"
  using call_follows(1) [OF srv inj f] by (auto simp: fetchMe_def intro!: follows_drop split: prod.splits settled.splits)

lemma token_endpoints:
  "base @ ar_endpoint (authApi_login u w) \<in> token_urls base" "base @ ar_endpoint (authApi_setup u w) \<in> token_urls base"
  "base @ ar_endpoint (authApi_refresh t) \<in> token_urls base"
  by (simp_all add: token_urls_def authApi_login_def authApi_setup_def authApi_refresh_def auth_request_def)

lemma finish_login_follows:
  assumes srv: "issues_fresh srv base issued" and inj: "inj tok" and f: "follows tok issued st"
    and url: "base @ ar_endpoint rq \<in> token_urls base"
  shows "follows tok issued (fst (finish_login srv clock base (call srv clock base rq st)))"
proof -
  obtain st1 res where c: "call srv clock base rq st = (st1, res)" by (cases "call srv clock base rq st")
  note f1 = call_follows [OF srv inj f c]
  show ?thesis
  proof (cases "\<exists>body st2. res = Resolved body \<and> storeTokens (clock (cl_server st1)) body st1 = Inr st2")
    case True
    then obtain body st2 where b: "res = Resolved body" "storeTokens (clock (cl_server st1)) body st1 = Inr st2" by blast
    have "follows tok issued (fst (fetchMe srv clock base st2))" by (rule fetchMe_follows [OF srv inj f1(2) [OF b(1) url b(2)]])
    then show ?thesis by (auto simp: finish_login_def c b split: prod.splits settled.splits)
  next
    case False
    then have "fst (finish_login srv clock base (st1, res)) = st1"
      by (auto simp: finish_login_def split: settled.splits sum.splits)
    then show ?thesis using f1(1) c by simp
  qed
qed

lemma init_fetch_me_follows:
  "issues_fresh srv base issued \<Longrightarrow> inj tok \<Longrightarrow> follows tok issued st \<Longrightarrow> follows tok issued (init_fetch_me srv clock base c st)"
  by (simp add: init_fetch_me_def fetchMe_follows)

lemma init_with_token_follows:
  assumes srv: "issues_fresh srv base issued" and inj: "inj tok" and f: "follows tok issued st"
  shows "follows tok issued (init_with_token srv clock base cancelled st)"
proof -
  have refresh: "follows tok issued (case call srv clock base (authApi_refresh t) st of
      (st1, Resolved tokens) \<Rightarrow>
        if cancelled 1 then st1
        else (case storeTokens (clock (cl_server st1)) tokens st1 of
                Inr st2 \<Rightarrow> init_fetch_me srv clock base (cancelled 1) st2
              | Inl _ \<Rightarrow> st1\<lparr>au_status := Unauthenticated\<rparr>)
    | (st1, Rejected_with m e) \<Rightarrow> if cancelled 1 then st1 else st1\<lparr>au_status := Unauthenticated\<rparr>
    | (st1, Never) \<Rightarrow> st1)" for t
  proof -
    obtain st1 res where c: "call srv clock base (authApi_refresh t) st = (st1, res)" by (cases "call srv clock base (authApi_refresh t) st")
    note f1 = call_follows [OF srv inj f c]
    show ?thesis
    proof (cases res)
      case (Resolved body)
      show ?thesis
        using f1(1) init_fetch_me_follows [OF srv inj f1(2) [OF Resolved token_endpoints(3)]]
        by (simp add: c Resolved split: sum.splits)
    qed (use f1(1) in \<open>simp_all add: c\<close>)
  qed
  show ?thesis
    using refresh [unfolded One_nat_def] init_fetch_me_follows [OF srv inj f] unfolding init_with_token_def One_nat_def
    by (simp split: option.splits list.splits)
qed

lemma init_follows:
  assumes srv: "issues_fresh srv base issued" and inj: "inj tok" and f: "follows tok issued st"
  shows "follows tok issued (init srv clock base cancelled st)"
proof -
  obtain st1 res where c: "call srv clock base authApi_getSetupStatus st = (st1, res)" by (cases "call srv clock base authApi_getSetupStatus st")
  have f1: "follows tok issued st1" by (rule call_follows(1) [OF srv inj f c])
  show ?thesis
    using f1 init_with_token_follows [OF srv inj f1] by (simp add: init_def c split: settled.splits sum.splits)
qed

lemma auth_step_follows:
  assumes srv: "issues_fresh srv base issued" and inj: "inj tok" and f: "follows tok issued st"
  shows "follows tok issued (auth_step srv clock base op1 st)"
proof (cases op1)
  case (Init c)
  then show ?thesis by (simp add: init_follows [OF srv inj f])
next
  case (Login u w)
  then show ?thesis by (simp add: login_def finish_login_follows [OF srv inj f token_endpoints(1)])
next
  case (Setup u w)
  then show ?thesis by (simp add: setup_account_def finish_login_follows [OF srv inj f token_endpoints(2)])
next
  case Logout
  then show ?thesis
    using call_follows(1) [OF srv inj f] by (auto simp: logout_def intro!: follows_drop split: prod.splits settled.splits)
next
  case Refresh
  obtain p where m: "matches tok issued st p" using f by (auto simp: follows_def)
  show ?thesis
    using refresh_matches [OF srv inj m] Refresh by (cases "refreshTokens srv clock base st") (auto simp: follows_def)
next
  case (Api rq)
  then show ?thesis using call_follows(1) [OF srv inj f] by (cases "call srv clock base rq st") auto
qed

text \<open>The storage of a fresh provider holds no tokens, or a pair that the server issued.\<close>

definition stored_session :: "(string \<Rightarrow> string option) \<Rightarrow> string set \<Rightarrow> bool" where
  "stored_session storage iss \<longleftrightarrow>
     given (storage ACCESS_TOKEN_KEY) = None \<and> given (storage REFRESH_TOKEN_KEY) = None
     \<or> given (storage ACCESS_TOKEN_KEY) \<noteq> None \<and> (\<exists>r \<in> iss. given (storage REFRESH_TOKEN_KEY) = Some r)"

lemma follows_init: "stored_session storage (issued s) \<Longrightarrow> follows tok issued (auth_init storage s)"
proof -
  assume st: "stored_session storage (issued s)"
  define p0 where "p0 = \<lparr>pr_access = None, pr_refresh = None, pr_ref = None, pr_promises = [], pr_flights = [],
     pr_callers = [], pr_phase = SignedOut, pr_issued = {}, pr_sent = []\<rparr>"
  have r0: "reach proto_init proto_step p0" by (rule reach_init) (simp add: proto_init_def p0_def)
  show ?thesis
  proof (cases "given (storage ACCESS_TOKEN_KEY)")
    case None
    then have "matches tok issued (auth_init storage s) p0"
      using st r0 by (simp add: matches_def stored_session_def auth_init_def) (simp add: p0_def)
    then show ?thesis by (auto simp: follows_def)
  next
    case (Some a)
    then obtain r where r: "given (storage REFRESH_TOKEN_KEY) = Some r" "r \<in> issued s" using st by (auto simp: stored_session_def)
    have "proto_step p0 (signed_in (tok a) (tok r) p0)" by (rule step_login) (simp add: p0_def)
    then have "matches tok issued (auth_init storage s) (signed_in (tok a) (tok r) p0)"
      using r Some by (intro matches_step [OF r0]) (simp_all add: auth_init_def signed_in_def p0_def)
    then show ?thesis by (auto simp: follows_def)
  qed
qed


text \<open>A server that answers everything with a new pair of tokens.\<close>

definition minting_server :: "nat server" where
  "minting_server n rq =
     (Suc n, Response \<lparr>rs_status = 200, rs_statusText = ''OK'', rs_body =
        Some (JObj [(''access_token'', JStr ''a''), (''refresh_token'', JStr (replicate (Suc n) CHR ''r'')), (''expires_in'', JInt 900)])\<rparr>)"

definition minted :: "nat \<Rightarrow> string set" where
  "minted n = (\<lambda>k. replicate k CHR ''r'') ` {1..n}"

lemma minting_issues_fresh: "issues_fresh minting_server base minted"
proof -
  have new: "replicate (Suc n) CHR ''r'' \<notin> minted n" for n
    by (auto simp: minted_def dest: arg_cong [where f = length])
  have "replicate (Suc n) CHR ''r'' \<in> minted (Suc n)" for n unfolding minted_def by (rule image_eqI [of _ _ "Suc n"]) simp_all
  moreover have "minted n \<subseteq> minted (Suc n)" for n by (auto simp: minted_def)
  ultimately show ?thesis
    using new unfolding issues_fresh_def minting_server_def token_pair_def by (auto simp: own_prop_def obj_get_def)
qed


end
