(* ===== verification/Ui_Elements.thy ===== *)
theory Ui_Elements
  imports Js_Values
begin

text \<open>
  The elements the interface primitives of components/ui return, and what JSX does with attributes: later ones replace earlier
  ones, and a spread object counts as its own attributes at its place.  Two libraries are arguments (\<open>styling\<close>): the
  merging of class names (\<open>cn\<close> in lib/utils.ts, tailwind-merge over clsx) and the choice of variants
  (class-variance-authority).  The tag of an element of a library is the name under which the source imports it.
  References (\<open>ref\<close>) are passed on to the outer element and left out.
\<close>

section \<open>Elements\<close>

datatype 'a attr = AUndef | AStr string | AFlag bool | AInt int | AStyle "(string \<times> string) list" | ADo "'a list"

datatype 'a element = Element string "(string \<times> 'a attr) list" "'a element list" | TextNode string

type_synonym 'a props = "(string \<times> 'a attr) list"
type_synonym 'a part = "'a props \<Rightarrow> 'a element list \<Rightarrow> 'a element"

text \<open>\<open>ADo as\<close> is a handler that does the actions \<open>as\<close> in order.\<close>

record cva_config =
  cva_base :: string
  cva_variants :: "(string \<times> (string \<times> string) list) list"
  cva_defaults :: "(string \<times> string) list"

record styling =
  merge_classes :: "string list \<Rightarrow> string"
  variant_classes :: "cva_config \<Rightarrow> (string \<times> string option) list \<Rightarrow> string"

section \<open>Attributes\<close>

definition assign :: "'a props \<Rightarrow> 'a props \<Rightarrow> 'a props" where
  "assign base new = foldl (\<lambda>o1 (k, v). obj_set k v o1) base new"

definition without :: "string list \<Rightarrow> 'a props \<Rightarrow> 'a props" where
  "without ks p = filter (\<lambda>(k, v). k \<notin> set ks) p"

definition given_prop :: "string \<Rightarrow> 'a props \<Rightarrow> 'a attr" where
  "given_prop k p = (case obj_get p k of Some v \<Rightarrow> v | None \<Rightarrow> AUndef)"

text \<open>A destructured prop with a default.\<close>

definition prop_or :: "string \<Rightarrow> 'a attr \<Rightarrow> 'a props \<Rightarrow> 'a attr" where
  "prop_or k d p = (if given_prop k p = AUndef then d else given_prop k p)"

fun attr_truthy :: "'a attr \<Rightarrow> bool" where
  "attr_truthy AUndef = False"
| "attr_truthy (AStr s) = (s \<noteq> [])"
| "attr_truthy (AFlag b) = b"
| "attr_truthy (AInt i) = (i \<noteq> 0)"
| "attr_truthy (AStyle s) = True"
| "attr_truthy (ADo f) = True"

definition str_prop :: "string \<Rightarrow> 'a props \<Rightarrow> string option" where
  "str_prop k p = (case given_prop k p of AStr s \<Rightarrow> Some s | _ \<Rightarrow> None)"

text \<open>The class names of the caller, if there are any; \<open>clsx\<close> drops what is falsy.\<close>

definition given_class :: "'a props \<Rightarrow> string list" where
  "given_class p = (case str_prop ''className'' p of Some (c # cs) \<Rightarrow> [c # cs] | _ \<Rightarrow> [])"

definition class_attr :: "styling \<Rightarrow> string list \<Rightarrow> 'a props" where
  "class_attr y classes = [(''className'', AStr (merge_classes y classes))]"

text \<open>
  The attributes of the usual wrapper: its own, the class names with those of the caller behind them, and then all that the
  caller gave and the wrapper did not take.
\<close>

definition wrap_props :: "styling \<Rightarrow> 'a props \<Rightarrow> string list \<Rightarrow> string list \<Rightarrow> 'a props \<Rightarrow> 'a props" where
  "wrap_props y own classes taken p =
     assign (assign own (class_attr y (classes @ given_class p))) (without (''className'' # taken) p)"

definition wrap :: "styling \<Rightarrow> string \<Rightarrow> 'a props \<Rightarrow> string list \<Rightarrow> 'a part" where
  "wrap y tag own classes p kids = Element tag (wrap_props y own classes [] p) kids"

text \<open>A wrapper that only adds attributes.\<close>

definition pass_on :: "string \<Rightarrow> 'a props \<Rightarrow> 'a part" where
  "pass_on tag own p kids = Element tag (assign own p) kids"

definition slot :: "string \<Rightarrow> 'a props" where
  "slot s = [(''data-slot'', AStr s)]"

definition child_tag :: "string \<Rightarrow> 'a props \<Rightarrow> string" where
  "child_tag tag p = (if attr_truthy (prop_or ''asChild'' (AFlag False) p) then ''Slot'' else tag)"

definition plain :: "string \<Rightarrow> string \<Rightarrow> 'a element list \<Rightarrow> 'a element" where
  "plain tag c kids = Element tag [(''className'', AStr c)] kids"

definition shown_if :: "bool \<Rightarrow> 'b list \<Rightarrow> 'b list" where
  "shown_if b xs = (if b then xs else [])"

section \<open>Reading elements\<close>

fun tag_of :: "'a element \<Rightarrow> string" where
  "tag_of (Element t as ks) = t"
| "tag_of (TextNode s) = []"

fun attrs_of :: "'a element \<Rightarrow> 'a props" where
  "attrs_of (Element t as ks) = as"
| "attrs_of (TextNode s) = []"

fun children_of :: "'a element \<Rightarrow> 'a element list" where
  "children_of (Element t as ks) = ks"
| "children_of (TextNode s) = []"

definition attr_of :: "'a element \<Rightarrow> string \<Rightarrow> 'a attr" where
  "attr_of e k = given_prop k (attrs_of e)"

text \<open>All elements of a tree, the outer first.\<close>

fun parts_of :: "'a element \<Rightarrow> 'a element list" where
  "parts_of (TextNode s) = [TextNode s]"
| "parts_of (Element t as ks) = Element t as ks # concat (map parts_of ks)"

section \<open>Laws\<close>

lemma obj_get_Cons: "obj_get ((k, v) # p) k' = (if k' = k then Some v else obj_get p k')"
  by (simp add: obj_get_def)

lemma obj_get_assign:
  "distinct (map fst new) \<Longrightarrow> obj_get (assign base new) k = (case obj_get new k of Some v \<Rightarrow> Some v | None \<Rightarrow> obj_get base k)"
proof (induction new arbitrary: base)
  case (Cons kv new)
  obtain k' v' where kv: "kv = (k', v')" by (cases kv)
  have "k = k' \<Longrightarrow> obj_get new k = None" using Cons.prems kv by (auto simp: obj_get_def map_of_eq_None_iff)
  moreover have "assign base (kv # new) = assign (obj_set k' v' base) new" by (simp add: assign_def kv)
  ultimately show ?case using Cons by (auto simp: kv obj_get_Cons obj_get_set split: option.splits)
qed (simp add: assign_def obj_get_def)

lemma obj_get_without: "obj_get (without ks p) k = (if k \<in> set ks then None else obj_get p k)"
  by (induction p) (auto simp: without_def obj_get_def)

lemma distinct_without: "distinct (map fst p) \<Longrightarrow> distinct (map fst (without ks p))"
  by (auto simp: without_def intro: distinct_map_filter)

text \<open>What the caller gives and the wrapper does not take arrives as given.\<close>

lemma wrap_props_given:
  assumes "distinct (map fst p)" and "obj_get p k = Some v" and "k \<notin> set (''className'' # taken)"
  shows "given_prop k (wrap_props y own classes taken p) = v"
  using assms by (simp add: wrap_props_def given_prop_def obj_get_assign distinct_without obj_get_without)

lemma pass_on_given: "distinct (map fst p) \<Longrightarrow> obj_get p k = Some v \<Longrightarrow> attr_of (pass_on tag own p kids) k = v"
  by (simp add: pass_on_def attr_of_def given_prop_def obj_get_assign)

text \<open>What it does not give keeps the wrapper's own value.\<close>

lemma wrap_props_own:
  assumes "distinct (map fst p)" and "obj_get p k = None" and "k \<noteq> ''className''"
  shows "given_prop k (wrap_props y own classes taken p) = given_prop k own"
  using assms
  by (simp add: wrap_props_def given_prop_def obj_get_assign distinct_without obj_get_without class_attr_def obj_get_Cons)
     (simp add: obj_get_def)

lemma wrap_props_class:
  assumes "distinct (map fst p)"
  shows "given_prop ''className'' (wrap_props y own classes taken p) = AStr (merge_classes y (classes @ given_class p))"
  using assms
  by (simp add: wrap_props_def given_prop_def obj_get_assign distinct_without obj_get_without class_attr_def obj_get_Cons)

lemma wrap_reads [simp]:
  "tag_of (wrap y tag own classes p kids) = tag" "children_of (wrap y tag own classes p kids) = kids"
  "attrs_of (wrap y tag own classes p kids) = wrap_props y own classes [] p"
  by (simp_all add: wrap_def)

lemma pass_on_reads [simp]:
  "tag_of (pass_on tag own p kids) = tag" "children_of (pass_on tag own p kids) = kids"
  by (simp_all add: pass_on_def)

text \<open>A part that passes on what it is given: its caller's attributes, its caller's class names last, and its children.\<close>

definition transparent :: "styling \<Rightarrow> 'a part \<Rightarrow> string list \<Rightarrow> bool" where
  "transparent y f classes \<longleftrightarrow>
     (\<forall>p kids. distinct (map fst p) \<longrightarrow>
        children_of (f p kids) = kids
        \<and> attr_of (f p kids) ''className'' = AStr (merge_classes y (classes @ given_class p))
        \<and> (\<forall>k v. k \<noteq> ''className'' \<longrightarrow> obj_get p k = Some v \<longrightarrow> attr_of (f p kids) k = v))"

lemma transparent_wrap: "transparent y (wrap y tag own classes) classes"
  by (auto simp: transparent_def attr_of_def wrap_props_class intro: wrap_props_given)

definition passes_on :: "styling \<Rightarrow> 'a part \<Rightarrow> bool" where
  "passes_on y f \<longleftrightarrow> (\<exists>classes. transparent y f classes)"

lemma passes_on_wrap: "passes_on y (wrap y tag own classes)"
  unfolding passes_on_def using transparent_wrap by blast

definition forwarding :: "'a part \<Rightarrow> bool" where
  "forwarding f \<longleftrightarrow>
     (\<forall>p kids. distinct (map fst p) \<longrightarrow>
        children_of (f p kids) = kids \<and> (\<forall>k v. obj_get p k = Some v \<longrightarrow> attr_of (f p kids) k = v))"

lemma forwarding_pass_on: "forwarding (pass_on tag own)"
  by (auto simp: forwarding_def pass_on_given)

end
