(* ===== verification/Ui_Surfaces.thy ===== *)
theory Ui_Surfaces
  imports Ui_Elements
begin

text \<open>
  The primitives of components/ui that stand in the page: cards, tables, tabs, alerts, badges, buttons, the controls of
  forms, skeletons, spinners, scroll areas and panels.  Each is what the source returns for its attributes \<open>p\<close> and children
  \<open>kids\<close>; where a primitive has children of its own, those of the caller are not shown.
\<close>

section \<open>card.tsx\<close>

definition Card :: "styling \<Rightarrow> 'a part" where
  "Card y = wrap y ''div'' (slot ''card'')
     [''bg-card text-card-foreground flex flex-col gap-6 rounded-xl border py-6 shadow-sm'']"

definition CardHeader :: "styling \<Rightarrow> 'a part" where
  "CardHeader y = wrap y ''div'' (slot ''card-header'')
     [(''@container/card-header grid auto-rows-min grid-rows-[auto_auto] items-start gap-1.5 px-6 ''
            @ ''has-data-[slot=card-action]:grid-cols-[1fr_auto] [.border-b]:pb-6'')]"

definition CardTitle :: "styling \<Rightarrow> 'a part" where
  "CardTitle y = wrap y ''div'' (slot ''card-title'')
     [''leading-none font-semibold'']"

definition CardDescription :: "styling \<Rightarrow> 'a part" where
  "CardDescription y = wrap y ''div'' (slot ''card-description'')
     [''text-muted-foreground text-sm'']"

definition CardAction :: "styling \<Rightarrow> 'a part" where
  "CardAction y = wrap y ''div'' (slot ''card-action'')
     [''col-start-2 row-span-2 row-start-1 self-start justify-self-end'']"

definition CardContent :: "styling \<Rightarrow> 'a part" where
  "CardContent y = wrap y ''div'' (slot ''card-content'')
     [''px-6'']"

definition CardFooter :: "styling \<Rightarrow> 'a part" where
  "CardFooter y = wrap y ''div'' (slot ''card-footer'')
     [''flex items-center px-6 [.border-t]:pt-6'']"

section \<open>table.tsx\<close>

definition Table :: "styling \<Rightarrow> 'a part" where
  "Table y p kids =
     Element ''div'' [(''className'', AStr ''relative w-full overflow-auto'')] [wrap y ''table'' [] [''w-full caption-bottom text-sm''] p kids]"

definition TableHeader :: "styling \<Rightarrow> 'a part" where
  "TableHeader y = wrap y ''thead'' []
     [''[&_tr]:border-b'']"

definition TableBody :: "styling \<Rightarrow> 'a part" where
  "TableBody y = wrap y ''tbody'' []
     [''[&_tr:last-child]:border-0'']"

definition TableFooter :: "styling \<Rightarrow> 'a part" where
  "TableFooter y = wrap y ''tfoot'' []
     [''border-t bg-muted/50 font-medium [&>tr]:last:border-b-0'']"

definition TableRow :: "styling \<Rightarrow> 'a part" where
  "TableRow y = wrap y ''tr'' []
     [''border-b transition-colors hover:bg-muted/50 data-[state=selected]:bg-muted'']"

definition TableHead :: "styling \<Rightarrow> 'a part" where
  "TableHead y = wrap y ''th'' []
     [''h-12 px-4 text-left align-middle font-medium text-muted-foreground [&:has([role=checkbox])]:pr-0'']"

definition TableCell :: "styling \<Rightarrow> 'a part" where
  "TableCell y = wrap y ''td'' []
     [''p-4 align-middle [&:has([role=checkbox])]:pr-0'']"

definition TableCaption :: "styling \<Rightarrow> 'a part" where
  "TableCaption y = wrap y ''caption'' []
     [''mt-4 text-sm text-muted-foreground'']"

section \<open>tabs.tsx\<close>

definition Tabs :: "styling \<Rightarrow> 'a part" where
  "Tabs y = wrap y ''TabsPrimitive.Root'' (slot ''tabs'')
     [''flex flex-col gap-2'']"

definition TabsList :: "styling \<Rightarrow> 'a part" where
  "TabsList y = wrap y ''TabsPrimitive.List'' (slot ''tabs-list'')
     [''bg-muted text-muted-foreground inline-flex h-9 w-fit items-center justify-center rounded-lg p-[3px]'']"

definition TabsTrigger :: "styling \<Rightarrow> 'a part" where
  "TabsTrigger y = wrap y ''TabsPrimitive.Trigger'' (slot ''tabs-trigger'')
     [(''data-[state=active]:bg-background dark:data-[state=active]:text-foreground focus-visible:border-ring ''
            @ ''focus-visible:ring-ring/50 focus-visible:outline-ring dark:data-[state=active]:border-input ''
            @ ''dark:data-[state=active]:bg-input/30 text-foreground dark:text-muted-foreground inline-flex ''
            @ ''h-[calc(100%-1px)] flex-1 items-center justify-center gap-1.5 rounded-md border border-transparent ''
            @ ''px-2 py-1 text-sm font-medium whitespace-nowrap transition-[color,box-shadow] ''
            @ ''focus-visible:ring-[3px] focus-visible:outline-1 disabled:pointer-events-none disabled:opacity-50 ''
            @ ''data-[state=active]:shadow-sm [&_svg]:pointer-events-none [&_svg]:shrink-0 ''
            @ ''[&_svg:not([class*='size-'])]:size-4'')]"

definition TabsContent :: "styling \<Rightarrow> 'a part" where
  "TabsContent y = wrap y ''TabsPrimitive.Content'' (slot ''tabs-content'')
     [''flex-1 outline-none'']"

section \<open>alert.tsx\<close>

definition alertVariants :: "cva_config" where
  "alertVariants =
    \<lparr>cva_base = (''relative w-full rounded-lg border p-4 [&>svg~*]:pl-7 [&>svg+div]:translate-y-[-3px] [&>svg]:absolute ''
            @ ''[&>svg]:left-4 [&>svg]:top-4 [&>svg]:text-foreground''),
     cva_variants = [(''variant'', [(''default'', ''bg-background text-foreground''),
       (''destructive'', ''border-destructive/50 text-destructive dark:border-destructive [&>svg]:text-destructive'')])],
     cva_defaults = [(''variant'', ''default'')]\<rparr>"

definition Alert_el :: "styling \<Rightarrow> 'a part" where
  "Alert_el y p kids =
     Element ''div'' (wrap_props y [(''role'', AStr ''alert'')] [variant_classes y alertVariants [(''variant'', str_prop ''variant'' p)]] [''variant''] p) kids"

definition AlertTitle :: "styling \<Rightarrow> 'a part" where
  "AlertTitle y p kids =
     Element ''h5'' (wrap_props y [] [''mb-1 font-medium leading-none tracking-tight''] [] p) kids"

definition AlertDescription :: "styling \<Rightarrow> 'a part" where
  "AlertDescription y = wrap y ''div'' []
     [''text-sm [&_p]:leading-relaxed'']"

section \<open>badge.tsx\<close>

definition badgeVariants :: "cva_config" where
  "badgeVariants =
    \<lparr>cva_base = (''inline-flex items-center justify-center rounded-md border px-2 py-0.5 text-xs font-medium w-fit ''
            @ ''whitespace-nowrap shrink-0 [&>svg]:size-3 gap-1 [&>svg]:pointer-events-none ''
            @ ''focus-visible:border-ring focus-visible:ring-ring/50 focus-visible:ring-[3px] ''
            @ ''aria-invalid:ring-destructive/20 dark:aria-invalid:ring-destructive/40 ''
            @ ''aria-invalid:border-destructive transition-[color,box-shadow] overflow-hidden''),
     cva_variants = [(''variant'', [(''default'', ''border-transparent bg-primary text-primary-foreground [a&]:hover:bg-primary/90''),
       (''secondary'', ''border-transparent bg-secondary text-secondary-foreground [a&]:hover:bg-secondary/90''),
       (''destructive'', (''border-transparent bg-destructive text-white [a&]:hover:bg-destructive/90 ''
            @ ''focus-visible:ring-destructive/20 dark:focus-visible:ring-destructive/40 dark:bg-destructive/60'')),
       (''outline'', ''text-foreground [a&]:hover:bg-accent [a&]:hover:text-accent-foreground'')])],
     cva_defaults = [(''variant'', ''default'')]\<rparr>"

definition Badge_el :: "styling \<Rightarrow> 'a part" where
  "Badge_el y p kids =
     Element (child_tag ''span'' p)
       (wrap_props y (slot ''badge'') [variant_classes y badgeVariants [(''variant'', str_prop ''variant'' p)]] [''variant'', ''asChild''] p) kids"

section \<open>button.tsx\<close>

definition buttonVariants :: "cva_config" where
  "buttonVariants =
    \<lparr>cva_base = (''inline-flex items-center justify-center gap-2 whitespace-nowrap rounded-md text-sm font-medium ''
            @ ''transition-all disabled:pointer-events-none disabled:opacity-50 [&_svg]:pointer-events-none ''
            @ ''[&_svg:not([class*='size-'])]:size-4 shrink-0 [&_svg]:shrink-0 outline-none ''
            @ ''focus-visible:border-ring focus-visible:ring-ring/50 focus-visible:ring-[3px] ''
            @ ''aria-invalid:ring-destructive/20 dark:aria-invalid:ring-destructive/40 ''
            @ ''aria-invalid:border-destructive''),
     cva_variants = [(''variant'', [(''default'', ''bg-primary text-primary-foreground shadow-xs hover:bg-primary/90''),
       (''destructive'', (''bg-destructive text-white shadow-xs hover:bg-destructive/90 focus-visible:ring-destructive/20 ''
            @ ''dark:focus-visible:ring-destructive/40 dark:bg-destructive/60'')),
       (''outline'', (''border bg-background shadow-xs hover:bg-accent hover:text-accent-foreground dark:bg-input/30 ''
            @ ''dark:border-input dark:hover:bg-input/50'')),
       (''secondary'', ''bg-secondary text-secondary-foreground shadow-xs hover:bg-secondary/80''),
       (''ghost'', ''hover:bg-accent hover:text-accent-foreground dark:hover:bg-accent/50''),
       (''link'', ''text-primary underline-offset-4 hover:underline'')]),
       (''size'', [(''default'', ''h-9 px-4 py-2 has-[>svg]:px-3''), (''sm'', ''h-8 rounded-md gap-1.5 px-3 has-[>svg]:px-2.5''),
       (''lg'', ''h-10 rounded-md px-6 has-[>svg]:px-4''), (''icon'', ''size-9'')])],
     cva_defaults = [(''variant'', ''default''), (''size'', ''default'')]\<rparr>"

definition Button_el :: "styling \<Rightarrow> 'a part" where
  "Button_el y p kids =
     Element (child_tag ''button'' p)
       (assign (assign (slot ''button'') (class_attr y [variant_classes y buttonVariants
            [(''variant'', str_prop ''variant'' p), (''size'', str_prop ''size'' p), (''className'', str_prop ''className'' p)]]))
          (without [''className'', ''variant'', ''size'', ''asChild''] p)) kids"

section \<open>checkbox.tsx\<close>

definition Checkbox :: "styling \<Rightarrow> 'a part" where
  "Checkbox y p kids =
     wrap y ''CheckboxPrimitive.Root'' [] [(''peer h-4 w-4 shrink-0 rounded-sm border border-primary ring-offset-background ''
            @ ''focus-visible:outline-none focus-visible:ring-2 focus-visible:ring-ring focus-visible:ring-offset-2 ''
            @ ''disabled:cursor-not-allowed disabled:opacity-50 data-[state=checked]:bg-primary ''
            @ ''data-[state=checked]:text-primary-foreground'')] p
       [Element ''CheckboxPrimitive.Indicator'' (class_attr y [''flex items-center justify-center text-current'']) [plain ''Check'' ''h-4 w-4'' []]]"

section \<open>input.tsx\<close>

definition Input_el :: "styling \<Rightarrow> 'a part" where
  "Input_el y p kids =
     Element ''input''
       (wrap_props y [(''type'', given_prop ''type'' p), (''data-slot'', AStr ''input'')]
          [(''file:text-foreground placeholder:text-muted-foreground selection:bg-primary ''
            @ ''selection:text-primary-foreground dark:bg-input/30 border-input flex h-9 w-full min-w-0 rounded-md ''
            @ ''border bg-transparent px-3 py-1 text-base shadow-xs transition-[color,box-shadow] outline-none ''
            @ ''file:inline-flex file:h-7 file:border-0 file:bg-transparent file:text-sm file:font-medium ''
            @ ''disabled:pointer-events-none disabled:cursor-not-allowed disabled:opacity-50 md:text-sm''),
           ''focus-visible:border-ring focus-visible:ring-ring/50 focus-visible:ring-[3px]'',
           (''aria-invalid:ring-destructive/20 dark:aria-invalid:ring-destructive/40 ''
            @ ''aria-invalid:border-destructive'')] [''type''] p) kids"

section \<open>label.tsx\<close>

definition labelVariants :: "cva_config" where
  "labelVariants =
    \<lparr>cva_base = ''text-sm font-medium leading-none peer-disabled:cursor-not-allowed peer-disabled:opacity-70'',
     cva_variants = [], cva_defaults = []\<rparr>"

definition Label :: "styling \<Rightarrow> 'a part" where
  "Label y p kids =
     wrap y ''LabelPrimitive.Root'' [] [variant_classes y labelVariants []] p kids"

section \<open>textarea.tsx\<close>

definition Textarea :: "styling \<Rightarrow> 'a part" where
  "Textarea y = wrap y ''textarea'' []
     [(''flex min-h-[80px] w-full rounded-md border border-input bg-background px-3 py-2 text-base ''
            @ ''ring-offset-background placeholder:text-muted-foreground focus-visible:outline-none ''
            @ ''focus-visible:ring-2 focus-visible:ring-ring focus-visible:ring-offset-2 disabled:cursor-not-allowed ''
            @ ''disabled:opacity-50 md:text-sm'')]"

section \<open>skeleton.tsx\<close>

definition Skeleton :: "styling \<Rightarrow> 'a part" where
  "Skeleton y = wrap y ''div'' (slot ''skeleton'')
     [''bg-accent animate-pulse rounded-md'']"

section \<open>switch.tsx\<close>

definition Switch :: "styling \<Rightarrow> 'a part" where
  "Switch y p kids =
     wrap y ''SwitchPrimitives.Root'' [] [(''peer inline-flex h-6 w-11 shrink-0 cursor-pointer items-center rounded-full border-2 ''
            @ ''border-transparent transition-colors focus-visible:outline-none focus-visible:ring-2 ''
            @ ''focus-visible:ring-ring focus-visible:ring-offset-2 focus-visible:ring-offset-background ''
            @ ''disabled:cursor-not-allowed disabled:opacity-50 data-[state=checked]:bg-primary ''
            @ ''data-[state=unchecked]:bg-input'')] p
       [Element ''SwitchPrimitives.Thumb'' (class_attr y [(''pointer-events-none block h-5 w-5 rounded-full bg-background shadow-lg ring-0 transition-transform ''
            @ ''data-[state=checked]:translate-x-5 data-[state=unchecked]:translate-x-0'')]) []]"

section \<open>separator.tsx\<close>

definition Separator :: "styling \<Rightarrow> 'a part" where
  "Separator y p kids =
     Element ''div''
       (wrap_props y [] [''shrink-0 bg-border'', if prop_or ''orientation'' (AStr ''horizontal'') p = AStr ''horizontal'' then ''h-[1px] w-full'' else ''h-full w-[1px]'']
          [''orientation''] p) kids"

section \<open>progress.tsx\<close>

definition Progress :: "styling \<Rightarrow> 'a part" where
  "Progress y p kids =
     Element ''ProgressPrimitive.Root'' (wrap_props y [] [''relative h-4 w-full overflow-hidden rounded-full bg-secondary''] [''value''] p)
       [Element ''ProgressPrimitive.Indicator''
          [(''className'', AStr ''h-full w-full flex-1 bg-primary transition-all''),
           (''style'', AStyle [(''transform'', ''translateX(-'' @ show_int (100 - (case given_prop ''value'' p of AInt i \<Rightarrow> i | _ \<Rightarrow> 0)) @ ''%)'')])] []]"

section \<open>loading-spinner.tsx\<close>

definition sizeClasses :: "(string \<times> string) list" where
  "sizeClasses =
     [(''sm'', ''h-4 w-4''), (''md'', ''h-8 w-8''), (''lg'', ''h-12 w-12'')]"

definition LoadingSpinner :: "styling \<Rightarrow> 'a props \<Rightarrow> 'a element" where
  "LoadingSpinner y p =
     Element ''div'' (class_attr y (''flex items-center justify-center h-64'' # given_class p))
       [plain ''div'' ''flex flex-col items-center gap-2''
          (Element ''div'' (class_attr y (''animate-spin rounded-full border-b-2 border-gray-900'' # (case map_of sizeClasses (case str_prop ''size'' p of Some s \<Rightarrow> s | None \<Rightarrow> ''md'') of
               Some c \<Rightarrow> [c] | None \<Rightarrow> []))) []
           # (case str_prop ''message'' p of Some (c # cs) \<Rightarrow> [plain ''span'' ''text-sm text-gray-600'' [TextNode (c # cs)]] | _ \<Rightarrow> []))]"

section \<open>scroll-area.tsx\<close>

definition ScrollBar :: "styling \<Rightarrow> 'a part" where
  "ScrollBar y p kids =
     Element ''ScrollAreaPrimitive.ScrollAreaScrollbar''
       (wrap_props y (slot ''scroll-area-scrollbar'' @ [(''orientation'', prop_or ''orientation'' (AStr ''vertical'') p)])
          ([''flex touch-none p-px transition-colors select-none'']
           @ shown_if (prop_or ''orientation'' (AStr ''vertical'') p = AStr ''vertical'') [''h-full w-2.5 border-l border-l-transparent'']
           @ shown_if (prop_or ''orientation'' (AStr ''vertical'') p = AStr ''horizontal'') [''h-2.5 flex-col border-t border-t-transparent''])
          [''orientation''] p)
       [Element ''ScrollAreaPrimitive.ScrollAreaThumb'' (slot ''scroll-area-thumb'' @ [(''className'', AStr ''bg-border relative flex-1 rounded-full'')]) []]"

definition ScrollArea :: "styling \<Rightarrow> 'a part" where
  "ScrollArea y p kids =
     wrap y ''ScrollAreaPrimitive.Root'' (slot ''scroll-area'') [''relative''] p
       [Element ''ScrollAreaPrimitive.Viewport'' (slot ''scroll-area-viewport'' @ [(''className'', AStr (''focus-visible:ring-ring/50 size-full rounded-[inherit] transition-[color,box-shadow] outline-none ''
            @ ''focus-visible:ring-[3px] focus-visible:outline-1''))]) kids,
        ScrollBar y [] [],
        Element ''ScrollAreaPrimitive.Corner'' [] []]"

section \<open>resizable.tsx\<close>

definition ResizablePanelGroup :: "styling \<Rightarrow> 'a part" where
  "ResizablePanelGroup y = wrap y ''ResizablePrimitive.PanelGroup'' []
     [''flex h-full w-full data-[panel-group-direction=vertical]:flex-col'']"

definition ResizablePanel :: "'a part" where
  "ResizablePanel =
     Element ''ResizablePrimitive.Panel''"

definition ResizableHandle :: "styling \<Rightarrow> 'a part" where
  "ResizableHandle y p kids =
     Element ''ResizablePrimitive.PanelResizeHandle''
       (wrap_props y []
          [(''relative flex w-px items-center justify-center bg-border after:absolute after:inset-y-0 ''
            @ ''after:left-1/2 after:w-1 after:-translate-x-1/2 focus-visible:outline-none focus-visible:ring-1 ''
            @ ''focus-visible:ring-ring focus-visible:ring-offset-1 data-[panel-group-direction=vertical]:h-px ''
            @ ''data-[panel-group-direction=vertical]:w-full data-[panel-group-direction=vertical]:after:left-0 ''
            @ ''data-[panel-group-direction=vertical]:after:h-1 data-[panel-group-direction=vertical]:after:w-full ''
            @ ''data-[panel-group-direction=vertical]:after:-translate-y-1/2 ''
            @ ''data-[panel-group-direction=vertical]:after:translate-x-0 ''
            @ ''[&[data-panel-group-direction=vertical]>div]:rotate-90'')]
          [''withHandle''] p)
       (shown_if (attr_truthy (given_prop ''withHandle'' p))
          [plain ''div'' ''z-10 flex h-4 w-3 items-center justify-center rounded-sm border bg-border'' [plain ''GripVertical'' ''h-2.5 w-2.5'' []]])"

section \<open>What is passed on\<close>

lemma surfaces_transparent:
  "passes_on y (Card y)"
  "passes_on y (CardHeader y)"
  "passes_on y (CardTitle y)"
  "passes_on y (CardDescription y)"
  "passes_on y (CardAction y)"
  "passes_on y (CardContent y)"
  "passes_on y (CardFooter y)"
  "passes_on y (TableHeader y)"
  "passes_on y (TableBody y)"
  "passes_on y (TableFooter y)"
  "passes_on y (TableRow y)"
  "passes_on y (TableHead y)"
  "passes_on y (TableCell y)"
  "passes_on y (TableCaption y)"
  "passes_on y (Tabs y)"
  "passes_on y (TabsList y)"
  "passes_on y (TabsTrigger y)"
  "passes_on y (TabsContent y)"
  "passes_on y (AlertDescription y)"
  "passes_on y (Textarea y)"
  "passes_on y (Skeleton y)"
  "passes_on y (ResizablePanelGroup y)"
  unfolding Card_def CardHeader_def CardTitle_def CardDescription_def CardAction_def CardContent_def CardFooter_def
    TableHeader_def TableBody_def TableFooter_def TableRow_def TableHead_def TableCell_def TableCaption_def Tabs_def
    TabsList_def TabsTrigger_def TabsContent_def AlertDescription_def Textarea_def Skeleton_def ResizablePanelGroup_def
  by (rule passes_on_wrap)+

end
