(* ===== verification/Ui_Overlays.thy ===== *)
theory Ui_Overlays
  imports Ui_Elements
begin

text \<open>
  The primitives of components/ui that lie over the page: dialogs, sheets, drawers, tooltips, menus and selects, as Radix and
  vaul are asked for them.
\<close>

section \<open>dialog.tsx\<close>

definition Dialog :: "'a part" where
  "Dialog =
     Element ''DialogPrimitive.Root''"

definition DialogTrigger :: "'a part" where
  "DialogTrigger =
     Element ''DialogPrimitive.Trigger''"

definition DialogPortal :: "'a part" where
  "DialogPortal =
     Element ''DialogPrimitive.Portal''"

definition DialogClose :: "'a part" where
  "DialogClose =
     Element ''DialogPrimitive.Close''"

definition DialogOverlay :: "styling \<Rightarrow> 'a part" where
  "DialogOverlay y = wrap y ''DialogPrimitive.Overlay'' []
     [(''fixed inset-0 z-50 bg-black/80 data-[state=open]:animate-in data-[state=closed]:animate-out ''
            @ ''data-[state=closed]:fade-out-0 data-[state=open]:fade-in-0'')]"

definition DialogContent :: "styling \<Rightarrow> 'a part" where
  "DialogContent y p kids =
     DialogPortal []
       [DialogOverlay y [] [],
        wrap y ''DialogPrimitive.Content'' []
          [(''fixed left-[50%] top-[50%] z-50 grid w-full max-w-lg translate-x-[-50%] translate-y-[-50%] gap-4 ''
            @ ''border bg-background p-6 shadow-lg duration-200 data-[state=open]:animate-in ''
            @ ''data-[state=closed]:animate-out data-[state=closed]:fade-out-0 data-[state=open]:fade-in-0 ''
            @ ''data-[state=closed]:zoom-out-95 data-[state=open]:zoom-in-95 ''
            @ ''data-[state=closed]:slide-out-to-left-1/2 data-[state=closed]:slide-out-to-top-[48%] ''
            @ ''data-[state=open]:slide-in-from-left-1/2 data-[state=open]:slide-in-from-top-[48%] sm:rounded-lg'')] p
          (kids
           @ [plain ''DialogPrimitive.Close'' (''absolute right-4 top-4 rounded-sm opacity-70 ring-offset-background transition-opacity ''
            @ ''hover:opacity-100 focus:outline-none focus:ring-2 focus:ring-ring focus:ring-offset-2 ''
            @ ''disabled:pointer-events-none data-[state=open]:bg-accent data-[state=open]:text-muted-foreground'')
                [plain ''X'' ''h-4 w-4'' [], plain ''span'' ''sr-only'' [TextNode ''Close'']]])]"

definition DialogHeader :: "styling \<Rightarrow> 'a part" where
  "DialogHeader y = wrap y ''div'' []
     [''flex flex-col space-y-1.5 text-center sm:text-left'']"

definition DialogFooter :: "styling \<Rightarrow> 'a part" where
  "DialogFooter y = wrap y ''div'' []
     [''flex flex-col-reverse sm:flex-row sm:justify-end sm:space-x-2'']"

definition DialogTitle :: "styling \<Rightarrow> 'a part" where
  "DialogTitle y = wrap y ''DialogPrimitive.Title'' []
     [''text-lg font-semibold leading-none tracking-tight'']"

definition DialogDescription :: "styling \<Rightarrow> 'a part" where
  "DialogDescription y = wrap y ''DialogPrimitive.Description'' []
     [''text-sm text-muted-foreground'']"

section \<open>sheet.tsx\<close>

definition Sheet :: "'a part" where
  "Sheet = pass_on ''SheetPrimitive.Root'' (slot ''sheet'')"

definition SheetTrigger :: "'a part" where
  "SheetTrigger = pass_on ''SheetPrimitive.Trigger'' (slot ''sheet-trigger'')"

definition SheetClose :: "'a part" where
  "SheetClose = pass_on ''SheetPrimitive.Close'' (slot ''sheet-close'')"

definition SheetPortal :: "'a part" where
  "SheetPortal = pass_on ''SheetPrimitive.Portal'' (slot ''sheet-portal'')"

definition SheetOverlay :: "styling \<Rightarrow> 'a part" where
  "SheetOverlay y = wrap y ''SheetPrimitive.Overlay'' (slot ''sheet-overlay'')
     [(''data-[state=open]:animate-in data-[state=closed]:animate-out data-[state=closed]:fade-out-0 ''
            @ ''data-[state=open]:fade-in-0 fixed inset-0 z-50 bg-black/50'')]"

definition SheetContent :: "styling \<Rightarrow> 'a part" where
  "SheetContent y p kids =
     (let side = prop_or ''side'' (AStr ''right'') p in
      SheetPortal []
       [SheetOverlay y [] [],
        Element ''SheetPrimitive.Content''
          (wrap_props y (slot ''sheet-content'')
             ([(''bg-background data-[state=open]:animate-in data-[state=closed]:animate-out fixed z-50 flex flex-col ''
            @ ''gap-4 shadow-lg transition ease-in-out data-[state=closed]:duration-300 ''
            @ ''data-[state=open]:duration-500'')]
              @ shown_if (side = AStr ''right'') [(''data-[state=closed]:slide-out-to-right data-[state=open]:slide-in-from-right inset-y-0 right-0 ''
            @ ''h-full w-3/4 border-l sm:max-w-sm'')]
              @ shown_if (side = AStr ''left'') [(''data-[state=closed]:slide-out-to-left data-[state=open]:slide-in-from-left inset-y-0 left-0 h-full ''
            @ ''w-3/4 border-r sm:max-w-sm'')]
              @ shown_if (side = AStr ''top'') [(''data-[state=closed]:slide-out-to-top data-[state=open]:slide-in-from-top inset-x-0 top-0 h-auto ''
            @ ''border-b'')]
              @ shown_if (side = AStr ''bottom'') [(''data-[state=closed]:slide-out-to-bottom data-[state=open]:slide-in-from-bottom inset-x-0 bottom-0 ''
            @ ''h-auto border-t'')])
             [''side''] p)
          (kids
           @ [plain ''SheetPrimitive.Close'' (''ring-offset-background focus:ring-ring data-[state=open]:bg-secondary absolute top-4 right-4 ''
            @ ''rounded-xs opacity-70 transition-opacity hover:opacity-100 focus:ring-2 focus:ring-offset-2 ''
            @ ''focus:outline-hidden disabled:pointer-events-none'')
                [plain ''XIcon'' ''size-4'' [], plain ''span'' ''sr-only'' [TextNode ''Close'']]])])"

definition SheetHeader :: "styling \<Rightarrow> 'a part" where
  "SheetHeader y = wrap y ''div'' (slot ''sheet-header'')
     [''flex flex-col gap-1.5 p-4'']"

definition SheetFooter :: "styling \<Rightarrow> 'a part" where
  "SheetFooter y = wrap y ''div'' (slot ''sheet-footer'')
     [''mt-auto flex flex-col gap-2 p-4'']"

definition SheetTitle :: "styling \<Rightarrow> 'a part" where
  "SheetTitle y = wrap y ''SheetPrimitive.Title'' (slot ''sheet-title'')
     [''text-foreground font-semibold'']"

definition SheetDescription :: "styling \<Rightarrow> 'a part" where
  "SheetDescription y = wrap y ''SheetPrimitive.Description'' (slot ''sheet-description'')
     [''text-muted-foreground text-sm'']"

section \<open>drawer.tsx\<close>

definition Drawer :: "'a part" where
  "Drawer = pass_on ''DrawerPrimitive.Root'' (slot ''drawer'')"

definition DrawerTrigger :: "'a part" where
  "DrawerTrigger = pass_on ''DrawerPrimitive.Trigger'' (slot ''drawer-trigger'')"

definition DrawerPortal :: "'a part" where
  "DrawerPortal = pass_on ''DrawerPrimitive.Portal'' (slot ''drawer-portal'')"

definition DrawerClose :: "'a part" where
  "DrawerClose = pass_on ''DrawerPrimitive.Close'' (slot ''drawer-close'')"

definition DrawerOverlay :: "styling \<Rightarrow> 'a part" where
  "DrawerOverlay y = wrap y ''DrawerPrimitive.Overlay'' (slot ''drawer-overlay'')
     [(''data-[state=open]:animate-in data-[state=closed]:animate-out data-[state=closed]:fade-out-0 ''
            @ ''data-[state=open]:fade-in-0 fixed inset-0 z-50 bg-black/50'')]"

definition DrawerContent :: "styling \<Rightarrow> 'a part" where
  "DrawerContent y p kids =
     DrawerPortal (slot ''drawer-portal'')
       [DrawerOverlay y [] [],
        wrap y ''DrawerPrimitive.Content'' (slot ''drawer-content'')
          [''group/drawer-content bg-background fixed z-50 flex h-auto flex-col'',
           (''data-[vaul-drawer-direction=top]:inset-x-0 data-[vaul-drawer-direction=top]:top-0 ''
            @ ''data-[vaul-drawer-direction=top]:mb-24 data-[vaul-drawer-direction=top]:max-h-[80vh] ''
            @ ''data-[vaul-drawer-direction=top]:rounded-b-lg data-[vaul-drawer-direction=top]:border-b''),
           (''data-[vaul-drawer-direction=bottom]:inset-x-0 data-[vaul-drawer-direction=bottom]:bottom-0 ''
            @ ''data-[vaul-drawer-direction=bottom]:mt-24 data-[vaul-drawer-direction=bottom]:max-h-[80vh] ''
            @ ''data-[vaul-drawer-direction=bottom]:rounded-t-lg data-[vaul-drawer-direction=bottom]:border-t''),
           (''data-[vaul-drawer-direction=right]:inset-y-0 data-[vaul-drawer-direction=right]:right-0 ''
            @ ''data-[vaul-drawer-direction=right]:w-3/4 data-[vaul-drawer-direction=right]:border-l ''
            @ ''data-[vaul-drawer-direction=right]:sm:max-w-sm''),
           (''data-[vaul-drawer-direction=left]:inset-y-0 data-[vaul-drawer-direction=left]:left-0 ''
            @ ''data-[vaul-drawer-direction=left]:w-3/4 data-[vaul-drawer-direction=left]:border-r ''
            @ ''data-[vaul-drawer-direction=left]:sm:max-w-sm'')] p
          (plain ''div'' (''bg-muted mx-auto mt-4 hidden h-2 w-[100px] shrink-0 rounded-full ''
            @ ''group-data-[vaul-drawer-direction=bottom]/drawer-content:block'') [] # kids)]"

definition DrawerHeader :: "styling \<Rightarrow> 'a part" where
  "DrawerHeader y = wrap y ''div'' (slot ''drawer-header'')
     [(''flex flex-col gap-0.5 p-4 group-data-[vaul-drawer-direction=bottom]/drawer-content:text-center ''
            @ ''group-data-[vaul-drawer-direction=top]/drawer-content:text-center md:gap-1.5 md:text-left'')]"

definition DrawerFooter :: "styling \<Rightarrow> 'a part" where
  "DrawerFooter y = wrap y ''div'' (slot ''drawer-footer'')
     [''mt-auto flex flex-col gap-2 p-4'']"

definition DrawerTitle :: "styling \<Rightarrow> 'a part" where
  "DrawerTitle y = wrap y ''DrawerPrimitive.Title'' (slot ''drawer-title'')
     [''text-foreground font-semibold'']"

definition DrawerDescription :: "styling \<Rightarrow> 'a part" where
  "DrawerDescription y = wrap y ''DrawerPrimitive.Description'' (slot ''drawer-description'')
     [''text-muted-foreground text-sm'']"

section \<open>tooltip.tsx\<close>

definition TooltipProvider :: "'a part" where
  "TooltipProvider p kids =
     Element ''TooltipPrimitive.Provider''
       (assign (slot ''tooltip-provider'' @ [(''delayDuration'', prop_or ''delayDuration'' (AInt 0) p)]) (without [''delayDuration''] p)) kids"

definition Tooltip :: "'a part" where
  "Tooltip p kids =
     TooltipProvider [] [pass_on ''TooltipPrimitive.Root'' (slot ''tooltip'') p kids]"

definition TooltipTrigger :: "'a part" where
  "TooltipTrigger = pass_on ''TooltipPrimitive.Trigger'' (slot ''tooltip-trigger'')"

definition TooltipContent :: "styling \<Rightarrow> 'a part" where
  "TooltipContent y p kids =
     Element ''TooltipPrimitive.Portal'' []
       [Element ''TooltipPrimitive.Content''
          (wrap_props y (slot ''tooltip-content'' @ [(''sideOffset'', prop_or ''sideOffset'' (AInt 0) p)])
             [(''bg-primary text-primary-foreground animate-in fade-in-0 zoom-in-95 data-[state=closed]:animate-out ''
            @ ''data-[state=closed]:fade-out-0 data-[state=closed]:zoom-out-95 ''
            @ ''data-[side=bottom]:slide-in-from-top-2 data-[side=left]:slide-in-from-right-2 ''
            @ ''data-[side=right]:slide-in-from-left-2 data-[side=top]:slide-in-from-bottom-2 z-50 w-fit ''
            @ ''origin-(--radix-tooltip-content-transform-origin) rounded-md px-3 py-1.5 text-xs text-balance'')]
             [''sideOffset''] p)
          (kids @ [plain ''TooltipPrimitive.Arrow'' ''bg-primary fill-primary z-50 size-2.5 translate-y-[calc(-50%_-_2px)] rotate-45 rounded-[2px]'' []])]"

section \<open>dropdown-menu.tsx\<close>

definition DropdownMenu :: "'a part" where
  "DropdownMenu = pass_on ''DropdownMenuPrimitive.Root'' (slot ''dropdown-menu'')"

definition DropdownMenuPortal :: "'a part" where
  "DropdownMenuPortal = pass_on ''DropdownMenuPrimitive.Portal'' (slot ''dropdown-menu-portal'')"

definition DropdownMenuTrigger :: "'a part" where
  "DropdownMenuTrigger = pass_on ''DropdownMenuPrimitive.Trigger'' (slot ''dropdown-menu-trigger'')"

definition DropdownMenuContent :: "styling \<Rightarrow> 'a part" where
  "DropdownMenuContent y p kids =
     Element ''DropdownMenuPrimitive.Portal'' []
       [Element ''DropdownMenuPrimitive.Content''
          (wrap_props y (slot ''dropdown-menu-content'' @ [(''sideOffset'', prop_or ''sideOffset'' (AInt 4) p)])
             [(''bg-popover text-popover-foreground data-[state=open]:animate-in data-[state=closed]:animate-out ''
            @ ''data-[state=closed]:fade-out-0 data-[state=open]:fade-in-0 data-[state=closed]:zoom-out-95 ''
            @ ''data-[state=open]:zoom-in-95 data-[side=bottom]:slide-in-from-top-2 ''
            @ ''data-[side=left]:slide-in-from-right-2 data-[side=right]:slide-in-from-left-2 ''
            @ ''data-[side=top]:slide-in-from-bottom-2 z-50 max-h-(--radix-dropdown-menu-content-available-height) ''
            @ ''min-w-[8rem] origin-(--radix-dropdown-menu-content-transform-origin) overflow-x-hidden ''
            @ ''overflow-y-auto rounded-md border p-1 shadow-md'')]
             [''sideOffset''] p) kids]"

definition DropdownMenuGroup :: "'a part" where
  "DropdownMenuGroup = pass_on ''DropdownMenuPrimitive.Group'' (slot ''dropdown-menu-group'')"

definition DropdownMenuItem :: "styling \<Rightarrow> 'a part" where
  "DropdownMenuItem y p kids =
     Element ''DropdownMenuPrimitive.Item''
       (wrap_props y (slot ''dropdown-menu-item''
            @ [(''data-inset'', given_prop ''inset'' p), (''data-variant'', prop_or ''variant'' (AStr ''default'') p)])
          [(''focus:bg-accent focus:text-accent-foreground data-[variant=destructive]:text-destructive ''
            @ ''data-[variant=destructive]:focus:bg-destructive/10 ''
            @ ''dark:data-[variant=destructive]:focus:bg-destructive/20 ''
            @ ''data-[variant=destructive]:focus:text-destructive ''
            @ ''data-[variant=destructive]:*:[svg]:!text-destructive ''
            @ ''[&_svg:not([class*='text-'])]:text-muted-foreground relative flex cursor-default items-center gap-2 ''
            @ ''rounded-sm px-2 py-1.5 text-sm outline-hidden select-none data-[disabled]:pointer-events-none ''
            @ ''data-[disabled]:opacity-50 data-[inset]:pl-8 [&_svg]:pointer-events-none [&_svg]:shrink-0 ''
            @ ''[&_svg:not([class*='size-'])]:size-4'')]
          [''inset'', ''variant''] p) kids"

definition DropdownMenuCheckboxItem :: "styling \<Rightarrow> 'a part" where
  "DropdownMenuCheckboxItem y p kids =
     Element ''DropdownMenuPrimitive.CheckboxItem''
       (assign (assign (slot ''dropdown-menu-checkbox-item'')
          (class_attr y ((''focus:bg-accent focus:text-accent-foreground relative flex cursor-default items-center gap-2 ''
            @ ''rounded-sm py-1.5 pr-2 pl-8 text-sm outline-hidden select-none data-[disabled]:pointer-events-none ''
            @ ''data-[disabled]:opacity-50 [&_svg]:pointer-events-none [&_svg]:shrink-0 ''
            @ ''[&_svg:not([class*='size-'])]:size-4'')
             # given_class p) @ [(''checked'', given_prop ''checked'' p)])) (without [''className'', ''checked''] p))
       (plain ''span'' ''pointer-events-none absolute left-2 flex size-3.5 items-center justify-center''
          [Element ''DropdownMenuPrimitive.ItemIndicator'' [] [plain ''CheckIcon'' ''size-4'' []]] # kids)"

definition DropdownMenuRadioGroup :: "'a part" where
  "DropdownMenuRadioGroup = pass_on ''DropdownMenuPrimitive.RadioGroup'' (slot ''dropdown-menu-radio-group'')"

definition DropdownMenuRadioItem :: "styling \<Rightarrow> 'a part" where
  "DropdownMenuRadioItem y p kids =
     wrap y ''DropdownMenuPrimitive.RadioItem'' (slot ''dropdown-menu-radio-item'')
       [(''focus:bg-accent focus:text-accent-foreground relative flex cursor-default items-center gap-2 ''
            @ ''rounded-sm py-1.5 pr-2 pl-8 text-sm outline-hidden select-none data-[disabled]:pointer-events-none ''
            @ ''data-[disabled]:opacity-50 [&_svg]:pointer-events-none [&_svg]:shrink-0 ''
            @ ''[&_svg:not([class*='size-'])]:size-4'')] p
       (plain ''span'' ''pointer-events-none absolute left-2 flex size-3.5 items-center justify-center''
          [Element ''DropdownMenuPrimitive.ItemIndicator'' [] [plain ''CircleIcon'' ''size-2 fill-current'' []]] # kids)"

definition DropdownMenuLabel :: "styling \<Rightarrow> 'a part" where
  "DropdownMenuLabel y p kids =
     Element ''DropdownMenuPrimitive.Label''
       (wrap_props y (slot ''dropdown-menu-label'' @ [(''data-inset'', given_prop ''inset'' p)]) [''px-2 py-1.5 text-sm font-medium data-[inset]:pl-8''] [''inset''] p) kids"

definition DropdownMenuSeparator :: "styling \<Rightarrow> 'a part" where
  "DropdownMenuSeparator y = wrap y ''DropdownMenuPrimitive.Separator'' (slot ''dropdown-menu-separator'')
     [''bg-border -mx-1 my-1 h-px'']"

definition DropdownMenuShortcut :: "styling \<Rightarrow> 'a part" where
  "DropdownMenuShortcut y = wrap y ''span'' (slot ''dropdown-menu-shortcut'')
     [''text-muted-foreground ml-auto text-xs tracking-widest'']"

definition DropdownMenuSub :: "'a part" where
  "DropdownMenuSub = pass_on ''DropdownMenuPrimitive.Sub'' (slot ''dropdown-menu-sub'')"

definition DropdownMenuSubTrigger :: "styling \<Rightarrow> 'a part" where
  "DropdownMenuSubTrigger y p kids =
     Element ''DropdownMenuPrimitive.SubTrigger''
       (wrap_props y (slot ''dropdown-menu-sub-trigger'' @ [(''data-inset'', given_prop ''inset'' p)])
          [(''focus:bg-accent focus:text-accent-foreground data-[state=open]:bg-accent ''
            @ ''data-[state=open]:text-accent-foreground flex cursor-default items-center rounded-sm px-2 py-1.5 ''
            @ ''text-sm outline-hidden select-none data-[inset]:pl-8'')]
          [''inset''] p)
       (kids @ [plain ''ChevronRightIcon'' ''ml-auto size-4'' []])"

definition DropdownMenuSubContent :: "styling \<Rightarrow> 'a part" where
  "DropdownMenuSubContent y = wrap y ''DropdownMenuPrimitive.SubContent'' (slot ''dropdown-menu-sub-content'')
     [(''bg-popover text-popover-foreground data-[state=open]:animate-in data-[state=closed]:animate-out ''
            @ ''data-[state=closed]:fade-out-0 data-[state=open]:fade-in-0 data-[state=closed]:zoom-out-95 ''
            @ ''data-[state=open]:zoom-in-95 data-[side=bottom]:slide-in-from-top-2 ''
            @ ''data-[side=left]:slide-in-from-right-2 data-[side=right]:slide-in-from-left-2 ''
            @ ''data-[side=top]:slide-in-from-bottom-2 z-50 min-w-[8rem] ''
            @ ''origin-(--radix-dropdown-menu-content-transform-origin) overflow-hidden rounded-md border p-1 ''
            @ ''shadow-lg'')]"

section \<open>select.tsx\<close>

definition Select_el :: "'a part" where
  "Select_el =
     Element ''SelectPrimitive.Root''"

definition SelectGroup :: "'a part" where
  "SelectGroup =
     Element ''SelectPrimitive.Group''"

definition SelectValue :: "'a part" where
  "SelectValue =
     Element ''SelectPrimitive.Value''"

definition SelectTrigger :: "styling \<Rightarrow> 'a part" where
  "SelectTrigger y p kids =
     wrap y ''SelectPrimitive.Trigger'' []
       [(''flex h-10 w-full items-center justify-between rounded-md border border-input bg-background px-3 py-2 ''
            @ ''text-sm ring-offset-background data-[placeholder]:text-muted-foreground focus:outline-none ''
            @ ''focus:ring-2 focus:ring-ring focus:ring-offset-2 disabled:cursor-not-allowed disabled:opacity-50 ''
            @ ''[&>span]:line-clamp-1'')] p
       (kids @ [Element ''SelectPrimitive.Icon'' [(''asChild'', AFlag True)] [plain ''ChevronDown'' ''h-4 w-4 opacity-50'' []]])"

definition SelectScrollUpButton :: "styling \<Rightarrow> 'a part" where
  "SelectScrollUpButton y p kids =
     wrap y ''SelectPrimitive.ScrollUpButton'' [] [''flex cursor-default items-center justify-center py-1''] p [plain ''ChevronUp'' ''h-4 w-4'' []]"

definition SelectScrollDownButton :: "styling \<Rightarrow> 'a part" where
  "SelectScrollDownButton y p kids =
     wrap y ''SelectPrimitive.ScrollDownButton'' [] [''flex cursor-default items-center justify-center py-1''] p [plain ''ChevronDown'' ''h-4 w-4'' []]"

definition SelectContent :: "styling \<Rightarrow> 'a part" where
  "SelectContent y p kids =
     (let position = prop_or ''position'' (AStr ''popper'') p in
      Element ''SelectPrimitive.Portal'' []
       [Element ''SelectPrimitive.Content''
          (assign (class_attr y ([(''relative z-50 max-h-[--radix-select-content-available-height] min-w-[8rem] overflow-y-auto ''
            @ ''overflow-x-hidden rounded-md border bg-popover text-popover-foreground shadow-md ''
            @ ''data-[state=open]:animate-in data-[state=closed]:animate-out data-[state=closed]:fade-out-0 ''
            @ ''data-[state=open]:fade-in-0 data-[state=closed]:zoom-out-95 data-[state=open]:zoom-in-95 ''
            @ ''data-[side=bottom]:slide-in-from-top-2 data-[side=left]:slide-in-from-right-2 ''
            @ ''data-[side=right]:slide-in-from-left-2 data-[side=top]:slide-in-from-bottom-2 ''
            @ ''origin-[--radix-select-content-transform-origin]'')]
               @ shown_if (position = AStr ''popper'') [(''data-[side=bottom]:translate-y-1 data-[side=left]:-translate-x-1 data-[side=right]:translate-x-1 ''
            @ ''data-[side=top]:-translate-y-1'')]
               @ given_class p) @ [(''position'', position)]) (without [''className'', ''position''] p))
          [SelectScrollUpButton y [] [],
           Element ''SelectPrimitive.Viewport'' (class_attr y ([''p-1''] @ shown_if (position = AStr ''popper'') [''h-[var(--radix-select-trigger-height)] w-full min-w-[var(--radix-select-trigger-width)]''])) kids,
           SelectScrollDownButton y [] []]])"

definition SelectLabel :: "styling \<Rightarrow> 'a part" where
  "SelectLabel y = wrap y ''SelectPrimitive.Label'' []
     [''py-1.5 pl-8 pr-2 text-sm font-semibold'']"

definition SelectItem :: "styling \<Rightarrow> 'a part" where
  "SelectItem y p kids =
     wrap y ''SelectPrimitive.Item'' []
       [(''relative flex w-full cursor-default select-none items-center rounded-sm py-1.5 pl-8 pr-2 text-sm ''
            @ ''outline-none focus:bg-accent focus:text-accent-foreground data-[disabled]:pointer-events-none ''
            @ ''data-[disabled]:opacity-50'')] p
       [plain ''span'' ''absolute left-2 flex h-3.5 w-3.5 items-center justify-center'' [Element ''SelectPrimitive.ItemIndicator'' [] [plain ''Check'' ''h-4 w-4'' []]],
        Element ''SelectPrimitive.ItemText'' [] kids]"

definition SelectSeparator :: "styling \<Rightarrow> 'a part" where
  "SelectSeparator y = wrap y ''SelectPrimitive.Separator'' []
     [''-mx-1 my-1 h-px bg-muted'']"

section \<open>What is passed on\<close>

lemma overlays_transparent:
  "passes_on y (DialogOverlay y)"
  "passes_on y (DialogHeader y)"
  "passes_on y (DialogFooter y)"
  "passes_on y (DialogTitle y)"
  "passes_on y (DialogDescription y)"
  "passes_on y (SheetOverlay y)"
  "passes_on y (SheetHeader y)"
  "passes_on y (SheetFooter y)"
  "passes_on y (SheetTitle y)"
  "passes_on y (SheetDescription y)"
  "passes_on y (DrawerOverlay y)"
  "passes_on y (DrawerHeader y)"
  "passes_on y (DrawerFooter y)"
  "passes_on y (DrawerTitle y)"
  "passes_on y (DrawerDescription y)"
  "passes_on y (DropdownMenuSeparator y)"
  "passes_on y (DropdownMenuShortcut y)"
  "passes_on y (DropdownMenuSubContent y)"
  "passes_on y (SelectLabel y)"
  "passes_on y (SelectSeparator y)"
  unfolding DialogOverlay_def DialogHeader_def DialogFooter_def DialogTitle_def DialogDescription_def SheetOverlay_def
    SheetHeader_def SheetFooter_def SheetTitle_def SheetDescription_def DrawerOverlay_def DrawerHeader_def
    DrawerFooter_def DrawerTitle_def DrawerDescription_def DropdownMenuSeparator_def DropdownMenuShortcut_def
    DropdownMenuSubContent_def SelectLabel_def SelectSeparator_def
  by (rule passes_on_wrap)+

lemma overlays_forwarding:
  "forwarding Sheet"
  "forwarding SheetTrigger"
  "forwarding SheetClose"
  "forwarding SheetPortal"
  "forwarding Drawer"
  "forwarding DrawerTrigger"
  "forwarding DrawerPortal"
  "forwarding DrawerClose"
  "forwarding TooltipTrigger"
  "forwarding DropdownMenu"
  "forwarding DropdownMenuPortal"
  "forwarding DropdownMenuTrigger"
  "forwarding DropdownMenuGroup"
  "forwarding DropdownMenuRadioGroup"
  "forwarding DropdownMenuSub"
  unfolding Sheet_def SheetTrigger_def SheetClose_def SheetPortal_def Drawer_def DrawerTrigger_def DrawerPortal_def
    DrawerClose_def TooltipTrigger_def DropdownMenu_def DropdownMenuPortal_def DropdownMenuTrigger_def
    DropdownMenuGroup_def DropdownMenuRadioGroup_def DropdownMenuSub_def
  by (rule forwarding_pass_on)+

section \<open>Closing what was opened\<close>

text \<open>The parts of an element with a tag.\<close>

definition with_tag :: "string \<Rightarrow> 'a element \<Rightarrow> 'a element list" where
  "with_tag t e = filter (\<lambda>x. tag_of x = t) (parts_of e)"

lemma with_tag_simps:
  "with_tag t (TextNode s) = (if t = [] then [TextNode s] else [])"
  "with_tag t (Element t' as ks) = (if t' = t then [Element t' as ks] else []) @ concat (map (with_tag t) ks)"
  by (auto simp: with_tag_def [abs_def] filter_concat comp_def)

lemma with_tag_wrap:
  "with_tag t (wrap y t' own classes p kids) =
     (if t' = t then [wrap y t' own classes p kids] else []) @ concat (map (with_tag t) kids)"
  by (simp add: wrap_def with_tag_simps)

lemma with_tag_pass_on:
  "with_tag t (pass_on t' own p kids) = (if t' = t then [pass_on t' own p kids] else []) @ concat (map (with_tag t) kids)"
  by (simp add: pass_on_def with_tag_simps)

text \<open>What a dialog or a sheet shows can be closed: behind the caller's children stands a button of the library named Close.\<close>

definition close_named :: "string \<Rightarrow> 'a element \<Rightarrow> bool" where
  "close_named t e \<longleftrightarrow> tag_of e = t \<and> TextNode ''Close'' \<in> set (parts_of e)"

definition close_mark :: "string \<Rightarrow> string \<Rightarrow> string \<Rightarrow> string \<Rightarrow> 'a element" where
  "close_mark t c icon sz = plain t c [plain icon sz [], plain ''span'' ''sr-only'' [TextNode ''Close'']]"

lemma close_mark_named: "close_named t (close_mark t c icon sz)"
  by (simp add: close_mark_def close_named_def plain_def)

lemma close_mark_only: "t \<noteq> icon \<Longrightarrow> t \<noteq> ''span'' \<Longrightarrow> t \<noteq> [] \<Longrightarrow> with_tag t (close_mark t c icon sz) = [close_mark t c icon sz]"
  by (simp add: close_mark_def plain_def with_tag_simps)

lemma dialog_content:
  "\<exists>c sz classes. DialogContent y p kids = DialogPortal [] [DialogOverlay y [] [],
     wrap y ''DialogPrimitive.Content'' [] classes p (kids @ [close_mark ''DialogPrimitive.Close'' c ''X'' sz])]"
  unfolding DialogContent_def close_mark_def by (intro exI, rule refl)

lemma sheet_content:
  "\<exists>c sz classes. SheetContent y p kids = SheetPortal [] [SheetOverlay y [] [],
     Element ''SheetPrimitive.Content'' (wrap_props y (slot ''sheet-content'') classes [''side''] p)
       (kids @ [close_mark ''SheetPrimitive.Close'' c ''XIcon'' sz])]"
  unfolding SheetContent_def Let_def close_mark_def by (intro exI, rule refl)

lemma drawer_content:
  "\<exists>bar classes. DrawerContent y p kids = DrawerPortal (slot ''drawer-portal'')
     [DrawerOverlay y [] [], wrap y ''DrawerPrimitive.Content'' (slot ''drawer-content'') classes p (plain ''div'' bar [] # kids)]"
  unfolding DrawerContent_def by (intro exI, rule refl)

lemma overlay_tags:
  "with_tag t (DialogOverlay y [] []) = (if t = ''DialogPrimitive.Overlay'' then [DialogOverlay y [] []] else [])"
  "with_tag t (SheetOverlay y [] []) = (if t = ''SheetPrimitive.Overlay'' then [SheetOverlay y [] []] else [])"
  "with_tag t (DrawerOverlay y [] []) = (if t = ''DrawerPrimitive.Overlay'' then [DrawerOverlay y [] []] else [])"
  by (simp_all add: DialogOverlay_def SheetOverlay_def DrawerOverlay_def with_tag_wrap)

text \<open>every dialog and every sheet brings one way to close it, a Close element of the library named Close, behind those the caller put
  among its children; a drawer brings none, so the pages that use one must.\<close>

theorem overlays_bring_close:
  "\<exists>dc sc. close_named ''DialogPrimitive.Close'' dc \<and> close_named ''SheetPrimitive.Close'' sc
     \<and> with_tag ''DialogPrimitive.Close'' (DialogContent y p kids) = concat (map (with_tag ''DialogPrimitive.Close'') kids) @ [dc]
     \<and> with_tag ''SheetPrimitive.Close'' (SheetContent y p kids) = concat (map (with_tag ''SheetPrimitive.Close'') kids) @ [sc]
     \<and> with_tag ''DrawerPrimitive.Close'' (DrawerContent y p kids) = concat (map (with_tag ''DrawerPrimitive.Close'') kids)"
proof -
  obtain c1 s1 k1 where d: "DialogContent y p kids = DialogPortal [] [DialogOverlay y [] [],
     wrap y ''DialogPrimitive.Content'' [] k1 p (kids @ [close_mark ''DialogPrimitive.Close'' c1 ''X'' s1])]"
    using dialog_content by blast
  obtain c2 s2 k2 where s: "SheetContent y p kids = SheetPortal [] [SheetOverlay y [] [],
     Element ''SheetPrimitive.Content'' (wrap_props y (slot ''sheet-content'') k2 [''side''] p)
       (kids @ [close_mark ''SheetPrimitive.Close'' c2 ''XIcon'' s2])]"
    using sheet_content by blast
  obtain b k3 where w: "DrawerContent y p kids = DrawerPortal (slot ''drawer-portal'')
     [DrawerOverlay y [] [], wrap y ''DrawerPrimitive.Content'' (slot ''drawer-content'') k3 p (plain ''div'' b [] # kids)]"
    using drawer_content by blast
  show ?thesis
    by (intro exI [of _ "close_mark ''DialogPrimitive.Close'' c1 ''X'' s1"] exI [of _ "close_mark ''SheetPrimitive.Close'' c2 ''XIcon'' s2"] conjI)
       (simp_all add: d s w close_mark_named close_mark_only DialogPortal_def SheetPortal_def DrawerPortal_def with_tag_simps
          with_tag_wrap with_tag_pass_on overlay_tags plain_def)
qed

end
