(* ===== verification/Ui_Sidebar.thy ===== *)
theory Ui_Sidebar
  imports Ui_Surfaces Ui_Overlays Shell
begin

text \<open>
  The parts of the sidebar (components/ui/sidebar.tsx) as elements.  Shell models the state of the sidebar and what
  is shown of it; here are the provider, the frame and all parts of the menu as the source returns them, and the lemma that
  the view in Shell is what the elements show.
\<close>

text \<open>The context: \<open>sc_toggle\<close> and \<open>sc_setOpenMobile\<close> are the actions of \<open>toggleSidebar\<close> and \<open>setOpenMobile\<close>.\<close>

record 'a sidebar_context =
  sc_state :: string
  sc_isMobile :: bool
  sc_openMobile :: bool
  sc_toggle :: 'a
  sc_setOpenMobile :: 'a

definition style_of :: "'a props \<Rightarrow> (string \<times> string) list" where
  "style_of p = (case given_prop ''style'' p of AStyle s \<Rightarrow> s | _ \<Rightarrow> [])"

definition actions_of :: "'a attr \<Rightarrow> 'a list" where
  "actions_of a = (case a of ADo as \<Rightarrow> as | _ \<Rightarrow> [])"

definition attr_text :: "'a attr \<Rightarrow> string option" where
  "attr_text a = (case a of AStr s \<Rightarrow> Some s | _ \<Rightarrow> None)"

text \<open>The random width of a skeleton; \<open>n / d\<close> with \<open>n < d\<close> is what \<open>Math.random\<close> returned.\<close>

definition skeleton_width :: "nat \<Rightarrow> nat \<Rightarrow> string" where
  "skeleton_width n d = show_nat (n * 40 div d + 50) @ ''%''"

section \<open>sidebar.tsx\<close>

definition SIDEBAR_WIDTH :: "string" where
  "SIDEBAR_WIDTH =
     ''16rem''"

definition SIDEBAR_WIDTH_MOBILE :: "string" where
  "SIDEBAR_WIDTH_MOBILE =
     ''18rem''"

definition SIDEBAR_WIDTH_ICON :: "string" where
  "SIDEBAR_WIDTH_ICON =
     ''3rem''"

definition useSidebar :: "'a sidebar_context option \<Rightarrow> string + 'a sidebar_context" where
  "useSidebar context =
     (case context of None \<Rightarrow> Inl ''useSidebar must be used within a SidebarProvider.'' | Some c \<Rightarrow> Inr c)"

definition SidebarProvider_el :: "styling \<Rightarrow> 'a part" where
  "SidebarProvider_el y p kids =
     Element ''SidebarContext.Provider'' []
       [TooltipProvider [(''delayDuration'', AInt 0)]
          [Element ''div''
             (wrap_props y (slot ''sidebar-wrapper'' @ [(''style'', AStyle (foldl (\<lambda>o1 (k, v). obj_set k v o1)
                  [(''--sidebar-width'', SIDEBAR_WIDTH), (''--sidebar-width-icon'', SIDEBAR_WIDTH_ICON)] (style_of p)))])
                [''group/sidebar-wrapper has-data-[variant=inset]:bg-sidebar flex min-h-svh w-full'']
                [''defaultOpen'', ''open'', ''onOpenChange'', ''style''] p) kids]]"

definition Sidebar_el :: "styling \<Rightarrow> 'a sidebar_context \<Rightarrow> 'a part" where
  "Sidebar_el y c p kids =
     (let side = prop_or ''side'' (AStr ''left'') p; variant = prop_or ''variant'' (AStr ''sidebar'') p;
          collapsible = prop_or ''collapsible'' (AStr ''offcanvas'') p; raised = variant \<in> {AStr ''floating'', AStr ''inset''};
          rest = without [''side'', ''variant'', ''collapsible'', ''className''] p in
      if collapsible = AStr ''none'' then
        Element ''div'' (wrap_props y (slot ''sidebar'') [''bg-sidebar text-sidebar-foreground flex h-full w-(--sidebar-width) flex-col'']
          [''side'', ''variant'', ''collapsible''] p) kids
      else if sc_isMobile c then
        Sheet (assign [(''open'', AFlag (sc_openMobile c)), (''onOpenChange'', ADo [sc_setOpenMobile c])] rest)
          [SheetContent y
             [(''data-sidebar'', AStr ''sidebar''), (''data-slot'', AStr ''sidebar''), (''data-mobile'', AStr ''true''),
              (''className'', AStr ''bg-sidebar text-sidebar-foreground w-(--sidebar-width) p-0 [&>button]:hidden''),
              (''style'', AStyle [(''--sidebar-width'', SIDEBAR_WIDTH_MOBILE)]), (''side'', side)]
             [SheetHeader y [(''className'', AStr ''sr-only'')]
                [SheetTitle y [] [TextNode ''Sidebar''], SheetDescription y [] [TextNode ''Displays the mobile sidebar.'']],
              plain ''div'' ''flex h-full w-full flex-col'' kids]]
      else
        Element ''div''
          [(''className'', AStr ''group peer text-sidebar-foreground hidden md:block''), (''data-state'', AStr (sc_state c)),
           (''data-collapsible'', if sc_state c = ''collapsed'' then collapsible else AStr []), (''data-variant'', variant),
           (''data-side'', side), (''data-slot'', AStr ''sidebar'')]
          [Element ''div'' (slot ''sidebar-gap'' @ class_attr y
             [''relative w-(--sidebar-width) bg-transparent transition-[width] duration-200 ease-linear'',
              ''group-data-[collapsible=offcanvas]:w-0'', ''group-data-[side=right]:rotate-180'',
              if raised then ''group-data-[collapsible=icon]:w-[calc(var(--sidebar-width-icon)+(--spacing(4)))]''
              else ''group-data-[collapsible=icon]:w-(--sidebar-width-icon)'']) [],
           Element ''div''
             (assign (slot ''sidebar-container'' @ class_attr y
               ([(''fixed inset-y-0 z-10 hidden h-svh w-(--sidebar-width) transition-[left,right,width] duration-200 ''
            @ ''ease-linear md:flex''),
                 if side = AStr ''left'' then ''left-0 group-data-[collapsible=offcanvas]:left-[calc(var(--sidebar-width)*-1)]''
                 else ''right-0 group-data-[collapsible=offcanvas]:right-[calc(var(--sidebar-width)*-1)]'',
                 if raised then ''p-2 group-data-[collapsible=icon]:w-[calc(var(--sidebar-width-icon)+(--spacing(4))+2px)]''
                 else (''group-data-[collapsible=icon]:w-(--sidebar-width-icon) group-data-[side=left]:border-r ''
            @ ''group-data-[side=right]:border-l'')]
                @ given_class p)) rest)
             [Element ''div'' ([(''data-sidebar'', AStr ''sidebar'')] @ slot ''sidebar-inner'' @ [(''className'', AStr (''bg-sidebar group-data-[variant=floating]:border-sidebar-border flex h-full w-full flex-col ''
            @ ''group-data-[variant=floating]:rounded-lg group-data-[variant=floating]:border ''
            @ ''group-data-[variant=floating]:shadow-sm''))]) kids]])"

definition SidebarTrigger_el :: "styling \<Rightarrow> 'a sidebar_context \<Rightarrow> 'a part" where
  "SidebarTrigger_el y c p kids =
     Button_el y
       (assign [(''data-sidebar'', AStr ''trigger''), (''data-slot'', AStr ''sidebar-trigger''), (''variant'', AStr ''ghost''), (''size'', AStr ''icon''),
               (''className'', AStr (merge_classes y (''size-7'' # given_class p))), (''onClick'', ADo (actions_of (given_prop ''onClick'' p) @ [sc_toggle c]))]
          (without [''className'', ''onClick''] p))
       [Element ''PanelLeftIcon'' [] [], plain ''span'' ''sr-only'' [TextNode ''Toggle Sidebar'']]"

definition SidebarRail :: "styling \<Rightarrow> 'a sidebar_context \<Rightarrow> 'a part" where
  "SidebarRail y c p kids =
     wrap y ''button''
       [(''data-sidebar'', AStr ''rail''), (''data-slot'', AStr ''sidebar-rail''), (''aria-label'', AStr ''Toggle Sidebar''), (''tabIndex'', AInt (- 1)),
        (''onClick'', ADo [sc_toggle c]), (''title'', AStr ''Toggle Sidebar'')]
       [(''hover:after:bg-sidebar-border absolute inset-y-0 z-20 hidden w-4 -translate-x-1/2 transition-all ''
            @ ''ease-linear group-data-[side=left]:-right-4 group-data-[side=right]:left-0 after:absolute ''
            @ ''after:inset-y-0 after:left-1/2 after:w-[2px] sm:flex''),
        ''in-data-[side=left]:cursor-w-resize in-data-[side=right]:cursor-e-resize'',
        (''[[data-side=left][data-state=collapsed]_&]:cursor-e-resize ''
            @ ''[[data-side=right][data-state=collapsed]_&]:cursor-w-resize''),
        (''hover:group-data-[collapsible=offcanvas]:bg-sidebar group-data-[collapsible=offcanvas]:translate-x-0 ''
            @ ''group-data-[collapsible=offcanvas]:after:left-full''),
        ''[[data-side=left][data-collapsible=offcanvas]_&]:-right-2'',
        ''[[data-side=right][data-collapsible=offcanvas]_&]:-left-2''] p kids"

definition SidebarInset :: "styling \<Rightarrow> 'a part" where
  "SidebarInset y = wrap y ''main'' (slot ''sidebar-inset'')
     [''bg-background relative flex w-full flex-1 flex-col'',
      (''md:peer-data-[variant=inset]:m-2 md:peer-data-[variant=inset]:ml-0 ''
            @ ''md:peer-data-[variant=inset]:rounded-xl md:peer-data-[variant=inset]:shadow-sm ''
            @ ''md:peer-data-[variant=inset]:peer-data-[state=collapsed]:ml-2'')]"

definition SidebarInput :: "styling \<Rightarrow> 'a part" where
  "SidebarInput y p = Input_el y (wrap_props y (slot ''sidebar-input'' @ [(''data-sidebar'', AStr ''input'')]) [''bg-background h-8 w-full shadow-none''] [] p)"

definition SidebarHeader :: "styling \<Rightarrow> 'a part" where
  "SidebarHeader y = wrap y ''div'' (slot ''sidebar-header'' @ [(''data-sidebar'', AStr ''header'')])
     [''flex flex-col gap-2 p-2'']"

definition SidebarFooter :: "styling \<Rightarrow> 'a part" where
  "SidebarFooter y = wrap y ''div'' (slot ''sidebar-footer'' @ [(''data-sidebar'', AStr ''footer'')])
     [''flex flex-col gap-2 p-2'']"

definition SidebarSeparator :: "styling \<Rightarrow> 'a part" where
  "SidebarSeparator y p = Separator y (wrap_props y (slot ''sidebar-separator'' @ [(''data-sidebar'', AStr ''separator'')]) [''bg-sidebar-border mx-2 w-auto''] [] p)"

definition SidebarContent :: "styling \<Rightarrow> 'a part" where
  "SidebarContent y = wrap y ''div'' (slot ''sidebar-content'' @ [(''data-sidebar'', AStr ''content'')])
     [''flex min-h-0 flex-1 flex-col gap-2 overflow-auto group-data-[collapsible=icon]:overflow-hidden'']"

definition SidebarGroup :: "styling \<Rightarrow> 'a part" where
  "SidebarGroup y = wrap y ''div'' (slot ''sidebar-group'' @ [(''data-sidebar'', AStr ''group'')])
     [''relative flex w-full min-w-0 flex-col p-2'']"

definition SidebarGroupLabel :: "styling \<Rightarrow> 'a part" where
  "SidebarGroupLabel y p kids =
     Element (child_tag ''div'' p)
       (wrap_props y (slot ''sidebar-group-label'' @ [(''data-sidebar'', AStr ''group-label'')])
          [(''text-sidebar-foreground/70 ring-sidebar-ring flex h-8 shrink-0 items-center rounded-md px-2 text-xs ''
            @ ''font-medium outline-hidden transition-[margin,opacity] duration-200 ease-linear focus-visible:ring-2 ''
            @ ''[&>svg]:size-4 [&>svg]:shrink-0''),
           ''group-data-[collapsible=icon]:-mt-8 group-data-[collapsible=icon]:opacity-0''] [''asChild''] p) kids"

definition SidebarGroupAction :: "styling \<Rightarrow> 'a part" where
  "SidebarGroupAction y p kids =
     Element (child_tag ''button'' p)
       (wrap_props y (slot ''sidebar-group-action'' @ [(''data-sidebar'', AStr ''group-action'')])
          [(''text-sidebar-foreground ring-sidebar-ring hover:bg-sidebar-accent ''
            @ ''hover:text-sidebar-accent-foreground absolute top-3.5 right-3 flex aspect-square w-5 items-center ''
            @ ''justify-center rounded-md p-0 outline-hidden transition-transform focus-visible:ring-2 ''
            @ ''[&>svg]:size-4 [&>svg]:shrink-0''),
           ''after:absolute after:-inset-2 md:after:hidden'',
           ''group-data-[collapsible=icon]:hidden''] [''asChild''] p) kids"

definition SidebarGroupContent :: "styling \<Rightarrow> 'a part" where
  "SidebarGroupContent y = wrap y ''div'' (slot ''sidebar-group-content'' @ [(''data-sidebar'', AStr ''group-content'')])
     [''w-full text-sm'']"

definition SidebarMenu :: "styling \<Rightarrow> 'a part" where
  "SidebarMenu y = wrap y ''ul'' (slot ''sidebar-menu'' @ [(''data-sidebar'', AStr ''menu'')])
     [''flex w-full min-w-0 flex-col gap-1'']"

definition SidebarMenuItem :: "styling \<Rightarrow> 'a part" where
  "SidebarMenuItem y = wrap y ''li'' (slot ''sidebar-menu-item'' @ [(''data-sidebar'', AStr ''menu-item'')])
     [''group/menu-item relative'']"

definition sidebarMenuButtonVariants :: "cva_config" where
  "sidebarMenuButtonVariants =
    \<lparr>cva_base = (''peer/menu-button flex w-full items-center gap-2 overflow-hidden rounded-md p-2 text-left text-sm ''
            @ ''outline-hidden ring-sidebar-ring transition-[width,height,padding] hover:bg-sidebar-accent ''
            @ ''hover:text-sidebar-accent-foreground focus-visible:ring-2 active:bg-sidebar-accent ''
            @ ''active:text-sidebar-accent-foreground disabled:pointer-events-none disabled:opacity-50 ''
            @ ''group-has-data-[sidebar=menu-action]/menu-item:pr-8 aria-disabled:pointer-events-none ''
            @ ''aria-disabled:opacity-50 data-[active=true]:bg-sidebar-accent data-[active=true]:font-medium ''
            @ ''data-[active=true]:text-sidebar-accent-foreground data-[state=open]:hover:bg-sidebar-accent ''
            @ ''data-[state=open]:hover:text-sidebar-accent-foreground group-data-[collapsible=icon]:size-8! ''
            @ ''group-data-[collapsible=icon]:p-2! [&>span:last-child]:truncate [&>svg]:size-4 [&>svg]:shrink-0''),
     cva_variants = [(''variant'', [(''default'', ''hover:bg-sidebar-accent hover:text-sidebar-accent-foreground''),
       (''outline'', (''bg-background shadow-[0_0_0_1px_hsl(var(--sidebar-border))] hover:bg-sidebar-accent ''
            @ ''hover:text-sidebar-accent-foreground hover:shadow-[0_0_0_1px_hsl(var(--sidebar-accent))]''))]),
       (''size'', [(''default'', ''h-8 text-sm''), (''sm'', ''h-7 text-xs''), (''lg'', ''h-12 text-sm group-data-[collapsible=icon]:p-0!'')])],
     cva_defaults = [(''variant'', ''default''), (''size'', ''default'')]\<rparr>"

definition SidebarMenuButton_el :: "styling \<Rightarrow> 'a sidebar_context \<Rightarrow> ('a props \<times> 'a element list) option \<Rightarrow> 'a part" where
  "SidebarMenuButton_el y c tooltip p kids =
     (let size = prop_or ''size'' (AStr ''default'') p;
          variant = prop_or ''variant'' (AStr ''default'') p;
          button = Element (child_tag ''button'' p)
            (wrap_props y ((slot ''sidebar-menu-button'' @ [(''data-sidebar'', AStr ''menu-button'')]) @ [(''data-size'', size), (''data-active'', prop_or ''isActive'' (AFlag False) p)])
               [variant_classes y sidebarMenuButtonVariants [(''variant'', attr_text variant), (''size'', attr_text size)]]
               [''asChild'', ''isActive'', ''variant'', ''size'', ''tooltip''] p) kids in
      case tooltip of
        None \<Rightarrow> button
      | Some (tp, tk) \<Rightarrow>
          Tooltip []
            [TooltipTrigger [(''asChild'', AFlag True)] [button],
             TooltipContent y
               (assign [(''side'', AStr ''right''), (''align'', AStr ''center''), (''hidden'', AFlag (sc_state c \<noteq> ''collapsed'' \<or> sc_isMobile c))] tp) tk])"

definition SidebarMenuAction :: "styling \<Rightarrow> 'a part" where
  "SidebarMenuAction y p kids =
     Element (child_tag ''button'' p)
       (wrap_props y (slot ''sidebar-menu-action'' @ [(''data-sidebar'', AStr ''menu-action'')])
          ([(''text-sidebar-foreground ring-sidebar-ring hover:bg-sidebar-accent ''
            @ ''hover:text-sidebar-accent-foreground peer-hover/menu-button:text-sidebar-accent-foreground absolute ''
            @ ''top-1.5 right-1 flex aspect-square w-5 items-center justify-center rounded-md p-0 outline-hidden ''
            @ ''transition-transform focus-visible:ring-2 [&>svg]:size-4 [&>svg]:shrink-0''),
            ''after:absolute after:-inset-2 md:after:hidden'',
            ''peer-data-[size=sm]/menu-button:top-1'', ''peer-data-[size=default]/menu-button:top-1.5'', ''peer-data-[size=lg]/menu-button:top-2.5'',
            ''group-data-[collapsible=icon]:hidden'']
           @ shown_if (attr_truthy (prop_or ''showOnHover'' (AFlag False) p)) [(''peer-data-[active=true]/menu-button:text-sidebar-accent-foreground ''
            @ ''group-focus-within/menu-item:opacity-100 group-hover/menu-item:opacity-100 ''
            @ ''data-[state=open]:opacity-100 md:opacity-0'')])
          [''asChild'', ''showOnHover''] p) kids"

definition SidebarMenuBadge :: "styling \<Rightarrow> 'a part" where
  "SidebarMenuBadge y = wrap y ''div'' (slot ''sidebar-menu-badge'' @ [(''data-sidebar'', AStr ''menu-badge'')])
     [(''text-sidebar-foreground pointer-events-none absolute right-1 flex h-5 min-w-5 items-center ''
            @ ''justify-center rounded-md px-1 text-xs font-medium tabular-nums select-none''),
      (''peer-hover/menu-button:text-sidebar-accent-foreground ''
            @ ''peer-data-[active=true]/menu-button:text-sidebar-accent-foreground''),
      ''peer-data-[size=sm]/menu-button:top-1'',
      ''peer-data-[size=default]/menu-button:top-1.5'',
      ''peer-data-[size=lg]/menu-button:top-2.5'',
      ''group-data-[collapsible=icon]:hidden'']"

definition SidebarMenuSkeleton :: "styling \<Rightarrow> nat \<Rightarrow> nat \<Rightarrow> 'a part" where
  "SidebarMenuSkeleton y n d p kids =
     Element ''div''
       (wrap_props y (slot ''sidebar-menu-skeleton'' @ [(''data-sidebar'', AStr ''menu-skeleton'')]) [''flex h-8 items-center gap-2 rounded-md px-2''] [''showIcon''] p)
       (shown_if (attr_truthy (prop_or ''showIcon'' (AFlag False) p))
          [Skeleton y [(''className'', AStr ''size-4 rounded-md''), (''data-sidebar'', AStr ''menu-skeleton-icon'')] []]
        @ [Skeleton y [(''className'', AStr ''h-4 max-w-(--skeleton-width) flex-1''), (''data-sidebar'', AStr ''menu-skeleton-text''),
                       (''style'', AStyle [(''--skeleton-width'', skeleton_width n d)])] []])"

definition SidebarMenuSub :: "styling \<Rightarrow> 'a part" where
  "SidebarMenuSub y = wrap y ''ul'' (slot ''sidebar-menu-sub'' @ [(''data-sidebar'', AStr ''menu-sub'')])
     [''border-sidebar-border mx-3.5 flex min-w-0 translate-x-px flex-col gap-1 border-l px-2.5 py-0.5'',
      ''group-data-[collapsible=icon]:hidden'']"

definition SidebarMenuSubItem :: "styling \<Rightarrow> 'a part" where
  "SidebarMenuSubItem y = wrap y ''li'' (slot ''sidebar-menu-sub-item'' @ [(''data-sidebar'', AStr ''menu-sub-item'')])
     [''group/menu-sub-item relative'']"

definition SidebarMenuSubButton :: "styling \<Rightarrow> 'a part" where
  "SidebarMenuSubButton y p kids =
     (let size = prop_or ''size'' (AStr ''md'') p in
      Element (child_tag ''a'' p)
        (wrap_props y ((slot ''sidebar-menu-sub-button'' @ [(''data-sidebar'', AStr ''menu-sub-button'')]) @ [(''data-size'', size), (''data-active'', prop_or ''isActive'' (AFlag False) p)])
           ([(''text-sidebar-foreground ring-sidebar-ring hover:bg-sidebar-accent ''
            @ ''hover:text-sidebar-accent-foreground active:bg-sidebar-accent active:text-sidebar-accent-foreground ''
            @ ''[&>svg]:text-sidebar-accent-foreground flex h-7 min-w-0 -translate-x-px items-center gap-2 ''
            @ ''overflow-hidden rounded-md px-2 outline-hidden focus-visible:ring-2 disabled:pointer-events-none ''
            @ ''disabled:opacity-50 aria-disabled:pointer-events-none aria-disabled:opacity-50 ''
            @ ''[&>span:last-child]:truncate [&>svg]:size-4 [&>svg]:shrink-0''),
             ''data-[active=true]:bg-sidebar-accent data-[active=true]:text-sidebar-accent-foreground'']
            @ shown_if (size = AStr ''sm'') [''text-xs''] @ shown_if (size = AStr ''md'') [''text-sm'']
            @ [''group-data-[collapsible=icon]:hidden''])
           [''asChild'', ''size'', ''isActive''] p) kids)"

section \<open>What is passed on\<close>

lemma sidebar_transparent:
  "passes_on y (SidebarInset y)"
  "passes_on y (SidebarHeader y)"
  "passes_on y (SidebarFooter y)"
  "passes_on y (SidebarContent y)"
  "passes_on y (SidebarGroup y)"
  "passes_on y (SidebarGroupContent y)"
  "passes_on y (SidebarMenu y)"
  "passes_on y (SidebarMenuItem y)"
  "passes_on y (SidebarMenuBadge y)"
  "passes_on y (SidebarMenuSub y)"
  "passes_on y (SidebarMenuSubItem y)"
  unfolding SidebarInset_def SidebarHeader_def SidebarFooter_def SidebarContent_def SidebarGroup_def
    SidebarGroupContent_def SidebarMenu_def SidebarMenuItem_def SidebarMenuBadge_def SidebarMenuSub_def
    SidebarMenuSubItem_def
  by (rule passes_on_wrap)+

lemma distinct_assign: "distinct (map fst base) \<Longrightarrow> distinct (map fst (assign base new))"
  by (induction new arbitrary: base) (auto simp: assign_def distinct_obj_set)

section \<open>The buttons that toggle\<close>

text \<open>the trigger of the sidebar toggles after whatever its caller does on a click, and nothing the caller passes takes that away; the rail
  toggles only while its caller passes no click handler of its own.\<close>

theorem trigger_always_toggles:
  assumes "distinct (map fst p)"
  shows "attr_of (SidebarTrigger_el y c p kids) ''onClick'' = ADo (actions_of (given_prop ''onClick'' p) @ [sc_toggle c])
    \<and> attr_of (SidebarRail y c p kids) ''onClick'' = (case obj_get p ''onClick'' of Some v \<Rightarrow> v | None \<Rightarrow> ADo [sc_toggle c])"
proof
  let ?q = "assign [(''data-sidebar'', AStr ''trigger''), (''data-slot'', AStr ''sidebar-trigger''), (''variant'', AStr ''ghost''), (''size'', AStr ''icon''),
               (''className'', AStr (merge_classes y (''size-7'' # given_class p))), (''onClick'', ADo (actions_of (given_prop ''onClick'' p) @ [sc_toggle c]))]
          (without [''className'', ''onClick''] p)"
  have "distinct (map fst ?q)" by (rule distinct_assign) simp
  moreover have "obj_get ?q ''onClick'' = Some (ADo (actions_of (given_prop ''onClick'' p) @ [sc_toggle c]))"
    using assms by (simp add: obj_get_assign distinct_without obj_get_without obj_get_Cons)
  ultimately show "attr_of (SidebarTrigger_el y c p kids) ''onClick'' = ADo (actions_of (given_prop ''onClick'' p) @ [sc_toggle c])"
    by (simp add: SidebarTrigger_el_def Button_el_def attr_of_def given_prop_def obj_get_assign distinct_without obj_get_without)
  show "attr_of (SidebarRail y c p kids) ''onClick'' = (case obj_get p ''onClick'' of Some v \<Rightarrow> v | None \<Rightarrow> ADo [sc_toggle c])"
  proof (cases "obj_get p ''onClick''")
    case None
    then show ?thesis
      unfolding SidebarRail_def attr_of_def wrap_reads by (subst wrap_props_own [OF assms None]) (simp_all add: given_prop_def obj_get_Cons)
  next
    case (Some v)
    then show ?thesis unfolding SidebarRail_def attr_of_def wrap_reads by (simp add: wrap_props_given [OF assms Some])
  qed
qed

lemma trigger_always_toggles_witness:
  "attr_of (SidebarTrigger_el \<lparr>merge_classes = concat, variant_classes = \<lambda>c v. []\<rparr> (\<lparr>sc_state = ''expanded'', sc_isMobile = False, sc_openMobile = False, sc_toggle = 1, sc_setOpenMobile = 2\<rparr>)
     [(''onClick'', ADo [0::nat])] []) ''onClick'' = ADo [0, 1]"
  using trigger_always_toggles [of "[(''onClick'', ADo [0::nat])]" "\<lparr>merge_classes = concat, variant_classes = \<lambda>c v. []\<rparr>"
    "\<lparr>sc_state = ''expanded'', sc_isMobile = False, sc_openMobile = False, sc_toggle = 1, sc_setOpenMobile = 2\<rparr>" "[]"]
  by (simp add: actions_of_def given_prop_def obj_get_Cons)

section \<open>What the sidebar shows\<close>

text \<open>The context the provider hands down, and the texts of an element; \<open>lib t as ts\<close> are the texts an element \<open>t\<close> with attributes
  \<open>as\<close> shows when its children have the texts \<open>ts\<close>.\<close>

definition sidebar_context_of :: "int \<Rightarrow> sidebar_state \<Rightarrow> 'a \<Rightarrow> 'a \<Rightarrow> 'a sidebar_context" where
  "sidebar_context_of innerWidth s toggle set_mobile =
     \<lparr>sc_state = (if sb_open s then ''expanded'' else ''collapsed''), sc_isMobile = isMobile innerWidth,
      sc_openMobile = sb_openMobile s, sc_toggle = toggle, sc_setOpenMobile = set_mobile\<rparr>"

fun element_texts :: "(string \<Rightarrow> 'a props \<Rightarrow> string list \<Rightarrow> string list) \<Rightarrow> 'a element \<Rightarrow> string list" where
  "element_texts lib (TextNode s) = [s]"
| "element_texts lib (Element t as ks) = lib t as (concat (map (element_texts lib) ks))"

definition shows_children :: "string set" where
  "shows_children = {''div'', ''span'', ''SheetPrimitive.Portal'', ''SheetPrimitive.Overlay'', ''SheetPrimitive.Content'',
     ''SheetPrimitive.Title'', ''SheetPrimitive.Description'', ''SheetPrimitive.Close'', ''XIcon''}"

lemma texts_shows: 
  assumes "\<And>t as ts. t \<in> shows_children \<Longrightarrow> lib t as ts = ts" and "t \<in> shows_children"
  shows "element_texts lib (Element t as ks) = concat (map (element_texts lib) ks)"
  using assms by simp

lemma texts_sheet_content:
  assumes lib: "\<And>t as ts. t \<in> shows_children \<Longrightarrow> lib t as ts = ts"
  shows "element_texts lib (SheetContent y p kids) = concat (map (element_texts lib) kids) @ [''Close'']"
proof -
  obtain c sz classes where s: "SheetContent y p kids = SheetPortal [] [SheetOverlay y [] [],
     Element ''SheetPrimitive.Content'' (wrap_props y (slot ''sheet-content'') classes [''side''] p)
       (kids @ [close_mark ''SheetPrimitive.Close'' c ''XIcon'' sz])]"
    using sheet_content by blast
  show ?thesis
    by (simp add: s SheetPortal_def SheetOverlay_def pass_on_def wrap_def close_mark_def plain_def lib shows_children_def)
qed

lemma texts_sheet_header:
  assumes lib: "\<And>t as ts. t \<in> shows_children \<Longrightarrow> lib t as ts = ts"
  shows "element_texts lib (SheetHeader y p [SheetTitle y q [TextNode a], SheetDescription y r [TextNode b]]) = [a, b]"
  by (simp add: SheetHeader_def SheetTitle_def SheetDescription_def wrap_def lib shows_children_def)

lemma texts_mobile_sidebar:
  assumes lib: "\<And>t as ts. t \<in> shows_children \<Longrightarrow> lib t as ts = ts"
    and sheet: "\<And>as ts. lib ''SheetPrimitive.Root'' as ts = (if given_prop ''open'' as = AFlag True then ts else [])"
    and "collapsible \<noteq> ''none''" and "sc_isMobile c"
  shows "element_texts lib (Sidebar_el y c [(''collapsible'', AStr collapsible)] kids) =
    (if sc_openMobile c then [''Sidebar'', ''Displays the mobile sidebar.''] @ concat (map (element_texts lib) kids) @ [''Close''] else [])"
proof -
  have rest: "without [''side'', ''variant'', ''collapsible'', ''className''] [(''collapsible'', AStr collapsible)] = []"
    by (simp add: without_def)
  have box: "element_texts lib (plain ''div'' k kids) = concat (map (element_texts lib) kids)" for k
    by (simp add: plain_def lib shows_children_def)
  have open_attr: "given_prop ''open'' (assign (slot ''sheet'') [(''open'', AFlag b), (''onOpenChange'', h)]) = AFlag b" for b h
    by (simp add: given_prop_def obj_get_assign obj_get_Cons)
  have sheet_texts: "element_texts lib (Sheet [(''open'', AFlag b), (''onOpenChange'', h)] [x]) = (if b then element_texts lib x else [])" for b h x
    by (simp add: Sheet_def pass_on_def sheet open_attr)
  obtain q r where e: "Sidebar_el y c [(''collapsible'', AStr collapsible)] kids =
      Sheet [(''open'', AFlag (sc_openMobile c)), (''onOpenChange'', ADo [sc_setOpenMobile c])]
        [SheetContent y q [SheetHeader y r [SheetTitle y [] [TextNode ''Sidebar''],
           SheetDescription y [] [TextNode ''Displays the mobile sidebar.'']], plain ''div'' ''flex h-full w-full flex-col'' kids]]"
    using assms(3,4) by (simp add: Sidebar_el_def Let_def prop_or_def given_prop_def obj_get_Cons rest assign_def)
  show ?thesis
    by (simp add: e sheet_texts texts_sheet_content [where lib = lib, OF lib] texts_sheet_header [where lib = lib, OF lib] box)
qed


definition demo_lib :: "string \<Rightarrow> 'a props \<Rightarrow> string list \<Rightarrow> string list" where
  "demo_lib t as ts = (if t = ''SheetPrimitive.Root'' \<and> given_prop ''open'' as \<noteq> AFlag True then [] else ts)"

lemma demo_lib_shows: "t \<in> shows_children \<Longrightarrow> demo_lib t as ts = ts"
  by (auto simp: demo_lib_def shows_children_def)

lemma demo_lib_sheet: "demo_lib ''SheetPrimitive.Root'' as ts = (if given_prop ''open'' as = AFlag True then ts else [])"
  by (simp add: demo_lib_def)


section \<open>The wrappers\<close>

text \<open>The parts of components/ui that do nothing but wrap what they are given.\<close>

definition wrapper_parts :: "styling \<Rightarrow> 'a part list" where
  "wrapper_parts y =
    [Card y, CardHeader y, CardTitle y, CardDescription y, CardAction y, CardContent y, CardFooter y, TableHeader y,
     TableBody y, TableFooter y, TableRow y, TableHead y, TableCell y, TableCaption y, Tabs y, TabsList y, TabsTrigger y,
     TabsContent y, AlertDescription y, Textarea y, Skeleton y, ResizablePanelGroup y, DialogOverlay y, DialogHeader y,
     DialogFooter y, DialogTitle y, DialogDescription y, SheetOverlay y, SheetHeader y, SheetFooter y, SheetTitle y,
     SheetDescription y, DrawerOverlay y, DrawerHeader y, DrawerFooter y, DrawerTitle y, DrawerDescription y,
     DropdownMenuSeparator y, DropdownMenuShortcut y, DropdownMenuSubContent y, SelectLabel y, SelectSeparator y,
     SidebarInset y, SidebarHeader y, SidebarFooter y, SidebarContent y, SidebarGroup y, SidebarGroupContent y,
     SidebarMenu y, SidebarMenuItem y, SidebarMenuBadge y, SidebarMenuSub y, SidebarMenuSubItem y]"

lemma given_class_Nil: "given_class [] = []"
  by (simp add: given_class_def str_prop_def given_prop_def obj_get_def)

lemma wrapper_parts_pass_on: "list_all (passes_on y) (wrapper_parts y)"
  unfolding wrapper_parts_def list.pred_inject
  by (intro conjI surfaces_transparent overlays_transparent sidebar_transparent list.pred_inject(1))

text \<open>every one of these wrappers shows its caller's children, keeps every attribute its caller gives (its own never win over them), and
  puts the caller's class names behind a list of its own that depends on nothing.\<close>

theorem wrappers_pass_on:
  assumes "f \<in> set (wrapper_parts y)" and "distinct (map fst p)"
  shows "\<exists>classes. children_of (f p kids) = kids
    \<and> attr_of (f p kids) ''className'' = AStr (merge_classes y (classes @ given_class p))
    \<and> attr_of (f [] []) ''className'' = AStr (merge_classes y classes)
    \<and> (\<forall>k v. k \<noteq> ''className'' \<longrightarrow> obj_get p k = Some v \<longrightarrow> attr_of (f p kids) k = v)"
proof -
  obtain classes where t: "transparent y f classes"
    using assms(1) wrapper_parts_pass_on [of y] unfolding list_all_iff passes_on_def by blast
  then show ?thesis
    using assms(2) t [unfolded transparent_def, rule_format, of "[]" "[]"] unfolding transparent_def
    by (intro exI [of _ classes]) (simp add: given_class_Nil)
qed

lemma wrappers_pass_on_witness:
  "attr_of (Card \<lparr>merge_classes = concat, variant_classes = \<lambda>c v. []\<rparr> [(''data-slot'', AStr ''tile'')] [TextNode ''Agents'']) ''data-slot'' = AStr ''tile''"
proof -
  let ?y = "\<lparr>merge_classes = concat, variant_classes = \<lambda>c v. []\<rparr>"
  have "Card ?y \<in> set (wrapper_parts ?y)" by (simp add: wrapper_parts_def)
  then have "\<forall>k v. k \<noteq> ''className'' \<longrightarrow> obj_get [(''data-slot'', AStr ''tile'')] k = Some v
      \<longrightarrow> attr_of (Card ?y [(''data-slot'', AStr ''tile'')] [TextNode ''Agents'']) k = v"
    using wrappers_pass_on [of "Card ?y" ?y "[(''data-slot'', AStr ''tile'')]" "[TextNode ''Agents'']"] by (simp, blast)
  from this [rule_format, of "''data-slot''"] show ?thesis by (simp add: obj_get_Cons)
qed

end
