(* ===== verification/Spec2Isabelle.thy ===== *)
theory Spec2Isabelle
  imports Formatting Pipeline_Graph Refresh_Refinement Routing Detail_Drawers Git_Sources Admin_Pages
    Live_Editor Telemetry_Logs Query_Results Canvas_Nodes Shell Copy_Button Data_Cache Phase_One Charts Unit_Tests
    Session_Protocol Ui_Sidebar
begin

text \<open>
  A model of the web interface of otel-hive, the TypeScript program under ui/src that shows a fleet of
  OpenTelemetry collectors, edits, checks and draws their configurations, and talks to the server.

  Parts of the program and how they interact.  App.tsx routes a location to a page through two guards that
  read the status of the session (hooks/useAuth.tsx).  Pages and drawers fetch through the cache and the API
  modules (api/*.ts), all of which call \<open>simpleRequest\<close> in api/base.ts; on an answer of 401 that function
  asks the session for a refresh, and the refresh is itself a request.  The configuration editor hands its text to two
  debounced hooks, one that validates it (lib/validation) and one that parses it (hooks/useYamlParser.ts);
  the parsed object becomes the graph on the canvas (components/collector-pipeline).  Handlers set a busy flag, await one call and
  clear the flag; their buttons are disabled by it.

  Theories, in the order they build on each other:
    Js_Prelude, Js_Values, Js_Number: strings, values, exceptions, plain objects, grouping loops and
      doubles of JavaScript, as far as the code uses them, with the lemmas shared by all components.
      A string is a list of characters below 256; the locale \<open>keyed_store\<close> states reads after writes of an object.
    Formatting: utils/index.ts and the other formatters.  \<open>formatCount\<close> is accurate to half a tenth of its unit.
    Yaml_Text: \<open>parseYamlComponents\<close> (utils/yaml-parser.ts) and \<open>findYamlPosition\<close> (lib/validation/yaml-position.ts).
      Both read rendered texts back, and what they report lies in the text.
    Validation: the validators, \<open>validateYamlConfig\<close> and the two hooks.  The result refines the specification that every used
      component is defined; errors lie in the text; a pipeline without a body hides every error; once no timer
      is pending a hook shows the result for the last text.  Locales: \<open>validator\<close>, \<open>validator_suite\<close>, \<open>debounced_hook\<close>.
    Pipeline_Graph, Canvas_Nodes: \<open>generatePipelineNodes\<close> and the node components.  The layout is
      disjoint and inside its frames, edges are closed, identifiers distinct, and every node and handle well typed.
    Api_Client: config.ts, api/base.ts and every endpoint.  A call is retried once, after a 401 and a refresh.
    Auth_Session: hooks/useAuth.tsx, operations run to their end.  Authenticated means a user is known; a login
      that fails without a stored refresh token disables refreshing; a rejected refresh at the start never ends.
    Refresh_Protocol: the same operations interleaved at their awaits, as a step relation with
      invariants by rule induction (locale \<open>inductive_invariant\<close>): one refresh in flight, no token sent twice.
    Refresh_Refinement: a specification of the protocol without promises, in which an answer reaches all waiting requests
      at once, the simulation (locale \<open>simulation\<close>) that the protocol implements it, and that every waiting request ends.
    Session_Protocol: the session refines the protocol.  Every sequence of operations of Auth_Session against a server that
      issues no refresh token twice is a run of Refresh_Protocol with the same tokens and the same reference.
    Ui_View: what a component renders, and the contract of an asynchronous handler (locale \<open>async_form\<close>, interpreted
      on the handlers of eight components).
    Routing: App.tsx, pages/Login.tsx and pages/Setup.tsx.  Protected pages need a session; from every path at most one navigation
      follows; where a submitted login leads.
    Fleet_View, Topology_View, Detail_Drawers: the shared table, the agents page, the topology page with its layout,
      sidebar and nodes, and the drawers with their restart messages and timers.
    Git_Sources, Admin_Pages, Config_Editor, Config_Metrics: the pages of the git sources, API keys, audit log, groups
      and configurations, with their forms, dialogs and editors.  Secrets that are not typed are sent blank, a
      new key is shown until its dialog closes, paging covers the log, a dialog deletes the group it names,
      decorations stand on the lines of their components, and an agent that cannot be configured is sent nothing.
    Live_Editor: the editor beside the pipeline (ConfigEditorSideBySide.tsx) with both hooks, mounting, badges and canvas
      in one state.  Once no timer is pending the screen is the one of the text; the verdict is Valid exactly if all that the
      canvas draws is defined; the markers of a text that can no longer be parsed stay.
    Metrics_View, Telemetry_Logs, Query_Lab, Query_Results: metrics, logs and the query page.  Grouping
      keeps every point once, charts are bounded, and the keyboard shortcut lets two queries overlap.
    Phase_One: the telemetry interfaces this version leaves empty (api/telemetry.ts, api/collector-metrics.ts,
      api/lawrence-ql.ts) with the fetchers that call them, and that the views are therefore empty.
    Data_Cache: the keys and options with which the components use the shared cache (lib/swr-provider.tsx,
      lib/swr-config.ts), and the page of the configurations run over it.  Keys tell all queries apart; saves from one
      editor share a version.
    Charts: components/ui/chart.tsx and stepper.tsx.  The style sheet of a chart is read back as the configured colours.
    Unit_Tests: the unit tests of lib/validation as data, all of which the model passes.
    Ui_Elements, Ui_Surfaces, Ui_Overlays, Ui_Sidebar: the primitives of components/ui as the elements they return, with all
      attributes and class names.  The merging of class names and the choice of variants (\<open>styling\<close>) are arguments; a part of Radix or
      vaul is an element with the name it is imported under.  The wrappers pass on what they are given, dialogs and
      sheets bring a way to close them, and the elements of the sidebar show what Shell says it shows.
    Shell, Copy_Button: cookies, sidebar, navigation, signing out, theme, retries and copying.  The state of
      the sidebar and the theme come back with the next load of the page.

  How state and operations correspond.  The state of a component is a record with one field per \<open>useState\<close> or
  \<open>useRef\<close>, under a prefix of its own.  A handler is split at its awaits: what it does before the first one is \<open>_start\<close> or
  \<open>_request\<close>, what follows an answer is \<open>_finish\<close> or \<open>_settle\<close>.  A view lists texts, controls with their disabled flag, and what each
  control does; \<open>presses\<close> are the controls that can be pressed.  An exception is \<open>Inl\<close>; a promise is Resolved, Rejected or Never.

  Parameters.  The server is a function from its state and a request to a state and an answer, so that every answer, error
  and network failure is covered.  \<open>yaml.load\<close>, the engine of regular expressions (only for names with operators),
  the matching of a path by react-router, \<open>Date\<close>, local formats, the clipboard and the width of the window are arguments as well.
  Nothing is bounded by fuel: every recursion ends, the splitting of a string by its length.  A refresh that
  waits for itself is the value Never, and the theorems that speak of results say when it occurs.

  Not modelled, and why.  The drawing of React Flow, Recharts and Monaco, focus, animation, portals and what a class name looks
  like belong to those libraries.  The views of the pages name the primitives they use by the texts and controls these show, not by
  their elements; Ui_Sidebar relates the two for the sidebar.  References to DOM nodes are passed on by every primitive and left out.
  When the cache fetches is its own policy; the model has what it is asked for and with which options, and lib/swr-config.ts is
  not among them, since the provider does not use it.  In the theories of the telemetry views and of the query page the answers
  are arguments, so that they also hold for interfaces that return data.  The Go server is a separate program;
  its routes and shapes are used only where a property names them.  Doubles outside the normal range do not occur on the
  numbers shown.  Identifiers in a list of configurations are drawn before they are copied; the mark of a copy is in Copy_Button.
\<close>

end
